(* ===== verification/Prelude.thy ===== *)
theory Prelude
  imports Main "HOL-Library.Word" "HOL-Library.Sublist"
begin

text \<open>
  Shared vocabulary of the development: the machine integer types, Rust's
  \<^verbatim>\<open>Result\<close>, the string operations of the Rust standard library that the
  sources use (strings are lists of bytes), adjacent pairs and suffixes of lists,
  and the lemmas on them that the component theories rely on.
\<close>

unbundle bit_operations_syntax

type_synonym u8 = "8 word"
type_synonym u32 = "32 word"
type_synonym u64 = "64 word"
type_synonym i32 = "32 word"
type_synonym bytes = "u8 list"

text \<open>Collections: unfolding equations of model helpers, invariants, and their preservation.\<close>

named_theorems inv_intros \<open>introduction rules for component invariants\<close>
named_theorems inv_keeps \<open>operations that preserve a component invariant\<close>

subsection \<open>Results\<close>

datatype ('a, 'e) result = Ok 'a | Err 'e

fun is_ok :: "('a, 'e) result \<Rightarrow> bool" where
  "is_ok (Ok _) = True"
| "is_ok (Err _) = False"

fun and_then :: "('a, 'e) result \<Rightarrow> ('a \<Rightarrow> ('b, 'e) result) \<Rightarrow> ('b, 'e) result" where
  "and_then (Ok a) f = f a"
| "and_then (Err e) f = Err e"

fun map_err :: "('e \<Rightarrow> 'f) \<Rightarrow> ('a, 'e) result \<Rightarrow> ('a, 'f) result" where
  "map_err f (Ok a) = Ok a"
| "map_err f (Err e) = Err (f e)"

lemma is_ok_iff: "is_ok r \<longleftrightarrow> (\<exists>a. r = Ok a)"
  by (cases r) auto

lemma and_then_eq_Ok [simp]: "and_then r f = Ok b \<longleftrightarrow> (\<exists>a. r = Ok a \<and> f a = Ok b)"
  by (cases r) auto

lemma map_err_eq_Ok [simp]: "map_err f r = Ok b \<longleftrightarrow> r = Ok b"
  by (cases r) auto

subsection \<open>Strings\<close>

text \<open>\<^verbatim>\<open>str::starts_with\<close> and \<^verbatim>\<open>str::contains\<close> with a string pattern.\<close>

abbreviation starts_with :: "string \<Rightarrow> string \<Rightarrow> bool" where
  "starts_with s p \<equiv> prefix p s"

abbreviation contains :: "string \<Rightarrow> string \<Rightarrow> bool" where
  "contains s p \<equiv> sublist p s"

text \<open>\<^verbatim>\<open>u8::to_ascii_lowercase\<close> and \<^verbatim>\<open>str::eq_ignore_ascii_case\<close>.\<close>

definition ascii_lower :: "char \<Rightarrow> char" where
  "ascii_lower c =
     (let n = of_char c :: nat in if 65 \<le> n \<and> n \<le> 90 then char_of (n + 32) else c)"

definition eq_ignore_ascii_case :: "string \<Rightarrow> string \<Rightarrow> bool" where
  "eq_ignore_ascii_case s t = (map ascii_lower s = map ascii_lower t)"

text \<open>\<^verbatim>\<open>str::splitn(n, c)\<close>: at most \<^verbatim>\<open>n\<close> pieces, the last one keeps its separators.\<close>

fun splitn :: "nat \<Rightarrow> char \<Rightarrow> string \<Rightarrow> string list" where
  "splitn 0 c s = []"
| "splitn (Suc 0) c s = [s]"
| "splitn (Suc n) c s =
     (let h = takeWhile (\<lambda>x. x \<noteq> c) s; r = dropWhile (\<lambda>x. x \<noteq> c) s
      in if r = [] then [h] else h # splitn n c (tl r))"

text \<open>The \<^verbatim>\<open>i\<close>-th piece, or the empty string: \<^verbatim>\<open>parts.next().unwrap_or("")\<close>.\<close>

definition piece :: "string list \<Rightarrow> nat \<Rightarrow> string" where
  "piece ps i = (if i < length ps then ps ! i else [])"

text \<open>\<^verbatim>\<open>Option<String>::as_deref().unwrap_or("")\<close>.\<close>

definition opt_str :: "string option \<Rightarrow> string" where
  "opt_str s = (case s of None \<Rightarrow> [] | Some t \<Rightarrow> t)"

text \<open>Decimal rendering of an unsigned integer, as \<^verbatim>\<open>format!\<close> prints it.\<close>

fun dec_str :: "nat \<Rightarrow> string" where
  "dec_str n = (if n < 10 then [char_of (48 + n)]
                else dec_str (n div 10) @ [char_of (48 + n mod 10)])"

declare dec_str.simps [simp del]

text \<open>\<^verbatim>\<open>strip_prefix\<close>, \<^verbatim>\<open>strip_suffix\<close>, \<^verbatim>\<open>split_once\<close> and \<^verbatim>\<open>rsplit_once\<close> at a character.\<close>

definition strip_prefix :: "string \<Rightarrow> string \<Rightarrow> string option" where
  "strip_prefix p s = (if prefix p s then Some (drop (length p) s) else None)"

definition strip_suffix :: "string \<Rightarrow> string \<Rightarrow> string option" where
  "strip_suffix p s = (if suffix p s then Some (take (length s - length p) s) else None)"

definition split_once :: "char \<Rightarrow> string \<Rightarrow> (string \<times> string) option" where
  "split_once c s =
     (if c \<in> set s then Some (takeWhile (\<lambda>x. x \<noteq> c) s, tl (dropWhile (\<lambda>x. x \<noteq> c) s)) else None)"

definition rsplit_once :: "char \<Rightarrow> string \<Rightarrow> (string \<times> string) option" where
  "rsplit_once c s = map_option (\<lambda>(a, b). (rev b, rev a)) (split_once c (rev s))"

text \<open>\<^verbatim>\<open>u8::is_ascii_digit\<close>, \<^verbatim>\<open>u8::is_ascii_hexdigit\<close>, and the value of a run of decimal digits.\<close>

definition is_digit :: "char \<Rightarrow> bool" where
  "is_digit c = (let n = of_char c :: nat in 48 \<le> n \<and> n \<le> 57)"

definition is_hexdigit :: "char \<Rightarrow> bool" where
  "is_hexdigit c =
     (let n = of_char c :: nat in
      48 \<le> n \<and> n \<le> 57 \<or> 65 \<le> n \<and> n \<le> 70 \<or> 97 \<le> n \<and> n \<le> 102)"

definition digits_value :: "string \<Rightarrow> nat" where
  "digits_value s = fold (\<lambda>c n. n * 10 + (of_char c - 48)) s 0"

text \<open>\<^verbatim>\<open>str::from_utf8\<close> accepts a byte string.\<close>

definition utf8_between :: "nat \<Rightarrow> nat \<Rightarrow> char \<Rightarrow> bool" where
  "utf8_between lo hi c = (let n = of_char c :: nat in lo \<le> n \<and> n \<le> hi)"

abbreviation utf8_tail :: "char \<Rightarrow> bool" where "utf8_tail \<equiv> utf8_between 0x80 0xBF"

fun is_utf8 :: "string \<Rightarrow> bool" where
  "is_utf8 [] = True"
| "is_utf8 (c # cs) =
     (if utf8_between 0 0x7F c then is_utf8 cs
      else case cs of
        c1 # cs1 \<Rightarrow>
          if utf8_between 0xC2 0xDF c then utf8_tail c1 \<and> is_utf8 cs1
          else (case cs1 of
            c2 # cs2 \<Rightarrow>
              if utf8_between 0xE0 0xEF c
              then utf8_between (if c = CHR 0xE0 then 0xA0 else 0x80) (if c = CHR 0xED then 0x9F else 0xBF) c1 \<and> utf8_tail c2 \<and> is_utf8 cs2
              else (case cs2 of
                c3 # cs3 \<Rightarrow>
                  utf8_between 0xF0 0xF4 c \<and> utf8_between (if c = CHR 0xF0 then 0x90 else 0x80) (if c = CHR 0xF4 then 0x8F else 0xBF) c1 \<and>
                  utf8_tail c2 \<and> utf8_tail c3 \<and> is_utf8 cs3
              | [] \<Rightarrow> False)
          | [] \<Rightarrow> False)
      | [] \<Rightarrow> False)"

lemma is_utf8_ascii: "list_all (utf8_between 0 0x7F) s \<Longrightarrow> is_utf8 (s @ t) = is_utf8 t"
  by (induction s) auto

lemma strip_prefix_Some: "strip_prefix p s = Some t \<longleftrightarrow> s = p @ t"
  by (auto simp: strip_prefix_def prefix_def)

lemma strip_suffix_Some: "strip_suffix p s = Some t \<longleftrightarrow> s = t @ p"
  by (auto simp: strip_suffix_def suffix_def)

lemma digit_char: "d < 10 \<Longrightarrow> (of_char (char_of (48 + d)) :: nat) = 48 + d"
  by (simp add: of_char_of)

lemma dec_str_digits: "c \<in> set (dec_str n) \<Longrightarrow> \<exists>d < 10. c = char_of (48 + d :: nat)"
proof (induction n rule: dec_str.induct)
  case (1 n)
  show ?case
  proof (cases "n < 10")
    case True
    then show ?thesis using 1(2) by (subst (asm) dec_str.simps) auto
  next
    case False
    then have "c \<in> set (dec_str (n div 10)) \<or> c = char_of (48 + n mod 10)"
      using 1(2) by (subst (asm) dec_str.simps) auto
    then show ?thesis using 1(1)[OF False] by (metis mod_less_divisor zero_less_numeral)
  qed
qed

lemma dec_str_nonempty: "dec_str n \<noteq> []"
  by (subst dec_str.simps) simp

lemma opt_str_simps [simp]: "opt_str None = []" "opt_str (Some s) = s"
  by (simp_all add: opt_str_def)

lemma eq_ignore_ascii_case_refl [simp]: "eq_ignore_ascii_case s s"
  by (simp add: eq_ignore_ascii_case_def)

lemma eq_ignore_ascii_case_Nil [simp]:
  "eq_ignore_ascii_case s [] \<longleftrightarrow> s = []" "eq_ignore_ascii_case [] s \<longleftrightarrow> s = []"
  by (auto simp: eq_ignore_ascii_case_def)

lemma split_at_sep:
  assumes "c \<notin> set a"
  shows "takeWhile (\<lambda>x. x \<noteq> c) (a @ c # b) = a"
    and "dropWhile (\<lambda>x. x \<noteq> c) (a @ c # b) = c # b"
  using assms by (auto simp: takeWhile_append dropWhile_append)

lemma splitn3_joined:
  assumes "c \<notin> set a" and "c \<notin> set b"
  shows "splitn 3 c (a @ c # b @ c # d) = [a, b, d]"
  using assms by (simp add: eval_nat_numeral split_at_sep Let_def)

subsection \<open>Lists\<close>

text \<open>Adjacent pairs, \<^verbatim>\<open>slice::windows(2)\<close>.\<close>

definition windows2 :: "'a list \<Rightarrow> ('a \<times> 'a) list" where
  "windows2 xs = zip xs (tl xs)"

text \<open>The last \<^verbatim>\<open>n\<close> elements.\<close>

definition take_last :: "nat \<Rightarrow> 'a list \<Rightarrow> 'a list" where
  "take_last n xs = drop (length xs - n) xs"

lemma windows2_simps [simp]:
  "windows2 [] = []" "windows2 [x] = []"
  "windows2 (x # y # zs) = (x, y) # windows2 (y # zs)"
  by (simp_all add: windows2_def)

lemma length_windows2 [simp]: "length (windows2 xs) = length xs - 1"
  by (simp add: windows2_def)

lemma nth_windows2: "Suc i < length xs \<Longrightarrow> windows2 xs ! i = (xs ! i, xs ! Suc i)"
  by (simp add: windows2_def nth_tl)

lemma windows2_conv_map:
  "windows2 xs = map (\<lambda>i. (xs ! (i - 1), xs ! i)) [1..<length xs]"
  by (rule nth_equalityI) (auto simp: nth_windows2)

lemma length_take_last [simp]: "length (take_last n xs) = min n (length xs)"
  by (simp add: take_last_def)

lemma take_last_short: "length xs \<le> n \<Longrightarrow> take_last n xs = xs"
  by (simp add: take_last_def)

lemma take_last_snoc:
  "0 < n \<Longrightarrow> take_last n (xs @ [x]) =
     (if length xs < n then xs @ [x] else tl (take_last n xs) @ [x])"
  by (auto simp: take_last_def drop_Suc[symmetric] tl_drop Suc_diff_le)

lemma set_take_last: "set (take_last n xs) \<subseteq> set xs"
  by (auto simp: take_last_def dest: in_set_dropD)

lemma set_windows2: "(a, b) \<in> set (windows2 xs) \<Longrightarrow> a \<in> set xs \<and> b \<in> set xs"
  by (auto simp: windows2_def dest: set_zip_leftD set_zip_rightD list.set_sel(2)
      intro: list.set_sel(2))

subsection \<open>Words\<close>

lemma unat_u32: "n < 2 ^ 32 \<Longrightarrow> unat (of_nat n :: u32) = n"
  by (simp add: unat_of_nat)

subsection \<open>Sliding windows\<close>

text \<open>
  The contract of a bounded history: pushing appends, and only the last \<open>cap\<close>
  elements are kept. Clients reason about the pushed sequence alone.
\<close>

locale sliding_window =
  fixes empty :: 's and push :: "'e \<Rightarrow> 's \<Rightarrow> 's" and contents :: "'s \<Rightarrow> 'e list"
    and invar :: "'s \<Rightarrow> bool" and cap :: nat
  assumes cap_pos: "0 < cap"
    and contents_empty: "contents empty = []"
    and invar_empty: "invar empty"
    and contents_push: "invar w \<Longrightarrow> contents (push e w) = take_last cap (contents w @ [e])"
    and invar_push: "invar w \<Longrightarrow> invar (push e w)"
begin

lemma invar_history: "invar (fold push es empty)"
  by (induction es rule: rev_induct) (simp_all add: invar_empty invar_push)

lemma contents_history: "contents (fold push es empty) = take_last cap es"
proof (induction es rule: rev_induct)
  case Nil
  then show ?case by (simp add: contents_empty take_last_def)
next
  case (snoc e es)
  have "contents (fold push (es @ [e]) empty) = take_last cap (take_last cap es @ [e])"
    using snoc by (simp add: contents_push invar_history)
  also have "\<dots> = take_last cap (es @ [e])"
    using cap_pos by (auto simp: take_last_snoc take_last_short)
  finally show ?case .
qed

lemma full_history: "length (contents (fold push es empty)) = cap \<longleftrightarrow> cap \<le> length es"
  by (simp add: contents_history min_def)

lemma forgets_prefix: 
  "cap \<le> length es \<Longrightarrow> contents (fold push (old @ es) empty) = contents (fold push es empty)"
  by (simp only: contents_history take_last_def) simp

end

end
