(* ===== verification/F32.thy ===== *)
theory F32
  imports Prelude
begin

text \<open>
  Rust's \<^verbatim>\<open>f32\<close>: IEEE-754 binary32 values as their 32-bit patterns. Comparison
  follows IEEE (a NaN compares false with everything, the two zeros are equal);
  the arithmetic operations are the exact result rounded to nearest, ties to even.
  Every finite binary32 value is an integer multiple of $2^{-149}$, so exact results are
  computed on integers in that unit. Rust leaves the sign and payload of a NaN that an
  operation produces open; they are the parameter \<open>qn\<close>, a function of the operands.
\<close>

type_synonym f32 = "32 word"
type_synonym nan_rule = "f32 \<Rightarrow> f32 \<Rightarrow> f32"

subsection \<open>Classification and comparison\<close>

definition f32_mag :: "f32 \<Rightarrow> nat" where
  "f32_mag x = unat x mod 2 ^ 31"

definition f32_neg :: "f32 \<Rightarrow> bool" where
  "f32_neg x = (2 ^ 31 \<le> unat x)"

definition is_nan :: "f32 \<Rightarrow> bool" where
  "is_nan x = (0x7F800000 < f32_mag x)"

definition is_inf :: "f32 \<Rightarrow> bool" where
  "is_inf x = (f32_mag x = 0x7F800000)"

definition is_finite :: "f32 \<Rightarrow> bool" where
  "is_finite x = (f32_mag x < 0x7F800000)"

text \<open>Sign and magnitude as one integer: IEEE order on non-NaN patterns is the order of keys.\<close>

definition f32_key :: "f32 \<Rightarrow> int" where
  "f32_key x = (if f32_neg x then - int (f32_mag x) else int (f32_mag x))"

definition f32_lt :: "f32 \<Rightarrow> f32 \<Rightarrow> bool" where
  "f32_lt a b = (\<not> is_nan a \<and> \<not> is_nan b \<and> f32_key a < f32_key b)"

definition f32_le :: "f32 \<Rightarrow> f32 \<Rightarrow> bool" where
  "f32_le a b = (\<not> is_nan a \<and> \<not> is_nan b \<and> f32_key a \<le> f32_key b)"

definition f32_eq :: "f32 \<Rightarrow> f32 \<Rightarrow> bool" where
  "f32_eq a b = (\<not> is_nan a \<and> \<not> is_nan b \<and> f32_key a = f32_key b)"

abbreviation f32_gt :: "f32 \<Rightarrow> f32 \<Rightarrow> bool" where "f32_gt a b \<equiv> f32_lt b a"
abbreviation f32_ge :: "f32 \<Rightarrow> f32 \<Rightarrow> bool" where "f32_ge a b \<equiv> f32_le b a"

subsection \<open>Exact values and rounding\<close>

text \<open>The value of a finite magnitude in units of $2^{-149}$.\<close>

definition mag_val :: "nat \<Rightarrow> nat" where
  "mag_val m = (if m < 2 ^ 23 then m else (2 ^ 23 + m mod 2 ^ 23) * 2 ^ (m div 2 ^ 23 - 1))"

definition f32_val :: "f32 \<Rightarrow> int" where
  "f32_val x = (if f32_neg x then - int (mag_val (f32_mag x)) else int (mag_val (f32_mag x)))"

definition round_half_even :: "nat \<Rightarrow> nat \<Rightarrow> nat" where
  "round_half_even n d =
     (let q = n div d; r = n mod d in
      if 2 * r < d then q else if d < 2 * r then q + 1 else q + q mod 2)"

fun bit_len :: "nat \<Rightarrow> nat" where
  "bit_len n = (if n = 0 then 0 else Suc (bit_len (n div 2)))"

declare bit_len.simps [simp del]

text \<open>The magnitude nearest to \<open>n / d\<close> units; infinity on overflow.\<close>

definition round_mag :: "nat \<Rightarrow> nat \<Rightarrow> nat" where
  "round_mag n d =
     (let e = bit_len (n div d) - 24 in
      min (e * 2 ^ 23 + round_half_even n (d * 2 ^ e)) 0x7F800000)"

definition f32_make :: "bool \<Rightarrow> nat \<Rightarrow> f32" where
  "f32_make s m = of_nat (if s then 2 ^ 31 + m else m)"

definition f32_round :: "bool \<Rightarrow> nat \<Rightarrow> nat \<Rightarrow> f32" where
  "f32_round s n d = f32_make s (round_mag n d)"

definition f32_nan :: "nan_rule \<Rightarrow> f32 \<Rightarrow> f32 \<Rightarrow> f32" where
  "f32_nan qn a b = f32_make (f32_neg (qn a b)) (0x7FC00000 + f32_mag (qn a b) mod 2 ^ 22)"

subsection \<open>Arithmetic\<close>

definition f32_add :: "nan_rule \<Rightarrow> f32 \<Rightarrow> f32 \<Rightarrow> f32" where
  "f32_add qn a b =
     (if is_nan a \<or> is_nan b then f32_nan qn a b
      else if is_inf a then (if is_inf b \<and> f32_neg a \<noteq> f32_neg b then f32_nan qn a b else a)
      else if is_inf b then b
      else let s = f32_val a + f32_val b in
        if s = 0 then f32_make (f32_neg a \<and> f32_neg b) 0
        else f32_round (s < 0) (nat \<bar>s\<bar>) 1)"

definition f32_negate :: "f32 \<Rightarrow> f32" where
  "f32_negate a = f32_make (\<not> f32_neg a) (f32_mag a)"

definition f32_sub :: "nan_rule \<Rightarrow> f32 \<Rightarrow> f32 \<Rightarrow> f32" where
  "f32_sub qn a b = (if is_nan b then f32_nan qn a b else f32_add qn a (f32_negate b))"

definition f32_mul :: "nan_rule \<Rightarrow> f32 \<Rightarrow> f32 \<Rightarrow> f32" where
  "f32_mul qn a b =
     (if is_nan a \<or> is_nan b then f32_nan qn a b
      else let s = (f32_neg a \<noteq> f32_neg b) in
        if is_inf a \<or> is_inf b
        then (if f32_mag a = 0 \<or> f32_mag b = 0 then f32_nan qn a b else f32_make s 0x7F800000)
        else f32_round s (mag_val (f32_mag a) * mag_val (f32_mag b)) (2 ^ 149))"

definition f32_div :: "nan_rule \<Rightarrow> f32 \<Rightarrow> f32 \<Rightarrow> f32" where
  "f32_div qn a b =
     (if is_nan a \<or> is_nan b then f32_nan qn a b
      else let s = (f32_neg a \<noteq> f32_neg b) in
        if is_inf a then (if is_inf b then f32_nan qn a b else f32_make s 0x7F800000)
        else if is_inf b then f32_make s 0
        else if f32_mag b = 0
        then (if f32_mag a = 0 then f32_nan qn a b else f32_make s 0x7F800000)
        else f32_round s (mag_val (f32_mag a) * 2 ^ 149) (mag_val (f32_mag b)))"

fun isqrt :: "nat \<Rightarrow> nat" where
  "isqrt n = (if n = 0 then 0
              else let r = 2 * isqrt (n div 4) in if (r + 1) * (r + 1) \<le> n then r + 1 else r)"

declare isqrt.simps [simp del]

definition f32_sqrt :: "nan_rule \<Rightarrow> f32 \<Rightarrow> f32" where
  "f32_sqrt qn a =
     (if is_nan a then f32_nan qn a a
      else if f32_mag a = 0 then a
      else if f32_neg a then f32_nan qn a a
      else if is_inf a then a
      else let n = mag_val (f32_mag a) * 2 ^ 149; q = isqrt n in
        f32_round False (2 * q + (if q * q = n then 0 else 1)) 2)"

text \<open>\<^verbatim>\<open>f32::abs\<close>, \<^verbatim>\<open>min\<close>, \<^verbatim>\<open>max\<close> (the non-NaN operand wins) and integer \<^verbatim>\<open>as f32\<close>.\<close>

definition f32_abs :: "f32 \<Rightarrow> f32" where
  "f32_abs a = f32_make False (f32_mag a)"

definition f32_min :: "f32 \<Rightarrow> f32 \<Rightarrow> f32" where
  "f32_min a b = (if is_nan a then b else if is_nan b then a else if f32_lt b a then b else a)"

definition f32_max :: "f32 \<Rightarrow> f32 \<Rightarrow> f32" where
  "f32_max a b = (if is_nan a then b else if is_nan b then a else if f32_lt a b then b else a)"

definition f32_of_nat :: "nat \<Rightarrow> f32" where
  "f32_of_nat n = f32_round False (n * 2 ^ 149) 1"

text \<open>A decimal literal \<open>n / d\<close>, correctly rounded.\<close>

definition f32_lit :: "nat \<Rightarrow> nat \<Rightarrow> f32" where
  "f32_lit n d = f32_round False (n * 2 ^ 149) d"

text \<open>\<^verbatim>\<open>Iterator::sum\<close> for \<^verbatim>\<open>f32\<close> folds from the neutral element -0.0.\<close>

definition f32_sum :: "nan_rule \<Rightarrow> f32 list \<Rightarrow> f32" where
  "f32_sum qn xs = foldl (f32_add qn) 0x80000000 xs"

subsection \<open>The order\<close>

lemmas f32_order_defs = f32_lt_def f32_le_def f32_eq_def

lemma f32_le_refl: "\<not> is_nan a \<Longrightarrow> f32_le a a"
  by (simp add: f32_le_def)

lemma f32_lt_irrefl [simp]: "\<not> f32_lt a a"
  by (simp add: f32_lt_def)

lemma f32_lt_imp_le: "f32_lt a b \<Longrightarrow> f32_le a b"
  by (simp add: f32_order_defs)

lemma f32_le_trans: "f32_le a b \<Longrightarrow> f32_le b c \<Longrightarrow> f32_le a c"
  by (simp add: f32_le_def)

lemma f32_lt_trans: "f32_lt a b \<Longrightarrow> f32_lt b c \<Longrightarrow> f32_lt a c"
  by (simp add: f32_lt_def)

lemma f32_not_lt: "\<not> is_nan a \<Longrightarrow> \<not> is_nan b \<Longrightarrow> \<not> f32_lt a b \<longleftrightarrow> f32_le b a"
  by (auto simp: f32_order_defs)

lemma f32_not_le: "\<not> is_nan a \<Longrightarrow> \<not> is_nan b \<Longrightarrow> \<not> f32_le a b \<longleftrightarrow> f32_lt b a"
  by (auto simp: f32_order_defs)

lemma f32_le_not_nan: "f32_le a b \<Longrightarrow> \<not> is_nan a \<and> \<not> is_nan b"
  by (simp add: f32_le_def)

subsection \<open>Decoding and rounding\<close>

lemma f32_mag_lt: "f32_mag x < 2 ^ 31"
  by (simp add: f32_mag_def)

lemma unat_f32: "unat (x :: f32) = (if f32_neg x then 2 ^ 31 + f32_mag x else f32_mag x)"
proof -
  have "unat x < 2 ^ 32" using unsigned_less[of x] by simp
  then show ?thesis unfolding f32_neg_def f32_mag_def by (auto simp: mod_if)
qed

lemma f32_make_sel:
  assumes "m < 2 ^ 31"
  shows "f32_mag (f32_make s m) = m" "f32_neg (f32_make s m) = s"
  using assms by (auto simp: f32_mag_def f32_neg_def f32_make_def unat_of_nat)

lemma f32_make_mag [simp]: "f32_make (f32_neg x) (f32_mag x) = x"
  unfolding f32_make_def unat_f32[symmetric] by simp

lemma f32_nan_is_nan [simp]: "is_nan (f32_nan qn a b)"
proof -
  have "f32_mag (qn a b) mod 2 ^ 22 < 2 ^ 22" by simp
  then show ?thesis unfolding is_nan_def f32_nan_def by (subst f32_make_sel) simp_all
qed

lemma mag_val_split:
  "r < 2 ^ 23 \<Longrightarrow> mag_val (d * 2 ^ 23 + r) = (if d = 0 then r else (2 ^ 23 + r) * 2 ^ (d - 1))"
proof -
  assume r: "r < 2 ^ 23"
  then have "(d * 2 ^ 23 + r) div 2 ^ 23 = d" "(d * 2 ^ 23 + r) mod 2 ^ 23 = r"
    by (simp_all only: mult.commute[of d] div_mult_self4 mod_mult_self4 div_less mod_less)
  with r show ?thesis by (cases d) (simp_all only: mag_val_def, simp_all)
qed

lemma mag_val_less_Suc: "mag_val m < mag_val (Suc m)"
proof -
  obtain d r where m: "m = d * 2 ^ 23 + r" and r: "r < 2 ^ 23"
    using div_mult_mod_eq[of m "2 ^ 23"] by (metis mod_less_divisor zero_less_numeral zero_less_power)
  show ?thesis
  proof (cases "Suc r < 2 ^ 23")
    case True
    then have "mag_val (Suc m) = (if d = 0 then Suc r else (2 ^ 23 + Suc r) * 2 ^ (d - 1))"
      unfolding m by (metis add_Suc_right mag_val_split)
    then show ?thesis unfolding m mag_val_split[OF r] by simp
  next
    case False
    with r have sr: "Suc r = 2 ^ 23" by simp
    then have "Suc m = Suc d * 2 ^ 23 + 0" by (simp add: m)
    then have "mag_val (Suc m) = 2 ^ 23 * 2 ^ d" using mag_val_split[of 0 "Suc d"] by simp
    then show ?thesis unfolding m mag_val_split[OF r] using sr by (cases d) simp_all
  qed
qed

lemma strict_mono_mag_val: "strict_mono mag_val"
  by (simp add: strict_mono_Suc_iff mag_val_less_Suc)

lemma mag_val_0 [simp]: "mag_val m = 0 \<longleftrightarrow> m = 0"
  by (auto simp: mag_val_def)

lemma mag_val_zero [simp]: "mag_val 0 = 0"
  by simp

lemma mag_val_pos [simp]: "0 < mag_val m \<longleftrightarrow> 0 < m"
  by (metis mag_val_0 neq0_conv)

lemma f32_lt_iff_val:
  assumes "is_finite a" "is_finite b"
  shows "f32_lt a b \<longleftrightarrow> f32_val a < f32_val b"
proof -
  have "int x < - int y \<longleftrightarrow> False" "- int x < int y \<longleftrightarrow> x \<noteq> 0 \<or> y \<noteq> 0" for x y by auto
  then show ?thesis
    using assms strict_mono_less[OF strict_mono_mag_val]
    by (auto simp: f32_lt_def f32_val_def f32_key_def is_finite_def is_nan_def)
qed

lemma bit_len_eq: "2 ^ k \<le> n \<Longrightarrow> n < 2 ^ Suc k \<Longrightarrow> bit_len n = Suc k"
proof (induction k arbitrary: n)
  case 0
  then show ?case by (simp add: bit_len.simps)
next
  case (Suc k)
  then have "bit_len (n div 2) = Suc k" by (intro Suc.IH) auto
  with Suc.prems show ?case by (subst bit_len.simps) auto
qed

lemma bit_len_small: "n < 2 ^ k \<Longrightarrow> bit_len n \<le> k"
proof (induction k arbitrary: n)
  case 0
  then show ?case by (simp add: bit_len.simps)
next
  case (Suc k)
  then have "bit_len (n div 2) \<le> k" by (intro Suc.IH) auto
  then show ?case by (subst bit_len.simps) auto
qed

text \<open>Rounding an exactly representable value is the identity.\<close>

lemma round_mag_exact:
  assumes "m \<le> 0x7F800000"
  shows "round_mag (mag_val m) 1 = m"
proof -
  obtain d r where m: "m = d * 2 ^ 23 + r" and r: "r < 2 ^ 23"
    using div_mult_mod_eq[of m "2 ^ 23"] by (metis mod_less_divisor zero_less_numeral zero_less_power)
  show ?thesis
  proof (cases d)
    case 0
    have "bit_len r \<le> 23" using r by (rule bit_len_small)
    moreover have "mag_val r = r" using mag_val_split[OF r, of 0] by simp
    ultimately show ?thesis using 0 r by (simp add: m round_mag_def round_half_even_def)
  next
    case (Suc e)
    have "bit_len ((2 ^ 23 + r) * 2 ^ e) = Suc (23 + e)"
      using r by (intro bit_len_eq) (auto simp: power_add)
    moreover have "mag_val m = (2 ^ 23 + r) * 2 ^ e" using mag_val_split[OF r, of d] Suc m by simp
    ultimately show ?thesis using Suc assms m
      by (simp add: round_mag_def round_half_even_def min_def)
  qed
qed

text \<open>Evaluation of operations on concrete patterns.\<close>

lemmas f32_eval = f32_mag_def f32_neg_def is_nan_def is_inf_def f32_key_def f32_order_defs
  mag_val_def f32_val_def f32_round_def f32_make_def round_mag_def round_half_even_def
  bit_len.simps f32_add_def f32_mul_def Let_def

lemma f32_val_0 [simp]: "f32_val 0 = 0" "f32_mag 0 = 0" "\<not> f32_neg 0" "\<not> is_nan 0" "\<not> is_inf 0"
  by (simp_all add: f32_eval)

lemma f32_add_zero:
  assumes "\<not> is_nan x" "x \<noteq> 0x80000000"
  shows "f32_add qn x 0 = x"
proof (cases "is_inf x")
  case True
  then show ?thesis using assms by (simp add: f32_add_def)
next
  case False
  then have "f32_mag x \<le> 0x7F800000" using assms(1) by (simp add: is_nan_def is_inf_def)
  then have r: "f32_make (f32_neg x) (round_mag (mag_val (f32_mag x)) 1) = x"
    by (simp only: round_mag_exact f32_make_mag)
  show ?thesis
  proof (cases "f32_mag x = 0")
    case True
    then have "x = 0" using assms(2) unat_f32[of x] by (auto simp: word_unat_eq_iff split: if_splits)
    then show ?thesis by (simp add: f32_add_def f32_make_def)
  next
    case nz: False
    then show ?thesis using False assms(1) r
      by (cases "f32_neg x") (auto simp: f32_add_def f32_val_def f32_round_def Let_def)
  qed
qed

lemma foldl_add_zeros:
  "\<not> is_nan x \<Longrightarrow> x \<noteq> 0x80000000 \<Longrightarrow> foldl (f32_add qn) x (replicate n 0) = x"
  by (induction n) (simp_all add: f32_add_zero)

lemma f32_mul_0 [simp]: "f32_mul qn 0 0 = 0"
  by (simp add: f32_eval)

lemma f32_neg_bit: "f32_neg x = bit x 31"
proof -
  have "unat x < 2 ^ 32" using unsigned_less[of x] by simp
  then have "unat x div 2 ^ 31 < 2" by (simp add: less_mult_imp_div_less)
  then have "bit (unat x) 31 \<longleftrightarrow> unat x div 2 ^ 31 = 1"
    unfolding bit_iff_odd by (auto simp: odd_iff_mod_2_eq_one less_2_cases_iff)
  moreover have "unat x div 2 ^ 31 = 1 \<longleftrightarrow> 2 ^ 31 \<le> unat x"
    using \<open>unat x < 2 ^ 32\<close> by (auto simp: div_if)
  ultimately show ?thesis by (simp add: f32_neg_def bit_unsigned_iff)
qed

end
