(* ===== verification/FaceTypes.thy ===== *)
theory FaceTypes
  imports F32
begin

text \<open>
  The shared data types and matching primitives of \<^verbatim>\<open>facelock-core/src/types.rs\<close>:
  embeddings and their wiping, device fingerprints and the device-binding decision,
  cosine similarity, the sliding frame-variance window (a ring buffer) and the
  constant-time best match. The \<^verbatim>\<open>subtle\<close> crate's comparison and selection and the
  NaN patterns of float arithmetic are the fields of the parameter \<open>platform\<close>.
\<close>

subsection \<open>Data\<close>

type_synonym face_embedding = "f32 list"

definition embedding_dim :: nat where
  "embedding_dim = 512"

record bounding_box =
  bb_x :: f32
  bb_y :: f32
  bb_width :: f32
  bb_height :: f32

record point2d =
  pt_x :: f32
  pt_y :: f32

record detection =
  bbox :: bounding_box
  confidence :: f32
  landmarks :: "point2d list"

record frame =
  fr_rgb :: bytes
  fr_gray :: bytes
  fr_width :: u32
  fr_height :: u32

record face_model_info =
  mi_id :: u32
  mi_user :: string
  mi_label :: string
  mi_created_at :: u64
  mi_embedder_model :: string
  mi_device_id :: "string option"
  mi_key_id :: "string option"

record device_fingerprint =
  fp_vid :: "string option"
  fp_pid :: "string option"
  fp_serial :: "string option"
  fp_by_path :: "string option"

datatype ir_texture_scale = NotY16 | VerifiedY16 u8 | UnverifiedY16

record camera_caps =
  cc_is_ir :: bool
  cc_fingerprint :: device_fingerprint
  cc_applied_quirks :: "string list"
  cc_ir_texture_scale :: ir_texture_scale

datatype granularity = GModel | GUnit

record device_binding_policy =
  bp_enabled :: bool
  bp_granularity :: granularity
  bp_allow_legacy :: bool

datatype device_binding = Bound | LegacyUnbound

datatype auth_failure_reason = VarianceNotSatisfied

record match_result =
  mr_matched :: bool
  mr_model_id :: "u32 option"
  mr_label :: "string option"
  mr_similarity :: f32
  mr_face_detected :: bool
  mr_failure_reason :: "auth_failure_reason option"

record platform =
  pl_nan :: nan_rule
  pl_ct_gt :: "u32 \<Rightarrow> u32 \<Rightarrow> bool"
  pl_cond_select :: "u32 \<Rightarrow> u32 \<Rightarrow> bool \<Rightarrow> u32"

text \<open>The documented behaviour of \<^verbatim>\<open>ConstantTimeGreater\<close> and \<^verbatim>\<open>ConditionallySelectable\<close>.\<close>

definition ct_lawful :: "platform \<Rightarrow> bool" where
  "ct_lawful pl \<longleftrightarrow>
     (\<forall>a b. pl_ct_gt pl a b = (b < a)) \<and>
     (\<forall>a b c. pl_cond_select pl a b c = (if c then b else a))"

subsection \<open>Wiping\<close>

definition zeroize_embedding :: "face_embedding \<Rightarrow> face_embedding" where
  "zeroize_embedding e = map (\<lambda>_. 0) e"

definition zeroize_stored_embeddings :: "(u32 \<times> face_embedding) list \<Rightarrow> (u32 \<times> face_embedding) list" where
  "zeroize_stored_embeddings = map (\<lambda>(i, e). (i, zeroize_embedding e))"

definition wipe_stored :: "u32 \<times> face_embedding \<Rightarrow> u32 \<times> face_embedding" where
  "wipe_stored = (\<lambda>(i, e). (i, zeroize_embedding e))"

definition wipe_detected :: "detection \<times> face_embedding \<Rightarrow> detection \<times> face_embedding" where
  "wipe_detected = (\<lambda>(d, e). (d, zeroize_embedding e))"

text \<open>A \<^verbatim>\<open>Vec\<close>: its elements and its allocated capacity.\<close>

record 'e vec =
  v_items :: "'e list"
  v_cap :: nat

text \<open>The vector after the append, and the contents of the allocation that was freed.\<close>

definition push_wiping :: "('e \<Rightarrow> 'e) \<Rightarrow> 'e vec \<Rightarrow> 'e \<Rightarrow> 'e vec \<times> 'e list option" where
  "push_wiping wipe buf x =
     (if length (v_items buf) = v_cap buf
      then (\<lparr>v_items = v_items buf @ [x], v_cap = max (v_cap buf * 2) 4\<rparr>,
            Some (map wipe (v_items buf)))
      else (buf\<lparr>v_items := v_items buf @ [x]\<rparr>, None))"

definition wiped_drop :: "('e \<Rightarrow> 'e) \<Rightarrow> 'e vec \<Rightarrow> 'e vec" where
  "wiped_drop wipe buf = buf\<lparr>v_items := map wipe (v_items buf)\<rparr>"

subsection \<open>Device fingerprints and binding\<close>

definition canonical :: "device_fingerprint \<Rightarrow> string" where
  "canonical fp = opt_str (fp_vid fp) @ '':'' @ opt_str (fp_pid fp) @ '':'' @ opt_str (fp_serial fp)"

definition present :: "string option \<Rightarrow> bool" where
  "present f = (case f of None \<Rightarrow> False | Some s \<Rightarrow> s \<noteq> [])"

definition is_unknown :: "device_fingerprint \<Rightarrow> bool" where
  "is_unknown fp = (\<not> (present (fp_vid fp) \<and> present (fp_pid fp)))"

definition canonical_for_storage :: "device_fingerprint \<Rightarrow> string option" where
  "canonical_for_storage fp = (if is_unknown fp then None else Some (canonical fp))"

definition has_serial :: "device_fingerprint \<Rightarrow> bool" where
  "has_serial fp = present (fp_serial fp)"

definition default_fingerprint :: device_fingerprint where
  "default_fingerprint = \<lparr>fp_vid = None, fp_pid = None, fp_serial = None, fp_by_path = None\<rparr>"

definition unqueryable :: "device_fingerprint \<Rightarrow> camera_caps" where
  "unqueryable fp = \<lparr>cc_is_ir = False, cc_fingerprint = fp, cc_applied_quirks = [],
                     cc_ir_texture_scale = NotY16\<rparr>"

definition device_ids_match :: "string \<Rightarrow> device_fingerprint \<Rightarrow> granularity \<Rightarrow> bool" where
  "device_ids_match stored live g =
     (let parts = splitn 3 (CHR '':'') stored;
          s_vid = piece parts 0; s_pid = piece parts 1; s_serial = piece parts 2;
          l_vid = opt_str (fp_vid live); l_pid = opt_str (fp_pid live);
          l_serial = opt_str (fp_serial live);
          model_ok = (s_vid \<noteq> [] \<and> s_pid \<noteq> [] \<and>
                      eq_ignore_ascii_case s_vid l_vid \<and> eq_ignore_ascii_case s_pid l_pid)
      in if \<not> model_ok then False
         else case g of
             GModel \<Rightarrow> True
           | GUnit \<Rightarrow> s_serial \<noteq> [] \<and> l_serial \<noteq> [] \<and> s_serial = l_serial)"

definition device_binding_allows ::
  "string option \<Rightarrow> device_fingerprint \<Rightarrow> device_binding_policy \<Rightarrow> bool" where
  "device_binding_allows dev live policy =
     (if \<not> bp_enabled policy then True
      else case dev of
          None \<Rightarrow> bp_allow_legacy policy
        | Some stored \<Rightarrow>
            if stored = [] then bp_allow_legacy policy
            else device_ids_match stored live (bp_granularity policy))"

definition device_allowed_model_ids ::
  "face_model_info list \<Rightarrow> device_fingerprint \<Rightarrow> device_binding_policy \<Rightarrow> u32 set" where
  "device_allowed_model_ids models live policy =
     set (map mi_id (filter (\<lambda>m. device_binding_allows (mi_device_id m) live policy) models))"

definition device_binding_aad :: "string option \<Rightarrow> string option" where
  "device_binding_aad dev =
     (case dev of None \<Rightarrow> None
      | Some s \<Rightarrow> if s = [] then None else Some (''facelock-device:'' @ s))"

subsection \<open>Similarity and the frame-variance window\<close>

definition cosine_similarity :: "platform \<Rightarrow> face_embedding \<Rightarrow> face_embedding \<Rightarrow> f32" where
  "cosine_similarity pl a b =
     f32_sum (pl_nan pl) (map (\<lambda>(x, y). f32_mul (pl_nan pl) x y) (zip a b))"

definition DEFAULT_FRAME_VARIANCE_MAX_SIMILARITY :: f32 where
  "DEFAULT_FRAME_VARIANCE_MAX_SIMILARITY = f32_lit 985 1000"

definition check_frame_variance :: "platform \<Rightarrow> face_embedding list \<Rightarrow> f32 \<Rightarrow> bool" where
  "check_frame_variance pl es max_sim =
     (if length es < 2 then False
      else list_all (\<lambda>(a, b). \<not> f32_gt (cosine_similarity pl a b) max_sim) (windows2 es))"

record variance_window =
  vw_slots :: "face_embedding list"
  vw_capacity :: nat
  vw_next :: nat

definition window_new :: "u32 \<Rightarrow> variance_window" where
  "window_new min_auth_frames =
     \<lparr>vw_slots = [], vw_capacity = max (unat min_auth_frames) 2, vw_next = 0\<rparr>"

definition window_push :: "face_embedding \<Rightarrow> variance_window \<Rightarrow> variance_window" where
  "window_push e w =
     (if length (vw_slots w) < vw_capacity w
      then let slots = vw_slots w @ [e] in
        w\<lparr>vw_slots := slots, vw_next := length slots mod vw_capacity w\<rparr>
      else let wiped = (vw_slots w)[vw_next w := zeroize_embedding (vw_slots w ! vw_next w)] in
        w\<lparr>vw_slots := wiped[vw_next w := e], vw_next := (vw_next w + 1) mod vw_capacity w\<rparr>)"

definition window_is_full :: "variance_window \<Rightarrow> bool" where
  "window_is_full w = (length (vw_slots w) = vw_capacity w)"

definition index_at :: "variance_window \<Rightarrow> nat \<Rightarrow> nat" where
  "index_at w chrono =
     (if length (vw_slots w) < vw_capacity w then chrono
      else (vw_next w + chrono) mod vw_capacity w)"

definition pair_similarities :: "platform \<Rightarrow> variance_window \<Rightarrow> f32 list" where
  "pair_similarities pl w =
     map (\<lambda>i. cosine_similarity pl (vw_slots w ! index_at w (i - 1)) (vw_slots w ! index_at w i))
       [1..<length (vw_slots w)]"

definition min_max_pair_similarity :: "platform \<Rightarrow> variance_window \<Rightarrow> (f32 \<times> f32) option" where
  "min_max_pair_similarity pl w =
     (case pair_similarities pl w of
        [] \<Rightarrow> None
      | first # rest \<Rightarrow> Some (foldl (\<lambda>(mn, mx) s. (f32_min mn s, f32_max mx s)) (first, first) rest))"

definition window_passes :: "platform \<Rightarrow> variance_window \<Rightarrow> f32 \<Rightarrow> bool" where
  "window_passes pl w max_sim =
     (window_is_full w \<and> list_all (\<lambda>s. f32_le s max_sim) (pair_similarities pl w))"

definition zeroize_all :: "variance_window \<Rightarrow> variance_window" where
  "zeroize_all w = w\<lparr>vw_slots := [], vw_next := 0\<rparr>"

subsection \<open>Best match\<close>

definition float_bits_to_ordered :: "u32 \<Rightarrow> u32" where
  "float_bits_to_ordered bits =
     (let mask = signed_drop_bit 31 bits in bits XOR (mask OR 0x80000000))"

text \<open>The loop state: ordered best, raw bits of the best similarity, best id.\<close>

definition best_match_step ::
  "platform \<Rightarrow> face_embedding \<Rightarrow> u32 \<times> f32 \<times> u32 \<Rightarrow> u32 \<times> face_embedding \<Rightarrow> u32 \<times> f32 \<times> u32" where
  "best_match_step pl e st entry =
     (case st of (best_ord, best_sim, best_id) \<Rightarrow> case entry of (mid, stored_emb) \<Rightarrow>
      let sim_bits = cosine_similarity pl e stored_emb;
          sim_ord = float_bits_to_ordered sim_bits;
          is_greater = pl_ct_gt pl sim_ord best_ord
      in (pl_cond_select pl best_ord sim_ord is_greater,
          pl_cond_select pl best_sim sim_bits is_greater,
          pl_cond_select pl best_id mid is_greater))"

definition best_match ::
  "platform \<Rightarrow> face_embedding \<Rightarrow> (u32 \<times> face_embedding) list \<Rightarrow> f32 \<times> u32 option" where
  "best_match pl e stored =
     (let init = 0xBF800000;
          (_, best_sim, best_id) =
            foldl (best_match_step pl e) (float_bits_to_ordered init, init, - 1) stored
      in if stored = [] then (0, None)
         else (best_sim, if best_id = - 1 then None else Some best_id))"

subsection \<open>Abstractions used in the statements\<close>

text \<open>The embeddings of a window, oldest first, and its ring-buffer invariant.\<close>

definition window_contents :: "variance_window \<Rightarrow> face_embedding list" where
  "window_contents w = map (\<lambda>i. vw_slots w ! index_at w i) [0..<length (vw_slots w)]"

definition window_inv :: "nat \<Rightarrow> variance_window \<Rightarrow> bool" where
  "window_inv c w \<longleftrightarrow> vw_capacity w = c \<and> 2 \<le> c \<and> length (vw_slots w) \<le> c \<and> vw_next w < c \<and>
     (length (vw_slots w) < c \<longrightarrow> vw_next w = length (vw_slots w))"

text \<open>A lawful platform, and the axis vectors of the embedding space.\<close>

definition std_platform :: platform where
  "std_platform = \<lparr>pl_nan = (\<lambda>_ _. 0), pl_ct_gt = (\<lambda>a b. b < a),
                   pl_cond_select = (\<lambda>a b c. if c then b else a)\<rparr>"

definition axis :: "nat \<Rightarrow> face_embedding" where
  "axis k = (replicate 2 0)[k := 0x3F800000] @ replicate 510 0"

text \<open>The loop invariant of the best match.\<close>

definition best_inv where
  "best_inv pl e stored st = (case st of (bo, bs, bi) \<Rightarrow>
     bo = float_bits_to_ordered bs \<and>
     (bs = 0xBF800000 \<and> bi = - 1 \<or> (\<exists>s. (bi, s) \<in> set stored \<and> bs = cosine_similarity pl e s)) \<and>
     (\<forall>(i, s) \<in> set stored. float_bits_to_ordered (cosine_similarity pl e s) \<le> bo))"

subsection \<open>Ordered float bits\<close>

lemma signed_mask: "signed_drop_bit 31 (x :: f32) = (if f32_neg x then - 1 else 0)"
  by (rule bit_word_eqI) (auto simp: bit_signed_drop_bit_iff f32_neg_bit not_less_eq_eq)

lemma xor_top: "\<not> f32_neg x \<Longrightarrow> x XOR 0x80000000 = (x + 0x80000000 :: f32)"
proof -
  assume "\<not> f32_neg x"
  then have "x AND 2 ^ 31 = 0"
    by (intro bit_word_eqI) (simp only: bit_and_iff bit_exp_iff f32_neg_bit bit_0_eq bot_apply, auto)
  then have "x AND 0x80000000 = 0" by simp
  then show ?thesis
    by (metis add.commute disjunctive_xor_eq_or disjunctive_add_eq_or and.commute)
qed

lemma unat_ordered:
  "unat (float_bits_to_ordered x) =
     (if f32_neg x then 2 ^ 31 - 1 - f32_mag x else 2 ^ 31 + f32_mag x)"
proof (cases "f32_neg x")
  case True
  then have "float_bits_to_ordered x = NOT x"
    by (simp add: float_bits_to_ordered_def signed_mask)
  then have "float_bits_to_ordered x = - 1 - x" by (simp add: not_eq_complement)
  then have "unat (float_bits_to_ordered x) = 2 ^ 32 - 1 - unat x"
    by (simp add: unat_sub unsigned_minus_1_eq_mask mask_eq_exp_minus_1)
  then show ?thesis using True unat_f32[of x] by simp
next
  case False
  then have "float_bits_to_ordered x = x + 0x80000000"
    by (simp add: float_bits_to_ordered_def signed_mask xor_top)
  moreover have "unat x + unat (0x80000000 :: f32) < 2 ^ 32"
    using False f32_mag_lt[of x] unat_f32[of x] by simp
  ultimately show ?thesis using False unat_f32[of x] by (simp add: unat_plus_simple unat_word_ariths)
qed

lemma ordered_less_iff:
  "float_bits_to_ordered a < float_bits_to_ordered b \<longleftrightarrow>
     f32_key a < f32_key b \<or> f32_key a = f32_key b \<and> f32_neg a \<and> \<not> f32_neg b"
  using f32_mag_lt[of a] f32_mag_lt[of b]
  by (auto simp: word_less_nat_alt unat_ordered f32_key_def)

lemma f32_key_inj: "f32_key a = f32_key b \<Longrightarrow> f32_neg a = f32_neg b \<Longrightarrow> a = b"
  using unat_f32[of a] unat_f32[of b] by (simp add: f32_key_def word_unat_eq_iff split: if_splits)

lemma ordered_inj: "float_bits_to_ordered a = float_bits_to_ordered b \<longleftrightarrow> a = b"
  by (metis f32_key_inj linorder_neq_iff ordered_less_iff)

lemma ordered_lt: "f32_lt a b \<Longrightarrow> float_bits_to_ordered a < float_bits_to_ordered b"
  by (simp add: f32_lt_def ordered_less_iff)

lemma ordered_le:
  "\<not> is_nan a \<Longrightarrow> \<not> is_nan b \<Longrightarrow> float_bits_to_ordered a \<le> float_bits_to_ordered b \<Longrightarrow> f32_le a b"
  by (metis f32_le_refl f32_lt_def f32_lt_imp_le f32_not_lt leD ordered_lt)

text \<open>The integer order of the constant-time comparison embeds the IEEE order: smaller floats
  have smaller keys, keys order non-NaN floats, and distinct bit patterns have distinct keys.\<close>

theorem float_order_embedding:
  "(f32_lt a b \<longrightarrow> float_bits_to_ordered a < float_bits_to_ordered b) \<and>
   (\<not> is_nan a \<and> \<not> is_nan b \<and> float_bits_to_ordered a \<le> float_bits_to_ordered b \<longrightarrow> f32_le a b) \<and>
   (float_bits_to_ordered a = float_bits_to_ordered b \<longleftrightarrow> a = b)"
  using ordered_lt ordered_le ordered_inj by blast

theorem float_order_embedding_witness:
  "f32_lt 0xBF800000 0x3F800000 \<and> float_bits_to_ordered 0xBF800000 < float_bits_to_ordered 0x3F800000 \<and>
   f32_le 0xBF800000 0x3F800000"
proof -
  have lt: "f32_lt 0xBF800000 0x3F800000" "\<not> is_nan 0xBF800000" "\<not> is_nan 0x3F800000"
    by (simp_all add: f32_eval)
  then show ?thesis using float_order_embedding[of "0xBF800000" "0x3F800000"] by (simp add: less_imp_le)
qed

subsection \<open>Best match\<close>

lemma best_match_step_eq:
  assumes "ct_lawful pl"
  shows "best_match_step pl e (bo, bs, bi) (i, s) =
    (let c = cosine_similarity pl e s in
     if bo < float_bits_to_ordered c then (float_bits_to_ordered c, c, i) else (bo, bs, bi))"
  using assms by (simp add: best_match_step_def ct_lawful_def Let_def)

lemma best_inv_fold:
  assumes "ct_lawful pl"
  shows "best_inv pl e stored
     (foldl (best_match_step pl e) (float_bits_to_ordered 0xBF800000, 0xBF800000, - 1) stored)"
proof (induction stored rule: rev_induct)
  case Nil
  then show ?case by (simp add: best_inv_def)
next
  case (snoc p stored)
  obtain i s where p: "p = (i, s)" by fastforce
  obtain bo bs bi where st: "foldl (best_match_step pl e) 
      (float_bits_to_ordered 0xBF800000, 0xBF800000, - 1) stored = (bo, bs, bi)"
    by (metis prod.exhaust)
  show ?case
  proof (cases "bo < float_bits_to_ordered (cosine_similarity pl e s)")
    case True
    with snoc[unfolded st] show ?thesis
      by (fastforce simp: st p best_match_step_eq[OF assms] best_inv_def Let_def)
  next
    case False
    with snoc[unfolded st] show ?thesis
      by (fastforce simp: st p best_match_step_eq[OF assms] best_inv_def Let_def not_less)
  qed
qed

lemma best_match_state:
  assumes "ct_lawful pl"
  obtains bs bi where
    "best_match pl e stored = (if stored = [] then (0, None) else (bs, if bi = - 1 then None else Some bi))"
    "bs = 0xBF800000 \<and> bi = - 1 \<or> (\<exists>x. (bi, x) \<in> set stored \<and> bs = cosine_similarity pl e x)"
    "\<And>i x. (i, x) \<in> set stored \<Longrightarrow> float_bits_to_ordered (cosine_similarity pl e x) \<le> float_bits_to_ordered bs"
proof -
  obtain bo bs bi where st: "foldl (best_match_step pl e)
      (float_bits_to_ordered 0xBF800000, 0xBF800000, - 1) stored = (bo, bs, bi)"
    by (metis prod.exhaust)
  have inv: "best_inv pl e stored (bo, bs, bi)"
    using best_inv_fold[OF assms, of e stored] by (simp only: st)
  show thesis
  proof (rule that)
    show "best_match pl e stored = (if stored = [] then (0, None) else (bs, if bi = - 1 then None else Some bi))"
      by (simp only: best_match_def Let_def st split)
    show "bs = 0xBF800000 \<and> bi = - 1 \<or> (\<exists>x. (bi, x) \<in> set stored \<and> bs = cosine_similarity pl e x)"
      using inv by (simp only: best_inv_def split)
    show "float_bits_to_ordered (cosine_similarity pl e x) \<le> float_bits_to_ordered bs"
      if "(i, x) \<in> set stored" for i x
      using inv that unfolding best_inv_def by auto
  qed
qed

lemma best_match_member:
  assumes "ct_lawful pl" and "best_match pl e stored = (s, r)"
  shows "stored = [] \<and> s = 0 \<and> r = None \<or> s = 0xBF800000 \<and> r = None \<or>
    (\<exists>i x. (i, x) \<in> set stored \<and> s = cosine_similarity pl e x \<and> r = (if i = - 1 then None else Some i))"
proof -
  obtain bs bi where
    *: "best_match pl e stored = (if stored = [] then (0, None) else (bs, if bi = - 1 then None else Some bi))"
       "bs = 0xBF800000 \<and> bi = - 1 \<or> (\<exists>x. (bi, x) \<in> set stored \<and> bs = cosine_similarity pl e x)"
    by (rule best_match_state[OF assms(1), of e stored]) blast
  show ?thesis
  proof (cases "stored = []")
    case True
    with * assms(2) show ?thesis by simp
  next
    case False
    with *(1) assms(2) have "s = bs" "r = (if bi = - 1 then None else Some bi)" by simp_all
    with *(2) show ?thesis by auto
  qed
qed

lemma best_match_max:
  assumes "ct_lawful pl" and "best_match pl e stored = (s, r)" and "(i, x) \<in> set stored"
  shows "float_bits_to_ordered (cosine_similarity pl e x) \<le> float_bits_to_ordered s"
proof -
  have "stored \<noteq> []" using assms(3) by auto
  with best_match_state[OF assms(1), of e stored] assms(2,3) show ?thesis
    by (metis prod.inject)
qed

text \<open>C23: the constant-time best match returns the maximal cosine similarity over the stored
  templates together with the id of a template that attains it.\<close>

theorem best_match_is_maximum:
  assumes "ct_lawful pl" and "best_match pl e stored = (s, r)" and "stored \<noteq> []"
    and "\<forall>(i, x) \<in> set stored. \<not> is_nan (cosine_similarity pl e x) \<and> i \<noteq> - 1"
  shows "(\<forall>(i, x) \<in> set stored. f32_le (cosine_similarity pl e x) s) \<and>
    (case r of None \<Rightarrow> s = 0xBF800000
     | Some i \<Rightarrow> \<exists>x. (i, x) \<in> set stored \<and> s = cosine_similarity pl e x)"
proof
  have mem: "s = 0xBF800000 \<and> r = None \<or>
      (\<exists>i x. (i, x) \<in> set stored \<and> s = cosine_similarity pl e x \<and> r = Some i)"
    using best_match_member[OF assms(1,2)] assms(3,4) by fastforce
  have "\<not> is_nan 0xBF800000" by (simp add: f32_eval)
  then have "\<not> is_nan s" using mem assms(4) by auto
  then show "\<forall>(i, x) \<in> set stored. f32_le (cosine_similarity pl e x) s"
    using best_match_max[OF assms(1,2)] assms(4) ordered_le by blast
  show "case r of None \<Rightarrow> s = 0xBF800000
     | Some i \<Rightarrow> \<exists>x. (i, x) \<in> set stored \<and> s = cosine_similarity pl e x"
    using mem by auto
qed

lemma cosine_zero_tail:
  assumes "length xs = length ys" "\<not> is_nan (cosine_similarity pl xs ys)" 
    "cosine_similarity pl xs ys \<noteq> 0x80000000"
  shows "cosine_similarity pl (xs @ replicate n 0) (ys @ replicate n 0) = cosine_similarity pl xs ys"
proof -
  have "map (\<lambda>(x, y). f32_mul (pl_nan pl) x y) (zip (replicate n 0) (replicate n 0)) = replicate n 0"
    by (simp add: zip_replicate)
  then show ?thesis using assms
    by (simp add: cosine_similarity_def f32_sum_def foldl_add_zeros)
qed

lemma std_platform_lawful: "ct_lawful std_platform"
  by (simp add: ct_lawful_def std_platform_def)

lemma cosine_axis:
  "cosine_similarity pl (axis 0) (axis 0) = 0x3F800000"
  "cosine_similarity pl (axis 0) (axis (Suc 0)) = 0"
proof -
  have a: "axis 0 = [0x3F800000, 0] @ replicate 510 0" "axis (Suc 0) = [0, 0x3F800000] @ replicate 510 0"
    by (simp_all add: axis_def numeral_2_eq_2)
  have c: "cosine_similarity pl [0x3F800000, 0] [0x3F800000, 0] = 0x3F800000"
     "cosine_similarity pl [0x3F800000, 0] [0, 0x3F800000] = 0"
    by (simp_all add: cosine_similarity_def f32_sum_def f32_eval)
  show "cosine_similarity pl (axis 0) (axis 0) = 0x3F800000"
    unfolding a by (subst cosine_zero_tail) (simp_all add: c, simp add: f32_eval)
  show "cosine_similarity pl (axis 0) (axis (Suc 0)) = 0"
    unfolding a by (subst cosine_zero_tail) (simp_all add: c)
qed

lemma best_match_axis:
  "best_match std_platform (axis 0) [(7, axis 1), (9, axis 0)] = (0x3F800000, Some 9)"
  by (simp add: best_match_def best_match_step_eq[OF std_platform_lawful] cosine_axis Let_def
      ordered_less_iff f32_eval)

theorem best_match_is_maximum_witness:
  "best_match std_platform (axis 0) [(7, axis (Suc 0)), (9, axis 0)] = (0x3F800000, Some 9) \<and>
   f32_le (cosine_similarity std_platform (axis 0) (axis (Suc 0))) 0x3F800000"
proof -
  have "\<not> is_nan 0x3F800000" "\<not> is_nan 0" by (simp_all add: f32_eval)
  then show ?thesis
    using best_match_is_maximum[OF std_platform_lawful, of "axis 0" "[(7, axis (Suc 0)), (9, axis 0)]"
        "0x3F800000" "Some 9"] best_match_axis
    by (simp add: cosine_axis)
qed

subsection \<open>The variance window is a sliding window\<close>

lemma window_contents_filling:
  "length (vw_slots w) < vw_capacity w \<Longrightarrow> window_contents w = vw_slots w"
  by (simp add: window_contents_def index_at_def map_nth)

lemma window_contents_full:
  assumes "length (vw_slots w) = vw_capacity w" "vw_next w < vw_capacity w"
  shows "window_contents w = rotate (vw_next w) (vw_slots w)"
  by (rule nth_equalityI) (simp_all add: window_contents_def index_at_def assms nth_rotate)

lemma rotate_overwrite:
  assumes "n < length xs"
  shows "rotate (Suc n mod length xs) (xs[n := e]) = tl (rotate n xs) @ [e]"
proof -
  have "rotate (Suc n mod length xs) (xs[n := e]) = rotate1 (rotate n (xs[n := e]))"
    by (metis length_list_update rotate_conv_mod rotate_Suc)
  also have "\<dots> = drop (Suc n) xs @ take n xs @ [e]"
    using assms by (simp add: rotate_drop_take upd_conv_take_nth_drop)
  also have "\<dots> = tl (rotate n xs) @ [e]"
    using assms by (simp add: rotate_drop_take tl_append2 drop_Suc tl_drop)
  finally show ?thesis .
qed

lemma window_push_contents:
  assumes "window_inv c w"
  shows "window_contents (window_push e w) = take_last c (window_contents w @ [e])"
proof (cases "length (vw_slots w) < c")
  case True
  then have old: "window_contents w = vw_slots w"
    using assms by (simp add: window_contents_filling window_inv_def)
  show ?thesis
  proof (cases "Suc (length (vw_slots w)) < c")
    case True
    then show ?thesis using assms old
      by (subst window_contents_filling) (auto simp: window_push_def window_inv_def Let_def take_last_short)
  next
    case False
    with True have "Suc (length (vw_slots w)) = c" by simp
    then show ?thesis using assms old
      by (subst window_contents_full) (auto simp: window_push_def window_inv_def Let_def take_last_short)
  qed
next
  case False
  then have full: "length (vw_slots w) = c" "vw_capacity w = c" "vw_next w < c" "0 < c"
    using assms by (auto simp: window_inv_def)
  then have old: "window_contents w = rotate (vw_next w) (vw_slots w)"
    by (simp add: window_contents_full)
  have "window_contents (window_push e w) =
      rotate (Suc (vw_next w) mod c) ((vw_slots w)[vw_next w := e])"
    using full by (subst window_contents_full) (auto simp: window_push_def Let_def)
  also have "\<dots> = tl (rotate (vw_next w) (vw_slots w)) @ [e]"
    using full rotate_overwrite[of "vw_next w" "vw_slots w"] by simp
  finally show ?thesis using full old by (simp add: take_last_snoc take_last_short)
qed

lemma window_push_inv: "window_inv c w \<Longrightarrow> window_inv c (window_push e w)"
  by (auto simp: window_inv_def window_push_def Let_def mod_Suc)

lemma window_new_inv: "window_inv (max (unat n) 2) (window_new n)"
  by (simp add: window_inv_def window_new_def)

lemma window_new_contents: "window_contents (window_new n) = []"
  by (simp add: window_contents_def window_new_def)

interpretation fvw: sliding_window "window_new n" window_push window_contents
  "window_inv (max (unat n) 2)" "max (unat n) 2" for n :: u32
  by unfold_locales
    (simp_all add: window_push_contents window_push_inv window_new_inv window_new_contents)

lemma window_full_contents:
  "window_is_full w \<longleftrightarrow> length (window_contents w) = vw_capacity w"
  by (simp add: window_is_full_def window_contents_def)

lemma pair_similarities_contents:
  "pair_similarities pl w = map (\<lambda>(a, b). cosine_similarity pl a b) (windows2 (window_contents w))"
  by (auto simp: pair_similarities_def windows2_conv_map window_contents_def)

lemma window_passes_contents:
  "window_passes pl w m \<longleftrightarrow> length (window_contents w) = vw_capacity w \<and>
     list_all (\<lambda>(a, b). f32_le (cosine_similarity pl a b) m) (windows2 (window_contents w))"
  by (simp add: window_passes_def window_full_contents pair_similarities_contents
      list.pred_map comp_def case_prod_unfold)

lemma window_capacity_history: "vw_capacity (fold window_push es (window_new n)) = max (unat n) 2"
  using fvw.invar_history[of n es] by (simp add: window_inv_def)

lemma window_passes_history:
  "window_passes pl (fold window_push es (window_new n)) m \<longleftrightarrow>
     max (unat n) 2 \<le> length es \<and>
     list_all (\<lambda>(a, b). f32_le (cosine_similarity pl a b) m)
       (windows2 (take_last (max (unat n) 2) es))"
  unfolding window_passes_contents window_capacity_history fvw.contents_history
  by (simp add: min.absorb_iff1[symmetric] del: max.bounded_iff)

text \<open>C24: the incremental ring buffer decides exactly what the batch routine
  \<^verbatim>\<open>check_frame_variance\<close> decides on the most recent frames, whatever was pushed before, as long
  as the similarities are numbers.\<close>

theorem window_matches_batch_check:
  assumes "\<not> is_nan m"
    and "\<forall>(a, b) \<in> set (windows2 (take_last (max (unat n) 2) es)). \<not> is_nan (cosine_similarity pl a b)"
  shows "window_passes pl (fold window_push es (window_new n)) m \<longleftrightarrow>
     max (unat n) 2 \<le> length es \<and> check_frame_variance pl (take_last (max (unat n) 2) es) m"
proof -
  have "list_all (\<lambda>(a, b). f32_le (cosine_similarity pl a b) m) ps \<longleftrightarrow>
      list_all (\<lambda>(a, b). \<not> f32_gt (cosine_similarity pl a b) m) ps"
    if "\<forall>(a, b) \<in> set ps. \<not> is_nan (cosine_similarity pl a b)" for ps
    using that assms(1) f32_not_lt by (fastforce simp: list_all_iff)
  with assms(2) show ?thesis
    unfolding window_passes_history check_frame_variance_def by auto
qed

theorem window_matches_batch_check_witness:
  "window_passes std_platform (fold window_push [axis 0, axis 0, axis (Suc 0)] (window_new 2)) 0x3F7C28F6 \<longleftrightarrow>
   check_frame_variance std_platform [axis 0, axis (Suc 0)] 0x3F7C28F6"
proof -
  have "\<not> is_nan 0x3F7C28F6" "\<not> is_nan 0" by (simp_all add: f32_eval)
  then show ?thesis
    using window_matches_batch_check[of "0x3F7C28F6" 2 "[axis 0, axis 0, axis (Suc 0)]" std_platform]
    by (simp add: take_last_def cosine_axis)
qed

subsection \<open>Device binding\<close>

lemma present_opt_str: "present f \<longleftrightarrow> opt_str f \<noteq> []"
  by (cases f) (auto simp: present_def)

lemma splitn3_canonical:
  assumes "CHR '':'' \<notin> set (opt_str (fp_vid e))" "CHR '':'' \<notin> set (opt_str (fp_pid e))"
  shows "splitn 3 (CHR '':'') (canonical e) =
    [opt_str (fp_vid e), opt_str (fp_pid e), opt_str (fp_serial e)]"
  using splitn3_joined[OF assms, of "opt_str (fp_serial e)"] by (simp add: canonical_def)

lemma canonical_match_iff:
  assumes "CHR '':'' \<notin> set (opt_str (fp_vid e))" "CHR '':'' \<notin> set (opt_str (fp_pid e))"
  shows "device_ids_match (canonical e) live g \<longleftrightarrow>
    \<not> is_unknown e \<and>
    eq_ignore_ascii_case (opt_str (fp_vid e)) (opt_str (fp_vid live)) \<and>
    eq_ignore_ascii_case (opt_str (fp_pid e)) (opt_str (fp_pid live)) \<and>
    (g = GUnit \<longrightarrow> has_serial e \<and> fp_serial e = fp_serial live)"
proof -
  have ser: "opt_str (fp_serial e) \<noteq> [] \<and> opt_str (fp_serial live) \<noteq> [] \<and>
      opt_str (fp_serial e) = opt_str (fp_serial live) \<longleftrightarrow>
      has_serial e \<and> fp_serial e = fp_serial live"
    by (cases "fp_serial e"; cases "fp_serial live") (auto simp: has_serial_def present_def)
  show ?thesis
    unfolding device_ids_match_def Let_def splitn3_canonical[OF assms]
    using ser by (cases g) (auto simp: piece_def is_unknown_def present_opt_str)
qed

lemma device_ids_match_known:
  "device_ids_match s live g \<Longrightarrow> \<not> is_unknown live"
  by (auto simp: device_ids_match_def Let_def is_unknown_def present_opt_str split: if_splits)

end
