(* ===== verification/CoreConfig.thy ===== *)
theory CoreConfig
  imports FaceTypes
begin

text \<open>
  \<^verbatim>\<open>facelock-core/src/config.rs\<close>: the configuration sections with their defaults,
  the validation that \<^verbatim>\<open>Config::parse\<close> runs, and the policy decisions that read the
  configuration (device binding at enrollment, hard binding, plaintext refusal,
  timeouts, snapshots, notifications). The TOML reader is a parameter. A validation
  message is represented by the check that failed and the value it quotes.
\<close>

subsection \<open>Sections\<close>

datatype notification_policy = PolicyOn | PolicyOff | PolicySystem

datatype daemon_mode = ModeDaemon | ModeOneshot

datatype notification_mode = NotifyOff | NotifyTerminal | NotifyDesktop | NotifyBoth

datatype snapshot_mode = SnapOff | SnapAll | SnapFailure | SnapSuccess

datatype encryption_method = EncNone | EncKeyfile | EncTpm

record device_config =
  dc_path :: "string option"
  dc_max_height :: u32
  dc_rotation :: "16 word"
  dc_warmup_frames :: u32
  dc_dark_threshold :: f32
  dc_dark_pixel_value :: u8
  dc_ir_emitter :: bool
  dc_ir_led :: "string option"
  dc_keep_format :: bool
  dc_camera_release_secs :: u32
  dc_camera_release_after_success_secs :: u32

record recognition_config =
  rc_threshold :: f32
  rc_timeout_secs :: u32
  rc_no_face_timeout_secs :: u32
  rc_detection_confidence :: f32
  rc_nms_threshold :: f32
  rc_detector_model :: string
  rc_detector_sha256 :: "string option"
  rc_embedder_model :: string
  rc_embedder_sha256 :: "string option"
  rc_execution_provider :: string
  rc_threads :: u32

record daemon_config =
  dm_model_dir :: string
  dm_idle_timeout_secs :: u64
  dm_mode :: daemon_mode

record rate_limit_config =
  rl_max_attempts :: u32
  rl_window_secs :: u64

record security_config =
  sc_disabled :: bool
  sc_abort_if_ssh :: bool
  sc_abort_if_lid_closed :: bool
  sc_suppress_unknown :: bool
  sc_require_ir :: bool
  sc_require_frame_variance :: bool
  sc_require_landmark_liveness :: bool
  sc_landmark_displacement_px :: f32
  sc_landmark_min_moving :: u32
  sc_min_auth_frames :: u32
  sc_ir_texture_min_stddev :: f32
  sc_frame_variance_max_similarity :: f32
  sc_bind_templates_to_device :: bool
  sc_device_match_granularity :: granularity
  sc_bind_legacy_templates :: bool
  sc_allow_plaintext :: bool
  sc_bind_device_aad :: bool
  sc_rate_limit :: rate_limit_config

record notification_config =
  nc_mode :: notification_mode
  nc_notify_prompt :: notification_policy
  nc_notify_on_success :: notification_policy
  nc_notify_on_failure :: notification_policy

record snapshot_config =
  sn_mode :: snapshot_mode
  sn_dir :: string

record tpm_config =
  tc_seal_database :: bool
  tc_pcr_binding :: bool
  tc_pcr_indices :: "u32 list"
  tc_tcti :: string

record encryption_config =
  ec_method :: encryption_method
  ec_key_path :: string
  ec_sealed_key_path :: string

record audit_config =
  ac_enabled :: bool
  ac_path :: string
  ac_rotate_size_mb :: u32

record config =
  cf_device :: device_config
  cf_recognition :: recognition_config
  cf_daemon :: daemon_config
  cf_db_path :: string
  cf_security :: security_config
  cf_notification :: notification_config
  cf_snapshots :: snapshot_config
  cf_tpm :: tpm_config
  cf_encryption :: encryption_config
  cf_audit :: audit_config
  cf_face_eligible_actions :: "string list"
  cf_pam_config_dirs :: "string list"

subsection \<open>Defaults\<close>

definition default_device_config :: device_config where
  "default_device_config =
     \<lparr>dc_path = None, dc_max_height = 480, dc_rotation = 0, dc_warmup_frames = 2,
      dc_dark_threshold = f32_lit 6 10, dc_dark_pixel_value = 10, dc_ir_emitter = False,
      dc_ir_led = None, dc_keep_format = False, dc_camera_release_secs = 3,
      dc_camera_release_after_success_secs = 0\<rparr>"

definition default_recognition_config :: recognition_config where
  "default_recognition_config =
     \<lparr>rc_threshold = f32_lit 80 100, rc_timeout_secs = 5, rc_no_face_timeout_secs = 2,
      rc_detection_confidence = f32_lit 5 10, rc_nms_threshold = f32_lit 4 10,
      rc_detector_model = ''scrfd_2.5g_bnkps.onnx'', rc_detector_sha256 = None,
      rc_embedder_model = ''w600k_r50.onnx'', rc_embedder_sha256 = None,
      rc_execution_provider = ''cpu'', rc_threads = 4\<rparr>"

definition default_daemon_config :: daemon_config where
  "default_daemon_config =
     \<lparr>dm_model_dir = ''/var/lib/facelock/models'', dm_idle_timeout_secs = 0, dm_mode = ModeDaemon\<rparr>"

definition default_rate_limit_config :: rate_limit_config where
  "default_rate_limit_config = \<lparr>rl_max_attempts = 5, rl_window_secs = 60\<rparr>"

definition default_security_config :: security_config where
  "default_security_config =
     \<lparr>sc_disabled = False, sc_abort_if_ssh = True, sc_abort_if_lid_closed = True,
      sc_suppress_unknown = False, sc_require_ir = True, sc_require_frame_variance = True,
      sc_require_landmark_liveness = False, sc_landmark_displacement_px = f32_lit 15 10,
      sc_landmark_min_moving = 3, sc_min_auth_frames = 3,
      sc_ir_texture_min_stddev = f32_lit 10 1,
      sc_frame_variance_max_similarity = DEFAULT_FRAME_VARIANCE_MAX_SIMILARITY,
      sc_bind_templates_to_device = True, sc_device_match_granularity = GModel,
      sc_bind_legacy_templates = True, sc_allow_plaintext = False,
      sc_bind_device_aad = False, sc_rate_limit = default_rate_limit_config\<rparr>"

definition policy_of_bool :: "bool \<Rightarrow> notification_policy" where
  "policy_of_bool b = (if b then PolicyOn else PolicyOff)"

definition default_notification_config :: notification_config where
  "default_notification_config =
     \<lparr>nc_mode = NotifyTerminal, nc_notify_prompt = policy_of_bool True,
      nc_notify_on_success = policy_of_bool True, nc_notify_on_failure = policy_of_bool False\<rparr>"

definition default_snapshot_config :: snapshot_config where
  "default_snapshot_config = \<lparr>sn_mode = SnapOff, sn_dir = ''/var/log/facelock/snapshots''\<rparr>"

definition default_tpm_config :: tpm_config where
  "default_tpm_config =
     \<lparr>tc_seal_database = False, tc_pcr_binding = False, tc_pcr_indices = [0, 1, 2, 3, 7],
      tc_tcti = ''device:/dev/tpmrm0''\<rparr>"

definition default_encryption_config :: encryption_config where
  "default_encryption_config =
     \<lparr>ec_method = EncKeyfile, ec_key_path = ''/etc/facelock/encryption.key'',
      ec_sealed_key_path = ''/etc/facelock/encryption.key.sealed''\<rparr>"

definition default_audit_config :: audit_config where
  "default_audit_config =
     \<lparr>ac_enabled = False, ac_path = ''/var/log/facelock/audit.jsonl'', ac_rotate_size_mb = 10\<rparr>"

definition default_face_eligible_actions :: "string list" where
  "default_face_eligible_actions = [''org.freedesktop.login1.lock-sessions'']"

definition default_pam_config_dirs :: "string list" where
  "default_pam_config_dirs = [''/etc/pam.d'', ''/usr/lib/pam.d'']"

definition default_config :: config where
  "default_config =
     \<lparr>cf_device = default_device_config, cf_recognition = default_recognition_config,
      cf_daemon = default_daemon_config, cf_db_path = ''/var/lib/facelock/facelock.db'',
      cf_security = default_security_config, cf_notification = default_notification_config,
      cf_snapshots = default_snapshot_config, cf_tpm = default_tpm_config,
      cf_encryption = default_encryption_config, cf_audit = default_audit_config,
      cf_face_eligible_actions = default_face_eligible_actions,
      cf_pam_config_dirs = default_pam_config_dirs\<rparr>"

subsection \<open>Policies\<close>

definition policy_enabled :: "notification_policy \<Rightarrow> bool \<Rightarrow> bool" where
  "policy_enabled p pam_silent =
     (case p of PolicyOn \<Rightarrow> True | PolicyOff \<Rightarrow> False | PolicySystem \<Rightarrow> \<not> pam_silent)"

text \<open>\<^verbatim>\<open>visit_str\<close> of the policy deserializer; \<open>None\<close> is the unknown-variant error.\<close>

definition policy_of_str :: "string \<Rightarrow> notification_policy option" where
  "policy_of_str v =
     (if v = ''on'' then Some PolicyOn else if v = ''off'' then Some PolicyOff
      else if v = ''system'' then Some PolicySystem else None)"

definition notify_terminal :: "notification_config \<Rightarrow> bool" where
  "notify_terminal n = (nc_mode n \<in> {NotifyTerminal, NotifyBoth})"

definition notify_desktop :: "notification_config \<Rightarrow> bool" where
  "notify_desktop n = (nc_mode n \<in> {NotifyDesktop, NotifyBoth})"

definition should_save :: "snapshot_config \<Rightarrow> bool \<Rightarrow> bool" where
  "should_save s success =
     (case sn_mode s of SnapOff \<Rightarrow> False | SnapAll \<Rightarrow> True
      | SnapSuccess \<Rightarrow> success | SnapFailure \<Rightarrow> \<not> success)"

definition is_face_eligible :: "config \<Rightarrow> string \<Rightarrow> bool" where
  "is_face_eligible cfg action = list_ex (\<lambda>a. a = action) (cf_face_eligible_actions cfg)"

text \<open>Seconds; \<^verbatim>\<open>None\<close> switches the early exit off.\<close>

definition effective_no_face_timeout :: "recognition_config \<Rightarrow> nat option" where
  "effective_no_face_timeout r =
     (if 0 < rc_no_face_timeout_secs r
      then Some (unat (min (rc_no_face_timeout_secs r) (rc_timeout_secs r))) else None)"

definition led_class_name :: "string \<Rightarrow> string option" where
  "led_class_name spec =
     (let p = ''/sys/class/leds/'' in
      if \<not> starts_with spec p then None
      else let name = drop (length p) spec in
        if name \<noteq> [] \<and> CHR ''/'' \<notin> set name \<and> name \<noteq> ''.'' \<and> name \<noteq> ''..''
        then Some name else None)"

definition device_binding_policy_of :: "security_config \<Rightarrow> device_binding_policy" where
  "device_binding_policy_of s =
     \<lparr>bp_enabled = sc_bind_templates_to_device s,
      bp_granularity = sc_device_match_granularity s,
      bp_allow_legacy = sc_bind_legacy_templates s\<rparr>"

datatype enrollment_binding_error =
    UnitNeedsSerial string
  | UnitNeedsIdentity string
  | LegacyBarredNeedsIdentity string
  | HardBindingNeedsDeviceId

definition ensure_coupling_allowed ::
  "security_config \<Rightarrow> device_fingerprint \<Rightarrow> (unit, enrollment_binding_error) result" where
  "ensure_coupling_allowed s fp =
     (if sc_device_match_granularity s = GUnit \<and> \<not> has_serial fp
      then Err (UnitNeedsSerial (canonical fp))
      else if sc_device_match_granularity s = GUnit \<and> canonical_for_storage fp = None
      then Err (UnitNeedsIdentity (canonical fp))
      else if sc_bind_templates_to_device s \<and> \<not> sc_bind_legacy_templates s \<and>
              canonical_for_storage fp = None
      then Err (LegacyBarredNeedsIdentity (canonical fp))
      else Ok ())"

definition device_aad :: "security_config \<Rightarrow> string option \<Rightarrow> string option" where
  "device_aad s dev = (if sc_bind_device_aad s then device_binding_aad dev else None)"

definition plaintext_refusal :: string where
  "plaintext_refusal =
     ''refusing to enroll: encryption.method = \"none\" would store your face '' @
     ''template as plaintext biometric data. Enable encryption (the default '' @
     ''\"keyfile\"/\"tpm\"), or, to intentionally store plaintext, set '' @
     ''security.allow_plaintext = true.''"

definition ensure_enroll_encryption_allowed :: "config \<Rightarrow> (unit, string) result" where
  "ensure_enroll_encryption_allowed cfg =
     (if ec_method (cf_encryption cfg) = EncNone \<and> \<not> sc_allow_plaintext (cf_security cfg)
      then Err plaintext_refusal else Ok ())"

definition hard_binding_active :: "config \<Rightarrow> bool" where
  "hard_binding_active cfg =
     (sc_bind_device_aad (cf_security cfg) \<and> ec_method (cf_encryption cfg) \<noteq> EncNone)"

definition require_device_aad ::
  "config \<Rightarrow> string option \<Rightarrow> (string option, enrollment_binding_error) result" where
  "require_device_aad cfg dev =
     (if \<not> hard_binding_active cfg then Ok None
      else case device_binding_aad dev of
          Some aad \<Rightarrow> Ok (Some aad)
        | None \<Rightarrow> Err HardBindingNeedsDeviceId)"

definition ensure_enrollment_binding_allowed ::
  "config \<Rightarrow> device_fingerprint \<Rightarrow> (unit, enrollment_binding_error) result" where
  "ensure_enrollment_binding_allowed cfg fp =
     and_then (ensure_coupling_allowed (cf_security cfg) fp)
       (\<lambda>_. and_then (require_device_aad cfg (canonical_for_storage fp)) (\<lambda>_. Ok ()))"

definition classify_device_binding :: "config \<Rightarrow> string option \<Rightarrow> device_binding" where
  "classify_device_binding cfg dev =
     (if hard_binding_active cfg \<and> device_binding_aad dev = None then LegacyUnbound else Bound)"

definition enroll_timeout_secs :: "config \<Rightarrow> nat" where
  "enroll_timeout_secs cfg = max (unat (rc_timeout_secs (cf_recognition cfg))) 5 * 3"

subsection \<open>Validation and parsing\<close>

datatype config_violation =
    BadDevicePath | BadIrLed string | BadDarkThreshold f32 | BadThreshold f32
  | BadRotation "16 word" | BadTimeout | BadFrameVariance f32 | BadIrTexture f32
  | BadDetectorSha string | BadEmbedderSha string

datatype config_error = ConfigNotFound string | ConfigParse string | ConfigValidation config_violation

definition is_sha256_hex :: "string \<Rightarrow> bool" where
  "is_sha256_hex v = (length v = 64 \<and> list_all is_hexdigit v)"

definition opt_violates :: "'a option \<Rightarrow> ('a \<Rightarrow> bool) \<Rightarrow> bool" where
  "opt_violates x ok = (case x of None \<Rightarrow> False | Some v \<Rightarrow> \<not> ok v)"

definition in_unit :: "f32 \<Rightarrow> bool" where
  "in_unit x = (f32_le 0 x \<and> f32_le x 0x3F800000)"

definition validate :: "config \<Rightarrow> (unit, config_error) result" where
  "validate cfg =
     (let d = cf_device cfg; r = cf_recognition cfg; s = cf_security cfg;
          bad = (\<lambda>v. Err (ConfigValidation v)) in
      if opt_violates (dc_path d) (\<lambda>p. p \<noteq> []) then bad BadDevicePath
      else if opt_violates (dc_ir_led d) (\<lambda>l. led_class_name l \<noteq> None)
      then bad (BadIrLed (opt_str (dc_ir_led d)))
      else if \<not> in_unit (dc_dark_threshold d) then bad (BadDarkThreshold (dc_dark_threshold d))
      else if \<not> in_unit (rc_threshold r) then bad (BadThreshold (rc_threshold r))
      else if dc_rotation d \<notin> {0, 90, 180, 270} then bad (BadRotation (dc_rotation d))
      else if rc_timeout_secs r = 0 then bad BadTimeout
      else if \<not> in_unit (sc_frame_variance_max_similarity s)
      then bad (BadFrameVariance (sc_frame_variance_max_similarity s))
      else if f32_lt (sc_ir_texture_min_stddev s) 0
      then bad (BadIrTexture (sc_ir_texture_min_stddev s))
      else if opt_violates (rc_detector_sha256 r) is_sha256_hex
      then bad (BadDetectorSha (opt_str (rc_detector_sha256 r)))
      else if opt_violates (rc_embedder_sha256 r) is_sha256_hex
      then bad (BadEmbedderSha (opt_str (rc_embedder_sha256 r)))
      else Ok ())"

text \<open>\<open>from_str\<close> is the TOML reader; the file's content or the I/O error kind is an argument.\<close>

definition config_parse ::
  "(string \<Rightarrow> (config, string) result) \<Rightarrow> string \<Rightarrow> (config, config_error) result" where
  "config_parse from_str s =
     and_then (map_err ConfigParse (from_str s))
       (\<lambda>cfg. and_then (validate cfg) (\<lambda>_. Ok cfg))"

datatype read_failure = ReadNotFound | ReadOther string

definition config_load_from ::
  "(string \<Rightarrow> (config, string) result) \<Rightarrow> string \<Rightarrow> (string, read_failure) result \<Rightarrow>
   (config, config_error) result" where
  "config_load_from from_str path content =
     (case content of
        Err ReadNotFound \<Rightarrow> Err (ConfigNotFound path)
      | Err (ReadOther e) \<Rightarrow> Err (ConfigParse (''failed to read '' @ path @ '': '' @ e))
      | Ok s \<Rightarrow> config_parse from_str s)"

text \<open>\<^verbatim>\<open>paths.rs\<close>: which configuration file a process reads.\<close>

definition resolve_config_path :: "string option \<Rightarrow> string option \<Rightarrow> bool \<Rightarrow> string" where
  "resolve_config_path process_override env_override privileged =
     (case process_override of
        Some p \<Rightarrow> p
      | None \<Rightarrow> (case env_override of
            Some p \<Rightarrow> if \<not> privileged then p else ''/etc/facelock/config.toml''
          | None \<Rightarrow> ''/etc/facelock/config.toml''))"

definition is_privileged_effective_uid :: "u32 option \<Rightarrow> bool" where
  "is_privileged_effective_uid euid = (case euid of None \<Rightarrow> True | Some e \<Rightarrow> e = 0)"

subsection \<open>What validation guarantees\<close>

definition config_ok :: "config \<Rightarrow> bool" where
  "config_ok cfg \<longleftrightarrow>
     dc_path (cf_device cfg) \<noteq> Some [] \<and>
     (\<forall>l. dc_ir_led (cf_device cfg) = Some l \<longrightarrow> led_class_name l \<noteq> None) \<and>
     in_unit (dc_dark_threshold (cf_device cfg)) \<and>
     in_unit (rc_threshold (cf_recognition cfg)) \<and>
     dc_rotation (cf_device cfg) \<in> {0, 90, 180, 270} \<and>
     0 < rc_timeout_secs (cf_recognition cfg) \<and>
     in_unit (sc_frame_variance_max_similarity (cf_security cfg)) \<and>
     \<not> f32_lt (sc_ir_texture_min_stddev (cf_security cfg)) 0 \<and>
     (\<forall>h. rc_detector_sha256 (cf_recognition cfg) = Some h \<longrightarrow> is_sha256_hex h) \<and>
     (\<forall>h. rc_embedder_sha256 (cf_recognition cfg) = Some h \<longrightarrow> is_sha256_hex h)"

lemma opt_violates_iff: "opt_violates x ok \<longleftrightarrow> (\<exists>v. x = Some v \<and> \<not> ok v)"
  by (cases x) (simp_all add: opt_violates_def)

lemma validate_iff: "validate cfg = Ok () \<longleftrightarrow> config_ok cfg"
  by (auto simp: validate_def config_ok_def Let_def opt_violates_iff word_neq_0_conv)

lemma default_config_valid: "validate default_config = Ok ()"
  by (simp add: validate_def Let_def default_config_def default_device_config_def
      default_recognition_config_def default_security_config_def opt_violates_def in_unit_def
      f32_lit_def DEFAULT_FRAME_VARIANCE_MAX_SIMILARITY_def f32_eval)

text \<open>\<^verbatim>\<open>Config::parse\<close> returns a configuration exactly when the TOML reader does and
  every range check of \<^verbatim>\<open>validate\<close> holds, and it returns that configuration unchanged:
  in particular thresholds are real numbers in [0, 1] (never NaN) and the timeout is positive.\<close>

theorem parse_returns_valid:
  "config_parse from_str s = Ok cfg \<longleftrightarrow> from_str s = Ok cfg \<and> config_ok cfg"
  by (auto simp: config_parse_def validate_iff)

lemma device_binding_aad_storage:
  "canonical_for_storage fp = Some d \<Longrightarrow> d \<noteq> []"
  by (auto simp: canonical_for_storage_def canonical_def split: if_splits)

text \<open>A template that enrollment accepts can be compared on its own camera. If the
  enrollment policy admits a camera whose USB ids contain no separator, then the id stored
  with the template passes the device-binding check of the authentication path for that
  same camera under the same policy.\<close>

theorem enrolled_template_usable:
  assumes "ensure_enrollment_binding_allowed cfg fp = Ok ()"
    and "CHR '':'' \<notin> set (opt_str (fp_vid fp))" and "CHR '':'' \<notin> set (opt_str (fp_pid fp))"
  shows "device_binding_allows (canonical_for_storage fp) fp
           (device_binding_policy_of (cf_security cfg))"
proof (cases "canonical_for_storage fp")
  case None
  then show ?thesis using assms(1)
    by (auto simp: ensure_enrollment_binding_allowed_def ensure_coupling_allowed_def
        device_binding_allows_def device_binding_policy_of_def split: if_splits)
next
  case (Some d)
  then have d: "d = canonical fp" "\<not> is_unknown fp"
    by (auto simp: canonical_for_storage_def split: if_splits)
  have "sc_device_match_granularity (cf_security cfg) = GUnit \<longrightarrow> has_serial fp"
    using assms(1)
    by (auto simp: ensure_enrollment_binding_allowed_def ensure_coupling_allowed_def split: if_splits)
  then have "device_ids_match d fp (sc_device_match_granularity (cf_security cfg))"
    using d canonical_match_iff[OF assms(2,3)] by auto
  then show ?thesis
    using Some device_binding_aad_storage[OF Some]
    by (simp add: device_binding_allows_def device_binding_policy_of_def)
qed

theorem enrolled_template_usable_witness:
  "device_binding_allows (canonical_for_storage (default_fingerprint\<lparr>fp_vid := Some ''046d'', fp_pid := Some ''085e''\<rparr>))
     (default_fingerprint\<lparr>fp_vid := Some ''046d'', fp_pid := Some ''085e''\<rparr>)
     (device_binding_policy_of (cf_security default_config))"
  by (rule enrolled_template_usable)
    (simp_all add: ensure_enrollment_binding_allowed_def ensure_coupling_allowed_def default_fingerprint_def
      default_config_def default_security_config_def is_unknown_def present_def require_device_aad_def
      hard_binding_active_def)

end
