(* ===== verification/AuditLog.thy ===== *)
theory AuditLog
  imports CoreConfig
begin

text \<open>
  \<^verbatim>\<open>facelock-daemon/src/audit.rs\<close>: audit entries, the append with size-based rotation, and
  the calendar computation of its timestamps. The log is a byte string per file; whether
  each file-system call succeeds is an argument, and so is the JSON serializer.
\<close>

datatype audit_source = SrcDaemon | SrcOneshot | SrcTest

record audit_entry =
  ae_timestamp :: string
  ae_user :: string
  ae_result :: string
  ae_source :: "audit_source option"
  ae_similarity :: "f32 option"
  ae_frame_count :: "u32 option"
  ae_duration_ms :: "u64 option"
  ae_device :: "string option"
  ae_model_label :: "string option"
  ae_error :: "string option"

record audit_fs =
  af_log :: "string option"
  af_rotated :: "string option"

text \<open>The outcome of each call; \<open>io_write\<close> is \<open>Some k\<close> when the write fails after \<open>k\<close> bytes.\<close>

record audit_io =
  io_parent_ok :: bool
  io_stat_ok :: bool
  io_rename_ok :: bool
  io_json :: "audit_entry \<Rightarrow> string option"
  io_open_ok :: bool
  io_write :: "nat option"

definition rotate_log :: "audit_io \<Rightarrow> audit_fs \<Rightarrow> audit_fs" where
  "rotate_log io fs =
     (if io_rename_ok io \<and> af_log fs \<noteq> None then fs\<lparr>af_rotated := af_log fs, af_log := None\<rparr> else fs)"

definition write_audit_entry :: "audit_config \<Rightarrow> audit_io \<Rightarrow> audit_entry \<Rightarrow> audit_fs \<Rightarrow> audit_fs" where
  "write_audit_entry cfg io entry fs =
     (if \<not> ac_enabled cfg then fs
      else if \<not> io_parent_ok io then fs
      else let max_bytes = unat (ac_rotate_size_mb cfg) * 1024 * 1024;
               fs1 = (case af_log fs of
                   Some s \<Rightarrow> if io_stat_ok io \<and> max_bytes \<le> length s then rotate_log io fs else fs
                 | None \<Rightarrow> fs)
        in case io_json io entry of
             None \<Rightarrow> fs1
           | Some line \<Rightarrow>
               if \<not> io_open_ok io then fs1
               else let old = (case af_log fs1 of Some s \<Rightarrow> s | None \<Rightarrow> []);
                        out = line @ [CHR 0x0A];
                        got = (case io_write io of None \<Rightarrow> out | Some k \<Rightarrow> take k out)
                 in fs1\<lparr>af_log := Some (old @ got)\<rparr>)"

subsection \<open>Timestamps\<close>

definition days_to_ymd :: "nat \<Rightarrow> nat \<times> nat \<times> nat" where
  "days_to_ymd days =
     (let z = days + 719468;
          era = z div 146097;
          doe = z - era * 146097;
          yoe = (doe - doe div 1460 + doe div 36524 - doe div 146096) div 365;
          y = yoe + era * 400;
          doy = doe - (365 * yoe + yoe div 4 - yoe div 100);
          mp = (5 * doy + 2) div 153;
          d = doy - (153 * mp + 2) div 5 + 1;
          m = (if mp < 10 then mp + 3 else mp - 9);
          y = (if m \<le> 2 then y + 1 else y)
      in (y, m, d))"

definition pad0 :: "nat \<Rightarrow> nat \<Rightarrow> string" where
  "pad0 width n = replicate (width - length (dec_str n)) (CHR ''0'') @ dec_str n"

definition now_iso8601 :: "u64 option \<Rightarrow> string" where
  "now_iso8601 clock =
     (let secs = (case clock of Some t \<Rightarrow> unat t | None \<Rightarrow> 0);
          days = secs div 86400; time_of_day = secs mod 86400;
          hours = time_of_day div 3600; minutes = (time_of_day mod 3600) div 60;
          seconds = time_of_day mod 60;
          (y, m, d) = days_to_ymd days
      in pad0 4 y @ ''-'' @ pad0 2 m @ ''-'' @ pad0 2 d @ ''T'' @
         pad0 2 hours @ '':'' @ pad0 2 minutes @ '':'' @ pad0 2 seconds @ ''Z'')"

subsection \<open>The log\<close>

definition all_ok :: "(audit_entry \<Rightarrow> string option) \<Rightarrow> audit_io" where
  "all_ok json = \<lparr>io_parent_ok = True, io_stat_ok = True, io_rename_ok = True, io_json = json,
                  io_open_ok = True, io_write = None\<rparr>"

text \<open>A working audit log loses nothing and stays bounded. With auditing enabled and the file
  calls succeeding, the new line is appended in full; the previous contents are either still in
  front of it, or have been moved to the rotated file because they had reached the configured
  size; and the contents in front of the new line are always below that size.\<close>

theorem audit_write_complete:
  assumes "ac_enabled cfg" and "json e = Some line"
  shows "\<exists>old. af_log (write_audit_entry cfg (all_ok json) e fs) = Some (old @ line @ [CHR 0x0A]) \<and>
    (old = opt_str (af_log fs) \<and> af_rotated (write_audit_entry cfg (all_ok json) e fs) = af_rotated fs \<or>
     old = [] \<and> af_rotated (write_audit_entry cfg (all_ok json) e fs) = af_log fs \<and>
       unat (ac_rotate_size_mb cfg) * 1024 * 1024 \<le> length (opt_str (af_log fs))) \<and>
    (old \<noteq> [] \<longrightarrow> length old < unat (ac_rotate_size_mb cfg) * 1024 * 1024)"
  using assms
  by (cases "af_log fs")
    (auto simp: write_audit_entry_def all_ok_def rotate_log_def Let_def not_le)

definition sample_entry :: audit_entry where
  "sample_entry = \<lparr>ae_timestamp = ''t'', ae_user = ''alice'', ae_result = ''success'',
     ae_source = Some SrcDaemon, ae_similarity = None, ae_frame_count = None, ae_duration_ms = None,
     ae_device = None, ae_model_label = None, ae_error = None\<rparr>"

theorem audit_write_complete_witness:
  "\<exists>old. af_log (write_audit_entry (default_audit_config\<lparr>ac_enabled := True\<rparr>)
      (all_ok (\<lambda>e. Some (ae_user e))) sample_entry \<lparr>af_log = None, af_rotated = None\<rparr>) =
      Some (old @ ''alice'' @ [CHR 0x0A])"
  using audit_write_complete[of "default_audit_config\<lparr>ac_enabled := True\<rparr>" "\<lambda>e. Some (ae_user e)"
      sample_entry "''alice''" "\<lparr>af_log = None, af_rotated = None\<rparr>"]
  by (auto simp: sample_entry_def)

end
