(* ===== verification/Store.thy ===== *)
theory Store
  imports FaceTypes "HOL-Library.List_Lexorder" "HOL-Library.Char_ord" "HOL-Library.Option_ord"
begin

text \<open>
  \<^verbatim>\<open>facelock-store/src/db.rs\<close> and \<^verbatim>\<open>error.rs\<close>: the template store. The database is
  its three tables as lists of rows in rowid order, with the AUTOINCREMENT counters;
  every SQL statement of the source is an operation on them, including the schema's
  \<^verbatim>\<open>UNIQUE(user, label)\<close>, the foreign key and its \<^verbatim>\<open>ON DELETE CASCADE\<close>. SQLite itself
  may fail any statement: a fault schedule, indexed by the statements an operation
  executes, is an argument of every operation. A failed statement or transaction leaves
  the database as it was. Clock readings are arguments as well.
\<close>

subsection \<open>Errors\<close>

datatype sqlite_code =
    NotADatabase | DatabaseCorrupt | DatabaseBusy | DatabaseLocked
  | CannotOpen | PermissionDenied | ReadOnly | OtherCode

text \<open>A \<^verbatim>\<open>rusqlite::Error\<close>; the last string of a failure is its \<^verbatim>\<open>to_string()\<close> rendering.\<close>

datatype sql_error =
    SqliteFailure sqlite_code int "string option" string
  | QueryReturnedNoRows
  | OtherSqlError string

fun sql_error_display :: "sql_error \<Rightarrow> string" where
  "sql_error_display (SqliteFailure _ _ _ s) = s"
| "sql_error_display QueryReturnedNoRows = ''Query returned no rows''"
| "sql_error_display (OtherSqlError s) = s"

datatype store_error =
    Absent string
  | Denied string string
  | Busy string string
  | Corrupt string string
  | Migration string string
  | Query string string

fun store_error_display :: "store_error \<Rightarrow> string" where
  "store_error_display (Absent p) = ''no database at '' @ p"
| "store_error_display (Denied p d) = ''cannot access database '' @ p @ '': '' @ d"
| "store_error_display (Busy p d) = ''database '' @ p @ '' is locked by another process: '' @ d"
| "store_error_display (Corrupt p d) = ''database '' @ p @ '' is corrupt or not a database: '' @ d"
| "store_error_display (Migration p d) = ''database '' @ p @ '' schema migration failed: '' @ d"
| "store_error_display (Query p d) = ''database '' @ p @ '': '' @ d"

definition int_str :: "int \<Rightarrow> string" where
  "int_str i = (if i < 0 then ''-'' @ dec_str (nat (- i)) else dec_str (nat i))"

definition classify_detail :: "sql_error \<Rightarrow> string" where
  "classify_detail e =
     (case e of
        SqliteFailure _ ext (Some msg) _ \<Rightarrow> msg @ '' (sqlite code '' @ int_str ext @ '')''
      | _ \<Rightarrow> sql_error_display e)"

definition classify :: "string \<Rightarrow> sql_error \<Rightarrow> store_error" where
  "classify path e =
     (let detail = classify_detail e in
      case e of
        SqliteFailure code _ _ _ \<Rightarrow>
          (if code \<in> {NotADatabase, DatabaseCorrupt} then Corrupt path detail
           else if code \<in> {DatabaseBusy, DatabaseLocked} then Busy path detail
           else if code \<in> {CannotOpen, PermissionDenied, ReadOnly} then Denied path detail
           else Query path detail)
      | _ \<Rightarrow> Query path detail)"

subsection \<open>Tables\<close>

record model_row =
  m_id :: nat
  m_user :: string
  m_label :: string
  m_created_at :: u64
  m_embedder_model :: string
  m_device_id :: "string option"
  m_key_id :: "string option"

record emb_row =
  e_id :: nat
  e_model_id :: nat
  e_blob :: bytes
  e_sealed :: bool

record db =
  db_path :: string
  db_models :: "model_row list"
  db_embs :: "emb_row list"
  db_rate :: "(string \<times> u64) list"
  db_model_seq :: nat
  db_emb_seq :: nat

record raw_row =
  rw_model_id :: u32
  rw_blob :: bytes
  rw_sealed :: bool
  rw_device_id :: "string option"
  rw_key_id :: "string option"

definition MIN_EMBEDDINGS_PER_MODEL :: nat where
  "MIN_EMBEDDINGS_PER_MODEL = 3"

definition open_memory :: "string \<Rightarrow> db" where
  "open_memory path = \<lparr>db_path = path, db_models = [], db_embs = [], db_rate = [],
                       db_model_seq = 0, db_emb_seq = 0\<rparr>"

subsection \<open>Statements\<close>

type_synonym faults = "nat \<Rightarrow> sql_error option"
type_synonym 'a step = "db \<Rightarrow> ('a \<times> db, store_error) result"

text \<open>One executed statement: it fails as scheduled, or has its SQL effect.\<close>

definition exec :: "sql_error option \<Rightarrow> (db \<Rightarrow> ('a \<times> db, sql_error) result) \<Rightarrow> 'a step" where
  "exec fault stmt d =
     (case fault of
        Some e \<Rightarrow> Err (classify (db_path d) e)
      | None \<Rightarrow> map_err (classify (db_path d)) (stmt d))"

text \<open>The end of an operation: an error rolls back (statement or transaction).\<close>

definition finish :: "db \<Rightarrow> ('a \<times> db, store_error) result \<Rightarrow> ('a, store_error) result \<times> db" where
  "finish d r = (case r of Ok (a, d') \<Rightarrow> (Ok a, d') | Err e \<Rightarrow> (Err e, d))"

definition unique_violation :: sql_error where
  "unique_violation =
     SqliteFailure OtherCode 2067 (Some ''UNIQUE constraint failed: face_models.user, face_models.label'')
       ''UNIQUE constraint failed: face_models.user, face_models.label''"

definition fk_violation :: sql_error where
  "fk_violation =
     SqliteFailure OtherCode 787 (Some ''FOREIGN KEY constraint failed'') ''FOREIGN KEY constraint failed''"

definition out_of_range :: "nat \<Rightarrow> sql_error" where
  "out_of_range n = OtherSqlError (''Integer '' @ dec_str n @ '' out of range'')"

text \<open>\<^verbatim>\<open>row.get::<_, u32>\<close> of an integer column.\<close>

definition get_u32 :: "nat \<Rightarrow> (u32, sql_error) result" where
  "get_u32 n = (if n < 2 ^ 32 then Ok (of_nat n) else Err (out_of_range n))"

definition sql_insert_model ::
  "string \<Rightarrow> string \<Rightarrow> u64 \<Rightarrow> string \<Rightarrow> string option \<Rightarrow> string option \<Rightarrow> db \<Rightarrow> (nat \<times> db, sql_error) result" where
  "sql_insert_model user label created em dev key d =
     (if list_ex (\<lambda>m. m_user m = user \<and> m_label m = label) (db_models d) then Err unique_violation
      else let i = Suc (db_model_seq d);
               row = \<lparr>m_id = i, m_user = user, m_label = label, m_created_at = created,
                      m_embedder_model = em, m_device_id = dev, m_key_id = key\<rparr>
        in Ok (i, d\<lparr>db_models := db_models d @ [row], db_model_seq := i\<rparr>))"

definition sql_insert_emb :: "u32 \<Rightarrow> bytes \<Rightarrow> bool \<Rightarrow> db \<Rightarrow> (unit \<times> db, sql_error) result" where
  "sql_insert_emb mid blob sealed d =
     (if \<not> list_ex (\<lambda>m. m_id m = unat mid) (db_models d) then Err fk_violation
      else let i = Suc (db_emb_seq d);
               row = \<lparr>e_id = i, e_model_id = unat mid, e_blob = blob, e_sealed = sealed\<rparr>
        in Ok ((), d\<lparr>db_embs := db_embs d @ [row], db_emb_seq := i\<rparr>))"

text \<open>\<^verbatim>\<open>DELETE FROM face_models WHERE ...\<close> with the cascade; the number of rows deleted.\<close>

definition sql_delete_models :: "(model_row \<Rightarrow> bool) \<Rightarrow> db \<Rightarrow> (nat \<times> db, sql_error) result" where
  "sql_delete_models P d =
     (let gone = set (map m_id (filter P (db_models d))) in
      Ok (length (filter P (db_models d)),
          d\<lparr>db_models := filter (\<lambda>m. \<not> P m) (db_models d),
             db_embs := filter (\<lambda>e. e_model_id e \<notin> gone) (db_embs d)\<rparr>))"

text \<open>A query: it reads, and every row must convert.\<close>

fun collect :: "('r \<Rightarrow> ('a, sql_error) result) \<Rightarrow> 'r list \<Rightarrow> ('a list, sql_error) result" where
  "collect f [] = Ok []"
| "collect f (r # rs) =
     (case f r of Err e \<Rightarrow> Err e
      | Ok a \<Rightarrow> (case collect f rs of Err e \<Rightarrow> Err e | Ok bs \<Rightarrow> Ok (a # bs)))"

definition query :: "sql_error option \<Rightarrow> (db \<Rightarrow> ('a, sql_error) result) \<Rightarrow> db \<Rightarrow> ('a, store_error) result" where
  "query fault q d =
     (case fault of
        Some e \<Rightarrow> Err (classify (db_path d) e)
      | None \<Rightarrow> map_err (classify (db_path d)) (q d))"

definition user_join :: "string \<Rightarrow> db \<Rightarrow> (model_row \<times> emb_row) list" where
  "user_join user d =
     concat (map (\<lambda>m. map (Pair m) (filter (\<lambda>e. e_model_id e = m_id m) (db_embs d)))
       (filter (\<lambda>m. m_user m = user) (db_models d)))"

subsection \<open>Embedding bytes\<close>

text \<open>\<^verbatim>\<open>bytemuck::cast_slice\<close> between \<^verbatim>\<open>f32\<close> and bytes on a little-endian target.\<close>

definition f32_to_bytes :: "f32 \<Rightarrow> bytes" where
  "f32_to_bytes x = map (\<lambda>k. ucast (drop_bit (8 * k) x)) [0..<4]"

definition embedding_bytes :: "face_embedding \<Rightarrow> bytes" where
  "embedding_bytes e = concat (map f32_to_bytes e)"

fun bytes_f32s :: "bytes \<Rightarrow> f32 list" where
  "bytes_f32s (a # b # c # d # rest) =
     (ucast a OR push_bit 8 (ucast b) OR push_bit 16 (ucast c) OR push_bit 24 (ucast d)) # bytes_f32s rest"
| "bytes_f32s _ = []"

subsection \<open>Model operations\<close>

definition insert_model_row ::
  "sql_error option \<Rightarrow> u64 option \<Rightarrow> string \<Rightarrow> string \<Rightarrow> string \<Rightarrow> string option \<Rightarrow> string option \<Rightarrow> u32 step" where
  "insert_model_row fault clock user label em dev key d =
     (let created_at = (case clock of Some t \<Rightarrow> t | None \<Rightarrow> 0) in
      case exec fault (sql_insert_model user label created_at em dev key) d of
        Err e \<Rightarrow> Err e
      | Ok (rowid, d') \<Rightarrow> Ok (of_nat rowid, d'))"

text \<open>Statements: BEGIN, the model row, the embedding row, COMMIT.\<close>

definition add_model_raw_with_device ::
  "faults \<Rightarrow> u64 option \<Rightarrow> string \<Rightarrow> string \<Rightarrow> bytes \<Rightarrow> bool \<Rightarrow> string \<Rightarrow> string option \<Rightarrow> db \<Rightarrow>
   (u32, store_error) result \<times> db" where
  "add_model_raw_with_device f clock user label data sealed em dev d =
     finish d
       (and_then (exec (f 0) (\<lambda>d. Ok ((), d)) d) (\<lambda>(_, d0).
        and_then (insert_model_row (f 1) clock user label em dev None d0) (\<lambda>(mid, d1).
        and_then (exec (f 2) (sql_insert_emb mid data sealed) d1) (\<lambda>(_, d2).
        and_then (exec (f 3) (\<lambda>d. Ok ((), d)) d2) (\<lambda>(_, d3). Ok (mid, d3))))))"

definition add_model_raw ::
  "faults \<Rightarrow> u64 option \<Rightarrow> string \<Rightarrow> string \<Rightarrow> bytes \<Rightarrow> bool \<Rightarrow> string \<Rightarrow> db \<Rightarrow>
   (u32, store_error) result \<times> db" where
  "add_model_raw f clock user label data sealed em d =
     add_model_raw_with_device f clock user label data sealed em None d"

definition add_model_with_device ::
  "faults \<Rightarrow> u64 option \<Rightarrow> string \<Rightarrow> string \<Rightarrow> face_embedding \<Rightarrow> string \<Rightarrow> string option \<Rightarrow> db \<Rightarrow>
   (u32, store_error) result \<times> db" where
  "add_model_with_device f clock user label emb em dev d =
     finish d
       (and_then (exec (f 0) (\<lambda>d. Ok ((), d)) d) (\<lambda>(_, d0).
        and_then (insert_model_row (f 1) clock user label em dev None d0) (\<lambda>(mid, d1).
        and_then (exec (f 2) (sql_insert_emb mid (embedding_bytes emb) False) d1) (\<lambda>(_, d2).
        and_then (exec (f 3) (\<lambda>d. Ok ((), d)) d2) (\<lambda>(_, d3). Ok (mid, d3))))))"

definition add_model ::
  "faults \<Rightarrow> u64 option \<Rightarrow> string \<Rightarrow> string \<Rightarrow> face_embedding \<Rightarrow> string \<Rightarrow> db \<Rightarrow>
   (u32, store_error) result \<times> db" where
  "add_model f clock user label emb em d = add_model_with_device f clock user label emb em None d"

definition add_embedding_raw ::
  "sql_error option \<Rightarrow> u32 \<Rightarrow> bytes \<Rightarrow> bool \<Rightarrow> db \<Rightarrow> (unit, store_error) result \<times> db" where
  "add_embedding_raw fault mid data sealed d = finish d (exec fault (sql_insert_emb mid data sealed) d)"

definition add_embedding ::
  "sql_error option \<Rightarrow> u32 \<Rightarrow> face_embedding \<Rightarrow> db \<Rightarrow> (unit, store_error) result \<times> db" where
  "add_embedding fault mid emb d = finish d (exec fault (sql_insert_emb mid (embedding_bytes emb) False) d)"

definition delete_op :: "sql_error option \<Rightarrow> (model_row \<Rightarrow> bool) \<Rightarrow> db \<Rightarrow> (nat, store_error) result \<times> db" where
  "delete_op fault P d = finish d (exec fault (sql_delete_models P) d)"

definition result_map :: "('a \<Rightarrow> 'b) \<Rightarrow> ('a, 'e) result \<times> 's \<Rightarrow> ('b, 'e) result \<times> 's" where
  "result_map f = (\<lambda>(r, s). (and_then r (\<lambda>a. Ok (f a)), s))"

definition remove_model_by_label ::
  "sql_error option \<Rightarrow> string \<Rightarrow> string \<Rightarrow> db \<Rightarrow> (bool, store_error) result \<times> db" where
  "remove_model_by_label fault user label d =
     result_map (\<lambda>n. 0 < n) (delete_op fault (\<lambda>m. m_user m = user \<and> m_label m = label) d)"

definition remove_model ::
  "sql_error option \<Rightarrow> string \<Rightarrow> u32 \<Rightarrow> db \<Rightarrow> (bool, store_error) result \<times> db" where
  "remove_model fault user mid d =
     result_map (\<lambda>n. 0 < n) (delete_op fault (\<lambda>m. m_id m = unat mid \<and> m_user m = user) d)"

definition clear_user :: "sql_error option \<Rightarrow> string \<Rightarrow> db \<Rightarrow> (u32, store_error) result \<times> db" where
  "clear_user fault user d = result_map of_nat (delete_op fault (\<lambda>m. m_user m = user) d)"

definition clear_all :: "sql_error option \<Rightarrow> db \<Rightarrow> (u32, store_error) result \<times> db" where
  "clear_all fault d = result_map of_nat (delete_op fault (\<lambda>_. True) d)"

text \<open>The embedding rows of a new model, statement by statement.\<close>

fun insert_all :: "faults \<Rightarrow> nat \<Rightarrow> u32 \<Rightarrow> bytes list \<Rightarrow> bool \<Rightarrow> unit step" where
  "insert_all f k mid [] sealed d = Ok ((), d)"
| "insert_all f k mid (b # bs) sealed d =
     and_then (exec (f k) (sql_insert_emb mid b sealed) d)
       (\<lambda>(_, d'). insert_all f (Suc k) mid bs sealed d')"

definition replace_model_with_embeddings ::
  "faults \<Rightarrow> u64 option \<Rightarrow> string \<Rightarrow> string \<Rightarrow> bytes list \<Rightarrow> bool \<Rightarrow> string \<Rightarrow> string option \<Rightarrow>
   string option \<Rightarrow> db \<Rightarrow> (u32, store_error) result \<times> db" where
  "replace_model_with_embeddings f clock user label blobs sealed em dev key d =
     (if length blobs < MIN_EMBEDDINGS_PER_MODEL
      then (Err (Query (db_path d)
              (''refusing to store a model for '' @ user @ ''/'' @ label @ '' with '' @
               dec_str (length blobs) @ '' embeddings (minimum 3)'')), d)
      else finish d
       (and_then (exec (f 0) (\<lambda>d. Ok ((), d)) d) (\<lambda>(_, d0).
        and_then (exec (f 1) (sql_delete_models (\<lambda>m. m_user m = user \<and> m_label m = label)) d0) (\<lambda>(_, d1).
        and_then (insert_model_row (f 2) clock user label em dev key d1) (\<lambda>(mid, d2).
        and_then (insert_all f 3 mid blobs sealed d2) (\<lambda>(_, d3).
        and_then (exec (f (3 + length blobs)) (\<lambda>d. Ok ((), d)) d3) (\<lambda>(_, d4). Ok (mid, d4))))))))"

definition update_embedding_sealed ::
  "sql_error option \<Rightarrow> u32 \<Rightarrow> bytes \<Rightarrow> bool \<Rightarrow> db \<Rightarrow> (unit, store_error) result \<times> db" where
  "update_embedding_sealed fault eid data sealed d =
     (case fault of
        Some e \<Rightarrow> (Err (classify (db_path d) e), d)
      | None \<Rightarrow>
          let hit = (\<lambda>e. e_id e = unat eid) in
          if \<not> list_ex hit (db_embs d)
          then (Err (Query (db_path d) (''embedding ID '' @ dec_str (unat eid) @ '' not found'')), d)
          else (Ok (), d\<lparr>db_embs := map (\<lambda>e. if hit e then e\<lparr>e_blob := data, e_sealed := sealed\<rparr> else e) (db_embs d)\<rparr>))"

definition set_model_key_id ::
  "sql_error option \<Rightarrow> u32 \<Rightarrow> string option \<Rightarrow> db \<Rightarrow> (unit, store_error) result \<times> db" where
  "set_model_key_id fault mid key d =
     (case fault of
        Some e \<Rightarrow> (Err (classify (db_path d) e), d)
      | None \<Rightarrow>
          let hit = (\<lambda>m. m_id m = unat mid) in
          if \<not> list_ex hit (db_models d)
          then (Err (Query (db_path d) (''model ID '' @ dec_str (unat mid) @ '' not found'')), d)
          else (Ok (), d\<lparr>db_models := map (\<lambda>m. if hit m then m\<lparr>m_key_id := key\<rparr> else m) (db_models d)\<rparr>))"

subsection \<open>Queries\<close>

definition read_embedding :: "model_row \<times> emb_row \<Rightarrow> (u32 \<times> bytes, sql_error) result" where
  "read_embedding = (\<lambda>(m, e). and_then (get_u32 (m_id m)) (\<lambda>i. Ok (i, e_blob e)))"

text \<open>A wrong-size blob stops the read with a corrupt-store error.\<close>

fun decode_rows :: "string \<Rightarrow> (u32 \<times> bytes) list \<Rightarrow> ((u32 \<times> face_embedding) list, store_error) result" where
  "decode_rows path [] = Ok []"
| "decode_rows path ((i, blob) # rows) =
     (if length blob \<noteq> 512 * 4
      then Err (Corrupt path (''invalid embedding blob size: expected 2048 bytes, got '' @ dec_str (length blob)))
      else and_then (decode_rows path rows) (\<lambda>es. Ok ((i, bytes_f32s blob) # es)))"

definition get_user_embeddings ::
  "sql_error option \<Rightarrow> string \<Rightarrow> db \<Rightarrow> ((u32 \<times> face_embedding) list, store_error) result" where
  "get_user_embeddings fault user d =
     and_then (query fault (\<lambda>d. collect read_embedding (user_join user d)) d) (decode_rows (db_path d))"

definition read_model :: "model_row \<Rightarrow> (face_model_info, sql_error) result" where
  "read_model m =
     and_then (get_u32 (m_id m)) (\<lambda>i.
       Ok \<lparr>mi_id = i, mi_user = m_user m, mi_label = m_label m, mi_created_at = m_created_at m,
           mi_embedder_model = m_embedder_model m, mi_device_id = m_device_id m,
           mi_key_id = m_key_id m\<rparr>)"

definition list_models ::
  "sql_error option \<Rightarrow> string \<Rightarrow> db \<Rightarrow> (face_model_info list, store_error) result" where
  "list_models fault user =
     query fault (\<lambda>d. collect read_model (filter (\<lambda>m. m_user m = user) (db_models d)))"

definition list_users :: "sql_error option \<Rightarrow> db \<Rightarrow> (string list, store_error) result" where
  "list_users fault = query fault (\<lambda>d. Ok (sort (remdups (map m_user (db_models d)))))"

definition get_user_embeddings_raw ::
  "sql_error option \<Rightarrow> string \<Rightarrow> db \<Rightarrow> ((u32 \<times> bytes \<times> bool) list, store_error) result" where
  "get_user_embeddings_raw fault user =
     query fault (\<lambda>d. collect (\<lambda>(m, e). and_then (get_u32 (m_id m)) (\<lambda>i. Ok (i, e_blob e, e_sealed e)))
       (user_join user d))"

definition get_user_embeddings_raw_with_device ::
  "sql_error option \<Rightarrow> string \<Rightarrow> db \<Rightarrow> (raw_row list, store_error) result" where
  "get_user_embeddings_raw_with_device fault user =
     query fault (\<lambda>d. collect (\<lambda>(m, e). and_then (get_u32 (m_id m)) (\<lambda>i.
         Ok \<lparr>rw_model_id = i, rw_blob = e_blob e, rw_sealed = e_sealed e,
             rw_device_id = m_device_id m, rw_key_id = m_key_id m\<rparr>))
       (user_join user d))"

definition count_sealed_models_by_key_id ::
  "sql_error option \<Rightarrow> db \<Rightarrow> ((string option \<times> u32) list, store_error) result" where
  "count_sealed_models_by_key_id fault =
     query fault (\<lambda>d.
       let sealed = filter (\<lambda>m. list_ex (\<lambda>e. e_model_id e = m_id m \<and> e_sealed e) (db_embs d)) (db_models d);
           keys = sort (remdups (map m_key_id sealed))
       in collect (\<lambda>k. and_then (get_u32 (length (filter (\<lambda>m. m_key_id m = k) sealed))) (\<lambda>n. Ok (k, n))) keys)"

text \<open>Two statements: the sealed count, then the unsealed one.\<close>

definition count_sealed :: "faults \<Rightarrow> db \<Rightarrow> (u32 \<times> u32, store_error) result" where
  "count_sealed f d =
     and_then (query (f 0) (\<lambda>d. get_u32 (length (filter e_sealed (db_embs d)))) d) (\<lambda>s.
     and_then (query (f 1) (\<lambda>d. get_u32 (length (filter (\<lambda>e. \<not> e_sealed e) (db_embs d)))) d) (\<lambda>u. Ok (s, u)))"

definition embedding_blob_shapes ::
  "sql_error option \<Rightarrow> db \<Rightarrow> ((u8 option \<times> nat) list, store_error) result" where
  "embedding_blob_shapes fault =
     query fault (\<lambda>d. Ok (map (\<lambda>e. (case e_blob e of [] \<Rightarrow> None | b # _ \<Rightarrow> Some b, length (e_blob e))) (db_embs d)))"

definition get_all_embeddings_raw ::
  "sql_error option \<Rightarrow> db \<Rightarrow> ((u32 \<times> string \<times> bytes \<times> bool \<times> u32) list, store_error) result" where
  "get_all_embeddings_raw fault =
     query fault (\<lambda>d. collect
       (\<lambda>(m, e). and_then (get_u32 (e_id e)) (\<lambda>i. and_then (get_u32 (m_id m)) (\<lambda>mid.
          Ok (i, m_user m, e_blob e, e_sealed e, mid))))
       (concat (map (\<lambda>e. map (\<lambda>m. (m, e)) (filter (\<lambda>m. m_id m = e_model_id e) (db_models d))) (db_embs d))))"

definition count_models :: "sql_error option \<Rightarrow> (model_row \<Rightarrow> bool) \<Rightarrow> db \<Rightarrow> (bool, store_error) result" where
  "count_models fault P d =
     and_then (query fault (\<lambda>d. get_u32 (length (filter P (db_models d)))) d) (\<lambda>c. Ok (0 < c))"

definition has_models :: "sql_error option \<Rightarrow> string \<Rightarrow> db \<Rightarrow> (bool, store_error) result" where
  "has_models fault user = count_models fault (\<lambda>m. m_user m = user)"

definition has_models_for_embedder ::
  "sql_error option \<Rightarrow> string \<Rightarrow> string \<Rightarrow> db \<Rightarrow> (bool, store_error) result" where
  "has_models_for_embedder fault user em =
     count_models fault (\<lambda>m. m_user m = user \<and> m_embedder_model m = em)"

definition has_any_models :: "sql_error option \<Rightarrow> db \<Rightarrow> (bool, store_error) result" where
  "has_any_models fault = count_models fault (\<lambda>_. True)"

definition get_user_embedder_model ::
  "sql_error option \<Rightarrow> string \<Rightarrow> db \<Rightarrow> (string option, store_error) result" where
  "get_user_embedder_model fault user d =
     (case fault of
        Some QueryReturnedNoRows \<Rightarrow> Ok None
      | Some e \<Rightarrow> Err (classify (db_path d) e)
      | None \<Rightarrow>
          (case sort_key (\<lambda>m. - sint (m_created_at m)) (filter (\<lambda>m. m_user m = user) (db_models d)) of
             [] \<Rightarrow> Ok None
           | m # _ \<Rightarrow> Ok (Some (m_embedder_model m))))"

subsection \<open>Rate-limit rows\<close>

text \<open>\<^verbatim>\<open>now - window_secs as i64\<close>: 64-bit two's complement, read as signed.\<close>

definition rl_now :: "u64 option \<Rightarrow> u64" where
  "rl_now clock = (case clock of Some t \<Rightarrow> t | None \<Rightarrow> 0)"

definition rl_cutoff :: "u64 option \<Rightarrow> u64 \<Rightarrow> u64" where
  "rl_cutoff clock window_secs = rl_now clock - window_secs"

definition record_auth_attempt ::
  "sql_error option \<Rightarrow> u64 option \<Rightarrow> string \<Rightarrow> db \<Rightarrow> (unit, store_error) result \<times> db" where
  "record_auth_attempt fault clock user d =
     (case fault of
        Some e \<Rightarrow> (Err (classify (db_path d) e), d)
      | None \<Rightarrow> (Ok (), d\<lparr>db_rate := db_rate d @ [(user, rl_now clock)]\<rparr>))"

definition check_rate_limit ::
  "sql_error option \<Rightarrow> u64 option \<Rightarrow> string \<Rightarrow> u32 \<Rightarrow> u64 \<Rightarrow> db \<Rightarrow> (bool, store_error) result" where
  "check_rate_limit fault clock user max_attempts window_secs d =
     and_then (query fault (\<lambda>d. get_u32 (length
         (filter (\<lambda>(u, t). u = user \<and> sint (rl_cutoff clock window_secs) < sint t) (db_rate d)))) d)
       (\<lambda>count. Ok (count < max_attempts))"

definition cleanup_rate_limit ::
  "sql_error option \<Rightarrow> u64 option \<Rightarrow> u64 \<Rightarrow> db \<Rightarrow> (unit, store_error) result \<times> db" where
  "cleanup_rate_limit fault clock window_secs d =
     (case fault of
        Some e \<Rightarrow> (Err (classify (db_path d) e), d)
      | None \<Rightarrow> (Ok (), d\<lparr>db_rate :=
           filter (\<lambda>(u, t). \<not> sint t \<le> sint (rl_cutoff clock window_secs)) (db_rate d)\<rparr>))"

subsection \<open>Opening\<close>

datatype stat_result = StatFile | StatOther | StatNotFound | StatError string

definition stat_existing :: "string \<Rightarrow> stat_result \<Rightarrow> (unit, store_error) result" where
  "stat_existing path st =
     (case st of
        StatFile \<Rightarrow> Ok ()
      | StatOther \<Rightarrow> Err (Corrupt path ''path exists but is not a regular file'')
      | StatNotFound \<Rightarrow> Err (Absent path)
      | StatError e \<Rightarrow> Err (Denied path (''cannot stat: '' @ e)))"

text \<open>\<^verbatim>\<open>with_exclusive\<close>: BEGIN EXCLUSIVE, the closure on the same connection, COMMIT; an error
  of any of them rolls back.\<close>

definition with_exclusive ::
  "faults \<Rightarrow> (store_error \<Rightarrow> 'e) \<Rightarrow> (db \<Rightarrow> ('a \<times> db, 'e) result) \<Rightarrow> db \<Rightarrow> ('a, 'e) result \<times> db" where
  "with_exclusive f conv body d =
     (case exec (f 0) (\<lambda>d. Ok ((), d)) d of
        Err e \<Rightarrow> (Err (conv e), d)
      | Ok (_, d0) \<Rightarrow>
          (case body d0 of
             Err e \<Rightarrow> (Err e, d)
           | Ok (a, d1) \<Rightarrow>
               (case exec (f 1) (\<lambda>d. Ok ((), d)) d1 of
                  Err e \<Rightarrow> (Err (conv e), d)
                | Ok (_, d2) \<Rightarrow> (Ok a, d2))))"

subsection \<open>The schema invariant\<close>

definition db_inv :: "db \<Rightarrow> bool" where
  "db_inv d \<longleftrightarrow>
     distinct (map m_id (db_models d)) \<and>
     distinct (map (\<lambda>m. (m_user m, m_label m)) (db_models d)) \<and>
     (\<forall>m \<in> set (db_models d). m_id m \<le> db_model_seq d) \<and>
     distinct (map e_id (db_embs d)) \<and>
     (\<forall>e \<in> set (db_embs d). e_id e \<le> db_emb_seq d \<and> e_model_id e \<in> m_id ` set (db_models d))"

text \<open>A statement sequence that, if it succeeds, ends in a consistent database.\<close>

definition okdb :: "('a \<times> db, 'e) result \<Rightarrow> bool" where
  "okdb r \<longleftrightarrow> (\<forall>a d'. r = Ok (a, d') \<longrightarrow> db_inv d')"

lemma okdb_Ok [inv_keeps]: "db_inv d \<Longrightarrow> okdb (Ok (a, d))"
  by (simp add: okdb_def)

lemma okdb_exec: "okdb (stmt d) \<Longrightarrow> okdb (exec fault stmt d)"
  by (auto simp: okdb_def exec_def split: option.splits)

lemma okdb_bind [inv_keeps]:
  assumes "okdb r" and "\<And>a d'. db_inv d' \<Longrightarrow> okdb (k a d')"
  shows "okdb (and_then r (\<lambda>(a, d'). k a d'))"
  using assms by (auto simp: okdb_def)

lemma okdb_insert_model: "db_inv d \<Longrightarrow> okdb (sql_insert_model user label t em dev key d)"
  by (fastforce simp: okdb_def sql_insert_model_def Let_def db_inv_def list_ex_iff)

lemma okdb_insert_emb: "db_inv d \<Longrightarrow> okdb (sql_insert_emb mid b s d)"
  by (auto simp: okdb_def sql_insert_emb_def Let_def db_inv_def list_ex_iff
      le_Suc_eq intro: rev_image_eqI)

lemma okdb_delete: 
  assumes "db_inv d" shows "okdb (sql_delete_models P d)"
proof -
  have "e_model_id e \<in> m_id ` {x \<in> set (db_models d). \<not> P x}"
    if "e \<in> set (db_embs d)" "e_model_id e \<notin> m_id ` {x \<in> set (db_models d). P x}" for e
    using assms that by (fastforce simp: db_inv_def)
  with assms show ?thesis
    by (auto simp: okdb_def sql_delete_models_def Let_def db_inv_def distinct_map inj_on_def)
qed

lemma okdb_row:
  assumes "db_inv d"
  shows "okdb (insert_model_row fault clock user label em dev key d)"
proof -
  have "okdb (exec fault (sql_insert_model user label c em dev key) d)" for c
    using assms by (intro okdb_exec okdb_insert_model)
  then show ?thesis by (auto simp: okdb_def insert_model_row_def Let_def split: result.splits)
qed

lemmas okdb_exec_rules [inv_keeps] =
  okdb_exec[where stmt = "\<lambda>d. Ok ((), d)", OF okdb_Ok] okdb_exec[OF okdb_insert_emb]
  okdb_exec[OF okdb_delete] okdb_row

lemma okdb_insert_all [inv_keeps]: "db_inv d \<Longrightarrow> okdb (insert_all f k mid bs s d)"
  by (induction bs arbitrary: k d) (auto intro: inv_keeps)

lemma finish_inv: "db_inv d \<Longrightarrow> okdb r \<Longrightarrow> db_inv (snd (finish d r))"
  by (auto simp: finish_def okdb_def split: result.splits)

lemma snd_result_map [simp]: "snd (result_map f r) = snd r"
  by (cases r) (simp add: result_map_def)

lemma replace_inv:
  "db_inv d \<Longrightarrow> db_inv (snd (replace_model_with_embeddings f clock user label blobs sealed em dev key d))"
  unfolding replace_model_with_embeddings_def
  by (cases "length blobs < MIN_EMBEDDINGS_PER_MODEL")
    (simp, simp only: if_False, intro finish_inv inv_keeps)

lemma add_model_raw_inv:
  "db_inv d \<Longrightarrow> db_inv (snd (add_model_raw_with_device f clock user label data sealed em dev d))"
  unfolding add_model_raw_with_device_def by (intro finish_inv inv_keeps)

lemma add_model_inv:
  "db_inv d \<Longrightarrow> db_inv (snd (add_model_with_device f clock user label emb em dev d))"
  unfolding add_model_with_device_def by (intro finish_inv inv_keeps)

lemma add_embedding_inv:
  "db_inv d \<Longrightarrow> db_inv (snd (add_embedding_raw fault mid data sealed d))"
  "db_inv d \<Longrightarrow> db_inv (snd (add_embedding fault mid emb d))"
  unfolding add_embedding_raw_def add_embedding_def by (intro finish_inv inv_keeps; assumption)+

lemma delete_op_inv: "db_inv d \<Longrightarrow> db_inv (snd (delete_op fault P d))"
  unfolding delete_op_def by (intro finish_inv inv_keeps)

lemma update_embedding_inv:
  assumes "db_inv d"
  shows "db_inv (snd (update_embedding_sealed fault eid data sealed d))"
proof -
  let ?u = "\<lambda>e. if e_id e = unat eid then e\<lparr>e_blob := data, e_sealed := sealed\<rparr> else e"
  have "map e_id (map ?u es) = map e_id es" for es :: "emb_row list" by simp
  then show ?thesis using assms
    by (auto simp: update_embedding_sealed_def Let_def db_inv_def split: option.splits simp del: map_map)
qed

lemma set_key_inv:
  assumes "db_inv d"
  shows "db_inv (snd (set_model_key_id fault mid key d))"
proof -
  let ?u = "\<lambda>m. if m_id m = unat mid then m\<lparr>m_key_id := key\<rparr> else m"
  have *: "map m_id (map ?u ms) = map m_id ms"
    "map (\<lambda>m. (m_user m, m_label m)) (map ?u ms) = map (\<lambda>m. (m_user m, m_label m)) ms"
    for ms :: "model_row list" by simp_all
  have "m_id ` (?u ` S) = m_id ` S" for S :: "model_row set"
    unfolding image_image by (rule image_cong) simp_all
  with * assms show ?thesis
    by (auto simp: set_model_key_id_def Let_def db_inv_def split: option.splits simp del: map_map)
qed

lemma rate_inv:
  "db_inv d \<Longrightarrow> db_inv (snd (record_auth_attempt fault clock user d))"
  "db_inv d \<Longrightarrow> db_inv (snd (cleanup_rate_limit fault clock w d))"
  by (auto simp: record_auth_attempt_def cleanup_rate_limit_def db_inv_def split: option.splits)

text \<open>Every way the store's public operations change the database.\<close>

inductive store_step :: "db \<Rightarrow> db \<Rightarrow> bool" where
  step_replace: "store_step d (snd (replace_model_with_embeddings f clock user label blobs sealed em dev key d))"
| step_add: "store_step d (snd (add_model_with_device f clock user label emb em dev d))"
| step_add_raw: "store_step d (snd (add_model_raw_with_device f clock user label data sealed em dev d))"
| step_emb: "store_step d (snd (add_embedding fault mid emb d))"
| step_emb_raw: "store_step d (snd (add_embedding_raw fault mid data sealed d))"
| step_remove_label: "store_step d (snd (remove_model_by_label fault user label d))"
| step_remove: "store_step d (snd (remove_model fault user mid d))"
| step_clear_user: "store_step d (snd (clear_user fault user d))"
| step_clear_all: "store_step d (snd (clear_all fault d))"
| step_update: "store_step d (snd (update_embedding_sealed fault eid data sealed d))"
| step_key: "store_step d (snd (set_model_key_id fault mid key d))"
| step_record: "store_step d (snd (record_auth_attempt fault clock user d))"
| step_cleanup: "store_step d (snd (cleanup_rate_limit fault clock w d))"

lemmas store_op_inv = replace_inv add_model_inv add_model_raw_inv add_embedding_inv
  delete_op_inv update_embedding_inv set_key_inv rate_inv

lemma store_step_inv: "store_step d d' \<Longrightarrow> db_inv d \<Longrightarrow> db_inv d'"
  by (induction rule: store_step.induct)
    (simp_all add: store_op_inv remove_model_by_label_def remove_model_def clear_user_def clear_all_def)

lemma open_memory_inv: "db_inv (open_memory p)"
  by (simp add: db_inv_def open_memory_def)


text \<open>The effect of the inserts of one enrollment.\<close>

fun new_embs :: "nat \<Rightarrow> nat \<Rightarrow> bytes list \<Rightarrow> bool \<Rightarrow> emb_row list" where
  "new_embs seq mid [] sealed = []"
| "new_embs seq mid (b # bs) sealed =
     \<lparr>e_id = Suc seq, e_model_id = mid, e_blob = b, e_sealed = sealed\<rparr> # new_embs (Suc seq) mid bs sealed"

lemma insert_all_Ok:
  "insert_all f k mid bs s d = Ok (u, d') \<Longrightarrow>
     d' = d\<lparr>db_embs := db_embs d @ new_embs (db_emb_seq d) (unat mid) bs s,
            db_emb_seq := db_emb_seq d + length bs\<rparr>"
proof (induction bs arbitrary: k d)
  case Nil
  then show ?case by simp
next
  case (Cons b bs)
  then obtain d1 where d1: "exec (f k) (sql_insert_emb mid b s) d = Ok ((), d1)"
    and r: "insert_all f (Suc k) mid bs s d1 = Ok (u, d')" by auto
  have "d1 = d\<lparr>db_embs := db_embs d @ [\<lparr>e_id = Suc (db_emb_seq d), e_model_id = unat mid, e_blob = b, e_sealed = s\<rparr>],
               db_emb_seq := Suc (db_emb_seq d)\<rparr>"
    using d1 by (auto simp: exec_def sql_insert_emb_def Let_def split: option.splits if_splits)
  with Cons.IH[OF r] show ?case by simp
qed

text \<open>The database a successful replacement produces.\<close>

definition replaced :: "u64 option \<Rightarrow> string \<Rightarrow> string \<Rightarrow> bytes list \<Rightarrow> bool \<Rightarrow> string \<Rightarrow> string option \<Rightarrow> string option \<Rightarrow> db \<Rightarrow> db" where
  "replaced clock user label blobs sealed em dev key d =
    (let hit = (\<lambda>m. m_user m = user \<and> m_label m = label);
         gone = m_id ` set (filter hit (db_models d));
         i = Suc (db_model_seq d)
     in d\<lparr>db_models := filter (\<lambda>m. \<not> hit m) (db_models d) @
            [\<lparr>m_id = i, m_user = user, m_label = label,
              m_created_at = (case clock of Some t \<Rightarrow> t | None \<Rightarrow> 0), m_embedder_model = em,
              m_device_id = dev, m_key_id = key\<rparr>],
          db_model_seq := i,
          db_embs := filter (\<lambda>e. e_model_id e \<notin> gone) (db_embs d) @
            new_embs (db_emb_seq d) (unat (of_nat i :: u32)) blobs sealed,
          db_emb_seq := db_emb_seq d + length blobs\<rparr>)"

lemma replace_Ok:
  assumes "replace_model_with_embeddings f clock user label blobs sealed em dev key d = (Ok mid, d')"
  shows "3 \<le> length blobs \<and> mid = of_nat (Suc (db_model_seq d)) \<and>
         d' = replaced clock user label blobs sealed em dev key d"
proof -
  have len: "3 \<le> length blobs"
    using assms by (auto simp: replace_model_with_embeddings_def MIN_EMBEDDINGS_PER_MODEL_def split: if_splits)
  from assms obtain d1 d2 n where
    d1: "sql_delete_models (\<lambda>m. m_user m = user \<and> m_label m = label) d = Ok (n, d1)"
    and d2: "insert_model_row (f 2) clock user label em dev key d1 = Ok (mid, d2)"
    and d3: "insert_all f 3 mid blobs sealed d2 = Ok ((), d')"
    by (auto simp: replace_model_with_embeddings_def finish_def exec_def split: if_splits result.splits option.splits)
  have "mid = of_nat (Suc (db_model_seq d1))"
    using d2 by (auto simp: insert_model_row_def exec_def sql_insert_model_def Let_def split: option.splits if_splits result.splits)
  moreover note insert_all_Ok[OF d3]
  ultimately show ?thesis using len d1 d2
    by (auto simp: replaced_def sql_delete_models_def insert_model_row_def exec_def sql_insert_model_def Let_def
        split: option.splits if_splits result.splits)
qed

lemma new_embs_props:
  "map e_blob (new_embs n mid bs s) = bs"
  "e \<in> set (new_embs n mid bs s) \<Longrightarrow> e_model_id e = mid \<and> e_sealed e = s"
  by (induction bs arbitrary: n) auto

lemma new_embs_filter:
  "filter (\<lambda>e. e_model_id e = k) (new_embs n mid bs s) = (if k = mid then new_embs n mid bs s else [])"
  by (induction bs arbitrary: n) auto

lemma concat_join:
  assumes "\<And>m. m \<in> set ms \<Longrightarrow> \<not> hit m \<Longrightarrow> g m = h m"
  shows "concat (map (\<lambda>m. map (Pair m) (g m)) (filter P (filter (\<lambda>m. \<not> hit m) ms))) =
    filter (\<lambda>(m, e). \<not> hit m) (concat (map (\<lambda>m. map (Pair m) (h m)) (filter P ms)))"
  using assms by (induction ms) (auto simp: filter_map comp_def filter_empty_conv)

lemma user_join_replaced:
  assumes inv: "db_inv d" and room: "Suc (db_model_seq d) < 2 ^ 32"
    and d'_def: "d' = replaced clock user label blobs sealed em dev key d"
  shows "user_join u d' =
     filter (\<lambda>(m, e). \<not> (m_user m = user \<and> m_label m = label)) (user_join u d) @
     (if u = user then map (Pair (last (db_models d'))) (new_embs (db_emb_seq d) (Suc (db_model_seq d)) blobs sealed)
      else [])"
proof -
  let ?i = "Suc (db_model_seq d)"
  let ?hit = "\<lambda>m. m_user m = user \<and> m_label m = label"
  let ?E = "filter (\<lambda>e. e_model_id e \<notin> m_id ` {m \<in> set (db_models d). ?hit m}) (db_embs d) @ new_embs (db_emb_seq d) ?i blobs sealed"
  have i: "unat (of_nat ?i :: u32) = ?i" using room by (rule unat_u32)
  have E: "db_embs d' = ?E" by (simp add: d'_def replaced_def Let_def i del: of_nat_Suc)
  obtain row where M: "db_models d' = filter (\<lambda>m. \<not> ?hit m) (db_models d) @ [row]"
    and row: "m_user row = user" "m_id row = ?i"
    by (simp add: d'_def replaced_def Let_def)
  have new: "filter (\<lambda>e. e_model_id e = ?i) ?E = new_embs (db_emb_seq d) ?i blobs sealed"
    using inv by (fastforce simp: db_inv_def new_embs_filter filter_empty_conv)
  have old: "filter (\<lambda>e. e_model_id e = m_id m) ?E = filter (\<lambda>e. e_model_id e = m_id m) (db_embs d)"
    if "m \<in> set (db_models d)" "\<not> ?hit m" for m
  proof -
    have "m_id m \<noteq> ?i" using inv that by (auto simp: db_inv_def)
    moreover have "m_id m \<notin> m_id ` {m \<in> set (db_models d). ?hit m}"
      using inv that by (auto simp: db_inv_def distinct_map inj_on_def)
    ultimately show ?thesis by (simp add: new_embs_filter) (rule filter_cong, simp_all, metis)
  qed
  have "concat (map (\<lambda>m. map (Pair m) (filter (\<lambda>e. e_model_id e = m_id m) ?E))
      (filter (\<lambda>m. m_user m = u) (filter (\<lambda>m. \<not> ?hit m) (db_models d)))) =
    filter (\<lambda>(m, e). \<not> ?hit m) (user_join u d)"
    unfolding user_join_def by (rule concat_join) (rule old)
  moreover have "filter (\<lambda>m. m_user m = u) (xs @ [row]) =
      filter (\<lambda>m. m_user m = u) xs @ (if u = user then [row] else [])" for xs
    using row by auto
  ultimately show ?thesis
    unfolding user_join_def[of _ d'] E M
    by (simp add: row new del: filter_append filter_filter)
qed

subsection \<open>Lookups\<close>

definition ids_fit :: "db \<Rightarrow> bool" where
  "ids_fit d \<longleftrightarrow> db_model_seq d < 2 ^ 32"

text \<open>The ids of the models stored under a user and label.\<close>

definition labelled_ids :: "string \<Rightarrow> string \<Rightarrow> db \<Rightarrow> u32 set" where
  "labelled_ids user label d =
     (\<lambda>m. of_nat (m_id m)) ` set (filter (\<lambda>m. m_user m = user \<and> m_label m = label) (db_models d))"

definition raw_of :: "model_row \<times> emb_row \<Rightarrow> raw_row" where
  "raw_of = (\<lambda>(m, e). \<lparr>rw_model_id = of_nat (m_id m), rw_blob = e_blob e, rw_sealed = e_sealed e,
             rw_device_id = m_device_id m, rw_key_id = m_key_id m\<rparr>)"

lemma collect_map:
  assumes "\<And>r. r \<in> set rs \<Longrightarrow> f r = Ok (g r)"
  shows "collect f rs = Ok (map g rs)"
  using assms by (induction rs) auto

lemma user_join_mem:
  "(m, e) \<in> set (user_join u d) \<longleftrightarrow>
     m \<in> set (db_models d) \<and> m_user m = u \<and> e \<in> set (db_embs d) \<and> e_model_id e = m_id m"
  by (auto simp: user_join_def)

lemma model_id_fits: "db_inv d \<Longrightarrow> ids_fit d \<Longrightarrow> m \<in> set (db_models d) \<Longrightarrow> m_id m < 0x100000000"
  by (fastforce simp: db_inv_def ids_fit_def)

lemma raw_with_device_eq:
  assumes "db_inv d" "ids_fit d"
  shows "get_user_embeddings_raw_with_device None u d = Ok (map raw_of (user_join u d))"
proof -
  have "collect (\<lambda>(m, e). and_then (get_u32 (m_id m)) (\<lambda>i.
         Ok \<lparr>rw_model_id = i, rw_blob = e_blob e, rw_sealed = e_sealed e,
             rw_device_id = m_device_id m, rw_key_id = m_key_id m\<rparr>)) (user_join u d)
       = Ok (map raw_of (user_join u d))"
    by (rule collect_map)
      (auto simp: user_join_mem raw_of_def get_u32_def dest: model_id_fits[OF assms])
  then show ?thesis by (simp add: get_user_embeddings_raw_with_device_def query_def)
qed

lemma replaced_inv:
  "replace_model_with_embeddings f clock user label blobs sealed em dev key d = (Ok mid, d') \<Longrightarrow> db_inv d \<Longrightarrow> db_inv d'"
  using replace_inv[of d f clock user label blobs sealed em dev key] by simp

lemma replaced_ids_fit:
  "Suc (db_model_seq d) < 2 ^ 32 \<Longrightarrow> ids_fit (replaced clock user label blobs sealed em dev key d)"
  by (simp add: ids_fit_def replaced_def Let_def)

lemma raw_new:
  "map raw_of (map (Pair m) (new_embs n i blobs sealed)) =
     map (\<lambda>b. \<lparr>rw_model_id = of_nat (m_id m), rw_blob = b, rw_sealed = sealed,
               rw_device_id = m_device_id m, rw_key_id = m_key_id m\<rparr>) blobs"
  by (induction blobs arbitrary: n) (auto simp: raw_of_def)

lemma of_nat_u32_inj: "(of_nat a :: u32) = of_nat b \<longleftrightarrow> a = b" if "a < 2 ^ 32" "b < 2 ^ 32" for a b
  using that by (metis unat_u32)

lemma raw_of_id [simp]: "rw_model_id (raw_of (m, e)) = of_nat (m_id m)"
  by (simp add: raw_of_def)

lemma labelled_ids_iff:
  assumes "db_inv d" "ids_fit d" "m \<in> set (db_models d)"
  shows "of_nat (m_id m) \<in> labelled_ids user label d \<longleftrightarrow> m_user m = user \<and> m_label m = label"
  using assms(1,3) of_nat_u32_inj model_id_fits[OF assms(1,2)]
  by (auto simp: labelled_ids_def db_inv_def distinct_map inj_on_def)

lemma raw_filter_label:
  assumes "db_inv d" "ids_fit d"
  shows "map raw_of (filter (\<lambda>(m, e). \<not> (m_user m = user \<and> m_label m = label)) (user_join u d)) =
    filter (\<lambda>r. rw_model_id r \<notin> labelled_ids user label d) (map raw_of (user_join u d))"
  unfolding filter_map
  by (intro arg_cong[where f = "map raw_of"] filter_cong refl)
    (auto simp: user_join_mem labelled_ids_iff[OF assms])

lemma replace_raw:
  assumes "db_inv d" and "Suc (db_model_seq d) < 2 ^ 32"
    and "replace_model_with_embeddings f clock user label blobs sealed em dev key d = (Ok mid, d')"
  shows "map raw_of (user_join user d') =
      filter (\<lambda>r. rw_model_id r \<notin> labelled_ids user label d) (map raw_of (user_join user d)) @
      map (\<lambda>b. \<lparr>rw_model_id = mid, rw_blob = b, rw_sealed = sealed,
                rw_device_id = dev, rw_key_id = key\<rparr>) blobs"
proof -
  note R = replace_Ok[OF assms(3)]
  then have mid: "mid = of_nat (Suc (db_model_seq d))" by simp
  have fit: "ids_fit d" using assms(2) by (simp add: ids_fit_def)
  have last: "m_id (last (db_models d')) = Suc (db_model_seq d)"
     "m_device_id (last (db_models d')) = dev" "m_key_id (last (db_models d')) = key"
    using R by (simp_all add: replaced_def Let_def)
  have J: "user_join user d' =
     filter (\<lambda>(m, e). \<not> (m_user m = user \<and> m_label m = label)) (user_join user d) @
     map (Pair (last (db_models d'))) (new_embs (db_emb_seq d) (Suc (db_model_seq d)) blobs sealed)"
    using user_join_replaced[OF assms(1,2), of d' clock user label blobs sealed em dev key user] R by simp
  show ?thesis
    unfolding J map_append raw_filter_label[OF assms(1) fit]
    by (simp only: raw_new last mid)
qed

lemma replace_raw_others:
  assumes "db_inv d" and "Suc (db_model_seq d) < 2 ^ 32" and "u \<noteq> user"
    and "replace_model_with_embeddings f clock user label blobs sealed em dev key d = (Ok mid, d')"
  shows "user_join u d' = user_join u d"
proof -
  have "filter (\<lambda>(m, e). \<not> (m_user m = user \<and> m_label m = label)) (user_join u d) = user_join u d"
    using assms(3) by (auto simp: filter_id_conv user_join_mem)
  then show ?thesis
    using user_join_replaced[OF assms(1,2), of d' clock user label blobs sealed em dev key u]
      replace_Ok[OF assms(4)] assms(3) by simp
qed

lemma replaced_rows:
  assumes "db_inv d" and "Suc (db_model_seq d) < 2 ^ 32"
    and "replace_model_with_embeddings f clock user label blobs sealed em dev key d = (Ok mid, d')"
  shows "3 \<le> length blobs \<and>
    (\<forall>u. u \<noteq> user \<longrightarrow> get_user_embeddings_raw_with_device None u d' = get_user_embeddings_raw_with_device None u d) \<and>
    (\<exists>old. get_user_embeddings_raw_with_device None user d = Ok old \<and>
       get_user_embeddings_raw_with_device None user d' =
         Ok (filter (\<lambda>x. rw_model_id x \<notin> labelled_ids user label d) old @
             map (\<lambda>b. \<lparr>rw_model_id = mid, rw_blob = b, rw_sealed = sealed, rw_device_id = dev, rw_key_id = key\<rparr>) blobs))"
proof -
  note R = replace_Ok[OF assms(3)]
  have fit: "ids_fit d" using assms(2) by (simp add: ids_fit_def)
  have inv': "db_inv d'" using assms(3) replaced_inv assms(1) by blast
  have fit': "ids_fit d'" using R replaced_ids_fit[OF assms(2)] by simp
  show ?thesis
    using conjunct1[OF R] replace_raw_others[OF assms(1,2) _ assms(3)] replace_raw[OF assms(1,2) assms(3)]
    by (simp only: raw_with_device_eq[OF assms(1) fit] raw_with_device_eq[OF inv' fit']) simp
qed

lemma replace_failed: "replace_model_with_embeddings f clock user label blobs sealed em dev key d = (Err e, d') \<Longrightarrow> d' = d"
  by (auto simp: replace_model_with_embeddings_def finish_def split: if_splits result.splits)

text \<open>C21: \<^verbatim>\<open>replace_model_with_embeddings\<close> is all or nothing under any schedule of statement
  failures: on an error the database is unchanged; on success the user's rows are the old ones
  without the replaced label, followed by exactly the given blobs (at least three) tagged with
  the new model, its camera and its key, and no other user's rows changed.\<close>

theorem replace_model_atomic:
  assumes "db_inv d" and "Suc (db_model_seq d) < 2 ^ 32"
    and "replace_model_with_embeddings f clock user label blobs sealed em dev key d = (r, d')"
  shows "case r of
      Err _ \<Rightarrow> d' = d
    | Ok mid \<Rightarrow>
        3 \<le> length blobs \<and>
        (\<forall>u. u \<noteq> user \<longrightarrow> get_user_embeddings_raw_with_device None u d' =
                         get_user_embeddings_raw_with_device None u d) \<and>
        (\<exists>old. get_user_embeddings_raw_with_device None user d = Ok old \<and>
           get_user_embeddings_raw_with_device None user d' =
             Ok (filter (\<lambda>x. rw_model_id x \<notin> labelled_ids user label d) old @
                 map (\<lambda>b. \<lparr>rw_model_id = mid, rw_blob = b, rw_sealed = sealed,
                           rw_device_id = dev, rw_key_id = key\<rparr>) blobs))"
proof (cases r)
  case (Err e)
  then show ?thesis using assms(3) replace_failed by (auto simp only: result.case)
next
  case (Ok mid)
  show ?thesis unfolding Ok result.case by (rule replaced_rows[OF assms(1,2) assms(3)[unfolded Ok]])
qed

text \<open>Progress: without faults, and with enough embeddings, the replacement succeeds.\<close>

lemma insert_all_no_fault:
  assumes "\<forall>k. f k = None" and "list_ex (\<lambda>m. m_id m = unat mid) (db_models d)"
  shows "\<exists>d'. insert_all f k mid bs s d = Ok ((), d')"
  using assms by (induction bs arbitrary: k d) (auto simp: exec_def sql_insert_emb_def Let_def)

lemma replace_progress:
  assumes "\<forall>k. f k = None" "3 \<le> length blobs" "Suc (db_model_seq d) < 2 ^ 32"
  shows "is_ok (fst (replace_model_with_embeddings f clock user label blobs sealed em dev key d))"
proof -
  let ?hit = "\<lambda>m. m_user m = user \<and> m_label m = label"
  obtain n d1 where d1: "sql_delete_models ?hit d = Ok (n, d1)"
    by (simp add: sql_delete_models_def Let_def)
  then have d1': "db_models d1 = filter (\<lambda>m. \<not> ?hit m) (db_models d)" "db_model_seq d1 = db_model_seq d"
    by (auto simp: sql_delete_models_def Let_def)
  obtain d2 where d2: "insert_model_row (f 2) clock user label em dev key d1 = Ok (of_nat (Suc (db_model_seq d)), d2)"
      and ex: "list_ex (\<lambda>m. m_id m = Suc (db_model_seq d)) (db_models d2)"
    using assms(1) d1' by (auto simp: insert_model_row_def exec_def sql_insert_model_def Let_def list_ex_iff simp del: of_nat_Suc)
  obtain d3 where "insert_all f 3 (of_nat (Suc (db_model_seq d))) blobs sealed d2 = Ok ((), d3)"
    using insert_all_no_fault[OF assms(1), of "of_nat (Suc (db_model_seq d))" d2] ex unat_u32[OF assms(3)] by metis
  with d1 d2 assms(1,2) show ?thesis
    by (simp add: replace_model_with_embeddings_def MIN_EMBEDDINGS_PER_MODEL_def exec_def finish_def del: of_nat_Suc)
qed

subsection \<open>User isolation\<close>

definition user_view :: "string \<Rightarrow> db \<Rightarrow> string \<times> model_row list \<times> (model_row \<times> emb_row) list" where
  "user_view u d = (db_path d, filter (\<lambda>m. m_user m = u) (db_models d), user_join u d)"

lemma lookups_view:
  assumes "user_view u d = user_view u d'"
  shows "list_models fault u d = list_models fault u d'"
    "has_models fault u d = has_models fault u d'"
    "get_user_embeddings fault u d = get_user_embeddings fault u d'"
    "get_user_embeddings_raw_with_device fault u d = get_user_embeddings_raw_with_device fault u d'"
  using assms
  by (cases fault; simp add: user_view_def list_models_def has_models_def count_models_def
      get_user_embeddings_def get_user_embeddings_raw_with_device_def query_def)+

text \<open>The contract of a write on behalf of one user: every other user's rows are untouched.\<close>

locale user_scoped =
  fixes op :: "db \<Rightarrow> db" and owner :: string
  assumes op_inv: "db_inv d \<Longrightarrow> db_inv (op d)"
    and op_frame: "db_inv d \<Longrightarrow> Suc (db_model_seq d) < 2 ^ 32 \<Longrightarrow> u \<noteq> owner \<Longrightarrow>
      user_view u (op d) = user_view u d"
begin

lemma others_unaffected:
  assumes "db_inv d" "Suc (db_model_seq d) < 2 ^ 32" "u \<noteq> owner"
  shows "db_inv (op d) \<and> user_view u (op d) = user_view u d"
  using assms op_inv op_frame by blast

end

lemma delete_op_view:
  assumes "db_inv d" and "\<And>m. P m \<Longrightarrow> m_user m = owner" and "u \<noteq> owner"
  shows "user_view u (snd (delete_op fault P d)) = user_view u d"
proof -
  have keep: "filter (\<lambda>m. m_user m = u) (filter (\<lambda>m. \<not> P m) ms) = filter (\<lambda>m. m_user m = u) ms" for ms
    using assms(2,3) by (induction ms) auto
  have "filter (\<lambda>e. e_model_id e = m_id m) (filter (\<lambda>e. e_model_id e \<notin> m_id ` set (filter P (db_models d))) (db_embs d))
     = filter (\<lambda>e. e_model_id e = m_id m) (db_embs d)" if "m \<in> set (db_models d)" "m_user m = u" for m
  proof -
    have "m_id m \<notin> m_id ` set (filter P (db_models d))"
      using assms that by (auto simp: db_inv_def distinct_map inj_on_def)
    then show ?thesis by (simp only: filter_filter) (rule filter_cong, simp_all, metis)
  qed
  then have "user_join u (d\<lparr>db_models := filter (\<lambda>m. \<not> P m) (db_models d),
       db_embs := filter (\<lambda>e. e_model_id e \<notin> m_id ` set (filter P (db_models d))) (db_embs d)\<rparr>) = user_join u d"
    unfolding user_join_def by (simp add: keep del: filter_filter) (rule arg_cong[where f = concat], auto)
  with keep show ?thesis
    by (auto simp: delete_op_def exec_def finish_def sql_delete_models_def Let_def user_view_def simp del: filter_filter split: option.splits)
qed

lemma replace_view:
  assumes "db_inv d" "Suc (db_model_seq d) < 2 ^ 32" "u \<noteq> user"
  shows "user_view u (snd (replace_model_with_embeddings f clock user label blobs sealed em dev key d)) = user_view u d"
proof (cases "replace_model_with_embeddings f clock user label blobs sealed em dev key d")
  case (Pair r d')
  show ?thesis
  proof (cases r)
    case (Err e)
    with Pair have "d' = d"
      by (auto simp: replace_model_with_embeddings_def finish_def split: if_splits result.splits)
    with Pair show ?thesis by simp
  next
    case (Ok mid)
    with Pair have d': "d' = replaced clock user label blobs sealed em dev key d" using replace_Ok by blast
    have "filter (\<lambda>(m, e). \<not> (m_user m = user \<and> m_label m = label)) (user_join u d) = user_join u d"
      using assms(3) by (auto simp: filter_id_conv user_join_mem)
    then have "user_join u d' = user_join u d"
      using user_join_replaced[OF assms(1,2) d', of u] assms(3) by simp
    moreover have "filter (\<lambda>m. m_user m = u) (db_models d') = filter (\<lambda>m. m_user m = u) (db_models d)"
      using assms(3) by (auto simp: d' replaced_def Let_def intro!: filter_cong)
    moreover have "db_path d' = db_path d" by (simp add: d' replaced_def Let_def)
    ultimately show ?thesis using Pair by (simp add: user_view_def)
  qed
qed

interpretation scoped_replace:
  user_scoped "\<lambda>d. snd (replace_model_with_embeddings f clock user label blobs sealed em dev key d)" user
  for f clock user label blobs sealed em dev key
  by unfold_locales (simp_all add: replace_inv replace_view)

interpretation scoped_remove: user_scoped "\<lambda>d. snd (remove_model fault user mid d)" user for fault user mid
  by unfold_locales (auto simp: remove_model_def delete_op_inv intro: delete_op_view[where owner = user])

interpretation scoped_label: user_scoped "\<lambda>d. snd (remove_model_by_label fault user label d)" user for fault user label
  by unfold_locales (auto simp: remove_model_by_label_def delete_op_inv intro: delete_op_view[where owner = user])

interpretation scoped_clear: user_scoped "\<lambda>d. snd (clear_user fault user d)" user for fault user
  by unfold_locales (auto simp: clear_user_def delete_op_inv intro: delete_op_view[where owner = user])

text \<open>A write on behalf of a user other than \<open>u\<close>.\<close>

inductive foreign_step :: "string \<Rightarrow> db \<Rightarrow> db \<Rightarrow> bool" for u where
  foreign_replace: "user \<noteq> u \<Longrightarrow> Suc (db_model_seq d) < 2 ^ 32 \<Longrightarrow>
    foreign_step u d (snd (replace_model_with_embeddings f clock user label blobs sealed em dev key d))"
| foreign_remove: "user \<noteq> u \<Longrightarrow> Suc (db_model_seq d) < 2 ^ 32 \<Longrightarrow>
    foreign_step u d (snd (remove_model fault user mid d))"
| foreign_label: "user \<noteq> u \<Longrightarrow> Suc (db_model_seq d) < 2 ^ 32 \<Longrightarrow>
    foreign_step u d (snd (remove_model_by_label fault user label d))"
| foreign_clear: "user \<noteq> u \<Longrightarrow> Suc (db_model_seq d) < 2 ^ 32 \<Longrightarrow>
    foreign_step u d (snd (clear_user fault user d))"

lemma foreign_step_view:
  "foreign_step u d d' \<Longrightarrow> db_inv d \<Longrightarrow> db_inv d' \<and> user_view u d' = user_view u d"
proof (induction rule: foreign_step.induct)
  case (foreign_replace user d f clock label blobs sealed em dev key)
  then show ?case using scoped_replace.others_unaffected[of d u user] by simp
next
  case (foreign_remove user d fault mid)
  then show ?case using scoped_remove.others_unaffected[of d u user] by simp
next
  case (foreign_label user d fault label)
  then show ?case using scoped_label.others_unaffected[of d u user] by simp
next
  case (foreign_clear user d fault)
  then show ?case using scoped_clear.others_unaffected[of d u user] by simp
qed


subsection \<open>Embedding bytes\<close>

lemma f32_bytes_join:
  "(ucast (ucast x :: u8) OR push_bit 8 (ucast (ucast (drop_bit 8 x) :: u8)) OR
    push_bit 16 (ucast (ucast (drop_bit 16 x) :: u8)) OR push_bit 24 (ucast (ucast (drop_bit 24 x) :: u8))) = (x :: f32)"
proof (rule bit_word_eqI)
  fix n assume "n < LENGTH(32)"
  then have "n < 8 \<or> 8 \<le> n \<and> n < 16 \<or> 16 \<le> n \<and> n < 24 \<or> 24 \<le> n \<and> n < 32" by auto
  then show "bit (ucast (ucast x :: u8) OR push_bit 8 (ucast (ucast (drop_bit 8 x) :: u8)) OR
    push_bit 16 (ucast (ucast (drop_bit 16 x) :: u8)) OR push_bit 24 (ucast (ucast (drop_bit 24 x) :: u8)) :: f32) n
    = bit x n"
    by (auto simp: bit_simps)
qed

lemma bytes_f32s_embedding: "bytes_f32s (embedding_bytes e) = e"
proof (induction e)
  case Nil
  then show ?case by (simp add: embedding_bytes_def)
next
  case (Cons x e)
  have "f32_to_bytes x = [ucast x, ucast (drop_bit 8 x), ucast (drop_bit 16 x), ucast (drop_bit 24 x)]"
    by (simp add: f32_to_bytes_def upt_rec)
  then have "embedding_bytes (x # e) =
     ucast x # ucast (drop_bit 8 x) # ucast (drop_bit 16 x) # ucast (drop_bit 24 x) # embedding_bytes e"
    by (simp add: embedding_bytes_def)
  then show ?case using Cons f32_bytes_join[of x] by simp
qed

lemma length_embedding_bytes: "length (embedding_bytes e) = 4 * length e"
  by (induction e) (simp_all add: embedding_bytes_def f32_to_bytes_def)

lemma decode_rows_Ok:
  "decode_rows p rows = Ok es \<longleftrightarrow>
     (\<forall>(i, b) \<in> set rows. length b = 2048) \<and> es = map (\<lambda>(i, b). (i, bytes_f32s b)) rows"
  by (induction p rows arbitrary: es rule: decode_rows.induct) auto

lemma get_user_embeddings_eq:
  assumes "db_inv d" "ids_fit d"
  shows "get_user_embeddings None u d =
    decode_rows (db_path d) (map (\<lambda>r. (rw_model_id r, rw_blob r)) (map raw_of (user_join u d)))"
proof -
  have "collect read_embedding (user_join u d) = Ok (map (\<lambda>r. (rw_model_id r, rw_blob r)) (map raw_of (user_join u d)))"
    unfolding map_map
    by (rule collect_map)
      (auto simp: user_join_mem raw_of_def read_embedding_def get_u32_def dest: model_id_fits[OF assms])
  then show ?thesis by (simp add: get_user_embeddings_def query_def)
qed

text \<open>What an unencrypted enrollment stores is what authentication loads: after the
  replacement, reading the user's embeddings returns the surviving old ones followed by the
  enrolled embeddings, bit for bit, under the new model id.\<close>

theorem plaintext_enrollment_roundtrip:
  assumes "db_inv d" and "Suc (db_model_seq d) < 2 ^ 32"
    and "list_all (\<lambda>e. length e = 512) es"
    and "get_user_embeddings None user d = Ok old"
    and "replace_model_with_embeddings f clock user label (map embedding_bytes es) False em dev key d = (Ok mid, d')"
  shows "get_user_embeddings None user d' =
    Ok (filter (\<lambda>(i, _). i \<notin> labelled_ids user label d) old @ map (Pair mid) es)"
proof -
  note R = replace_Ok[OF assms(5)]
  have fit: "ids_fit d" using assms(2) by (simp add: ids_fit_def)
  have fit': "ids_fit d'" using R replaced_ids_fit[OF assms(2)] by simp
  have inv': "db_inv d'" using assms(5) replaced_inv assms(1) by blast
  have raw: "map raw_of (user_join user d') =
      filter (\<lambda>r. rw_model_id r \<notin> labelled_ids user label d) (map raw_of (user_join user d)) @
      map (\<lambda>b. \<lparr>rw_model_id = mid, rw_blob = b, rw_sealed = False,
                rw_device_id = dev, rw_key_id = key\<rparr>) (map embedding_bytes es)"
    using replace_raw[OF assms(1,2,5)] .
  show ?thesis
    using assms(3,4)
    unfolding get_user_embeddings_eq[OF assms(1) fit] get_user_embeddings_eq[OF inv' fit'] raw decode_rows_Ok
    by (auto simp: list_all_iff filter_map comp_def length_embedding_bytes bytes_f32s_embedding case_prod_unfold)
qed

definition sample_blobs :: "bytes list" where
  "sample_blobs = [[1], [2], [3]]"

definition sample_db :: db where
  "sample_db = snd (replace_model_with_embeddings (\<lambda>_. None) (Some 7) ''alice'' ''front''
     sample_blobs True ''m'' (Some ''046d:085e:'') None (open_memory ''facelock.db''))"

lemma sample_replace:
  "replace_model_with_embeddings (\<lambda>_. None) (Some 7) ''alice'' ''front'' sample_blobs True ''m''
     (Some ''046d:085e:'') None (open_memory ''facelock.db'') = (Ok 1, sample_db)"
  by (simp add: sample_db_def sample_blobs_def replace_model_with_embeddings_def open_memory_def
      MIN_EMBEDDINGS_PER_MODEL_def finish_def exec_def sql_delete_models_def sql_insert_emb_def
      sql_insert_model_def insert_model_row_def Let_def)

theorem replace_model_atomic_witness:
  "get_user_embeddings_raw_with_device None ''alice'' sample_db =
     Ok (map (\<lambda>b. \<lparr>rw_model_id = 1, rw_blob = b, rw_sealed = True,
                    rw_device_id = Some ''046d:085e:'', rw_key_id = None\<rparr>) sample_blobs)"
  using replace_model_atomic[OF open_memory_inv _ sample_replace]
  by (auto simp: open_memory_def get_user_embeddings_raw_with_device_def query_def user_join_def)



theorem plaintext_enrollment_roundtrip_witness:
  "\<exists>mid d'. replace_model_with_embeddings (\<lambda>_. None) None ''bob'' ''side''
      (map embedding_bytes (replicate 3 (axis 0))) False ''m'' None None (open_memory ''facelock.db'') = (Ok mid, d') \<and>
    get_user_embeddings None ''bob'' d' = Ok (map (Pair mid) (replicate 3 (axis 0)))"
proof -
  have ok: "is_ok (fst (replace_model_with_embeddings (\<lambda>_. None) None ''bob'' ''side''
      (map embedding_bytes (replicate 3 (axis 0))) False ''m'' None None (open_memory ''facelock.db'')))"
    by (rule replace_progress) (simp_all add: open_memory_def)
  then obtain mid d' where r: "replace_model_with_embeddings (\<lambda>_. None) None ''bob'' ''side''
      (map embedding_bytes (replicate 3 (axis 0))) False ''m'' None None (open_memory ''facelock.db'') = (Ok mid, d')"
    by (metis is_ok_iff prod.collapse)
  have old: "get_user_embeddings None ''bob'' (open_memory ''facelock.db'') = Ok []"
    by (simp add: get_user_embeddings_def query_def open_memory_def user_join_def)
  have len: "list_all (\<lambda>e. length e = 512) (replicate 3 (axis 0))"
    by (simp add: axis_def list_all_iff)
  show ?thesis using r plaintext_enrollment_roundtrip[OF open_memory_inv _ len old r]
    by (auto simp: open_memory_def)
qed

end
