(* ===== verification/RateLimit.thy ===== *)
theory RateLimit
  imports Store
begin

text \<open>
  \<^verbatim>\<open>facelock-daemon/src/rate_limit.rs\<close>: the per-user limiter over the store's attempt
  rows, and its specification: the verdict depends only on the failures recorded within
  the window, however often stale rows were cleaned up in between.
\<close>

record rate_limiter =
  rlm_max_failures :: u32
  rlm_window_secs :: u64

type_synonym clock_reads = "nat \<Rightarrow> u64 option"

definition rl_check ::
  "faults \<Rightarrow> clock_reads \<Rightarrow> rate_limiter \<Rightarrow> string \<Rightarrow> db \<Rightarrow> (bool, string) result \<times> db" where
  "rl_check f clk rl user d =
     (let d1 = snd (cleanup_rate_limit (f 0) (clk 0) (rlm_window_secs rl) d) in
      (map_err store_error_display
         (check_rate_limit (f 1) (clk 1) user (rlm_max_failures rl) (rlm_window_secs rl) d1), d1))"

definition rl_record_failure ::
  "faults \<Rightarrow> clock_reads \<Rightarrow> rate_limiter \<Rightarrow> string \<Rightarrow> db \<Rightarrow> (unit, string) result \<times> db" where
  "rl_record_failure f clk rl user d =
     (case record_auth_attempt (f 0) (clk 0) user d of
        (Err e, d1) \<Rightarrow> (Err (store_error_display e), d1)
      | (Ok _, d1) \<Rightarrow> (Ok (), snd (cleanup_rate_limit (f 1) (clk 1) (rlm_window_secs rl) d1)))"

subsection \<open>Runs of the limiter\<close>

text \<open>An interaction with the limiter: a check or a recorded failure, with its faults and
  clock readings. The history is the failures whose insertion succeeded.\<close>

datatype rl_event = RlCheck faults clock_reads string | RlFail faults clock_reads string

fun rl_step :: "rate_limiter \<Rightarrow> rl_event \<Rightarrow> db \<Rightarrow> db" where
  "rl_step rl (RlCheck f clk user) d = snd (rl_check f clk rl user d)"
| "rl_step rl (RlFail f clk user) d = snd (rl_record_failure f clk rl user d)"

definition rl_run :: "rate_limiter \<Rightarrow> rl_event list \<Rightarrow> db \<Rightarrow> db" where
  "rl_run rl evs d = fold (rl_step rl) evs d"

fun rl_logged :: "rl_event \<Rightarrow> (string \<times> u64) list" where
  "rl_logged (RlCheck f clk user) = []"
| "rl_logged (RlFail f clk user) = (if f 0 = None then [(user, rl_now (clk 0))] else [])"

definition rl_history :: "rl_event list \<Rightarrow> (string \<times> u64) list" where
  "rl_history evs = concat (map rl_logged evs)"

definition recent :: "int \<Rightarrow> string \<Rightarrow> int \<Rightarrow> (string \<times> u64) list \<Rightarrow> nat" where
  "recent w user now log = length (filter (\<lambda>(u, t). u = user \<and> now - w < sint t) log)"

text \<open>Every clock reading of the event lies between 0 and \<open>now\<close>.\<close>

fun rl_timely :: "int \<Rightarrow> rl_event \<Rightarrow> bool" where
  "rl_timely now (RlCheck f clk user) = (\<forall>k \<in> {0, 1}. 0 \<le> sint (rl_now (clk k)) \<and> sint (rl_now (clk k)) \<le> now)"
| "rl_timely now (RlFail f clk user) = (\<forall>k \<in> {0, 1}. 0 \<le> sint (rl_now (clk k)) \<and> sint (rl_now (clk k)) \<le> now)"

subsection \<open>Windowed logs\<close>

text \<open>The contract the limiter needs from its log: recording appends, and a cleanup at time
  \<open>t\<close> drops only entries that are already outside the window at \<open>t\<close>.\<close>

locale windowed_log =
  fixes entries :: "'d \<Rightarrow> (string \<times> u64) list"
    and append_entry :: "string \<Rightarrow> u64 \<Rightarrow> 'd \<Rightarrow> 'd"
    and prune :: "u64 \<Rightarrow> 'd \<Rightarrow> 'd"
    and admissible :: "u64 \<Rightarrow> bool"
    and w :: int
  assumes entries_append: "entries (append_entry u t d) = entries d @ [(u, t)]"
    and entries_prune: "admissible t \<Longrightarrow>
      entries (prune t d) = filter (\<lambda>(u, s). sint t - w < sint s) (entries d)"
begin

lemma recent_prune:
  "admissible t \<Longrightarrow> sint t \<le> now \<Longrightarrow> recent w u now (entries (prune t d)) = recent w u now (entries d)"
  by (simp add: recent_def entries_prune case_prod_unfold)
    (rule arg_cong[where f = length], rule filter_cong, auto)

lemma recent_append:
  "recent w u now (entries (append_entry v t d)) =
     recent w u now (entries d) + (if v = u \<and> now - w < sint t then 1 else 0)"
  by (simp add: recent_def entries_append)

end

lemma sint_diff_nonneg:
  fixes a b :: u64
  assumes "0 \<le> sint a" "0 \<le> sint b"
  shows "sint (a - b) = sint a - sint b"
proof -
  have "sint a < 2 ^ 63" "sint b < 2 ^ 63" using sint_lt[of a] sint_lt[of b] by simp_all
  then show ?thesis using assms
    by (simp add: sint_word_ariths signed_take_bit_int_eq_self)
qed

definition db_append :: "string \<Rightarrow> u64 \<Rightarrow> db \<Rightarrow> db" where
  "db_append u t d = snd (record_auth_attempt None (Some t) u d)"

definition db_prune :: "u64 \<Rightarrow> u64 \<Rightarrow> db \<Rightarrow> db" where
  "db_prune win t d = snd (cleanup_rate_limit None (Some t) win d)"

lemma prune_entries:
  "0 \<le> sint t \<and> 0 \<le> sint win \<Longrightarrow>
     db_rate (db_prune win t d) = filter (\<lambda>(u, s). sint t - sint win < sint s) (db_rate d)"
  by (simp add: db_prune_def cleanup_rate_limit_def rl_cutoff_def rl_now_def sint_diff_nonneg not_le)

text \<open>The store's attempt table is such a log, for any window that fits in 63 bits.\<close>

interpretation store_log: windowed_log db_rate db_append "db_prune win"
  "\<lambda>t. 0 \<le> sint t \<and> 0 \<le> sint win" "sint win" for win :: u64
  by unfold_locales (simp_all add: db_append_def record_auth_attempt_def rl_now_def prune_entries)

lemma cleanup_conv:
  "snd (cleanup_rate_limit fault clock win d) = (if fault = None then db_prune win (rl_now clock) d else d)"
  by (cases fault) (simp_all add: cleanup_rate_limit_def db_prune_def rl_cutoff_def rl_now_def)

lemma record_conv:
  "snd (record_auth_attempt fault clock u d) = (if fault = None then db_append u (rl_now clock) d else d)"
  by (cases fault) (simp_all add: record_auth_attempt_def db_append_def rl_now_def)

lemma recent_cleanup:
  assumes "0 \<le> sint win" "0 \<le> sint (rl_now clock)" "sint (rl_now clock) \<le> now"
  shows "recent (sint win) u now (db_rate (snd (cleanup_rate_limit fault clock win d))) =
    recent (sint win) u now (db_rate d)"
  using assms store_log.recent_prune[of "rl_now clock" win now u d] by (simp add: cleanup_conv)

lemma recent_snoc_log:
  "recent w u now (xs @ ys) = recent w u now xs + recent w u now ys"
  by (simp add: recent_def)

lemma rl_record_failure_db:
  "snd (rl_record_failure f clk rl user d) =
     (if f 0 = None then snd (cleanup_rate_limit (f 1) (clk 1) (rlm_window_secs rl) (db_append user (rl_now (clk 0)) d)) else d)"
  by (cases "f 0") (simp_all add: rl_record_failure_def record_auth_attempt_def db_append_def rl_now_def)

lemma rl_step_recent:
  assumes "0 \<le> sint (rlm_window_secs rl)" "rl_timely now ev"
  shows "recent (sint (rlm_window_secs rl)) u now (db_rate (rl_step rl ev d)) =
    recent (sint (rlm_window_secs rl)) u now (db_rate d) + recent (sint (rlm_window_secs rl)) u now (rl_logged ev)"
proof (cases ev)
  case (RlCheck f clk user)
  then show ?thesis using assms by (simp add: rl_check_def Let_def recent_cleanup) (simp add: recent_def)
next
  case (RlFail f clk user)
  then show ?thesis using assms store_log.recent_append
    by (simp add: rl_record_failure_db recent_cleanup) (simp add: recent_def)
qed

lemma rl_run_recent:
  assumes "0 \<le> sint (rlm_window_secs rl)" "list_all (rl_timely now) evs"
  shows "recent (sint (rlm_window_secs rl)) u now (db_rate (rl_run rl evs d)) =
    recent (sint (rlm_window_secs rl)) u now (db_rate d) + recent (sint (rlm_window_secs rl)) u now (rl_history evs)"
  using assms(2)
proof (induction evs arbitrary: d)
  case Nil
  then show ?case by (simp add: rl_run_def rl_history_def recent_def)
next
  case (Cons ev evs)
  then show ?case
    using rl_step_recent[OF assms(1), of now ev u d]
    by (simp add: rl_run_def rl_history_def recent_snoc_log)
qed

lemma check_verdict:
  assumes "0 \<le> sint win" "0 \<le> sint now" "recent (sint win) user (sint now) (db_rate d) < 2 ^ 32"
  shows "check_rate_limit None (Some now) user max_attempts win d =
    Ok (recent (sint win) user (sint now) (db_rate d) < unat max_attempts)"
proof -
  have "(of_nat n :: u32) < max_attempts \<longleftrightarrow> n < unat max_attempts" if "n < 2 ^ 32" for n
    using that by (simp add: word_less_nat_alt unat_u32)
  then show ?thesis using assms
    by (simp add: check_rate_limit_def query_def recent_def rl_cutoff_def rl_now_def sint_diff_nonneg get_u32_def)
qed

text \<open>The verdict after a run, from any attempt table.\<close>

lemma limiter_verdict:
  assumes "0 \<le> sint (rlm_window_secs rl)" and "0 \<le> sint now"
    and "list_all (rl_timely (sint now)) evs"
    and "recent (sint (rlm_window_secs rl)) user (sint now) (db_rate d @ rl_history evs) < 2 ^ 32"
  shows "fst (rl_check (\<lambda>_. None) (\<lambda>_. Some now) rl user (rl_run rl evs d)) =
    Ok (recent (sint (rlm_window_secs rl)) user (sint now) (db_rate d @ rl_history evs) < unat (rlm_max_failures rl))"
proof -
  let ?w = "sint (rlm_window_secs rl)"
  let ?d = "snd (cleanup_rate_limit None (Some now) (rlm_window_secs rl) (rl_run rl evs d))"
  have "recent ?w user (sint now) (db_rate ?d) = recent ?w user (sint now) (db_rate d @ rl_history evs)"
    using rl_run_recent[OF assms(1,3)] recent_cleanup[OF assms(1), of "Some now"] assms(2)
    by (simp add: rl_now_def recent_snoc_log)
  with check_verdict[OF assms(1,2), of user ?d] assms(4) show ?thesis
    by (simp add: rl_check_def)
qed

text \<open>C20: the limiter's verdict is exactly the policy. For any sequence of checks and recorded
  failures over any users, with any statement failures, whose clock readings do not exceed
  \<^verbatim>\<open>now\<close>, a check at \<^verbatim>\<open>now\<close> admits the user if and only if fewer than \<^verbatim>\<open>max_failures\<close> of the
  failures that were recorded for that user lie within the last \<^verbatim>\<open>window_secs\<close>. The opportunistic
  cleanups never forget a failure that still counts, and other users' failures never count.\<close>

theorem limiter_verdict_exact:
  assumes "0 \<le> sint (rlm_window_secs rl)" and "0 \<le> sint now"
    and "list_all (rl_timely (sint now)) evs" and "db_rate d = []"
    and "recent (sint (rlm_window_secs rl)) user (sint now) (rl_history evs) < 2 ^ 32"
  shows "fst (rl_check (\<lambda>_. None) (\<lambda>_. Some now) rl user (rl_run rl evs d)) =
    Ok (recent (sint (rlm_window_secs rl)) user (sint now) (rl_history evs) < unat (rlm_max_failures rl))"
  using limiter_verdict[OF assms(1-3), of user d] assms(4,5) by simp

definition sample_limiter :: rate_limiter where
  "sample_limiter = \<lparr>rlm_max_failures = 2, rlm_window_secs = 60\<rparr>"

definition sample_failure :: "string \<Rightarrow> u64 \<Rightarrow> rl_event" where
  "sample_failure u t = RlFail (\<lambda>_. None) (\<lambda>_. Some t) u"

theorem limiter_verdict_exact_witness:
  "fst (rl_check (\<lambda>_. None) (\<lambda>_. Some 120) sample_limiter ''alice''
     (rl_run sample_limiter [sample_failure ''alice'' 100, sample_failure ''bob'' 101, sample_failure ''alice'' 110]
       (open_memory ''facelock.db''))) = Ok False"
  using limiter_verdict_exact[of sample_limiter 120
      "[sample_failure ''alice'' 100, sample_failure ''bob'' 101, sample_failure ''alice'' 110]"
      "open_memory ''facelock.db''" "''alice''"]
  by (simp add: sample_limiter_def sample_failure_def rl_now_def rl_history_def recent_def open_memory_def)



end
