(* ===== verification/AuthGate.thy ===== *)
theory AuthGate
  imports AuditLog RateLimit
begin

text \<open>
  The pre-flight half of \<^verbatim>\<open>facelock-daemon/src/auth.rs\<close>: rejection classes with their
  rendering and its inverse, the lid resolver of \<^verbatim>\<open>pam-facelock/src/lid.rs\<close>, and the gates
  that run before any camera is opened, with the audit entry of a rejection.
\<close>

subsection \<open>Rejection classes\<close>

datatype error_kind =
    KDisabled | KSshSession | KLidClosed | KLidUnavailable | KStorage | KRateLimited
  | KRateLimitCheckFailed | KIrRequired | KY16BitDepthRequired | KAllFramesDark | KInternal

definition all_kinds :: "error_kind list" where
  "all_kinds = [KDisabled, KSshSession, KLidClosed, KLidUnavailable, KStorage, KRateLimited,
                KRateLimitCheckFailed, KIrRequired, KY16BitDepthRequired, KAllFramesDark, KInternal]"

fun render :: "error_kind \<Rightarrow> string \<Rightarrow> string" where
  "render KDisabled detail = ''facelock is disabled''"
| "render KSshSession detail = ''SSH session detected''"
| "render KLidClosed detail = ''lid closed''"
| "render KLidUnavailable detail = ''lid state unavailable''"
| "render KStorage detail = ''storage error: '' @ detail"
| "render KRateLimited detail = ''rate limited''"
| "render KRateLimitCheckFailed detail = ''rate limit check failed: '' @ detail"
| "render KIrRequired detail = ''IR camera required for authentication. Set security.require_ir = false to override (NOT RECOMMENDED).''"
| "render KY16BitDepthRequired detail = ''Y16 IR texture scale is unverified; authentication requires a verified y16_bit_depth (8..=16) quirk''"
| "render KAllFramesDark detail = ''all frames dark''"
| "render KInternal detail = detail"

fun audit_result :: "error_kind \<Rightarrow> string" where
  "audit_result KRateLimited = ''rate_limited''"
| "audit_result _ = ''error''"

definition kind_accepts :: "string \<Rightarrow> error_kind \<Rightarrow> bool" where
  "kind_accepts message k =
     (case k of
        KStorage \<Rightarrow> starts_with message (render k [])
      | KRateLimitCheckFailed \<Rightarrow> starts_with message (render k [])
      | KInternal \<Rightarrow> False
      | _ \<Rightarrow> message = render k [])"

definition classify_kind :: "string \<Rightarrow> error_kind" where
  "classify_kind message =
     (case find (kind_accepts message) all_kinds of Some k \<Rightarrow> k | None \<Rightarrow> KInternal)"

datatype auth_outcome =
    AuthResult match_result
  | Suppressed
  | AuthError error_kind string
  | Cancelled

definition CANCELLED_MESSAGE :: string where
  "CANCELLED_MESSAGE = ''cancelled''"

definition error_with :: "error_kind \<Rightarrow> string \<Rightarrow> auth_outcome" where
  "error_with k detail = AuthError k (render k detail)"

subsection \<open>The lid\<close>

datatype lid_state = LidClosed | LidOpen | LidAbsent

text \<open>\<^verbatim>\<open>str::split_whitespace\<close> on ASCII text.\<close>

definition is_space :: "char \<Rightarrow> bool" where
  "is_space c = (let n = of_char c :: nat in n = 32 \<or> 9 \<le> n \<and> n \<le> 13)"

fun words_of :: "string \<Rightarrow> string \<Rightarrow> string list" where
  "words_of acc [] = (if acc = [] then [] else [rev acc])"
| "words_of acc (c # cs) =
     (if is_space c then (if acc = [] then words_of [] cs else rev acc # words_of [] cs)
      else words_of (c # acc) cs)"

text \<open>The directory listing is an argument: \<open>None\<close> when it cannot be read, and per entry the
  contents of its state file, or \<open>None\<close> when that cannot be read.\<close>

fun lid_scan :: "bool \<Rightarrow> string option list \<Rightarrow> lid_state" where
  "lid_scan readable [] = (if readable then LidOpen else LidAbsent)"
| "lid_scan readable (None # es) = lid_scan readable es"
| "lid_scan readable (Some s # es) =
     (if list_ex (\<lambda>w. w = ''closed'') (words_of [] s) then LidClosed else lid_scan True es)"

definition lid_state_under :: "string option list option \<Rightarrow> lid_state" where
  "lid_state_under entries = (case entries of None \<Rightarrow> LidAbsent | Some es \<Rightarrow> lid_scan False es)"

definition is_lid_closed_under :: "string option list option \<Rightarrow> bool" where
  "is_lid_closed_under entries = (lid_state_under entries = LidClosed)"

datatype lid_source = LocalProcfs | Resolved bool | Unavailable

definition lid_refusal :: "lid_source \<Rightarrow> lid_state \<Rightarrow> error_kind option" where
  "lid_refusal src procfs =
     (case src of
        Resolved True \<Rightarrow> Some KLidClosed
      | Resolved False \<Rightarrow> None
      | LocalProcfs \<Rightarrow> (case procfs of LidClosed \<Rightarrow> Some KLidClosed | _ \<Rightarrow> None)
      | Unavailable \<Rightarrow> (case procfs of LidClosed \<Rightarrow> Some KLidClosed | LidOpen \<Rightarrow> None
                       | LidAbsent \<Rightarrow> Some KLidUnavailable))"

subsection \<open>The gates\<close>

record pre_check_context =
  px_skip_ssh_gate :: bool
  px_skip_lid_gate :: bool
  px_lid_source :: lid_source

definition ctx_enforced :: pre_check_context where
  "ctx_enforced = \<lparr>px_skip_ssh_gate = False, px_skip_lid_gate = False, px_lid_source = LocalProcfs\<rparr>"

definition ctx_daemon_authenticate :: "lid_source \<Rightarrow> pre_check_context" where
  "ctx_daemon_authenticate src =
     \<lparr>px_skip_ssh_gate = True, px_skip_lid_gate = False, px_lid_source = src\<rparr>"

definition ctx_test :: pre_check_context where
  "ctx_test = \<lparr>px_skip_ssh_gate = True, px_skip_lid_gate = True, px_lid_source = LocalProcfs\<rparr>"

text \<open>What the gates observe: environment variables, the lid directory, the faults and clock
  readings of the store queries (statement 0 is the enrollment query), and for the audit entry
  the wall clock.\<close>

record gate_env =
  ge_ssh_connection :: bool
  ge_ssh_tty :: bool
  ge_lid :: "string option list option"
  ge_has_models_fault :: "sql_error option"
  ge_rl_faults :: faults
  ge_rl_clock :: clock_reads
  ge_stamp :: "u64 option"

definition is_ssh_session :: "gate_env \<Rightarrow> bool" where
  "is_ssh_session ge = (ge_ssh_connection ge \<or> ge_ssh_tty ge)"

definition no_models_result :: match_result where
  "no_models_result = \<lparr>mr_matched = False, mr_model_id = None, mr_label = None, mr_similarity = 0,
                       mr_face_detected = False, mr_failure_reason = None\<rparr>"

definition lid_gate :: "config \<Rightarrow> pre_check_context \<Rightarrow> gate_env \<Rightarrow> error_kind option" where
  "lid_gate cfg ctx ge =
     (if \<not> px_skip_lid_gate ctx \<and> sc_abort_if_lid_closed (cf_security cfg)
      then lid_refusal (px_lid_source ctx) (lid_state_under (ge_lid ge)) else None)"

definition pre_check_with_context ::
  "config \<Rightarrow> gate_env \<Rightarrow> string \<Rightarrow> rate_limiter \<Rightarrow> camera_caps \<Rightarrow> pre_check_context \<Rightarrow> db \<Rightarrow>
   auth_outcome option \<times> db" where
  "pre_check_with_context cfg ge user rl caps ctx d =
     (let s = cf_security cfg in
      if sc_disabled s then (Some (error_with KDisabled []), d)
      else if \<not> px_skip_ssh_gate ctx \<and> sc_abort_if_ssh s \<and> is_ssh_session ge
      then (Some (error_with KSshSession []), d)
      else case lid_gate cfg ctx ge of
        Some k \<Rightarrow> (Some (error_with k []), d)
      | None \<Rightarrow>
          (case has_models (ge_has_models_fault ge) user d of
             Err e \<Rightarrow> (Some (error_with KStorage (store_error_display e)), d)
           | Ok False \<Rightarrow>
               (if sc_suppress_unknown s then (Some Suppressed, d)
                else (Some (AuthResult no_models_result), d))
           | Ok True \<Rightarrow>
               (case rl_check (ge_rl_faults ge) (ge_rl_clock ge) rl user d of
                  (Ok False, d1) \<Rightarrow> (Some (error_with KRateLimited []), d1)
                | (Err e, d1) \<Rightarrow> (Some (error_with KRateLimitCheckFailed e), d1)
                | (Ok True, d1) \<Rightarrow>
                    if cc_ir_texture_scale caps = UnverifiedY16
                    then (Some (error_with KY16BitDepthRequired []), d1)
                    else if sc_require_ir s \<and> \<not> cc_is_ir caps
                    then (Some (error_with KIrRequired []), d1)
                    else (None, d1))))"

definition pre_check ::
  "config \<Rightarrow> gate_env \<Rightarrow> string \<Rightarrow> rate_limiter \<Rightarrow> camera_caps \<Rightarrow> db \<Rightarrow> auth_outcome option \<times> db" where
  "pre_check cfg ge user rl caps d = pre_check_with_context cfg ge user rl caps ctx_enforced d"

definition rejection_labels :: "auth_outcome \<Rightarrow> string \<times> string option" where
  "rejection_labels resp =
     (case resp of
        AuthError k m \<Rightarrow> (audit_result k, Some m)
      | AuthResult mr \<Rightarrow> if \<not> mr_matched mr then (''failure'', None) else (''error'', None)
      | Suppressed \<Rightarrow> (''suppressed'', None)
      | Cancelled \<Rightarrow> (''error'', None))"

text \<open>The outcome, the database, and the audit entries handed to the writer.\<close>

definition pre_check_audited_with_context ::
  "config \<Rightarrow> gate_env \<Rightarrow> string \<Rightarrow> rate_limiter \<Rightarrow> camera_caps \<Rightarrow> audit_source \<Rightarrow> pre_check_context \<Rightarrow>
   db \<Rightarrow> auth_outcome option \<times> db \<times> audit_entry list" where
  "pre_check_audited_with_context cfg ge user rl caps src ctx d =
     (case pre_check_with_context cfg ge user rl caps ctx d of
        (None, d1) \<Rightarrow> (None, d1, [])
      | (Some resp, d1) \<Rightarrow>
          let (result, err) = rejection_labels resp in
          (Some resp, d1,
           [\<lparr>ae_timestamp = now_iso8601 (ge_stamp ge), ae_user = user, ae_result = result,
             ae_source = Some src, ae_similarity = None, ae_frame_count = None,
             ae_duration_ms = None, ae_device = dc_path (cf_device cfg), ae_model_label = None,
             ae_error = err\<rparr>]))"

definition pre_check_audited ::
  "config \<Rightarrow> gate_env \<Rightarrow> string \<Rightarrow> rate_limiter \<Rightarrow> camera_caps \<Rightarrow> audit_source \<Rightarrow> db \<Rightarrow>
   auth_outcome option \<times> db \<times> audit_entry list" where
  "pre_check_audited cfg ge user rl caps src d =
     pre_check_audited_with_context cfg ge user rl caps src ctx_enforced d"

subsection \<open>Properties\<close>

text \<open>The class of a rejection survives the wire. For every class except the fallback,
  classifying the rendered message recovers the class, whatever detail was interpolated.\<close>

theorem classify_render:
  assumes "k \<noteq> KInternal"
  shows "classify_kind (render k detail) = k"
  using assms by (cases k) (simp_all add: classify_kind_def all_kinds_def kind_accepts_def)

theorem classify_render_witness:
  "classify_kind (render KStorage ''disk I/O error'') = KStorage"
  by (rule classify_render) simp

text \<open>The pure reading of the gates: what lets an attempt through.\<close>

definition gates_open :: "config \<Rightarrow> gate_env \<Rightarrow> string \<Rightarrow> rate_limiter \<Rightarrow> camera_caps \<Rightarrow> pre_check_context \<Rightarrow> db \<Rightarrow> bool" where
  "gates_open cfg ge user rl caps ctx d \<longleftrightarrow>
     \<not> sc_disabled (cf_security cfg) \<and>
     (px_skip_ssh_gate ctx \<or> \<not> sc_abort_if_ssh (cf_security cfg) \<or> \<not> is_ssh_session ge) \<and>
     lid_gate cfg ctx ge = None \<and>
     has_models (ge_has_models_fault ge) user d = Ok True \<and>
     fst (rl_check (ge_rl_faults ge) (ge_rl_clock ge) rl user d) = Ok True \<and>
     cc_ir_texture_scale caps \<noteq> UnverifiedY16 \<and>
     (sc_require_ir (cf_security cfg) \<longrightarrow> cc_is_ir caps)"

lemma pre_check_None_iff:
  "fst (pre_check_with_context cfg ge user rl caps ctx d) = None \<longleftrightarrow> gates_open cfg ge user rl caps ctx d"
  by (auto simp: pre_check_with_context_def gates_open_def Let_def error_with_def
      split: option.splits result.splits bool.splits prod.splits if_splits)

lemma pre_check_never_matches:
  "fst (pre_check_with_context cfg ge user rl caps ctx d) = Some (AuthResult mr) \<Longrightarrow> \<not> mr_matched mr"
  by (auto simp: pre_check_with_context_def Let_def error_with_def no_models_result_def
      split: option.splits result.splits bool.splits prod.splits if_splits)

lemma rl_check_db:
  "db_models (snd (rl_check f clk rl user d)) = db_models d"
  "db_embs (snd (rl_check f clk rl user d)) = db_embs d"
  "set (db_rate (snd (rl_check f clk rl user d))) \<subseteq> set (db_rate d)"
  by (auto simp: rl_check_def cleanup_rate_limit_def Let_def split: option.splits)

lemma pre_check_db:
  "snd (pre_check_with_context cfg ge user rl caps ctx d) \<in>
     {d, snd (rl_check (ge_rl_faults ge) (ge_rl_clock ge) rl user d)}"
  by (auto simp: pre_check_with_context_def Let_def
      split: option.splits result.splits bool.splits prod.splits if_splits)


definition sample_env :: gate_env where
  "sample_env = \<lparr>ge_ssh_connection = False, ge_ssh_tty = False, ge_lid = None,
     ge_has_models_fault = None, ge_rl_faults = (\<lambda>_. None), ge_rl_clock = (\<lambda>_. Some 1000), ge_stamp = None\<rparr>"


text \<open>The test context skips the SSH and lid gates and nothing else: running the gates for
  \<^verbatim>\<open>facelock test\<close> gives the outcome that the fully enforced gates give on a machine with no SSH
  session and no lid device.\<close>

theorem test_context_skips_env_gates_only:
  "pre_check_with_context cfg ge user rl caps ctx_test d =
   pre_check_with_context cfg (ge\<lparr>ge_ssh_connection := False, ge_ssh_tty := False, ge_lid := None\<rparr>)
     user rl caps ctx_enforced d"
  by (simp add: pre_check_with_context_def ctx_test_def ctx_enforced_def lid_gate_def is_ssh_session_def
      lid_refusal_def lid_state_under_def Let_def cong del: result.case_cong_weak bool.case_cong_weak)

lemma lid_scan_closed:
  "lid_scan b es = LidClosed \<longleftrightarrow> (\<exists>s \<in> set es. \<exists>c. s = Some c \<and> ''closed'' \<in> set (words_of [] c))"
  by (induction b es rule: lid_scan.induct) (auto simp: list_ex_iff)

lemma lid_scan_absent: "lid_scan b es = LidAbsent \<longleftrightarrow> \<not> b \<and> (\<forall>s \<in> set es. s = None)"
  by (induction b es rule: lid_scan.induct) auto

text \<open>The lid gate fails closed for the daemon. When the gate applies and the transport could
  not read the lid, the attempt proceeds only if some lid device is readable in procfs and none
  reports closed; a daemon that sees no lid device at all refuses.\<close>

theorem daemon_lid_gate_fails_closed:
  assumes "sc_abort_if_lid_closed (cf_security cfg)"
  shows "lid_gate cfg (ctx_daemon_authenticate Unavailable) ge = None \<longleftrightarrow>
    (\<exists>es. ge_lid ge = Some es \<and> (\<exists>c. Some c \<in> set es) \<and>
          (\<forall>c. Some c \<in> set es \<longrightarrow> ''closed'' \<notin> set (words_of [] c)))"
proof (cases "ge_lid ge")
  case None
  then show ?thesis using assms
    by (simp add: lid_gate_def ctx_daemon_authenticate_def lid_refusal_def lid_state_under_def)
next
  case (Some es)
  have "lid_scan False es = LidOpen \<longleftrightarrow> lid_scan False es \<noteq> LidClosed \<and> lid_scan False es \<noteq> LidAbsent"
    by (cases "lid_scan False es") simp_all
  also have "\<dots> \<longleftrightarrow> (\<exists>c. Some c \<in> set es) \<and> (\<forall>c. Some c \<in> set es \<longrightarrow> ''closed'' \<notin> set (words_of [] c))"
    by (auto simp: lid_scan_closed lid_scan_absent)
  finally show ?thesis using Some assms
    by (auto simp: lid_gate_def ctx_daemon_authenticate_def lid_refusal_def lid_state_under_def
        split: lid_state.splits)
qed

theorem daemon_lid_gate_fails_closed_witness:
  "lid_gate default_config (ctx_daemon_authenticate Unavailable)
     \<lparr>ge_ssh_connection = False, ge_ssh_tty = False, ge_lid = Some [Some ''state:      open''],
      ge_has_models_fault = None, ge_rl_faults = (\<lambda>_. None), ge_rl_clock = (\<lambda>_. None), ge_stamp = None\<rparr> = None"
  by (subst daemon_lid_gate_fails_closed)
    (simp_all add: default_config_def default_security_config_def is_space_def)

end
