(* ===== verification/FrameChecks.thy ===== *)
theory FrameChecks
  imports FaceTypes
begin

text \<open>
  Checks on single frames and on landmark histories that the authentication loop uses:
  darkness (\<^verbatim>\<open>facelock-camera/src/capture.rs\<close>), IR skin texture
  (\<^verbatim>\<open>facelock-camera/src/preprocess.rs\<close>) and landmark liveness
  (\<^verbatim>\<open>facelock-daemon/src/liveness.rs\<close>). A Rust panic (division by a zero width, an
  impossible allocation) is the result \<open>None\<close>. The release build's wrapping integer
  arithmetic is written out where it can occur.
\<close>

subsection \<open>Conversions\<close>

text \<open>\<^verbatim>\<open>f32 as usize\<close>: truncation, saturating; NaN is 0.\<close>

definition f32_to_usize :: "f32 \<Rightarrow> nat" where
  "f32_to_usize x =
     (if is_nan x \<or> f32_neg x then 0
      else if is_inf x then 2 ^ 64 - 1
      else min (mag_val (f32_mag x) div 2 ^ 149) (2 ^ 64 - 1))"

definition u8_f32 :: "u8 \<Rightarrow> f32" where
  "u8_f32 p = f32_of_nat (unat p)"

subsection \<open>Darkness\<close>

definition is_dark_with_config :: "platform \<Rightarrow> frame \<Rightarrow> f32 \<Rightarrow> u8 \<Rightarrow> bool" where
  "is_dark_with_config pl fr threshold dark_value =
     (let gray = fr_gray fr; n = f32_of_nat (length gray) in
      if gray = [] then False
      else let dark_count = length (filter (\<lambda>p. p < dark_value) gray);
               dark_ratio = f32_div (pl_nan pl) (f32_of_nat dark_count) n
        in if f32_ge dark_ratio threshold then True
           else let total = sum_list (map unat gray);
                    mean = f32_div (pl_nan pl) (f32_of_nat total) n
             in f32_lt mean (f32_lit 20 1))"

subsection \<open>IR texture\<close>

definition extract_bbox_region :: "platform \<Rightarrow> bytes \<Rightarrow> bounding_box \<Rightarrow> u32 \<Rightarrow> bytes option" where
  "extract_bbox_region pl gray bb width =
     (let w = unat width in
      if w = 0 then None
      else let img_h = length gray div w;
               clip = (\<lambda>v. f32_to_usize (f32_max v 0));
               x0 = min (clip (bb_x bb)) (w - 1);
               y0 = min (clip (bb_y bb)) (img_h - 1);
               x1 = min (clip (f32_add (pl_nan pl) (bb_x bb) (bb_width bb))) w;
               y1 = min (clip (f32_add (pl_nan pl) (bb_y bb) (bb_height bb))) img_h;
               wrap = (\<lambda>i::int. nat (i mod 2 ^ 64));
               capacity = (wrap (int x1 - int x0) * wrap (int y1 - int y0)) mod 2 ^ 64
        in if 2 ^ 63 \<le> capacity then None
           else Some (concat (map (\<lambda>row. map (\<lambda>col. gray ! (row * w + col)) [x0..<x1]) [y0..<y1])))"

definition check_ir_texture :: "platform \<Rightarrow> bytes \<Rightarrow> bounding_box \<Rightarrow> u32 \<Rightarrow> f32 \<Rightarrow> bool option" where
  "check_ir_texture pl gray bb width min_stddev =
     (case extract_bbox_region pl gray bb width of
        None \<Rightarrow> None
      | Some px \<Rightarrow>
          if px = [] then Some False
          else let qn = pl_nan pl; n = f32_of_nat (length px);
                   mean = f32_div qn (f32_sum qn (map u8_f32 px)) n;
                   sq = (\<lambda>p. let d = f32_sub qn (u8_f32 p) mean in f32_mul qn d d);
                   variance = f32_div qn (f32_sum qn (map sq px)) n;
                   std_dev = f32_sqrt qn variance
            in Some (f32_gt std_dev min_stddev))"

subsection \<open>Landmark liveness\<close>

record landmark_tracker =
  lt_history :: "point2d list list"
  lt_max_frames :: nat
  lt_displacement_threshold :: f32
  lt_min_moving_landmarks :: nat

definition tracker_new :: "nat \<Rightarrow> f32 \<Rightarrow> nat \<Rightarrow> landmark_tracker" where
  "tracker_new max_frames displacement min_moving =
     \<lparr>lt_history = [], lt_max_frames = max_frames, lt_displacement_threshold = displacement,
      lt_min_moving_landmarks = min_moving\<rparr>"

definition tracker_push :: "point2d list \<Rightarrow> landmark_tracker \<Rightarrow> landmark_tracker" where
  "tracker_push lm t =
     (let h = (if lt_max_frames t \<le> length (lt_history t) then tl (lt_history t) else lt_history t)
      in t\<lparr>lt_history := h @ [lm]\<rparr>)"

definition landmark_moved :: "platform \<Rightarrow> f32 \<Rightarrow> point2d \<Rightarrow> point2d \<Rightarrow> bool" where
  "landmark_moved pl thr a b =
     (let qn = pl_nan pl;
          dx = f32_sub qn (pt_x a) (pt_x b); dy = f32_sub qn (pt_y a) (pt_y b)
      in f32_ge (f32_sqrt qn (f32_add qn (f32_mul qn dx dx) (f32_mul qn dy dy))) thr)"

definition check_liveness :: "platform \<Rightarrow> landmark_tracker \<Rightarrow> bool" where
  "check_liveness pl t =
     (if length (lt_history t) < 2 then False
      else list_ex (\<lambda>(a, b).
          lt_min_moving_landmarks t \<le>
            length (filter (\<lambda>(p, q). landmark_moved pl (lt_displacement_threshold t) p q) (zip a b)))
        (windows2 (lt_history t)))"

definition tracker_reset :: "landmark_tracker \<Rightarrow> landmark_tracker" where
  "tracker_reset t = t\<lparr>lt_history := []\<rparr>"

subsection \<open>The tracker is a sliding window\<close>

definition tracker_inv :: "landmark_tracker \<Rightarrow> landmark_tracker \<Rightarrow> bool" where
  "tracker_inv t0 t \<longleftrightarrow>
     lt_max_frames t = lt_max_frames t0 \<and> lt_displacement_threshold t = lt_displacement_threshold t0 \<and>
     lt_min_moving_landmarks t = lt_min_moving_landmarks t0 \<and> length (lt_history t) \<le> lt_max_frames t"

lemma tracker_push_history:
  assumes "length (lt_history t) \<le> lt_max_frames t" "0 < lt_max_frames t"
  shows "lt_history (tracker_push lm t) = take_last (lt_max_frames t) (lt_history t @ [lm])"
  using assms by (auto simp: tracker_push_def Let_def take_last_snoc take_last_short)

interpretation landmark_window: sliding_window "tracker_new (Suc n) disp k" tracker_push lt_history
  "tracker_inv (tracker_new (Suc n) disp k)" "Suc n" for n disp k
proof unfold_locales
  fix w and e
  assume inv: "tracker_inv (tracker_new (Suc n) disp k) w"
  then show h: "lt_history (tracker_push e w) = take_last (Suc n) (lt_history w @ [e])"
    by (subst tracker_push_history) (auto simp: tracker_inv_def tracker_new_def)
  show "tracker_inv (tracker_new (Suc n) disp k) (tracker_push e w)"
    using inv h by (auto simp: tracker_inv_def tracker_new_def tracker_push_def Let_def)
qed (simp_all add: tracker_new_def tracker_inv_def)

lemma check_liveness_moved:
  assumes "check_liveness pl t" "0 < lt_min_moving_landmarks t"
  obtains a b p q where "(a, b) \<in> set (windows2 (lt_history t))" "(p, q) \<in> set (zip a b)"
    "landmark_moved pl (lt_displacement_threshold t) p q"
proof -
  obtain a b where ab: "(a, b) \<in> set (windows2 (lt_history t))"
    "lt_min_moving_landmarks t \<le> length (filter (\<lambda>(p, q). landmark_moved pl (lt_displacement_threshold t) p q) (zip a b))"
    using assms(1) by (auto simp: check_liveness_def list_ex_iff split: if_splits)
  then have "filter (\<lambda>(p, q). landmark_moved pl (lt_displacement_threshold t) p q) (zip a b) \<noteq> []"
    using assms(2) by auto
  then show thesis using that ab(1) by (auto simp: filter_empty_conv)
qed

end
