(* ===== verification/Quality.thy ===== *)
theory Quality
  imports FrameChecks
begin

text \<open>
  Frame quality for enrollment, \<^verbatim>\<open>facelock-daemon/src/quality.rs\<close>: the four scores of a detected
  face, their weighted sum, the threshold, the angle-diversity check and the hints, on IEEE floats
  and the wrapping integer arithmetic of a release build. A panic (an impossible allocation, an
  inverted slice) is \<open>None\<close>.
\<close>

subsection \<open>Double-precision averages\<close>

text \<open>The quotient of two integers rounded to 53 significant bits, as mantissa and denominator. The
  Laplacian sums are integers below $2^{53}$, so the sums of the source are exact.\<close>

definition f64_quotient :: "nat \<Rightarrow> nat \<Rightarrow> nat \<times> nat" where
  "f64_quotient n d =
     (if n = 0 then (0, 1)
      else let s0 = 53 + bit_len d - bit_len n;
               s = (if n * 2 ^ s0 div d < 2 ^ 53 then s0 else s0 - 1)
        in (round_half_even (n * 2 ^ s) d, 2 ^ s))"

definition f64_quotient_as_f32 :: "nat \<Rightarrow> nat \<Rightarrow> f32" where
  "f64_quotient_as_f32 n d = (case f64_quotient n d of (m, q) \<Rightarrow> f32_round False (m * 2 ^ 149) q)"

text \<open>\<^verbatim>\<open>f32::clamp\<close>: NaN stays NaN.\<close>

definition f32_clamp :: "f32 \<Rightarrow> f32 \<Rightarrow> f32 \<Rightarrow> f32" where
  "f32_clamp x lo hi = (if f32_lt x lo then lo else if f32_lt hi x then hi else x)"

definition f32_to_u32 :: "f32 \<Rightarrow> nat" where
  "f32_to_u32 x = min (f32_to_usize x) (2 ^ 32 - 1)"

subsection \<open>Scores\<close>

record frame_quality =
  fq_centering :: f32
  fq_face_size :: f32
  fq_brightness :: f32
  fq_sharpness :: f32
  fq_overall :: f32

definition MIN_QUALITY_SCORE :: f32 where "MIN_QUALITY_SCORE = f32_lit 35 100"
definition MAX_EMBEDDING_SIMILARITY :: f32 where "MAX_EMBEDDING_SIMILARITY = f32_lit 95 100"

definition score_centering :: "platform \<Rightarrow> bounding_box \<Rightarrow> u32 \<Rightarrow> u32 \<Rightarrow> f32" where
  "score_centering pl bb width height =
     (let add = f32_add (pl_nan pl); sub = f32_sub (pl_nan pl); dv = f32_div (pl_nan pl); two = f32_lit 2 1;
          face_cx = add (bb_x bb) (dv (bb_width bb) two);
          face_cy = add (bb_y bb) (dv (bb_height bb) two);
          frame_cx = dv (f32_of_nat (unat width)) two;
          frame_cy = dv (f32_of_nat (unat height)) two;
          dx = dv (f32_abs (sub face_cx frame_cx)) frame_cx;
          dy = dv (f32_abs (sub face_cy frame_cy)) frame_cy
      in f32_clamp (sub (f32_lit 1 1) (dv (add dx dy) two)) 0 (f32_lit 1 1))"

definition score_face_size :: "platform \<Rightarrow> bounding_box \<Rightarrow> u32 \<Rightarrow> u32 \<Rightarrow> f32" where
  "score_face_size pl bb width height =
     (let mul = f32_mul (pl_nan pl); sub = f32_sub (pl_nan pl); dv = f32_div (pl_nan pl);
          face_area = mul (bb_width bb) (bb_height bb);
          frame_area = mul (f32_of_nat (unat width)) (f32_of_nat (unat height));
          ratio = dv face_area frame_area
      in if f32_lt ratio (f32_lit 5 100) then dv ratio (f32_lit 5 100)
         else if f32_gt ratio (f32_lit 40 100)
         then f32_max (sub (f32_lit 1 1) (dv (sub ratio (f32_lit 40 100)) (f32_lit 60 100))) 0
         else f32_lit 1 1)"

definition face_row :: "bytes \<Rightarrow> nat \<Rightarrow> nat \<Rightarrow> nat \<Rightarrow> nat \<Rightarrow> bytes option" where
  "face_row gray frame_width x_start w y =
     (let row_start = (y * frame_width + x_start) mod 2 ^ 64;
          row_end = min ((row_start + w) mod 2 ^ 64) (length gray)
      in if length gray \<le> row_start then Some []
         else if row_end < row_start then None
         else Some (take (row_end - row_start) (drop row_start gray)))"

fun collect_rows :: "(nat \<Rightarrow> bytes option) \<Rightarrow> nat list \<Rightarrow> bytes option" where
  "collect_rows f [] = Some []"
| "collect_rows f (y # ys) =
     (case f y of None \<Rightarrow> None
      | Some r \<Rightarrow> map_option (\<lambda>rest. r @ rest) (collect_rows f ys))"

definition extract_face_pixels :: "bytes \<Rightarrow> bounding_box \<Rightarrow> u32 \<Rightarrow> bytes option" where
  "extract_face_pixels gray bb frame_width =
     (let x_start = min (f32_to_usize (bb_x bb)) (length gray);
          y_start = min (f32_to_usize (bb_y bb)) (length gray);
          w = f32_to_usize (bb_width bb); h = f32_to_usize (bb_height bb)
      in if 2 ^ 63 \<le> (w * h) mod 2 ^ 64 then None
         else collect_rows (face_row gray (unat frame_width) x_start w) [y_start..<(y_start + h) mod 2 ^ 64])"

definition score_brightness :: "platform \<Rightarrow> bytes \<Rightarrow> bounding_box \<Rightarrow> u32 \<Rightarrow> f32 option" where
  "score_brightness pl gray bb frame_width =
     map_option
       (\<lambda>pixels.
          let sub = f32_sub (pl_nan pl); dv = f32_div (pl_nan pl) in
          if pixels = [] then f32_lit 1 2
          else let total = sum_list (map unat pixels);
                   mean = dv (dv (f32_of_nat total) (f32_of_nat (length pixels))) (f32_lit 255 1)
            in if f32_lt mean (f32_lit 1 10) then dv mean (f32_lit 1 10)
               else if f32_gt mean (f32_lit 9 10) then dv (sub (f32_lit 1 1) mean) (f32_lit 1 10)
               else f32_lit 1 1)
       (extract_face_pixels gray bb frame_width)"

definition laplacian :: "bytes \<Rightarrow> nat \<Rightarrow> nat \<Rightarrow> nat" where
  "laplacian gray frame_width idx =
     (let p = (\<lambda>i. int (unat (gray ! i))) in
      nat \<bar>p (idx - 1) + p (idx + 1) + p (idx - frame_width) + p (idx + frame_width) - 4 * p idx\<bar>)"

text \<open>The rows of the region until one ends past the image, and in each the interior pixels that have
  all four neighbours.\<close>

fun laplacians :: "bytes \<Rightarrow> nat \<Rightarrow> nat \<Rightarrow> nat \<Rightarrow> nat list \<Rightarrow> nat list" where
  "laplacians gray frame_width x_start w [] = []"
| "laplacians gray frame_width x_start w (y # ys) =
     (let row = y * frame_width in
      if length gray < row + (x_start + w) then []
      else map (\<lambda>x. laplacian gray frame_width (row + x))
             (filter (\<lambda>x. \<not> (length gray \<le> row + x + frame_width \<or> row + x < frame_width)) [x_start + 1..<x_start + w - 1]) @
           laplacians gray frame_width x_start w ys)"

definition score_sharpness :: "platform \<Rightarrow> bytes \<Rightarrow> bounding_box \<Rightarrow> u32 \<Rightarrow> f32" where
  "score_sharpness pl gray bb frame_width =
     (let fw = unat frame_width;
          x_start = min (f32_to_u32 (bb_x bb)) (fw - 1);
          y_start = min (f32_to_u32 (bb_y bb)) (fw - 1);
          w = min (f32_to_u32 (bb_width bb)) (fw - x_start);
          h = f32_to_u32 (bb_height bb)
      in if w < 3 \<or> h < 3 then 0
         else let ls = laplacians gray fw x_start w [y_start + 1..<(y_start + h) mod 2 ^ 32 - 1] in
           if ls = [] then 0
           else f32_clamp (f32_div (pl_nan pl) (f64_quotient_as_f32 (sum_list ls) (length ls)) (f32_lit 15 1)) 0 (f32_lit 1 1))"

definition score_frame :: "platform \<Rightarrow> detection \<Rightarrow> bytes \<Rightarrow> u32 \<Rightarrow> u32 \<Rightarrow> frame_quality option" where
  "score_frame pl det gray width height =
     (let add = f32_add (pl_nan pl); mul = f32_mul (pl_nan pl);
          c = score_centering pl (bbox det) width height;
          s = score_face_size pl (bbox det) width height;
          p = score_sharpness pl gray (bbox det) width
      in map_option
           (\<lambda>b. \<lparr>fq_centering = c, fq_face_size = s, fq_brightness = b, fq_sharpness = p,
                 fq_overall = add (add (add (mul c (f32_lit 2 10)) (mul s (f32_lit 3 10))) (mul b (f32_lit 2 10)))
                                (mul p (f32_lit 3 10))\<rparr>)
           (score_brightness pl gray (bbox det) width))"

definition meets_quality_threshold :: "frame_quality \<Rightarrow> bool" where
  "meets_quality_threshold q = f32_ge (fq_overall q) MIN_QUALITY_SCORE"

definition quality_hint :: "frame_quality \<Rightarrow> string option" where
  "quality_hint q =
     (if f32_lt (fq_centering q) (f32_lit 3 10) then Some ''Center your face in the frame''
      else if f32_lt (fq_face_size q) (f32_lit 2 10) then Some ''Move closer to the camera''
      else if f32_gt (fq_face_size q) (f32_lit 8 10) then Some ''Move further from the camera''
      else if f32_lt (fq_brightness q) (f32_lit 2 10) then Some ''Improve lighting conditions''
      else if f32_lt (fq_sharpness q) (f32_lit 2 10) then Some ''Hold still for a sharper image''
      else None)"

subsection \<open>Angle diversity\<close>

fun check_angle_diversity_from :: "platform \<Rightarrow> face_embedding list \<Rightarrow> bool" where
  "check_angle_diversity_from pl [] = False"
| "check_angle_diversity_from pl (e # es) =
     (list_ex (\<lambda>e'. f32_lt (cosine_similarity pl e e') MAX_EMBEDDING_SIMILARITY) es \<or> check_angle_diversity_from pl es)"

definition check_angle_diversity :: "platform \<Rightarrow> face_embedding list \<Rightarrow> bool" where
  "check_angle_diversity pl es = (length es < 2 \<or> check_angle_diversity_from pl es)"

lemma diverse_pair:
  "check_angle_diversity_from pl es \<longleftrightarrow>
   (\<exists>i j. i < j \<and> j < length es \<and> f32_lt (cosine_similarity pl (es ! i) (es ! j)) MAX_EMBEDDING_SIMILARITY)"
proof (induction es)
  case (Cons e es)
  show ?case
  proof
    assume "check_angle_diversity_from pl (e # es)"
    then consider j where "j < length es" "f32_lt (cosine_similarity pl e (es ! j)) MAX_EMBEDDING_SIMILARITY"
      | i j where "i < j" "j < length es" "f32_lt (cosine_similarity pl (es ! i) (es ! j)) MAX_EMBEDDING_SIMILARITY"
      using Cons by (auto simp: list_ex_length)
    then show "\<exists>i j. i < j \<and> j < length (e # es) \<and>
        f32_lt (cosine_similarity pl ((e # es) ! i) ((e # es) ! j)) MAX_EMBEDDING_SIMILARITY"
    proof cases
      case 1
      then show ?thesis by (intro exI[of _ 0] exI[of _ "Suc j"]) simp
    next
      case 2
      then show ?thesis by (intro exI[of _ "Suc i"] exI[of _ "Suc j"]) simp
    qed
  next
    assume "\<exists>i j. i < j \<and> j < length (e # es) \<and>
      f32_lt (cosine_similarity pl ((e # es) ! i) ((e # es) ! j)) MAX_EMBEDDING_SIMILARITY"
    then obtain i j where "i < j" "j < Suc (length es)"
      "f32_lt (cosine_similarity pl ((e # es) ! i) ((e # es) ! j)) MAX_EMBEDDING_SIMILARITY" by auto
    then show "check_angle_diversity_from pl (e # es)"
      using Cons by (cases i; cases j) (auto simp: list_ex_length)
  qed
qed simp

subsection \<open>A concrete face\<close>

definition portrait :: frame where
  "portrait = \<lparr>fr_rgb = [128, 128, 128], fr_gray = [128], fr_width = 1, fr_height = 1\<rparr>"

definition portrait_face :: detection where
  "portrait_face = \<lparr>bbox = \<lparr>bb_x = 0, bb_y = 0, bb_width = 0x3F800000, bb_height = 0x3F800000\<rparr>,
     confidence = 0x3F800000, landmarks = []\<rparr>"

lemma one_lit [simp]: "f32_lit (Suc 0) (Suc 0) = 0x3F800000"
proof -
  have "f32_lit 1 1 = 0x3F800000" by (simp add: f32_lit_def f32_eval)
  then show ?thesis by simp
qed

lemma portrait_lits:
  "f32_lit 2 1 = 0x40000000" "f32_lit 5 100 = 0x3D4CCCCD" "f32_lit 40 100 = 0x3ECCCCCD" "f32_lit 60 100 = 0x3F19999A"
  "f32_lit 255 1 = 0x437F0000" "f32_lit 1 10 = 0x3DCCCCCD" "f32_lit 9 10 = 0x3F666666"
  "f32_lit 2 10 = 0x3E4CCCCD" "f32_lit 3 10 = 0x3E99999A" "f32_lit 35 100 = 0x3EB33333"
  by (simp_all add: f32_lit_def f32_eval)

lemma portrait_ops:
  "f32_of_nat 1 = 0x3F800000" "f32_of_nat 128 = 0x43000000"
  "f32_div q 0x3F800000 0x40000000 = 0x3F000000" "f32_add q 0 0x3F000000 = 0x3F000000"
  "f32_sub q 0x3F000000 0x3F000000 = 0" "f32_abs 0 = 0" "f32_div q 0 0x3F000000 = 0" "f32_add q 0 0 = 0"
  "f32_div q 0 0x40000000 = 0" "f32_sub q 0x3F800000 0 = 0x3F800000"
  "f32_mul q 0x3F800000 0x3F800000 = 0x3F800000" "f32_div q 0x3F800000 0x3F800000 = 0x3F800000"
  "f32_sub q 0x3F800000 0x3ECCCCCD = 0x3F19999A" "f32_div q 0x3F19999A 0x3F19999A = 0x3F800000"
  "f32_sub q 0x3F800000 0x3F800000 = 0" "f32_div q 0x43000000 0x3F800000 = 0x43000000"
  "f32_div q 0x43000000 0x437F0000 = 0x3F008081"
  "f32_mul q 0x3F800000 0x3E4CCCCD = 0x3E4CCCCD" "f32_mul q 0 0x3E99999A = 0"
  "f32_add q 0x3E4CCCCD 0 = 0x3E4CCCCD" "f32_add q 0x3E4CCCCD 0x3E4CCCCD = 0x3ECCCCCD" "f32_add q 0x3ECCCCCD 0 = 0x3ECCCCCD"
  by (simp_all add: f32_of_nat_def f32_div_def f32_sub_def f32_negate_def f32_abs_def f32_eval)

lemmas portrait_eval = portrait_lits[unfolded One_nat_def] portrait_ops[unfolded One_nat_def]

lemma portrait_order:
  "f32_lt 0x3F800000 0x3D4CCCCD = False" "f32_lt 0x3ECCCCCD 0x3F800000 = True" "f32_lt 0x3F800000 0 = False"
  "f32_lt 0x3F008081 0x3DCCCCCD = False" "f32_lt 0x3F666666 0x3F008081 = False" "f32_le 0x3EB33333 0x3ECCCCCD = True"
  "f32_to_usize 0 = 0" "f32_to_usize 0x3F800000 = 1" "f32_max 0 0 = 0"
  by (simp_all add: f32_to_usize_def f32_max_def f32_eval)

lemma portrait_scores:
  "score_centering pl (bbox portrait_face) 1 1 = 0x3F800000" "score_face_size pl (bbox portrait_face) 1 1 = 0"
  "score_sharpness pl [128] (bbox portrait_face) 1 = 0" "score_brightness pl [128] (bbox portrait_face) 1 = Some 0x3F800000"
proof -
  show "score_centering pl (bbox portrait_face) 1 1 = 0x3F800000"
    by (simp add: score_centering_def portrait_face_def Let_def f32_clamp_def portrait_eval portrait_order)
  show "score_face_size pl (bbox portrait_face) 1 1 = 0"
    by (simp add: score_face_size_def portrait_face_def Let_def portrait_eval portrait_order)
  show "score_sharpness pl [128] (bbox portrait_face) 1 = 0"
    by (simp add: score_sharpness_def portrait_face_def Let_def portrait_order f32_to_u32_def)
  show "score_brightness pl [128] (bbox portrait_face) 1 = Some 0x3F800000"
    by (simp add: score_brightness_def extract_face_pixels_def face_row_def portrait_face_def Let_def
      portrait_eval portrait_order)
qed

lemma portrait_quality: "\<exists>q. score_frame pl portrait_face [128] 1 1 = Some q \<and> meets_quality_threshold q"
  by (simp add: score_frame_def portrait_scores Let_def meets_quality_threshold_def MIN_QUALITY_SCORE_def portrait_eval
    portrait_order)

lemma portrait_bright: "\<not> is_dark_with_config pl portrait (f32_lit 6 10) 10"
proof -
  have "f32_lit 6 10 = 0x3F19999A" "f32_lit 20 1 = 0x41A00000" "f32_of_nat 0 = 0" "f32_div (pl_nan pl) 0 0x3F800000 = 0"
    "\<not> f32_le 0x3F19999A 0" "\<not> f32_lt 0x43000000 0x41A00000"
    by (simp_all add: f32_lit_def f32_of_nat_def f32_div_def f32_eval)
  then show ?thesis using portrait_eval by (simp add: is_dark_with_config_def portrait_def)
qed

end
