(* ===== verification/Sealing.thy ===== *)
theory Sealing
  imports Store
begin

text \<open>
  Template encryption, \<^verbatim>\<open>facelock-tpm/src/sealing.rs\<close>: the blob formats and their detection, the
  AES-256-GCM sealer, the TPM blob format, reading and writing the key file, and the exclusive
  creation of the key file, one system call per step, so that creators can be interleaved. The
  cipher, SHA-256 and the TPM commands are parameters with the laws the code relies on.
\<close>

subsection \<open>Errors and rendering\<close>

datatype facelock_error =
    FConfig string | FCamera string | FDetection string | FAlignment string | FEmbedding string
  | FStorage string | FDaemon string | FIpc string | FTpm string | FEncryption string | FIo string

fun facelock_error_display :: "facelock_error \<Rightarrow> string" where
  "facelock_error_display (FConfig e) = ''config error: '' @ e"
| "facelock_error_display (FCamera e) = ''camera error: '' @ e"
| "facelock_error_display (FDetection e) = ''detection error: '' @ e"
| "facelock_error_display (FAlignment e) = ''alignment error: '' @ e"
| "facelock_error_display (FEmbedding e) = ''embedding error: '' @ e"
| "facelock_error_display (FStorage e) = ''storage error: '' @ e"
| "facelock_error_display (FDaemon e) = ''daemon error: '' @ e"
| "facelock_error_display (FIpc e) = ''IPC error: '' @ e"
| "facelock_error_display (FTpm e) = ''TPM error: '' @ e"
| "facelock_error_display (FEncryption e) = ''encryption error: '' @ e"
| "facelock_error_display (FIo e) = ''IO error: '' @ e"

definition hex_digit :: "nat \<Rightarrow> char" where
  "hex_digit n = char_of (if n < 10 then 48 + n else 87 + n)"

text \<open>\<^verbatim>\<open>{:02x}\<close> of a byte and \<^verbatim>\<open>{:x}\<close> of an integer.\<close>

definition hex_byte :: "u8 \<Rightarrow> string" where
  "hex_byte b = [hex_digit (unat b div 16), hex_digit (unat b mod 16)]"

fun hex_str :: "nat \<Rightarrow> string" where
  "hex_str n = (if n < 16 then [hex_digit n] else hex_str (n div 16) @ [hex_digit (n mod 16)])"

declare hex_str.simps [simp del]

definition str_bytes :: "string \<Rightarrow> bytes" where
  "str_bytes s = map of_char s"

subsection \<open>Blob formats\<close>

definition SEALED_VERSION_BYTE :: u8 where "SEALED_VERSION_BYTE = 1"
definition SOFTWARE_ENCRYPTED_VERSION_BYTE :: u8 where "SOFTWARE_ENCRYPTED_VERSION_BYTE = 2"
definition SEALED_PCR_VERSION_BYTE :: u8 where "SEALED_PCR_VERSION_BYTE = 3"
definition AES_NONCE_SIZE :: nat where "AES_NONCE_SIZE = 12"
definition AES_KEY_SIZE :: nat where "AES_KEY_SIZE = 32"
definition RAW_EMBEDDING_SIZE :: nat where "RAW_EMBEDDING_SIZE = 2048"

lemmas format_consts = SEALED_VERSION_BYTE_def SOFTWARE_ENCRYPTED_VERSION_BYTE_def
  SEALED_PCR_VERSION_BYTE_def AES_NONCE_SIZE_def AES_KEY_SIZE_def RAW_EMBEDDING_SIZE_def

definition first_byte :: "bytes \<Rightarrow> u8 option" where
  "first_byte data = (case data of [] \<Rightarrow> None | b # _ \<Rightarrow> Some b)"

definition is_sealed_shape :: "u8 option \<Rightarrow> nat \<Rightarrow> bool" where
  "is_sealed_shape b len =
     (b \<in> {Some SEALED_VERSION_BYTE, Some SEALED_PCR_VERSION_BYTE} \<and> len \<noteq> RAW_EMBEDDING_SIZE)"

definition is_software_encrypted_shape :: "u8 option \<Rightarrow> nat \<Rightarrow> bool" where
  "is_software_encrypted_shape b len = (b = Some SOFTWARE_ENCRYPTED_VERSION_BYTE \<and> len \<noteq> RAW_EMBEDDING_SIZE)"

definition is_sealed :: "bytes \<Rightarrow> bool" where
  "is_sealed data = is_sealed_shape (first_byte data) (length data)"

definition is_software_encrypted :: "bytes \<Rightarrow> bool" where
  "is_software_encrypted data = is_software_encrypted_shape (first_byte data) (length data)"

definition is_encrypted :: "bytes \<Rightarrow> bool" where
  "is_encrypted data = (is_sealed data \<or> is_software_encrypted data)"

text \<open>\<^verbatim>\<open>embedding_to_bytes\<close> is the little-endian encoding \<^const>\<open>embedding_bytes\<close>.\<close>

definition bytes_to_embedding :: "bytes \<Rightarrow> (face_embedding, facelock_error) result" where
  "bytes_to_embedding data =
     (if length data \<noteq> RAW_EMBEDDING_SIZE
      then Err (FStorage (''invalid embedding data size: expected 2048, got '' @ dec_str (length data)))
      else Ok (bytes_f32s data))"

subsection \<open>The software sealer\<close>

text \<open>The cipher takes key, nonce, additional data and message; its failure is the rendered error.\<close>

record crypto =
  cr_encrypt :: "bytes \<Rightarrow> bytes \<Rightarrow> bytes \<Rightarrow> bytes \<Rightarrow> (bytes, string) result"
  cr_decrypt :: "bytes \<Rightarrow> bytes \<Rightarrow> bytes \<Rightarrow> bytes \<Rightarrow> (bytes, string) result"
  cr_sha256 :: "bytes \<Rightarrow> bytes"

definition aead_lawful :: "crypto \<Rightarrow> bool" where
  "aead_lawful cr =
     (\<forall>k n a m c. cr_encrypt cr k n a m = Ok c \<longrightarrow> length c = length m + 16 \<and> cr_decrypt cr k n a c = Ok m)"

record software_sealer =
  ss_key :: bytes

definition from_key :: "bytes \<Rightarrow> software_sealer" where
  "from_key key = \<lparr>ss_key = key\<rparr>"

definition key_id_for :: "crypto \<Rightarrow> bytes \<Rightarrow> string" where
  "key_id_for cr key = concat (map hex_byte (take 8 (cr_sha256 cr (str_bytes ''facelock-key-id-v1'' @ key))))"

definition key_id :: "crypto \<Rightarrow> software_sealer \<Rightarrow> string" where
  "key_id cr s = key_id_for cr (ss_key s)"

definition aad_bytes :: "string option \<Rightarrow> bytes" where
  "aad_bytes aad = (case aad of None \<Rightarrow> [] | Some a \<Rightarrow> str_bytes a)"

text \<open>Key and nonce have the lengths the cipher asks for by their array types; the nonce is the
  random draw of the call.\<close>

definition seal_bytes_with_aad ::
  "crypto \<Rightarrow> software_sealer \<Rightarrow> bytes \<Rightarrow> bytes \<Rightarrow> string option \<Rightarrow> (bytes, facelock_error) result" where
  "seal_bytes_with_aad cr s nonce data aad =
     and_then (map_err (\<lambda>e. FEncryption (''AES-GCM encryption failed: '' @ e))
                (cr_encrypt cr (ss_key s) nonce (aad_bytes aad) data))
       (\<lambda>ciphertext. Ok (SOFTWARE_ENCRYPTED_VERSION_BYTE # nonce @ ciphertext))"

definition unseal_bytes_with_aad ::
  "crypto \<Rightarrow> software_sealer \<Rightarrow> bytes \<Rightarrow> string option \<Rightarrow> (bytes, facelock_error) result" where
  "unseal_bytes_with_aad cr s sealed aad =
     (if length sealed < 1 + AES_NONCE_SIZE + 16 then Err (FEncryption ''encrypted blob too short'')
      else if sealed ! 0 \<noteq> SOFTWARE_ENCRYPTED_VERSION_BYTE
      then Err (FEncryption (''expected software encryption version byte 0x02, got 0x'' @ hex_byte (sealed ! 0)))
      else map_err (\<lambda>e. FEncryption (''AES-GCM decryption failed (wrong key, AAD, or corrupted data): '' @ e))
        (cr_decrypt cr (ss_key s) (take AES_NONCE_SIZE (drop 1 sealed)) (aad_bytes aad)
           (drop (1 + AES_NONCE_SIZE) sealed)))"

definition seal_embedding_with_aad ::
  "crypto \<Rightarrow> software_sealer \<Rightarrow> bytes \<Rightarrow> face_embedding \<Rightarrow> string option \<Rightarrow> (bytes, facelock_error) result" where
  "seal_embedding_with_aad cr s nonce e aad = seal_bytes_with_aad cr s nonce (embedding_bytes e) aad"

definition unseal_embedding_with_aad ::
  "crypto \<Rightarrow> software_sealer \<Rightarrow> bytes \<Rightarrow> string option \<Rightarrow> (face_embedding, facelock_error) result" where
  "unseal_embedding_with_aad cr s sealed aad = and_then (unseal_bytes_with_aad cr s sealed aad) bytes_to_embedding"

subsection \<open>TPM blobs\<close>

text \<open>The TPM seals data under an optional PCR selection into a public and a private part.\<close>

record tpm =
  tp_seal :: "bytes \<Rightarrow> u32 list option \<Rightarrow> (bytes \<times> bytes, string) result"
  tp_unseal :: "u32 list option \<Rightarrow> bytes \<Rightarrow> bytes \<Rightarrow> (bytes, string) result"

definition tpm_lawful :: "tpm \<Rightarrow> bool" where
  "tpm_lawful tp =
     (\<forall>d idx pub priv. tp_seal tp d idx = Ok (pub, priv) \<longrightarrow>
        length pub < 2 ^ 32 \<and> tp_unseal tp idx pub priv = Ok d)"

text \<open>\<^verbatim>\<open>to_le_bytes\<close> and \<^verbatim>\<open>from_le_bytes\<close> of a 32-bit integer share the float encoding.\<close>

abbreviation le_bytes :: "u32 \<Rightarrow> bytes" where
  "le_bytes \<equiv> f32_to_bytes"

definition le_u32 :: "bytes \<Rightarrow> nat \<Rightarrow> u32" where
  "le_u32 bs o' = hd (bytes_f32s (take 4 (drop o' bs)))"

definition tpm_seal_bytes :: "tpm \<Rightarrow> bytes \<Rightarrow> u32 list option \<Rightarrow> (bytes, facelock_error) result" where
  "tpm_seal_bytes tp data pcrs =
     and_then (map_err FTpm (tp_seal tp data pcrs)) (\<lambda>(pub, priv).
       Ok ((case pcrs of
              None \<Rightarrow> [SEALED_VERSION_BYTE]
            | Some indices \<Rightarrow> SEALED_PCR_VERSION_BYTE # of_nat (length indices) # concat (map le_bytes indices)) @
           le_bytes (of_nat (length pub)) @ pub @ priv))"

definition parse_sealed_blob :: "bytes \<Rightarrow> (u32 list option \<times> bytes \<times> bytes, facelock_error) result" where
  "parse_sealed_blob sealed =
     (if length sealed < 5 then Err (FTpm ''sealed blob too short'')
      else if sealed ! 0 = SEALED_VERSION_BYTE
      then (let pub_len = unat (le_u32 sealed 1); body = drop 5 sealed in
            if length body < pub_len then Err (FTpm ''sealed blob truncated (public)'')
            else Ok (None, take pub_len body, drop pub_len body))
      else if sealed ! 0 = SEALED_PCR_VERSION_BYTE
      then (let count = unat (sealed ! 1); idx_end = 2 + count * 4; len_end = idx_end + 4 in
            if length sealed < len_end then Err (FTpm ''PCR-sealed blob truncated (header)'')
            else let indices = map (\<lambda>i. le_u32 sealed (2 + i * 4)) [0..<count];
                     pub_len = unat (le_u32 sealed idx_end); body = drop len_end sealed in
              if length body < pub_len then Err (FTpm ''PCR-sealed blob truncated (public)'')
              else Ok (Some indices, take pub_len body, drop pub_len body))
      else Err (FTpm (''unrecognized sealed blob version byte: 0x'' @ hex_byte (sealed ! 0))))"

definition tpm_unseal_bytes :: "tpm \<Rightarrow> bytes \<Rightarrow> (bytes, facelock_error) result" where
  "tpm_unseal_bytes tp sealed =
     and_then (parse_sealed_blob sealed) (\<lambda>(pcrs, pub, priv). map_err FTpm (tp_unseal tp pcrs pub priv))"

definition unseal_or_passthrough :: "tpm \<Rightarrow> bytes \<Rightarrow> (bytes, facelock_error) result" where
  "unseal_or_passthrough tp sealed =
     (if sealed = [] then Err (FTpm ''empty sealed blob'')
      else if (sealed ! 0 = SEALED_VERSION_BYTE \<or> sealed ! 0 = SEALED_PCR_VERSION_BYTE) \<and> 5 < length sealed
      then tpm_unseal_bytes tp sealed
      else if length sealed = RAW_EMBEDDING_SIZE then Ok sealed
      else Err (FTpm (''unrecognized sealed blob format: size='' @ dec_str (length sealed) @
             '', first_byte=0x'' @ hex_byte (sealed ! 0))))"

definition tpm_seal_embedding :: "tpm \<Rightarrow> face_embedding \<Rightarrow> u32 list option \<Rightarrow> (bytes, facelock_error) result" where
  "tpm_seal_embedding tp e pcrs = tpm_seal_bytes tp (embedding_bytes e) pcrs"

definition tpm_unseal_embedding :: "tpm \<Rightarrow> bytes \<Rightarrow> (face_embedding, facelock_error) result" where
  "tpm_unseal_embedding tp sealed = and_then (unseal_or_passthrough tp sealed) bytes_to_embedding"

text \<open>\<^verbatim>\<open>unseal_key_from_file\<close>, with the outcome of reading the file.\<close>

definition unseal_key_from_file :: "tpm \<Rightarrow> string \<Rightarrow> (bytes, string) result \<Rightarrow> (bytes, facelock_error) result" where
  "unseal_key_from_file tp path contents =
     and_then (map_err (\<lambda>e. FTpm (''failed to read sealed key from '' @ path @ '': '' @ e)) contents) (\<lambda>blob.
     and_then (tpm_unseal_bytes tp blob) (\<lambda>unsealed.
       if length unsealed \<noteq> 32
       then Err (FTpm (''unsealed key is '' @ dec_str (length unsealed) @ '' bytes, expected 32''))
       else Ok unsealed))"

subsection \<open>The key file\<close>

text \<open>A name of the file system: nothing, a symbolic link, a regular file, or something else.\<close>

datatype key_node = KeyMissing | KeySymlink | KeyFile bytes | KeyOther

type_synonym keyfs = "string \<Rightarrow> key_node"

definition symlink_key_refusal :: "string \<Rightarrow> string" where
  "symlink_key_refusal path =
     ''refusing to use a symlink as the encryption key file: '' @ path @
     '' is a symbolic link. Replace it with the key file itself, or point encryption.key_path at the real file.''"

definition key_read_err :: "string \<Rightarrow> string \<Rightarrow> facelock_error" where
  "key_read_err path e = FEncryption (''failed to read key file '' @ path @ '': '' @ e)"

text \<open>\<^verbatim>\<open>from_key_file\<close>; \<^verbatim>\<open>io\<close> is an error of opening or reading a file that is there.\<close>

definition from_key_file :: "string option \<Rightarrow> string \<Rightarrow> key_node \<Rightarrow> (software_sealer, facelock_error) result" where
  "from_key_file io path node =
     (case node of
        KeySymlink \<Rightarrow> Err (FEncryption (symlink_key_refusal path))
      | KeyMissing \<Rightarrow> Err (key_read_err path ''No such file or directory (os error 2)'')
      | KeyOther \<Rightarrow> Err (key_read_err path (case io of Some e \<Rightarrow> e | None \<Rightarrow> ''Is a directory (os error 21)''))
      | KeyFile contents \<Rightarrow>
          (case io of
             Some e \<Rightarrow> Err (key_read_err path e)
           | None \<Rightarrow>
               let data = take (AES_KEY_SIZE + 1) contents in
               if length data \<noteq> AES_KEY_SIZE
               then Err (FEncryption (''key file '' @ path @ '' must be exactly 32 bytes, got '' @
                      (if length data > AES_KEY_SIZE then ''more than 32'' else dec_str (length data))))
               else Ok \<lparr>ss_key = data\<rparr>))"

text \<open>Outcomes of the calls of \<^verbatim>\<open>write_key_file\<close>: opening with truncation, writing (how many bytes
  arrived before an error) and flushing.\<close>

datatype write_obs = OpenFails string | WriteFails nat string | SyncFails string | WriteDone

definition write_key_file ::
  "write_obs \<Rightarrow> string \<Rightarrow> bytes \<Rightarrow> key_node \<Rightarrow> (unit, facelock_error) result \<times> key_node" where
  "write_key_file ob path key node =
     (if node = KeySymlink then (Err (FEncryption (symlink_key_refusal path)), node)
      else let failed = (\<lambda>e. Err (FEncryption (''failed to write key file '' @ path @ '': '' @ e))) in
        case ob of
          OpenFails e \<Rightarrow> (Err (FEncryption (''failed to create key file '' @ path @ '': '' @ e)), node)
        | WriteFails n e \<Rightarrow> (failed e, KeyFile (take n key))
        | SyncFails e \<Rightarrow> (failed e, KeyFile key)
        | WriteDone \<Rightarrow> (Ok (), KeyFile key))"

definition generate_key_file ::
  "write_obs \<Rightarrow> string \<Rightarrow> bytes \<Rightarrow> key_node \<Rightarrow> (unit, facelock_error) result \<times> key_node" where
  "generate_key_file ob path random node = write_key_file ob path random node"

subsection \<open>Exclusive creation, one system call at a time\<close>

definition STAGE_ATTEMPTS :: nat where "STAGE_ATTEMPTS = 8"

text \<open>A path is its directory with the final slash, empty for a bare name, and the file name.\<close>

definition path_dir :: "string \<Rightarrow> string" where
  "path_dir p = rev (dropWhile (\<lambda>c. c \<noteq> CHR ''/'') (rev p))"

definition path_name :: "string \<Rightarrow> string" where
  "path_name p = rev (takeWhile (\<lambda>c. c \<noteq> CHR ''/'') (rev p))"

definition key_path :: "string \<Rightarrow> string \<Rightarrow> string" where
  "key_path dir name = dir @ name"

lemma key_path_split [simp]: "key_path (path_dir p) (path_name p) = p"
  by (simp add: key_path_def path_dir_def path_name_def flip: rev_append)

definition staged_path :: "string \<Rightarrow> string \<Rightarrow> nat \<Rightarrow> nat \<Rightarrow> nat \<Rightarrow> string" where
  "staged_path dir name pid unique attempt =
     dir @ ''.'' @ name @ ''.new-'' @ dec_str pid @ ''-'' @ hex_str unique @ ''-'' @ dec_str attempt"

datatype creator_pc =
    CStart
  | CStaging nat
  | CWriting string nat
  | CSyncing string
  | CRenaming string
  | CPublished
  | CDone "(bool, facelock_error) result"
  | CCrashed

record creator =
  ct_pid :: nat
  ct_key :: bytes
  ct_pc :: creator_pc

text \<open>What one system call meets: the clock read for the staging name, an I/O error, whether a failed
  create left the file behind, and how many bytes a write accepts.\<close>

record call_obs =
  ob_nanos :: nat
  ob_error :: "string option"
  ob_left :: bool
  ob_len :: nat

definition enc_err :: "string \<Rightarrow> string \<Rightarrow> string \<Rightarrow> creator_pc" where
  "enc_err what p e = CDone (Err (FEncryption (what @ p @ '': '' @ e)))"

definition create_call :: "string \<Rightarrow> string \<Rightarrow> call_obs \<Rightarrow> nat \<Rightarrow> nat \<Rightarrow> keyfs \<Rightarrow> keyfs \<times> creator_pc" where
  "create_call dir name ob pid attempt fs =
     (if STAGE_ATTEMPTS \<le> attempt
      then (fs, CDone (Err (FEncryption (''failed to create a staging file for '' @ key_path dir name @
                  '' after 8 attempts''))))
      else let staged = staged_path dir name pid (ob_nanos ob) attempt in
        case ob_error ob of
          Some e \<Rightarrow>
            (if ob_left ob \<and> fs staged = KeyMissing then fs(staged := KeyFile []) else fs,
             enc_err ''failed to create the staged key file '' staged e)
        | None \<Rightarrow>
            (if fs staged = KeyMissing then (fs(staged := KeyFile []), CWriting staged 0)
             else (fs, CStaging (Suc attempt))))"

definition write_call :: "call_obs \<Rightarrow> string \<Rightarrow> nat \<Rightarrow> bytes \<Rightarrow> keyfs \<Rightarrow> keyfs \<times> creator_pc" where
  "write_call ob staged n key fs =
     (case ob_error ob of
        Some e \<Rightarrow> (fs(staged := KeyMissing), enc_err ''failed to write the staged key file '' staged e)
      | None \<Rightarrow>
          (if ob_len ob = 0
           then (fs(staged := KeyMissing),
                 enc_err ''failed to write the staged key file '' staged ''failed to write whole buffer'')
           else let n' = min (length key) (n + ob_len ob) in
             (fs(staged := KeyFile (take n' key)),
              if n' = length key then CSyncing staged else CWriting staged n')))"

definition rename_call :: "string \<Rightarrow> string \<Rightarrow> call_obs \<Rightarrow> string \<Rightarrow> keyfs \<Rightarrow> keyfs \<times> creator_pc" where
  "rename_call dir name ob staged fs =
     (let path = key_path dir name in
      case ob_error ob of
        Some e \<Rightarrow> (fs(staged := KeyMissing), enc_err ''failed to move the staged key into place at '' path e)
      | None \<Rightarrow>
          (if fs path = KeyMissing then (fs(path := fs staged, staged := KeyMissing), CPublished)
           else (fs(staged := KeyMissing), CDone (Ok False))))"

definition creator_call :: "string \<Rightarrow> string \<Rightarrow> call_obs \<Rightarrow> creator \<Rightarrow> keyfs \<Rightarrow> keyfs \<times> creator_pc" where
  "creator_call dir name ob c fs =
     (let path = key_path dir name in
      case ct_pc c of
        CStart \<Rightarrow>
          (fs, if fs path = KeySymlink then CDone (Err (FEncryption (symlink_key_refusal path))) else CStaging 0)
      | CStaging a \<Rightarrow> create_call dir name ob (ct_pid c) a fs
      | CWriting staged n \<Rightarrow> write_call ob staged n (ct_key c) fs
      | CSyncing staged \<Rightarrow>
          (case ob_error ob of
             Some e \<Rightarrow> (fs(staged := KeyMissing), enc_err ''failed to write the staged key file '' staged e)
           | None \<Rightarrow> (fs, CRenaming staged))
      | CRenaming staged \<Rightarrow> rename_call dir name ob staged fs
      | CPublished \<Rightarrow>
          (fs, case ob_error ob of
                 Some e \<Rightarrow> enc_err ''failed to flush the directory holding '' path e
               | None \<Rightarrow> CDone (Ok True))
      | pc \<Rightarrow> (fs, pc))"

text \<open>A single creator run over the outcomes of its calls; \<^const>\<open>None\<close> while it has not returned.\<close>

fun creator_result :: "creator_pc \<Rightarrow> (bool, facelock_error) result option" where
  "creator_result (CDone r) = Some r"
| "creator_result _ = None"

fun create_key_file_exclusive ::
  "string \<Rightarrow> string \<Rightarrow> creator \<Rightarrow> call_obs list \<Rightarrow> keyfs \<Rightarrow> (bool, facelock_error) result option \<times> keyfs" where
  "create_key_file_exclusive dir name c [] fs = (creator_result (ct_pc c), fs)"
| "create_key_file_exclusive dir name c (ob # obs) fs =
     (case creator_result (ct_pc c) of
        Some r \<Rightarrow> (Some r, fs)
      | None \<Rightarrow>
          (case creator_call dir name ob c fs of
             (fs', pc) \<Rightarrow> create_key_file_exclusive dir name (c\<lparr>ct_pc := pc\<rparr>) obs fs'))"

text \<open>Creators racing in one file system: any of them makes its next call, or dies.\<close>

inductive creators_step :: "string \<Rightarrow> string \<Rightarrow> keyfs \<times> creator list \<Rightarrow> keyfs \<times> creator list \<Rightarrow> bool"
  for dir name where
  call: "i < length cs \<Longrightarrow> creator_call dir name ob (cs ! i) fs = (fs', pc) \<Longrightarrow>
    creators_step dir name (fs, cs) (fs', cs[i := (cs ! i)\<lparr>ct_pc := pc\<rparr>])"
| crash: "i < length cs \<Longrightarrow>
    creators_step dir name (fs, cs) (fs, cs[i := (cs ! i)\<lparr>ct_pc := CCrashed\<rparr>])"

subsection \<open>Sealing and unsealing\<close>

lemma unseal_seal_bytes:
  assumes "aead_lawful cr" and "length nonce = AES_NONCE_SIZE"
    and "seal_bytes_with_aad cr s nonce data aad = Ok blob"
  shows "unseal_bytes_with_aad cr s blob aad = Ok data"
    and "length blob = length data + 29" and "first_byte blob = Some SOFTWARE_ENCRYPTED_VERSION_BYTE"
proof -
  obtain c where c: "cr_encrypt cr (ss_key s) nonce (aad_bytes aad) data = Ok c"
    and blob: "blob = SOFTWARE_ENCRYPTED_VERSION_BYTE # nonce @ c"
    using assms(3) by (auto simp: seal_bytes_with_aad_def)
  have "length c = length data + 16" and "cr_decrypt cr (ss_key s) nonce (aad_bytes aad) c = Ok data"
    using assms(1) c by (auto simp: aead_lawful_def)
  then show "unseal_bytes_with_aad cr s blob aad = Ok data" "length blob = length data + 29"
    "first_byte blob = Some SOFTWARE_ENCRYPTED_VERSION_BYTE"
    using assms(2) by (simp_all add: blob unseal_bytes_with_aad_def first_byte_def AES_NONCE_SIZE_def)
qed

text \<open>An encrypted template is recovered under the key and the device data it was sealed with, and
  it is recognised as encrypted. The sealed blob of an embedding has the software version byte and
  2077 bytes, so no reader takes it for a raw or a TPM-sealed template.\<close>

theorem sealed_template_roundtrip:
  assumes "aead_lawful cr" and "length nonce = AES_NONCE_SIZE" and "length e = 512"
    and "seal_embedding_with_aad cr s nonce e aad = Ok blob"
  shows "unseal_embedding_with_aad cr s blob aad = Ok e \<and> length blob = 2077 \<and>
    is_software_encrypted blob \<and> is_encrypted blob \<and> \<not> is_sealed blob"
proof -
  note un = unseal_seal_bytes[OF assms(1,2) assms(4)[unfolded seal_embedding_with_aad_def]]
  have "length (embedding_bytes e) = 2048" using assms(3) by (simp add: length_embedding_bytes)
  then show ?thesis using un
    by (simp add: unseal_embedding_with_aad_def bytes_to_embedding_def is_software_encrypted_def is_encrypted_def
      is_sealed_def is_sealed_shape_def is_software_encrypted_shape_def format_consts bytes_f32s_embedding)
qed

subsection \<open>The TPM blob format\<close>

lemma length_le_bytes [simp]: "length (le_bytes w) = 4"
  by (simp add: f32_to_bytes_def)

lemma length_concat_le [simp]: "length (concat (map le_bytes xs)) = 4 * length xs"
  by (induction xs) simp_all

lemma le_u32_at: "le_u32 (pre @ le_bytes w @ post) (length pre) = w"
proof -
  have "bytes_f32s (le_bytes w) = [w]" using bytes_f32s_embedding[of "[w]"] by (simp add: embedding_bytes_def)
  then show ?thesis by (simp add: le_u32_def)
qed

lemma le_u32_nth:
  assumes "i < length xs" and "k = length pre + i * 4"
  shows "le_u32 (pre @ concat (map le_bytes xs) @ post) k = xs ! i"
proof -
  have "concat (map le_bytes xs) = concat (map le_bytes (take i xs)) @ le_bytes (xs ! i) @ concat (map le_bytes (drop (Suc i) xs))"
    using arg_cong[OF id_take_nth_drop[OF assms(1)], of "\<lambda>ys. concat (map le_bytes ys)"] by simp
  moreover have "length (pre @ concat (map le_bytes (take i xs))) = k" using assms by simp
  ultimately show ?thesis using le_u32_at[of "pre @ concat (map le_bytes (take i xs))" "xs ! i"] by simp
qed

lemma parse_plain_blob:
  "length pub < 2 ^ 32 \<Longrightarrow>
   parse_sealed_blob ([SEALED_VERSION_BYTE] @ le_bytes (of_nat (length pub)) @ pub @ priv) = Ok (None, pub, priv)"
  using le_u32_at[of "[SEALED_VERSION_BYTE]" "of_nat (length pub)" "pub @ priv"]
  by (simp add: parse_sealed_blob_def unat_of_nat)

lemma parse_pcr_blob:
  assumes "length pub < 2 ^ 32" and "length idx < 256"
  shows "parse_sealed_blob ((SEALED_PCR_VERSION_BYTE # of_nat (length idx) # concat (map le_bytes idx)) @
           le_bytes (of_nat (length pub)) @ pub @ priv) = Ok (Some idx, pub, priv)" (is "parse_sealed_blob ?b = _")
proof -
  have "le_u32 ?b (2 + length idx * 4) = of_nat (length pub)"
    using le_u32_at[of "SEALED_PCR_VERSION_BYTE # of_nat (length idx) # concat (map le_bytes idx)"
      "of_nat (length pub)" "pub @ priv"] by (simp add: mult.commute)
  moreover have "map (\<lambda>i. le_u32 ?b (2 + i * 4)) [0..<length idx] = idx"
    using le_u32_nth[of _ idx _ "[SEALED_PCR_VERSION_BYTE, of_nat (length idx)]"]
    by (intro nth_equalityI) simp_all
  moreover have "drop (2 + length idx * 4 + 4) ?b = pub @ priv"
    using append_eq_conv_conj[THEN iffD1, OF refl, of "(SEALED_PCR_VERSION_BYTE # of_nat (length idx) # concat (map le_bytes idx)) @
      le_bytes (of_nat (length pub))" "pub @ priv"] by (simp add: mult.commute)
  ultimately show ?thesis using assms
    by (simp add: parse_sealed_blob_def Let_def unat_of_nat format_consts del: drop_drop add_Suc_right)
qed

text \<open>What the TPM seals is unsealed again. On a TPM that gives back what it sealed, the blob written
  for any data and any selection of at most 255 PCR indices is parsed back into exactly the
  recorded selection and parts, and unsealing it returns the data.\<close>

theorem tpm_blob_roundtrip:
  assumes "tpm_lawful tp" and "case pcrs of None \<Rightarrow> True | Some idx \<Rightarrow> length idx < 256"
    and "tpm_seal_bytes tp data pcrs = Ok blob"
  shows "\<exists>pub priv. tp_seal tp data pcrs = Ok (pub, priv) \<and> parse_sealed_blob blob = Ok (pcrs, pub, priv) \<and>
    tpm_unseal_bytes tp blob = Ok data"
proof -
  obtain pub priv where seal: "tp_seal tp data pcrs = Ok (pub, priv)"
    using assms(3) by (auto simp: tpm_seal_bytes_def)
  then have law: "length pub < 2 ^ 32" "tp_unseal tp pcrs pub priv = Ok data"
    using assms(1) by (auto simp: tpm_lawful_def)
  have "parse_sealed_blob blob = Ok (pcrs, pub, priv)"
    using assms(2,3) seal parse_plain_blob[OF law(1)] parse_pcr_blob[OF law(1)]
    by (cases pcrs) (auto simp: tpm_seal_bytes_def)
  then show ?thesis using seal law(2) by (simp add: tpm_unseal_bytes_def)
qed

subsection \<open>Racing key creators\<close>

text \<open>The staged file a creator owns with its contents so far, the creators that published their key,
  and those that published or were told that a key is there.\<close>

fun staging :: "creator_pc \<Rightarrow> bytes \<Rightarrow> (string \<times> bytes) option" where
  "staging (CWriting s n) key = Some (s, take n key)"
| "staging (CSyncing s) key = Some (s, key)"
| "staging (CRenaming s) key = Some (s, key)"
| "staging _ key = None"

abbreviation stage_of :: "creator \<Rightarrow> (string \<times> bytes) option" where
  "stage_of c \<equiv> staging (ct_pc c) (ct_key c)"

definition won :: "creator_pc \<Rightarrow> bool" where
  "won pc = (pc = CPublished \<or> pc = CDone (Ok True))"

definition settled :: "creator_pc \<Rightarrow> bool" where
  "settled pc = (won pc \<or> pc = CDone (Ok False))"

lemma won_simps [simp]:
  "\<not> won CStart" "\<not> won (CStaging n)" "\<not> won (CWriting s n)" "\<not> won (CSyncing s)" "\<not> won (CRenaming s)"
  "won CPublished" "\<not> won CCrashed" "\<not> won (CDone (Err e))" "won (CDone (Ok b)) \<longleftrightarrow> b"
  by (auto simp: won_def)

lemma settled_simps [simp]:
  "\<not> settled CStart" "\<not> settled (CStaging n)" "\<not> settled (CWriting s n)" "\<not> settled (CSyncing s)"
  "\<not> settled (CRenaming s)" "settled CPublished" "\<not> settled CCrashed" "\<not> settled (CDone (Err e))"
  "settled (CDone (Ok b))"
  by (auto simp: settled_def)

lemma enc_err_simps [simp]: "\<not> won (enc_err w p e)" "\<not> settled (enc_err w p e)" "staging (enc_err w p e) key = None"
  by (simp_all add: enc_err_def)

lemma staged_not_key: "staged_path dir name pid u a \<noteq> key_path dir name"
proof
  assume "staged_path dir name pid u a = key_path dir name"
  then have "length (staged_path dir name pid u a) = length (key_path dir name)" by simp
  then show False by (simp add: staged_path_def key_path_def)
qed

text \<open>Every call is one of five moves: no change, creating an own file under a free name, extending it,
  removing it, or publishing it under the free key name.\<close>

datatype move = Stutter | Create string | Extend string bytes | Remove string | Publish string

definition allowed :: "string \<Rightarrow> keyfs \<Rightarrow> creator \<Rightarrow> creator_pc \<Rightarrow> move \<Rightarrow> keyfs \<Rightarrow> bool" where
  "allowed path fs c pc mv fs' =
     (case mv of
        Stutter \<Rightarrow> fs' = fs \<and> staging pc (ct_key c) \<in> {None, stage_of c} \<and>
          (won pc \<longrightarrow> won (ct_pc c)) \<and> (settled pc \<longrightarrow> settled (ct_pc c))
      | Create s \<Rightarrow> s \<noteq> path \<and> stage_of c = None \<and> fs s = KeyMissing \<and> fs' = fs(s := KeyFile []) \<and>
          staging pc (ct_key c) \<in> {None, Some (s, [])} \<and> \<not> settled pc
      | Extend s d \<Rightarrow> (\<exists>d0. stage_of c = Some (s, d0)) \<and> fs' = fs(s := KeyFile d) \<and>
          staging pc (ct_key c) = Some (s, d) \<and> \<not> settled pc
      | Remove s \<Rightarrow> (\<exists>d0. stage_of c = Some (s, d0)) \<and> fs' = fs(s := KeyMissing) \<and> staging pc (ct_key c) = None \<and>
          \<not> won pc \<and> (settled pc \<longrightarrow> fs path \<noteq> KeyMissing)
      | Publish s \<Rightarrow> stage_of c = Some (s, ct_key c) \<and> fs path = KeyMissing \<and>
          fs' = fs(path := fs s, s := KeyMissing) \<and> pc = CPublished)"

lemma creator_call_moves:
  assumes "creator_call dir name ob c fs = (fs', pc)"
  shows "\<exists>mv. allowed (key_path dir name) fs c pc mv fs'"
proof (cases "ct_pc c")
  case CStart
  then have "allowed (key_path dir name) fs c pc Stutter fs'"
    using assms by (auto simp: creator_call_def Let_def allowed_def split: if_splits)
  then show ?thesis ..
next
  case (CStaging a)
  let ?s = "staged_path dir name (ct_pid c) (ob_nanos ob) a"
  have "allowed (key_path dir name) fs c pc Stutter fs' \<or> allowed (key_path dir name) fs c pc (Create ?s) fs'"
    using assms CStaging staged_not_key
    by (auto simp: creator_call_def create_call_def Let_def allowed_def split: option.splits if_splits)
  then show ?thesis by blast
next
  case (CWriting s n)
  then have "allowed (key_path dir name) fs c pc (Remove s) fs' \<or>
      allowed (key_path dir name) fs c pc (Extend s (take (min (length (ct_key c)) (n + ob_len ob)) (ct_key c))) fs'"
    using assms by (auto simp: creator_call_def write_call_def Let_def allowed_def split: option.splits if_splits)
  then show ?thesis by blast
next
  case (CSyncing s)
  then have "allowed (key_path dir name) fs c pc (Remove s) fs' \<or> allowed (key_path dir name) fs c pc Stutter fs'"
    using assms by (auto simp: creator_call_def Let_def allowed_def split: option.splits)
  then show ?thesis by blast
next
  case (CRenaming s)
  then have "allowed (key_path dir name) fs c pc (Remove s) fs' \<or> allowed (key_path dir name) fs c pc (Publish s) fs'"
    using assms by (auto simp: creator_call_def rename_call_def Let_def allowed_def split: option.splits if_splits)
  then show ?thesis by blast
next
  case CPublished
  then have "allowed (key_path dir name) fs c pc Stutter fs'"
    using assms by (auto simp: creator_call_def Let_def allowed_def split: option.splits)
  then show ?thesis ..
next
  case (CDone r)
  then have "allowed (key_path dir name) fs c pc Stutter fs'"
    using assms by (auto simp: creator_call_def Let_def allowed_def)
  then show ?thesis ..
next
  case CCrashed
  then have "allowed (key_path dir name) fs c pc Stutter fs'"
    using assms by (auto simp: creator_call_def Let_def allowed_def)
  then show ?thesis ..
qed

text \<open>The owned files by creator, and the creators in a given phase.\<close>

definition stages :: "creator list \<Rightarrow> nat \<Rightarrow> (string \<times> bytes) option" where
  "stages cs i = (if i < length cs then stage_of (cs ! i) else None)"

definition phase :: "(creator_pc \<Rightarrow> bool) \<Rightarrow> creator list \<Rightarrow> nat set" where
  "phase P cs = {i. i < length cs \<and> P (ct_pc (cs ! i))}"

lemma stages_update:
  "i < length cs \<Longrightarrow> stages (cs[i := (cs ! i)\<lparr>ct_pc := pc\<rparr>]) = (stages cs)(i := staging pc (ct_key (cs ! i)))"
  by (auto simp: stages_def fun_eq_iff)

lemma phase_update:
  "i < length cs \<Longrightarrow>
   phase P (cs[i := (cs ! i)\<lparr>ct_pc := pc\<rparr>]) = (if P pc then insert i (phase P cs) else phase P cs - {i})"
  by (auto simp: phase_def nth_list_update)

lemma keys_update: "map ct_key (cs[i := (cs ! i)\<lparr>ct_pc := pc\<rparr>]) = map ct_key cs"
proof (cases "i < length cs")
  case True
  then have "(map ct_key cs)[i := ct_key (cs ! i)] = map ct_key cs"
    by (metis list_update_id nth_map)
  then show ?thesis by (simp add: map_update)
qed (simp add: list_update_beyond)

definition staged_ok :: "string \<Rightarrow> (nat \<Rightarrow> (string \<times> bytes) option) \<Rightarrow> keyfs \<Rightarrow> bool" where
  "staged_ok path st fs =
     ((\<forall>i s d. st i = Some (s, d) \<longrightarrow> s \<noteq> path \<and> fs s = KeyFile d) \<and>
      (\<forall>i j s d d'. st i = Some (s, d) \<longrightarrow> st j = Some (s, d') \<longrightarrow> i = j))"

lemma staged_ok_drop: "staged_ok path st fs \<Longrightarrow> staged_ok path (st(i := None)) fs"
  by (auto simp: staged_ok_def)

lemma staged_ok_foreign: "staged_ok path st fs \<Longrightarrow> fs s = KeyMissing \<or> s = path \<Longrightarrow> staged_ok path st (fs(s := x))"
  by (fastforce simp: staged_ok_def)

lemma staged_ok_new:
  "staged_ok path st fs \<Longrightarrow> fs s = KeyMissing \<Longrightarrow> s \<noteq> path \<Longrightarrow>
   staged_ok path (st(i := Some (s, d))) (fs(s := KeyFile d))"
  by (fastforce simp: staged_ok_def)

lemma staged_ok_own:
  "staged_ok path st fs \<Longrightarrow> st i = Some (s, d0) \<Longrightarrow> staged_ok path (st(i := Some (s, d))) (fs(s := KeyFile d))"
  by (auto simp: staged_ok_def)

lemma staged_ok_remove:
  "staged_ok path st fs \<Longrightarrow> st i = Some (s, d0) \<Longrightarrow> staged_ok path (st(i := None)) (fs(s := x))"
  by (auto simp: staged_ok_def)

definition race_inv :: "string \<Rightarrow> keyfs \<Rightarrow> creator list \<Rightarrow> bool" where
  "race_inv path fs cs =
     (staged_ok path (stages cs) fs \<and> (\<forall>i \<in> phase won cs. \<forall>j \<in> phase won cs. i = j) \<and>
      (phase settled cs \<noteq> {} \<longrightarrow> fs path \<noteq> KeyMissing) \<and>
      (fs path = KeyMissing \<or> fs path \<in> KeyFile ` set (map ct_key cs)))"

lemma won_settled: "phase won cs \<subseteq> phase settled cs"
  by (auto simp: phase_def settled_def)

lemma allowed_path:
  assumes "race_inv path fs cs" and "i < length cs" and "allowed path fs (cs ! i) pc mv fs'"
  shows "case mv of Publish s \<Rightarrow> fs path = KeyMissing \<and> fs' path = KeyFile (ct_key (cs ! i)) | _ \<Rightarrow> fs' path = fs path"
proof -
  have "\<forall>s d. stages cs i = Some (s, d) \<longrightarrow> s \<noteq> path \<and> fs s = KeyFile d"
    using assms(1) unfolding race_inv_def staged_ok_def by blast
  then have own: "s \<noteq> path \<and> fs s = KeyFile d" if "stage_of (cs ! i) = Some (s, d)" for s d
    using assms(2) that by (simp add: stages_def)
  show ?thesis using assms(3) own by (auto simp: allowed_def split: move.splits)
qed

lemma allowed_staged:
  assumes "race_inv path fs cs" and "i < length cs" and "allowed path fs (cs ! i) pc mv fs'"
  shows "staged_ok path ((stages cs)(i := staging pc (ct_key (cs ! i)))) fs'"
proof -
  have ok: "staged_ok path (stages cs) fs" using assms(1) by (simp add: race_inv_def)
  have own: "stage_of (cs ! i) = stages cs i" using assms(2) by (simp add: stages_def)
  show ?thesis
  proof (cases mv)
    case Stutter
    then show ?thesis using assms(3) ok own staged_ok_drop[OF ok]
      by (auto simp: allowed_def fun_upd_idem)
  next
    case (Create s)
    then show ?thesis
      using assms(3) staged_ok_new[OF ok] staged_ok_drop[OF staged_ok_foreign[OF ok]] by (auto simp: allowed_def)
  next
    case (Extend s d)
    then show ?thesis using assms(3) own staged_ok_own[OF ok] by (auto simp: allowed_def)
  next
    case (Remove s)
    then show ?thesis using assms(3) own staged_ok_remove[OF ok] by (auto simp: allowed_def)
  next
    case (Publish s)
    then show ?thesis using assms(3) own staged_ok_remove[OF staged_ok_foreign[OF ok]]
      by (auto simp: allowed_def)
  qed
qed

lemma race_inv_move:
  assumes inv: "race_inv path fs cs" and i: "i < length cs" and mv: "allowed path fs (cs ! i) pc mv fs'"
  shows "race_inv path fs' (cs[i := (cs ! i)\<lparr>ct_pc := pc\<rparr>])"
proof -
  note path = allowed_path[OF assms]
  have W: "\<forall>i \<in> phase won cs. \<forall>j \<in> phase won cs. i = j" and S: "phase settled cs \<noteq> {} \<longrightarrow> fs path \<noteq> KeyMissing"
    and K: "fs path = KeyMissing \<or> fs path \<in> KeyFile ` set (map ct_key cs)"
    using inv by (auto simp: race_inv_def)
  have empty: "phase won cs = {} \<and> phase settled cs = {}" if "fs path = KeyMissing"
    using that S won_settled[of cs] by auto
  have was: "i \<in> phase P cs \<longleftrightarrow> P (ct_pc (cs ! i))" for P using i by (simp add: phase_def)
  have "(\<forall>k \<in> phase won (cs[i := (cs ! i)\<lparr>ct_pc := pc\<rparr>]). \<forall>j \<in> phase won (cs[i := (cs ! i)\<lparr>ct_pc := pc\<rparr>]). k = j)"
    using W mv empty i was[of won] by (cases mv) (auto simp: allowed_def phase_update settled_def)
  moreover have "phase settled (cs[i := (cs ! i)\<lparr>ct_pc := pc\<rparr>]) \<noteq> {} \<longrightarrow> fs' path \<noteq> KeyMissing"
    using S mv i path was[of settled] by (cases mv) (auto simp: allowed_def phase_update)
  moreover have "fs' path = KeyMissing \<or> fs' path \<in> KeyFile ` set (map ct_key cs)"
    using K path i by (cases mv) auto
  ultimately show ?thesis
    using allowed_staged[OF assms] i unfolding race_inv_def by (simp only: stages_update keys_update)
qed

lemma race_inv_step:
  assumes "creators_step dir name (fs, cs) (fs', cs')" and "race_inv (key_path dir name) fs cs"
  shows "race_inv (key_path dir name) fs' cs' \<and> map ct_key cs' = map ct_key cs \<and>
    (fs (key_path dir name) \<noteq> KeyMissing \<longrightarrow> fs' (key_path dir name) = fs (key_path dir name))"
  using assms(1)
proof (cases rule: creators_step.cases)
  case (call i ob pc)
  obtain mv where mv: "allowed (key_path dir name) fs (cs ! i) pc mv fs'"
    using creator_call_moves[OF call(3)] ..
  show ?thesis
    using race_inv_move[OF assms(2) call(2) mv] allowed_path[OF assms(2) call(2) mv] call(1)
    by (cases mv) (auto simp: keys_update)
next
  case (crash i)
  have "allowed (key_path dir name) fs (cs ! i) CCrashed Stutter fs" by (simp add: allowed_def)
  from race_inv_move[OF assms(2) crash(3) this] show ?thesis using crash by (simp add: keys_update)
qed

lemma race_inv_steps:
  assumes "(creators_step dir name)\<^sup>*\<^sup>* (fs, cs) (fs', cs')" and "race_inv (key_path dir name) fs cs"
  shows "race_inv (key_path dir name) fs' cs' \<and> map ct_key cs' = map ct_key cs \<and>
    (fs (key_path dir name) \<noteq> KeyMissing \<longrightarrow> fs' (key_path dir name) = fs (key_path dir name))"
  using assms
proof (induction "(fs', cs')" arbitrary: fs' cs' rule: rtranclp_induct)
  case (step y)
  obtain fs1 cs1 where y: "y = (fs1, cs1)" by (cases y)
  from step(3)[OF y step(4)] show ?case using race_inv_step[OF step(2)[unfolded y]] by auto
qed simp

lemma race_inv_start:
  assumes "\<forall>c \<in> set cs. ct_pc c = CStart" and "fs path = KeyMissing"
  shows "race_inv path fs cs"
proof -
  have start: "ct_pc (cs ! i) = CStart" if "i < length cs" for i using assms(1) that by simp
  have "stages cs = (\<lambda>_. None)" by (auto simp: stages_def start)
  moreover have "phase P cs = {}" if "\<not> P CStart" for P using that by (auto simp: phase_def start)
  ultimately show ?thesis using assms(2) by (simp add: race_inv_def staged_ok_def)
qed

text \<open>C37: racing creators agree on one complete key. However the calls of any number of creators, their
  failures and their crashes interleave, the key's name refers to nothing or to the complete key of
  one of them and, once it does, never to anything else; at most one creator reports having made
  it; and every creator that returns without an error can read a whole key under the name.\<close>

theorem key_creation_race:
  assumes "\<forall>c \<in> set cs0. ct_pc c = CStart \<and> length (ct_key c) = AES_KEY_SIZE"
    and "fs0 (key_path dir name) = KeyMissing"
    and "(creators_step dir name)\<^sup>*\<^sup>* (fs0, cs0) (fs, cs)"
  shows "(fs (key_path dir name) = KeyMissing \<or> (\<exists>c \<in> set cs0. fs (key_path dir name) = KeyFile (ct_key c))) \<and>
    (\<forall>i < length cs. \<forall>j < length cs.
       ct_pc (cs ! i) = CDone (Ok True) \<longrightarrow> ct_pc (cs ! j) = CDone (Ok True) \<longrightarrow> i = j) \<and>
    (\<forall>i < length cs. \<forall>b. ct_pc (cs ! i) = CDone (Ok b) \<longrightarrow>
       (\<exists>c \<in> set cs0. from_key_file None (key_path dir name) (fs (key_path dir name)) = Ok (from_key (ct_key c)))) \<and>
    (\<forall>fs' cs'. fs (key_path dir name) \<noteq> KeyMissing \<longrightarrow> (creators_step dir name)\<^sup>*\<^sup>* (fs, cs) (fs', cs') \<longrightarrow>
       fs' (key_path dir name) = fs (key_path dir name))"
proof -
  let ?p = "key_path dir name"
  have inv: "race_inv ?p fs cs" and keys: "map ct_key cs = map ct_key cs0"
    using race_inv_steps[OF assms(3) race_inv_start] assms(1,2) by auto
  have K: "fs ?p = KeyMissing \<or> (\<exists>c \<in> set cs0. fs ?p = KeyFile (ct_key c))"
    using inv unfolding race_inv_def keys by auto
  have W: "\<forall>i \<in> phase won cs. \<forall>j \<in> phase won cs. i = j" and S: "phase settled cs \<noteq> {} \<longrightarrow> fs ?p \<noteq> KeyMissing"
    using inv by (auto simp: race_inv_def)
  have read: "\<exists>c \<in> set cs0. from_key_file None ?p (fs ?p) = Ok (from_key (ct_key c))"
    if "i < length cs" "ct_pc (cs ! i) = CDone (Ok b)" for i b
  proof -
    have "i \<in> phase settled cs" using that by (simp add: phase_def)
    then obtain c where "c \<in> set cs0" "fs ?p = KeyFile (ct_key c)" using S K by auto
    then show ?thesis using assms(1) by (auto simp: from_key_file_def from_key_def)
  qed
  moreover have "i = j" if "i < length cs" "j < length cs" "ct_pc (cs ! i) = CDone (Ok True)"
    "ct_pc (cs ! j) = CDone (Ok True)" for i j
    using W that by (auto simp: phase_def)
  ultimately show ?thesis using K race_inv_steps[OF _ inv] by blast
qed

text \<open>A single run is a sequence of calls in the race.\<close>

lemma creator_result_Some [simp]: "creator_result pc = Some r \<longleftrightarrow> pc = CDone r"
  by (cases pc) simp_all

lemma create_run_steps:
  "create_key_file_exclusive dir name c obs fs = (Some r, fs') \<Longrightarrow>
   (creators_step dir name)\<^sup>*\<^sup>* (fs, [c]) (fs', [c\<lparr>ct_pc := CDone r\<rparr>])"
proof (induction obs arbitrary: c fs)
  case Nil
  then show ?case by (cases c) simp
next
  case (Cons ob obs)
  show ?case
  proof (cases "creator_result (ct_pc c)")
    case None
    obtain fs1 pc where call: "creator_call dir name ob c fs = (fs1, pc)" by (metis prod.exhaust)
    then have "(creators_step dir name)\<^sup>*\<^sup>* (fs1, [c\<lparr>ct_pc := pc\<rparr>]) (fs', [c\<lparr>ct_pc := CDone r\<rparr>])"
      using Cons(1)[of "c\<lparr>ct_pc := pc\<rparr>" fs1] Cons(2) None by simp
    moreover have "creators_step dir name (fs, [c]) (fs1, [c\<lparr>ct_pc := pc\<rparr>])"
      using creators_step.call[of 0 "[c]" dir name ob fs fs1 pc] call by simp
    ultimately show ?thesis by (rule converse_rtranclp_into_rtranclp[rotated])
  next
    case (Some r0)
    then show ?thesis using Cons(2) by (cases c) simp
  qed
qed

text \<open>Every call makes progress: the calls a creator can still make.\<close>

fun calls_left :: "bytes \<Rightarrow> creator_pc \<Rightarrow> nat" where
  "calls_left key CStart = length key + 14"
| "calls_left key (CStaging a) = length key + 5 + (8 - a)"
| "calls_left key (CWriting s n) = 4 + (length key - n)"
| "calls_left key (CSyncing s) = 3"
| "calls_left key (CRenaming s) = 2"
| "calls_left key CPublished = 1"
| "calls_left key _ = 0"

lemma calls_decrease:
  assumes "creator_call dir name ob c fs = (fs', pc)" and "creator_result (ct_pc c) = None" and "ct_pc c \<noteq> CCrashed"
  shows "calls_left (ct_key c) pc < calls_left (ct_key c) (ct_pc c) \<and> pc \<noteq> CCrashed"
proof -
  have "CDone r \<noteq> ct_pc c" for r using assms(2) by (metis creator_result.simps(1) option.distinct(1))
  then show ?thesis using assms
    by (cases "ct_pc c") (auto simp: creator_call_def create_call_def write_call_def rename_call_def enc_err_def
      STAGE_ATTEMPTS_def Let_def split: option.splits if_splits)
qed

text \<open>The files a lone creator leaves, by its phase.\<close>

fun lone_ok :: "string \<Rightarrow> keyfs \<Rightarrow> bytes \<Rightarrow> creator_pc \<Rightarrow> keyfs \<Rightarrow> bool" where
  "lone_ok path fs0 key (CWriting s n) fs =
     (s \<noteq> path \<and> fs0 s = KeyMissing \<and> fs = fs0(s := KeyFile (take n key)))"
| "lone_ok path fs0 key (CSyncing s) fs = (s \<noteq> path \<and> fs0 s = KeyMissing \<and> fs = fs0(s := KeyFile key))"
| "lone_ok path fs0 key (CRenaming s) fs = (s \<noteq> path \<and> fs0 s = KeyMissing \<and> fs = fs0(s := KeyFile key))"
| "lone_ok path fs0 key CPublished fs = (fs0 path = KeyMissing \<and> fs = fs0(path := KeyFile key))"
| "lone_ok path fs0 key (CDone (Ok b)) fs =
     (if b then fs0 path = KeyMissing \<and> fs = fs0(path := KeyFile key) else fs0 path \<noteq> KeyMissing \<and> fs = fs0)"
| "lone_ok path fs0 key (CDone (Err e)) fs = (\<forall>p. fs0 p \<noteq> KeyMissing \<longrightarrow> fs p = fs0 p)"
| "lone_ok path fs0 key pc fs = (fs = fs0)"

lemma lone_ok_call:
  assumes "creator_call dir name ob c fs = (fs', pc)" and "lone_ok (key_path dir name) fs0 (ct_key c) (ct_pc c) fs"
  shows "lone_ok (key_path dir name) fs0 (ct_key c) pc fs'"
proof (cases "ct_pc c")
  case (CDone r)
  then show ?thesis using assms by (auto simp: creator_call_def Let_def)
next
  case CStart
  then show ?thesis using assms by (auto simp: creator_call_def Let_def split: if_splits)
next
  case (CStaging a)
  then show ?thesis using assms staged_not_key
    by (auto simp: creator_call_def create_call_def enc_err_def Let_def split: option.splits if_splits)
next
  case (CWriting s n)
  then show ?thesis using assms
    by (auto simp: creator_call_def write_call_def enc_err_def Let_def split: option.splits if_splits)
next
  case (CRenaming s)
  then show ?thesis using assms
    by (auto simp: creator_call_def rename_call_def enc_err_def Let_def fun_upd_idem split: option.splits if_splits)
qed (use assms in \<open>auto simp: creator_call_def enc_err_def Let_def split: option.splits\<close>)

lemma create_returns:
  "calls_left (ct_key c) (ct_pc c) \<le> length obs \<Longrightarrow> ct_pc c \<noteq> CCrashed \<Longrightarrow>
   \<exists>r fs'. create_key_file_exclusive dir name c obs fs = (Some r, fs')"
proof (induction obs arbitrary: c fs)
  case Nil
  then show ?case by (cases "ct_pc c") simp_all
next
  case (Cons ob obs)
  show ?case
  proof (cases "creator_result (ct_pc c)")
    case None
    obtain fs1 pc where call: "creator_call dir name ob c fs = (fs1, pc)" by (metis prod.exhaust)
    have "calls_left (ct_key c) pc < calls_left (ct_key c) (ct_pc c) \<and> pc \<noteq> CCrashed"
      using calls_decrease[OF call None Cons.prems(2)] .
    then show ?thesis using Cons.IH[of "c\<lparr>ct_pc := pc\<rparr>" fs1] Cons.prems(1) None call by simp
  qed simp
qed

lemma lone_result:
  "create_key_file_exclusive dir name c obs fs = (Some r, fs') \<Longrightarrow>
   lone_ok (key_path dir name) fs0 (ct_key c) (ct_pc c) fs \<Longrightarrow>
   lone_ok (key_path dir name) fs0 (ct_key c) (CDone r) fs'"
proof (induction obs arbitrary: c fs)
  case (Cons ob obs)
  show ?case
  proof (cases "creator_result (ct_pc c)")
    case None
    obtain fs1 pc where call: "creator_call dir name ob c fs = (fs1, pc)" by (metis prod.exhaust)
    then show ?thesis
      using Cons.IH[of "c\<lparr>ct_pc := pc\<rparr>" fs1] Cons.prems(1) lone_ok_call[OF call Cons.prems(2)] None by simp
  next
    case (Some r0)
    then show ?thesis using Cons.prems by simp
  qed
qed simp

text \<open>Creating the key takes a bounded number of steps and never touches a file that was there. A run
  returns after at most 46 steps, whatever the calls answer. If it reports having made the key,
  the complete key is the only change; if it reports that another creator was first, nothing
  changed; and after an error every name that existed refers to the same contents as before.\<close>

theorem key_creation_bounded:
  assumes "ct_pc c = CStart" and "length (ct_key c) = AES_KEY_SIZE" and "46 \<le> length obs"
  shows "\<exists>r fs'. create_key_file_exclusive dir name c obs fs = (Some r, fs') \<and>
    (case r of
       Ok True \<Rightarrow> fs (key_path dir name) = KeyMissing \<and> fs' = fs(key_path dir name := KeyFile (ct_key c))
     | Ok False \<Rightarrow> fs (key_path dir name) \<noteq> KeyMissing \<and> fs' = fs
     | Err e \<Rightarrow> \<forall>p. fs p \<noteq> KeyMissing \<longrightarrow> fs' p = fs p)"
proof -
  obtain r fs' where run: "create_key_file_exclusive dir name c obs fs = (Some r, fs')"
    using create_returns[of c obs dir name fs] assms by (auto simp: AES_KEY_SIZE_def)
  have "lone_ok (key_path dir name) fs (ct_key c) (CDone r) fs'" using lone_result[OF run] assms(1) by simp
  then show ?thesis using run by (cases r) (auto split: bool.splits)
qed

subsection \<open>Concrete instances\<close>

text \<open>A cipher that appends the first sixteen key bytes as its tag, and a TPM that stores its input.\<close>

definition sample_crypto :: crypto where
  "sample_crypto =
     \<lparr>cr_encrypt = (\<lambda>k n a m. Ok (m @ take 16 (k @ replicate 16 0))),
      cr_decrypt = (\<lambda>k n a c.
        if 16 \<le> length c \<and> drop (length c - 16) c = take 16 (k @ replicate 16 0)
        then Ok (take (length c - 16) c) else Err ''aead::Error''),
      cr_sha256 = (\<lambda>m. rev m)\<rparr>"

definition sample_tpm :: tpm where
  "sample_tpm = \<lparr>tp_seal = (\<lambda>d idx. Ok ([0, 35], d)), tp_unseal = (\<lambda>idx pub priv. Ok priv)\<rparr>"

definition sample_creator :: "nat \<Rightarrow> u8 \<Rightarrow> creator" where
  "sample_creator pid b = \<lparr>ct_pid = pid, ct_key = replicate 32 b, ct_pc = CStart\<rparr>"

definition sample_call :: "nat \<Rightarrow> call_obs" where
  "sample_call n = \<lparr>ob_nanos = 7, ob_error = None, ob_left = False, ob_len = n\<rparr>"

lemma sample_crypto_lawful: "aead_lawful sample_crypto"
  by (auto simp: aead_lawful_def sample_crypto_def)

theorem sealed_template_roundtrip_witness:
  "\<exists>blob. seal_embedding_with_aad sample_crypto (from_key (replicate 32 9)) (replicate 12 1) (replicate 512 0) (Some ''cam'') = Ok blob \<and>
    unseal_embedding_with_aad sample_crypto (from_key (replicate 32 9)) blob (Some ''cam'') = Ok (replicate 512 0)"
proof -
  obtain blob where blob: "seal_embedding_with_aad sample_crypto (from_key (replicate 32 9)) (replicate 12 1) (replicate 512 0) (Some ''cam'') = Ok blob"
    by (simp add: seal_embedding_with_aad_def seal_bytes_with_aad_def sample_crypto_def)
  from sealed_template_roundtrip[OF sample_crypto_lawful _ _ this] show ?thesis using blob
    by (simp add: AES_NONCE_SIZE_def)
qed

theorem tpm_blob_roundtrip_witness:
  "\<exists>blob. tpm_seal_bytes sample_tpm [1, 2, 3] (Some [0, 7]) = Ok blob \<and> tpm_unseal_bytes sample_tpm blob = Ok [1, 2, 3]"
proof -
  have law: "tpm_lawful sample_tpm" by (simp add: tpm_lawful_def sample_tpm_def)
  obtain blob where blob: "tpm_seal_bytes sample_tpm [1, 2, 3] (Some [0, 7]) = Ok blob"
    by (simp add: tpm_seal_bytes_def sample_tpm_def)
  from tpm_blob_roundtrip[OF law _ this] show ?thesis using blob by auto
qed

theorem key_creation_bounded_witness:
  "\<exists>r fs'. create_key_file_exclusive ''/etc/'' ''key'' (sample_creator 4 9) (replicate 46 (sample_call 1)) (\<lambda>_. KeyMissing) = (Some r, fs') \<and>
    (r = Ok False \<longrightarrow> fs' = (\<lambda>_. KeyMissing))"
  using key_creation_bounded[of "sample_creator 4 9" "replicate 46 (sample_call 1)" "''/etc/''" "''key''" "\<lambda>_. KeyMissing"]
  by (auto simp: sample_creator_def AES_KEY_SIZE_def)

lemma sample_creation:
  "create_key_file_exclusive ''/etc/'' ''key'' (sample_creator 4 9) [sample_call 0, sample_call 0, sample_call 32, sample_call 0,
     sample_call 0, sample_call 0] (\<lambda>_. KeyMissing) =
   (Some (Ok True), (\<lambda>_. KeyMissing)(key_path ''/etc/'' ''key'' := KeyFile (replicate 32 9)))"
  using staged_not_key[of "''/etc/''" "''key''" 4 7 0]
  by (simp add: sample_creator_def sample_call_def creator_call_def create_call_def write_call_def rename_call_def
    STAGE_ATTEMPTS_def Let_def fun_upd_twist fun_eq_iff)

theorem key_creation_race_witness:
  "from_key_file None (key_path ''/etc/'' ''key'')
     (((\<lambda>_. KeyMissing)(key_path ''/etc/'' ''key'' := KeyFile (replicate 32 9))) (key_path ''/etc/'' ''key'')) =
   Ok (from_key (replicate 32 9))"
proof -
  note steps = create_run_steps[OF sample_creation]
  have "\<exists>c \<in> set [sample_creator 4 9]. from_key_file None (key_path ''/etc/'' ''key'')
     (((\<lambda>_. KeyMissing)(key_path ''/etc/'' ''key'' := KeyFile (replicate 32 9))) (key_path ''/etc/'' ''key'')) =
     Ok (from_key (ct_key c))"
    using key_creation_race[OF _ _ steps] by (auto simp: sample_creator_def AES_KEY_SIZE_def)
  then show ?thesis by (simp add: sample_creator_def)
qed

end
