(* ===== verification/KeyPolicy.thy ===== *)
theory KeyPolicy
  imports Sealing CoreConfig
begin

text \<open>
  The gate that decides whether an encryption key may be created,
  \<^verbatim>\<open>facelock-daemon/src/key_policy.rs\<close>: the question it asks of the stored rows, the refusals with
  their texts, and the exclusive section around the decision and the creation of the key file. The
  file system is given as it is at the first inspection, at the one under the lock, and when the
  creation starts, since other processes may act in between.
\<close>

definition configured_key_artifact :: "config \<Rightarrow> string" where
  "configured_key_artifact cfg =
     (case ec_method (cf_encryption cfg) of
        EncTpm \<Rightarrow> ec_sealed_key_path (cf_encryption cfg)
      | _ \<Rightarrow> ec_key_path (cf_encryption cfg))"

definition store_unreadable :: "config \<Rightarrow> store_error \<Rightarrow> string" where
  "store_unreadable cfg e =
     ''the face database could not be read ('' @ store_error_display e @ ''), so facelock cannot tell '' @
     ''whether encrypted templates would be orphaned. Fix access to '' @ cf_db_path cfg @
     '' and retry, or clear the enrollments with `facelock clear`.''"

definition rows_found :: "config \<Rightarrow> nat \<Rightarrow> nat \<Rightarrow> string" where
  "rows_found cfg software tpm =
     (let s = dec_str software @ '' row(s) are software-encrypted (method \"keyfile\", key file '' @
                ec_key_path (cf_encryption cfg) @ '')'';
          t = dec_str tpm @ '' row(s) are TPM-sealed (method \"tpm\", sealed key '' @
                ec_sealed_key_path (cf_encryption cfg) @ '')''
      in if 0 < software \<and> 0 < tpm then s @ ''; '' @ t else if 0 < software then s else t)"

definition encrypted_rows_at_risk :: "config \<Rightarrow> sql_error option \<Rightarrow> db \<Rightarrow> string option" where
  "encrypted_rows_at_risk cfg fault d =
     (case embedding_blob_shapes fault d of
        Err e \<Rightarrow> Some (store_unreadable cfg e)
      | Ok shapes \<Rightarrow>
          let software = length (filter (\<lambda>(b, n). is_software_encrypted_shape b n) shapes);
              tpm = length (filter (\<lambda>(b, n). is_sealed_shape b n) shapes)
          in if software = 0 \<and> tpm = 0 then None
             else Some (rows_found cfg software tpm @
               ''. A new key cannot read them, and writing one makes a later restore of the original useless. '' @
               ''Restore the key artifacts for the encryption method that wrote those rows, or clear the '' @
               ''encrypted enrollments with `facelock clear` and enroll again. The daemon re-checks the key on '' @
               ''the next authentication or enrollment attempt.''))"

definition key_creation_refusal :: "config \<Rightarrow> sql_error option \<Rightarrow> db \<Rightarrow> string option" where
  "key_creation_refusal cfg fault d =
     map_option (\<lambda>at_risk. ''refusing to write an encryption key at '' @ configured_key_artifact cfg @ '': '' @ at_risk)
       (encrypted_rows_at_risk cfg fault d)"

definition unlockable_store_refusal :: "config \<Rightarrow> store_error \<Rightarrow> string" where
  "unlockable_store_refusal cfg e =
     ''refusing to write an encryption key at '' @ configured_key_artifact cfg @ '': the face database at '' @
     cf_db_path cfg @
     (case e of
        Busy _ _ \<Rightarrow> '' is held by another process ('' @ store_error_display e @
          ''), so facelock cannot rule out an enrollment sealing a template under the key this would replace. '' @
          ''Retry once it is free.''
      | _ \<Rightarrow> '' could not be read ('' @ store_error_display e @
          ''), so facelock cannot tell whether existing templates would be orphaned. Fix access to it and retry, '' @
          ''or clear the enrollments with `facelock clear`.'')"

text \<open>The probe of the key's directory: writable, read-only or forbidden (with the error's
  description), or another error.\<close>

datatype parent_access = AccessOk | AccessRefused string | AccessOther

definition trim_end_dots :: "string \<Rightarrow> string" where
  "trim_end_dots s = rev (dropWhile (\<lambda>c. c = CHR ''.'') (rev s))"

definition parent_display :: "string \<Rightarrow> string" where
  "parent_display p = (let d = path_dir p in if d = ''/'' then d else butlast d)"

definition key_creation_failure :: "string \<Rightarrow> string \<Rightarrow> parent_access \<Rightarrow> string" where
  "key_creation_failure path cause access =
     (let failure = ''no encryption key could be created at '' @ path @ '': '' @ cause in
      case access of
        AccessRefused desc \<Rightarrow>
          trim_end_dots failure @ ''. '' @ parent_display path @ '' is not writable by this process ('' @ desc @
          ''); the packaged daemon unit runs with ProtectSystem=strict, which keeps /etc read-only to the '' @
          ''daemon by design. Create the key with `sudo facelock setup`, then retry; the daemon picks it up '' @
          ''on the next enrollment attempt.''
      | _ \<Rightarrow> failure)"

definition sentence :: "string \<Rightarrow> string" where
  "sentence cause =
     (if cause \<noteq> [] \<and> last cause \<in> {CHR ''.'', CHR ''!'', CHR 0x3F} then cause else cause @ ''.'')"

subsection \<open>The gate\<close>

datatype keyfile_decision = KPresent | KCreated | KNotApplicable | KRefused string

definition refusal :: "keyfile_decision \<Rightarrow> string option" where
  "refusal dec = (case dec of KRefused m \<Rightarrow> Some m | _ \<Rightarrow> None)"

text \<open>What a run of the gate meets: the files at its three looks with failures of the inspections,
  failures of the store, the creator with the outcomes of its calls, and the directory probe.\<close>

record gate_obs =
  go_fs_first :: keyfs
  go_fs_locked :: keyfs
  go_fs_create :: keyfs
  go_stat_first :: "string option"
  go_stat_locked :: "string option"
  go_lock :: faults
  go_rows :: "sql_error option"
  go_creator :: creator
  go_calls :: "call_obs list"
  go_access :: parent_access

definition decide_and_create ::
  "gate_obs \<Rightarrow> config \<Rightarrow> db \<Rightarrow> (keyfile_decision \<times> keyfs) option" where
  "decide_and_create g cfg d =
     (let path = ec_key_path (cf_encryption cfg) in
      case go_stat_locked g of
        Some e \<Rightarrow>
          Some (KRefused (''refusing to write an encryption key at '' @ path @ '': the path could not be inspected ('' @
             e @ ''), so facelock cannot tell whether a key is already there.''), go_fs_locked g)
      | None \<Rightarrow>
          (case go_fs_locked g path of
             KeySymlink \<Rightarrow> Some (KRefused (symlink_key_refusal path), go_fs_locked g)
           | KeyMissing \<Rightarrow>
               (case key_creation_refusal cfg (go_rows g) d of
                  Some m \<Rightarrow> Some (KRefused m, go_fs_locked g)
                | None \<Rightarrow>
                    (case create_key_file_exclusive (path_dir path) (path_name path) (go_creator g) (go_calls g)
                            (go_fs_create g) of
                       (None, _) \<Rightarrow> None
                     | (Some (Ok True), fs) \<Rightarrow> Some (KCreated, fs)
                     | (Some (Ok False), fs) \<Rightarrow> Some (KPresent, fs)
                     | (Some (Err e), fs) \<Rightarrow>
                         Some (KRefused (key_creation_failure path (facelock_error_display e) (go_access g)), fs)))
           | _ \<Rightarrow> Some (KPresent, go_fs_locked g)))"

text \<open>The whole gate; the files are those after the call, and \<^const>\<open>None\<close> means that the creation did
  not return. A failing COMMIT loses the decision, not the files.\<close>

definition ensure_encrypt_by_default_key ::
  "gate_obs \<Rightarrow> config \<Rightarrow> db \<Rightarrow> (keyfile_decision \<times> keyfs) option" where
  "ensure_encrypt_by_default_key g cfg d =
     (let path = ec_key_path (cf_encryption cfg) in
      if ec_method (cf_encryption cfg) \<noteq> EncKeyfile then Some (KNotApplicable, go_fs_first g)
      else if go_stat_first g = None \<and> go_fs_first g path \<notin> {KeyMissing, KeySymlink}
      then Some (KPresent, go_fs_first g)
      else case with_exclusive (go_lock g) id (\<lambda>d0. Ok (decide_and_create g cfg d0, d0)) d of
          (Ok r, _) \<Rightarrow> r
        | (Err e, _) \<Rightarrow>
            (let refused = KRefused (unlockable_store_refusal cfg e) in
             if go_lock g 0 \<noteq> None then Some (refused, go_fs_locked g)
             else map_option (\<lambda>(_, fs). (refused, fs)) (decide_and_create g cfg d)))"

subsection \<open>What the gate guarantees\<close>

lemma rows_at_risk_None:
  "encrypted_rows_at_risk cfg fault d = None \<longleftrightarrow>
   fault = None \<and> list_all (\<lambda>e. \<not> is_encrypted (e_blob e)) (db_embs d)"
proof (cases fault)
  case None
  have "embedding_blob_shapes None d = Ok (map (\<lambda>e. (first_byte (e_blob e), length (e_blob e))) (db_embs d))"
    by (simp add: embedding_blob_shapes_def query_def first_byte_def)
  then show ?thesis using None
    by (auto simp: encrypted_rows_at_risk_def Let_def is_encrypted_def is_sealed_def is_software_encrypted_def
      list_all_iff filter_empty_conv)
next
  case (Some e)
  then show ?thesis by (simp add: encrypted_rows_at_risk_def embedding_blob_shapes_def query_def)
qed

text \<open>A key may be written: the method keeps a key file, the lock was taken, nothing stands at the
  path, and the store answered that no row is encrypted.\<close>

definition may_mint :: "gate_obs \<Rightarrow> config \<Rightarrow> db \<Rightarrow> bool" where
  "may_mint g cfg d =
     (ec_method (cf_encryption cfg) = EncKeyfile \<and> go_lock g 0 = None \<and> go_stat_locked g = None \<and>
      go_fs_locked g (ec_key_path (cf_encryption cfg)) = KeyMissing \<and> go_rows g = None \<and>
      list_all (\<lambda>e. \<not> is_encrypted (e_blob e)) (db_embs d))"

lemma decide_cases:
  assumes "decide_and_create g cfg d = Some (dec, fs)"
  shows "fs = go_fs_locked g \<and> dec \<noteq> KCreated \<or>
    go_stat_locked g = None \<and> go_fs_locked g (ec_key_path (cf_encryption cfg)) = KeyMissing \<and> go_rows g = None \<and>
    list_all (\<lambda>e. \<not> is_encrypted (e_blob e)) (db_embs d) \<and>
    (\<exists>r. create_key_file_exclusive (path_dir (ec_key_path (cf_encryption cfg))) (path_name (ec_key_path (cf_encryption cfg)))
          (go_creator g) (go_calls g) (go_fs_create g) = (Some r, fs) \<and>
        (case r of Ok True \<Rightarrow> dec = KCreated | Ok False \<Rightarrow> dec = KPresent | Err e \<Rightarrow> \<exists>m. dec = KRefused m))"
  using assms rows_at_risk_None[of cfg "go_rows g" d]
  by (auto simp: decide_and_create_def key_creation_refusal_def Let_def
      split: option.splits key_node.splits prod.splits result.splits bool.splits)

lemma exclusive_decision:
  "with_exclusive (go_lock g) id (\<lambda>d0. Ok (decide_and_create g cfg d0, d0)) d =
   (case go_lock g 0 of
      Some e \<Rightarrow> (Err (classify (db_path d) e), d)
    | None \<Rightarrow>
        (case go_lock g 1 of
           Some e \<Rightarrow> (Err (classify (db_path d) e), d)
         | None \<Rightarrow> (Ok (decide_and_create g cfg d), d)))"
  by (simp add: with_exclusive_def exec_def split: option.splits)

lemma gate_cases:
  assumes "ensure_encrypt_by_default_key g cfg d = Some (dec, fs)"
  obtains (untouched) "fs = go_fs_first g \<or> fs = go_fs_locked g" "dec \<noteq> KCreated"
  | (decided) dec0 where "decide_and_create g cfg d = Some (dec0, fs)" "dec = dec0 \<or> (\<exists>m. dec = KRefused m)"
      "ec_method (cf_encryption cfg) = EncKeyfile" "go_lock g 0 = None"
  using assms unfolding ensure_encrypt_by_default_key_def exclusive_decision
  by (auto simp: Let_def split: if_splits option.splits)

text \<open>C38: no key is ever written where it could cost a template. If a run of the gate changes any file,
  the configured method is the key file, the database was locked, nothing stood at the key path and
  no stored row, of any user, is encrypted; even then no existing file changes. The gate reports a
  created key exactly with the complete key at the path as the only change.\<close>

theorem key_minted_only_when_safe:
  assumes "ensure_encrypt_by_default_key g cfg d = Some (dec, fs)"
    and "ct_pc (go_creator g) = CStart"
  shows "(fs \<in> {go_fs_first g, go_fs_locked g, go_fs_create g} \<or> may_mint g cfg d) \<and>
    (may_mint g cfg d \<longrightarrow> fs \<in> {go_fs_first g, go_fs_locked g} \<or>
       (\<forall>p. go_fs_create g p \<noteq> KeyMissing \<longrightarrow> fs p = go_fs_create g p)) \<and>
    (dec = KCreated \<longrightarrow> may_mint g cfg d \<and> go_fs_create g (ec_key_path (cf_encryption cfg)) = KeyMissing \<and>
       fs = (go_fs_create g)(ec_key_path (cf_encryption cfg) := KeyFile (ct_key (go_creator g))))"
  using assms(1)
proof (cases rule: gate_cases)
  case untouched
  then show ?thesis by auto
next
  case (decided dec0)
  show ?thesis
    using decide_cases[OF decided(1)]
  proof (elim disjE conjE exE)
    assume "fs = go_fs_locked g" "dec0 \<noteq> KCreated"
    then show ?thesis using decided(2) by auto
  next
    fix r
    assume safe: "go_stat_locked g = None" "go_fs_locked g (ec_key_path (cf_encryption cfg)) = KeyMissing"
      "go_rows g = None" "list_all (\<lambda>e. \<not> is_encrypted (e_blob e)) (db_embs d)"
      and run: "create_key_file_exclusive (path_dir (ec_key_path (cf_encryption cfg)))
        (path_name (ec_key_path (cf_encryption cfg))) (go_creator g) (go_calls g) (go_fs_create g) = (Some r, fs)"
      and r: "case r of Ok True \<Rightarrow> dec0 = KCreated | Ok False \<Rightarrow> dec0 = KPresent | Err e \<Rightarrow> \<exists>m. dec0 = KRefused m"
    have "lone_ok (ec_key_path (cf_encryption cfg)) (go_fs_create g) (ct_key (go_creator g)) (CDone r) fs"
      using lone_result[OF run] assms(2) by simp
    moreover have "may_mint g cfg d" using safe decided(3,4) by (simp add: may_mint_def)
    ultimately show ?thesis using r decided(2) by (cases r) (auto split: bool.splits)
  qed
qed

definition sample_key_config :: config where
  "sample_key_config = default_config\<lparr>cf_encryption := \<lparr>ec_method = EncKeyfile, ec_key_path = ''/etc/key'',
     ec_sealed_key_path = ''/etc/key.sealed''\<rparr>\<rparr>"

definition sample_gate :: gate_obs where
  "sample_gate =
     \<lparr>go_fs_first = \<lambda>_. KeyMissing, go_fs_locked = \<lambda>_. KeyMissing, go_fs_create = \<lambda>_. KeyMissing,
      go_stat_first = None, go_stat_locked = None, go_lock = \<lambda>_. None, go_rows = None,
      go_creator = sample_creator 4 9,
      go_calls = [sample_call 0, sample_call 0, sample_call 32, sample_call 0, sample_call 0, sample_call 0],
      go_access = AccessOk\<rparr>"

lemma sample_key_path: "path_dir ''/etc/key'' = ''/etc/''" "path_name ''/etc/key'' = ''key''"
  by (simp_all add: path_dir_def path_name_def)

lemma sample_gate_run:
  "ensure_encrypt_by_default_key sample_gate sample_key_config (open_memory ''f.db'') =
     Some (KCreated, (\<lambda>_. KeyMissing)(key_path ''/etc/'' ''key'' := KeyFile (replicate 32 9)))"
proof -
  have "key_creation_refusal sample_key_config None (open_memory ''f.db'') = None"
    using rows_at_risk_None[of sample_key_config None "open_memory ''f.db''"]
    by (simp add: key_creation_refusal_def open_memory_def)
  then have "decide_and_create sample_gate sample_key_config (open_memory ''f.db'') =
      Some (KCreated, (\<lambda>_. KeyMissing)(key_path ''/etc/'' ''key'' := KeyFile (replicate 32 9)))"
    using sample_creation
    by (simp add: decide_and_create_def sample_key_config_def sample_gate_def sample_key_path Let_def
      del: create_key_file_exclusive.simps)
  then show ?thesis
    unfolding ensure_encrypt_by_default_key_def exclusive_decision
    by (simp add: sample_key_config_def sample_gate_def Let_def)
qed

theorem key_minted_only_when_safe_witness:
  "may_mint sample_gate sample_key_config (open_memory ''f.db'') \<and>
   ensure_encrypt_by_default_key sample_gate sample_key_config (open_memory ''f.db'') =
     Some (KCreated, (\<lambda>_. KeyMissing)(key_path ''/etc/'' ''key'' := KeyFile (replicate 32 9)))"
  using key_minted_only_when_safe[OF sample_gate_run] sample_gate_run
  by (simp add: sample_gate_def sample_creator_def)

end
