(* ===== verification/Keyring.thy ===== *)
theory Keyring
  imports KeyPolicy
begin

text \<open>
  The runtime keyring, \<^verbatim>\<open>facelock-daemon/src/keyring.rs\<close>: the primary key that seals new templates,
  the secondaries that still open older ones, how both are loaded for each encryption method, and
  how a missing primary is resolved again. The TPM, the files and the build's TPM feature are
  observations.
\<close>

record sealing_keys =
  sk_primary :: "software_sealer option"
  sk_primary_error :: "string option"
  sk_secondary :: "(string \<times> software_sealer) list"

definition keys_none :: sealing_keys where
  "keys_none = \<lparr>sk_primary = None, sk_primary_error = None, sk_secondary = []\<rparr>"

record key_world =
  kw_crypto :: crypto
  kw_tpm_feature :: bool
  kw_tpm_new :: "(unit, facelock_error) result"
  kw_tpm :: tpm
  kw_sealed_exists :: bool
  kw_sealed_file :: "(bytes, string) result"
  kw_gate :: gate_obs
  kw_key_exists :: bool
  kw_key_node :: key_node
  kw_key_io :: "string option"
  kw_rows :: "sql_error option"

definition tpm_key :: "key_world \<Rightarrow> config \<Rightarrow> (bytes, facelock_error) result" where
  "tpm_key w cfg = unseal_key_from_file (kw_tpm w) (ec_sealed_key_path (cf_encryption cfg)) (kw_sealed_file w)"

text \<open>A dash in a message is one UTF-8 character of three bytes.\<close>

definition em_dash :: string where
  "em_dash = [CHR 0xE2, CHR 0x80, CHR 0x94]"

definition unreadable_keyfile :: "string \<Rightarrow> facelock_error \<Rightarrow> string" where
  "unreadable_keyfile path e = path @ '' keyfile could not be read: '' @ facelock_error_display e"

definition resolve_keyfile_sealer ::
  "key_world \<Rightarrow> config \<Rightarrow> db \<Rightarrow> (software_sealer, string) result option" where
  "resolve_keyfile_sealer w cfg d =
     (let path = ec_key_path (cf_encryption cfg) in
      map_option
        (\<lambda>(dec, fs).
           case refusal dec of
             Some m \<Rightarrow> Err m
           | None \<Rightarrow>
               map_err
                 (\<lambda>e. let complaint = unreadable_keyfile path e in
                      case encrypted_rows_at_risk cfg (kw_rows w) d of
                        Some at_risk \<Rightarrow> complaint @ '' '' @ em_dash @ '' '' @ at_risk
                      | None \<Rightarrow> complaint)
                 (from_key_file (kw_key_io w) path (fs path)))
        (ensure_encrypt_by_default_key (kw_gate w) cfg d))"

definition unseal_tpm_primary :: "key_world \<Rightarrow> config \<Rightarrow> (software_sealer, string) result" where
  "unseal_tpm_primary w cfg =
     (if kw_tpm_feature w
      then and_then (map_err (\<lambda>e. ''TPM initialization failed: '' @ facelock_error_display e) (kw_tpm_new w)) (\<lambda>_.
           and_then (map_err (\<lambda>e. ''failed to unseal AES key from '' @ ec_sealed_key_path (cf_encryption cfg) @ '': '' @
                        facelock_error_display e) (tpm_key w cfg)) (\<lambda>key. Ok (from_key key)))
      else Err (''encryption method is '' @ CHR 0x27 # ''tpm'' @ CHR 0x27 # '' but TPM support is not compiled in (rebuild with --features tpm)''))"

definition load_tpm_secondary :: "key_world \<Rightarrow> config \<Rightarrow> software_sealer option \<Rightarrow> (string \<times> software_sealer) list" where
  "load_tpm_secondary w cfg primary =
     (if \<not> kw_sealed_exists w \<or> \<not> kw_tpm_feature w then []
      else case and_then (kw_tpm_new w) (\<lambda>_. tpm_key w cfg) of
          Err _ \<Rightarrow> []
        | Ok key \<Rightarrow>
            let sealer = from_key key; i = key_id (kw_crypto w) sealer in
            if map_option (key_id (kw_crypto w)) primary = Some i then [] else [(i, sealer)])"

definition load_keyfile_secondary :: "key_world \<Rightarrow> config \<Rightarrow> software_sealer \<Rightarrow> (string \<times> software_sealer) list" where
  "load_keyfile_secondary w cfg primary =
     (if \<not> kw_key_exists w then []
      else case from_key_file (kw_key_io w) (ec_key_path (cf_encryption cfg)) (kw_key_node w) of
          Err _ \<Rightarrow> []
        | Ok sealer \<Rightarrow>
            let i = key_id (kw_crypto w) sealer in
            if key_id (kw_crypto w) primary = i then [] else [(i, sealer)])"

definition keyfile_keys :: "key_world \<Rightarrow> config \<Rightarrow> (software_sealer, string) result \<Rightarrow> sealing_keys" where
  "keyfile_keys w cfg r =
     (let primary = (case r of Ok s \<Rightarrow> Some s | Err _ \<Rightarrow> None) in
      \<lparr>sk_primary = primary, sk_primary_error = (case r of Ok _ \<Rightarrow> None | Err m \<Rightarrow> Some m),
       sk_secondary = load_tpm_secondary w cfg primary\<rparr>)"

definition tpm_keys :: "key_world \<Rightarrow> config \<Rightarrow> software_sealer \<Rightarrow> sealing_keys" where
  "tpm_keys w cfg primary =
     \<lparr>sk_primary = Some primary, sk_primary_error = None,
      sk_secondary = (if kw_tpm_feature w then load_keyfile_secondary w cfg primary else [])\<rparr>"

definition keys_load :: "key_world \<Rightarrow> config \<Rightarrow> db \<Rightarrow> (sealing_keys, string) result option" where
  "keys_load w cfg d =
     (case ec_method (cf_encryption cfg) of
        EncNone \<Rightarrow> Some (Ok keys_none)
      | EncKeyfile \<Rightarrow> map_option (\<lambda>r. Ok (keyfile_keys w cfg r)) (resolve_keyfile_sealer w cfg d)
      | EncTpm \<Rightarrow> Some (and_then (unseal_tpm_primary w cfg) (\<lambda>p. Ok (tpm_keys w cfg p))))"

definition load_existing :: "key_world \<Rightarrow> config \<Rightarrow> sealing_keys" where
  "load_existing w cfg =
     (let path = ec_key_path (cf_encryption cfg) in
      case ec_method (cf_encryption cfg) of
        EncNone \<Rightarrow> keys_none
      | EncKeyfile \<Rightarrow>
          keyfile_keys w cfg (map_err (unreadable_keyfile path) (from_key_file (kw_key_io w) path (kw_key_node w)))
      | EncTpm \<Rightarrow>
          (case unseal_tpm_primary w cfg of
             Ok primary \<Rightarrow> tpm_keys w cfg primary
           | Err m \<Rightarrow> \<lparr>sk_primary = None, sk_primary_error = Some m, sk_secondary = []\<rparr>))"

definition refresh_primary :: "key_world \<Rightarrow> config \<Rightarrow> db \<Rightarrow> sealing_keys \<Rightarrow> sealing_keys option" where
  "refresh_primary w cfg d keys =
     (if ec_method (cf_encryption cfg) \<noteq> EncKeyfile \<or> sk_primary keys \<noteq> None then Some keys
      else map_option
        (\<lambda>r. case r of
           Ok sealer \<Rightarrow>
             let i = key_id (kw_crypto w) sealer in
             keys\<lparr>sk_primary := Some sealer, sk_primary_error := None,
                  sk_secondary := filter (\<lambda>(k, _). k \<noteq> i) (sk_secondary keys)\<rparr>
         | Err m \<Rightarrow> keys\<lparr>sk_primary_error := Some m\<rparr>)
        (resolve_keyfile_sealer w cfg d))"

definition primary_key_id :: "crypto \<Rightarrow> sealing_keys \<Rightarrow> string option" where
  "primary_key_id cr keys = map_option (key_id cr) (sk_primary keys)"

definition secondary_key_ids :: "sealing_keys \<Rightarrow> string list" where
  "secondary_key_ids keys = map fst (sk_secondary keys)"

definition by_key_id :: "crypto \<Rightarrow> sealing_keys \<Rightarrow> string \<Rightarrow> software_sealer option" where
  "by_key_id cr keys i =
     (if primary_key_id cr keys = Some i then sk_primary keys
      else map_option snd (find (\<lambda>(k, _). k = i) (sk_secondary keys)))"

definition candidates_for_legacy_row :: "sealing_keys \<Rightarrow> software_sealer list" where
  "candidates_for_legacy_row keys =
     (case sk_primary keys of None \<Rightarrow> [] | Some p \<Rightarrow> [p]) @ map snd (sk_secondary keys)"

definition any_loaded :: "sealing_keys \<Rightarrow> bool" where
  "any_loaded keys = (sk_primary keys \<noteq> None \<or> sk_secondary keys \<noteq> [])"

subsection \<open>The invariant of a keyring\<close>

text \<open>Every key is a full AES key; a secondary is listed under its own id, which is not the primary's,
  and there is at most one; a missing primary is explained, unless nothing is encrypted.\<close>

definition sealer_ok :: "software_sealer \<Rightarrow> bool" where
  "sealer_ok s = (length (ss_key s) = AES_KEY_SIZE)"

definition secondary_ok :: "crypto \<Rightarrow> software_sealer option \<Rightarrow> (string \<times> software_sealer) list \<Rightarrow> bool" where
  "secondary_ok cr primary sec =
     (length sec \<le> 1 \<and> list_all (\<lambda>(i, s). i = key_id cr s \<and> sealer_ok s \<and> map_option (key_id cr) primary \<noteq> Some i) sec)"

definition keyring_ok :: "crypto \<Rightarrow> config \<Rightarrow> sealing_keys \<Rightarrow> bool" where
  "keyring_ok cr cfg keys =
     (pred_option sealer_ok (sk_primary keys) \<and> secondary_ok cr (sk_primary keys) (sk_secondary keys) \<and>
      (case ec_method (cf_encryption cfg) of
         EncNone \<Rightarrow> keys = keys_none
       | _ \<Rightarrow> (sk_primary keys = None) = (sk_primary_error keys \<noteq> None)))"

lemma from_key_file_ok: "from_key_file io path node = Ok s \<Longrightarrow> sealer_ok s"
  by (auto simp: from_key_file_def sealer_ok_def Let_def split: key_node.splits option.splits if_splits)

lemma unseal_key_ok: "unseal_key_from_file tp path c = Ok key \<Longrightarrow> length key = AES_KEY_SIZE"
  by (auto simp: unseal_key_from_file_def AES_KEY_SIZE_def split: if_splits)

lemma resolve_ok: "resolve_keyfile_sealer w cfg d = Some (Ok s) \<Longrightarrow> sealer_ok s"
  by (auto simp: resolve_keyfile_sealer_def Let_def dest: from_key_file_ok split: option.splits)

lemma tpm_primary_ok: "unseal_tpm_primary w cfg = Ok s \<Longrightarrow> sealer_ok s"
  by (auto simp: unseal_tpm_primary_def tpm_key_def from_key_def sealer_ok_def dest: unseal_key_ok split: if_splits)

lemma tpm_secondary_ok: "secondary_ok (kw_crypto w) p (load_tpm_secondary w cfg p)"
  by (auto simp: load_tpm_secondary_def secondary_ok_def tpm_key_def from_key_def sealer_ok_def Let_def
      dest: unseal_key_ok split: result.splits)

lemma keyfile_secondary_ok: "secondary_ok (kw_crypto w) (Some p) (load_keyfile_secondary w cfg p)"
  by (auto simp: load_keyfile_secondary_def secondary_ok_def Let_def dest: from_key_file_ok split: result.splits)

lemma keyfile_keys_ok:
  "ec_method (cf_encryption cfg) = EncKeyfile \<Longrightarrow> (\<And>s. r = Ok s \<Longrightarrow> sealer_ok s) \<Longrightarrow>
   keyring_ok (kw_crypto w) cfg (keyfile_keys w cfg r)"
  by (cases r) (auto simp: keyring_ok_def keyfile_keys_def Let_def tpm_secondary_ok)

lemma tpm_keys_ok:
  "ec_method (cf_encryption cfg) = EncTpm \<Longrightarrow> sealer_ok p \<Longrightarrow> keyring_ok (kw_crypto w) cfg (tpm_keys w cfg p)"
  using keyfile_secondary_ok[of w p cfg]
  by (auto simp: keyring_ok_def tpm_keys_def secondary_ok_def)

lemma keys_none_ok: "ec_method (cf_encryption cfg) = EncNone \<Longrightarrow> keyring_ok cr cfg keys_none"
  by (simp add: keyring_ok_def keys_none_def secondary_ok_def)

lemma load_keyring_ok: "keys_load w cfg d = Some (Ok keys) \<Longrightarrow> keyring_ok (kw_crypto w) cfg keys"
  by (auto simp: keys_load_def split: encryption_method.splits
      intro!: keyfile_keys_ok tpm_keys_ok keys_none_ok intro: resolve_ok tpm_primary_ok)

lemma load_existing_ok: "keyring_ok (kw_crypto w) cfg (load_existing w cfg)"
proof (cases "ec_method (cf_encryption cfg)")
  case EncKeyfile
  then show ?thesis by (auto simp: load_existing_def Let_def intro!: keyfile_keys_ok dest: from_key_file_ok)
next
  case EncTpm
  then show ?thesis
    by (cases "unseal_tpm_primary w cfg")
      (auto simp: load_existing_def Let_def tpm_keys_ok tpm_primary_ok, simp add: keyring_ok_def secondary_ok_def)
next
  case EncNone
  then show ?thesis by (simp add: load_existing_def keys_none_ok Let_def)
qed

lemma refresh_primary_ok:
  assumes "refresh_primary w cfg d keys = Some keys'" and "keyring_ok (kw_crypto w) cfg keys"
  shows "keyring_ok (kw_crypto w) cfg keys'"
proof (cases "ec_method (cf_encryption cfg) \<noteq> EncKeyfile \<or> sk_primary keys \<noteq> None")
  case True
  then show ?thesis using assms by (simp add: refresh_primary_def)
next
  case False
  then obtain r where r: "resolve_keyfile_sealer w cfg d = Some r"
    using assms(1) by (auto simp: refresh_primary_def)
  show ?thesis
  proof (cases r)
    case (Ok s)
    have "secondary_ok (kw_crypto w) (Some s) (filter (\<lambda>(k, _). k \<noteq> key_id (kw_crypto w) s) (sk_secondary keys))"
      using assms(2) order_trans[OF length_filter_le, of "sk_secondary keys" 1]
      by (auto simp: keyring_ok_def secondary_ok_def list_all_iff)
    then show ?thesis using False assms r Ok resolve_ok[of w cfg d s]
      by (auto simp: refresh_primary_def keyring_ok_def Let_def)
  next
    case (Err m)
    then show ?thesis using False assms r
      by (auto simp: refresh_primary_def keyring_ok_def secondary_ok_def)
  qed
qed

text \<open>The keyrings a process holds: loaded once, refreshed before attempts, the world changing in
  between but not the cipher.\<close>

inductive held_keyring :: "crypto \<Rightarrow> config \<Rightarrow> sealing_keys \<Rightarrow> bool" for cr cfg where
  load: "kw_crypto w = cr \<Longrightarrow> keys_load w cfg d = Some (Ok keys) \<Longrightarrow> held_keyring cr cfg keys"
| existing: "kw_crypto w = cr \<Longrightarrow> held_keyring cr cfg (load_existing w cfg)"
| refresh: "held_keyring cr cfg keys \<Longrightarrow> kw_crypto w = cr \<Longrightarrow> refresh_primary w cfg d keys = Some keys' \<Longrightarrow>
    held_keyring cr cfg keys'"

lemma held_keyring_ok: "held_keyring cr cfg keys \<Longrightarrow> keyring_ok cr cfg keys"
  by (induction rule: held_keyring.induct) (auto intro: load_keyring_ok load_existing_ok refresh_primary_ok)

subsection \<open>Looking keys up\<close>

text \<open>What the template loader relies on: in a valid keyring the lookup by id finds exactly the loaded
  keys.\<close>

locale key_lookup =
  fixes valid :: "'k \<Rightarrow> bool" and by_id :: "'k \<Rightarrow> string \<Rightarrow> 's option"
    and candidates :: "'k \<Rightarrow> 's list" and ident :: "'s \<Rightarrow> string"
  assumes found: "valid k \<Longrightarrow> s \<in> set (candidates k) \<Longrightarrow> by_id k (ident s) = Some s"
    and sound: "valid k \<Longrightarrow> by_id k i = Some s \<Longrightarrow> s \<in> set (candidates k) \<and> ident s = i"
begin

lemma lookup_iff: "valid k \<Longrightarrow> by_id k i = Some s \<longleftrightarrow> s \<in> set (candidates k) \<and> ident s = i"
  using found sound by blast

lemma lookup_None: "valid k \<Longrightarrow> by_id k i = None \<longleftrightarrow> i \<notin> ident ` set (candidates k)"
  by (cases "by_id k i") (auto dest: sound found)

lemma ident_inj: "valid k \<Longrightarrow> inj_on ident (set (candidates k))"
  by (rule inj_onI) (metis found option.sel)

end

interpretation ring: key_lookup "keyring_ok cr cfg" "by_key_id cr" candidates_for_legacy_row "key_id cr" for cr cfg
proof
  fix k s
  assume ok: "keyring_ok cr cfg k" and s: "s \<in> set (candidates_for_legacy_row k)"
  have sec: "length (sk_secondary k) \<le> 1" "list_all (\<lambda>(i, s). i = key_id cr s \<and> primary_key_id cr k \<noteq> Some i) (sk_secondary k)"
    using ok by (auto simp: keyring_ok_def secondary_ok_def primary_key_id_def list_all_iff)
  show "by_key_id cr k (key_id cr s) = Some s"
  proof (cases "sk_primary k = Some s")
    case True
    then show ?thesis by (simp add: by_key_id_def primary_key_id_def)
  next
    case False
    then obtain i where "(i, s) \<in> set (sk_secondary k)"
      using s by (auto simp: candidates_for_legacy_row_def split: option.splits)
    then have "sk_secondary k = [(key_id cr s, s)]" "primary_key_id cr k \<noteq> Some (key_id cr s)"
      using sec by (cases "sk_secondary k"; auto)+
    then show ?thesis by (simp add: by_key_id_def)
  qed
next
  fix k i s
  assume ok: "keyring_ok cr cfg k" and l: "by_key_id cr k i = Some s"
  show "s \<in> set (candidates_for_legacy_row k) \<and> key_id cr s = i"
  proof (cases "primary_key_id cr k = Some i")
    case True
    then show ?thesis using l by (auto simp: by_key_id_def primary_key_id_def candidates_for_legacy_row_def)
  next
    case False
    then obtain j where "find (\<lambda>(k, _). k = i) (sk_secondary k) = Some (j, s)" using l by (auto simp: by_key_id_def)
    then have "(i, s) \<in> set (sk_secondary k)" by (auto simp: find_Some_iff) (metis nth_mem)
    then show ?thesis
      using ok by (force simp: keyring_ok_def secondary_ok_def list_all_iff candidates_for_legacy_row_def)
  qed
qed

lemma candidates_bound: "keyring_ok cr cfg keys \<Longrightarrow> length (candidates_for_legacy_row keys) \<le> 2"
  by (auto simp: keyring_ok_def secondary_ok_def candidates_for_legacy_row_def split: option.splits)

lemma candidates_sealers: "keyring_ok cr cfg keys \<Longrightarrow> s \<in> set (candidates_for_legacy_row keys) \<Longrightarrow> sealer_ok s"
  by (cases "sk_primary keys") (auto simp: keyring_ok_def secondary_ok_def candidates_for_legacy_row_def list_all_iff split: option.splits)

text \<open>A keyring a process holds, after loading and any number of refreshes, is well formed. It has at
  most two keys, all of 32 bytes and no two with the same id; looking up an id finds exactly the
  loaded key with that id; and it lacks a primary key exactly when it can say why, or when the
  configured method stores templates in plaintext and then it holds no key at all.\<close>

theorem held_keyring_well_formed:
  assumes "held_keyring cr cfg keys"
  shows "length (candidates_for_legacy_row keys) \<le> 2 \<and>
    (\<forall>s \<in> set (candidates_for_legacy_row keys). length (ss_key s) = 32) \<and>
    inj_on (key_id cr) (set (candidates_for_legacy_row keys)) \<and>
    (\<forall>i s. by_key_id cr keys i = Some s \<longleftrightarrow> s \<in> set (candidates_for_legacy_row keys) \<and> key_id cr s = i) \<and>
    (if ec_method (cf_encryption cfg) = EncNone then \<not> any_loaded keys \<and> sk_primary_error keys = None
     else sk_primary keys = None \<longleftrightarrow> sk_primary_error keys \<noteq> None)"
proof -
  note ok = held_keyring_ok[OF assms]
  have "if ec_method (cf_encryption cfg) = EncNone then \<not> any_loaded keys \<and> sk_primary_error keys = None
     else sk_primary keys = None \<longleftrightarrow> sk_primary_error keys \<noteq> None"
    using ok by (auto simp: keyring_ok_def any_loaded_def keys_none_def split: encryption_method.splits)
  then show ?thesis
    using candidates_bound[OF ok] candidates_sealers[OF ok] ring.ident_inj[OF ok] ring.lookup_iff[OF ok]
    by (simp add: sealer_ok_def AES_KEY_SIZE_def)
qed

definition sample_key_world :: key_world where
  "sample_key_world =
     \<lparr>kw_crypto = sample_crypto, kw_tpm_feature = True, kw_tpm_new = Err (FTpm ''no TPM''), kw_tpm = sample_tpm,
      kw_sealed_exists = False, kw_sealed_file = Ok [], kw_gate = sample_gate, kw_key_exists = True,
      kw_key_node = KeyFile (replicate 32 9), kw_key_io = None, kw_rows = None\<rparr>"

lemma sample_keys:
  "keys_load sample_key_world sample_key_config (open_memory ''f.db'') =
     Some (Ok \<lparr>sk_primary = Some (from_key (replicate 32 9)), sk_primary_error = None, sk_secondary = []\<rparr>)"
  using sample_gate_run
  by (simp add: keys_load_def resolve_keyfile_sealer_def keyfile_keys_def load_tpm_secondary_def refusal_def
      sample_key_world_def sample_key_config_def key_path_def from_key_file_def from_key_def AES_KEY_SIZE_def Let_def)

theorem held_keyring_well_formed_witness:
  "\<exists>keys. keys_load sample_key_world sample_key_config (open_memory ''f.db'') = Some (Ok keys) \<and>
     by_key_id sample_crypto keys (key_id sample_crypto (from_key (replicate 32 9))) = Some (from_key (replicate 32 9))"
proof -
  have w: "kw_crypto sample_key_world = sample_crypto" by (simp add: sample_key_world_def)
  note held = held_keyring.load[OF w sample_keys]
  show ?thesis using held_keyring_well_formed[OF held] sample_keys
    by (simp add: candidates_for_legacy_row_def)
qed

end
