(* ===== verification/TemplateLoad.thy ===== *)
theory TemplateLoad
  imports Keyring
begin

text \<open>
  Loading a user's templates, \<^verbatim>\<open>facelock-daemon/src/embeddings.rs\<close>: which read path the store needs,
  how one stored row is decrypted, by the key it names, by trial, by the TPM or not at all, and the
  loop over all rows that gives up and wipes on the first failure.
\<close>

subsection \<open>One row\<close>

text \<open>The TPM as a caller holds it: initialised at start, or connected on the first sealed row.\<close>

datatype tpm_access = Held "tpm option" | Lazy "(tpm, facelock_error) result"

definition access_sealer :: "tpm_access \<Rightarrow> (tpm, string) result" where
  "access_sealer acc =
     (case acc of
        Held (Some tp) \<Rightarrow> Ok tp
      | Held None \<Rightarrow> Err ''TPM-sealed embeddings exist but TPM is not available''
      | Lazy r \<Rightarrow> map_err (\<lambda>e. ''TPM initialization failed: '' @ facelock_error_display e) r)"

text \<open>\<^verbatim>\<open>TpmSealer::unseal_embedding\<close> of a build without the TPM feature.\<close>

definition passthrough_unseal_embedding :: "bytes \<Rightarrow> (face_embedding, facelock_error) result" where
  "passthrough_unseal_embedding sealed =
     (if is_sealed sealed
      then Err (FTpm (''cannot unseal TPM-sealed embedding without TPM support (compile with '' @
                  CHR 0x27 # ''tpm'' @ CHR 0x27 # '' feature)''))
      else if length sealed \<noteq> RAW_EMBEDDING_SIZE
      then Err (FStorage (''invalid embedding size: expected 2048, got '' @ dec_str (length sealed)))
      else bytes_to_embedding sealed)"

definition needs_raw_rows :: "config \<Rightarrow> bool \<Rightarrow> bool \<Rightarrow> bool" where
  "needs_raw_rows cfg software_sealer_active sealer_unavailable =
     (software_sealer_active \<or> tc_seal_database (cf_tpm cfg) \<or> sealer_unavailable)"

definition other_key_artifact :: "bool \<Rightarrow> config \<Rightarrow> string" where
  "other_key_artifact tpm_feature cfg =
     (case ec_method (cf_encryption cfg) of
        EncTpm \<Rightarrow> ec_key_path (cf_encryption cfg)
      | _ \<Rightarrow> ec_sealed_key_path (cf_encryption cfg) @
          (if tpm_feature then [] else '' under a build with the tpm feature (this one has none)''))"

definition software_decrypt_error :: "u32 \<Rightarrow> string \<Rightarrow> string option \<Rightarrow> bool \<Rightarrow> string" where
  "software_decrypt_error i cause dev aad_present =
     ''software decryption failed for embedding '' @ dec_str (unat i) @ '': '' @ cause @
     (if aad_present then ''; if this template predates security.bind_device_aad, re-enroll to bind it''
      else if opt_str dev \<noteq> []
      then ''; if this template was sealed under security.bind_device_aad, re-enable it or re-enroll''
      else [])"

fun first_success :: "('s \<Rightarrow> ('a, 'e) result) \<Rightarrow> 's list \<Rightarrow> 'e option \<Rightarrow> ('a, 'e option) result" where
  "first_success f [] last_error = Err last_error"
| "first_success f (s # ss) last_error =
     (case f s of Ok a \<Rightarrow> Ok a | Err e \<Rightarrow> first_success f ss (Some e))"

definition decrypt_software_row ::
  "crypto \<Rightarrow> bool \<Rightarrow> u32 \<Rightarrow> bytes \<Rightarrow> string option \<Rightarrow> string option \<Rightarrow> config \<Rightarrow> sealing_keys \<Rightarrow>
   (face_embedding, string) result" where
  "decrypt_software_row cr ft i blob dev key cfg keys =
     (let aad = device_aad (cf_security cfg) dev;
          unseal = (\<lambda>s. map_err facelock_error_display (unseal_embedding_with_aad cr s blob aad)) in
      case key of
        Some wanted \<Rightarrow>
          (case by_key_id cr keys wanted of
             None \<Rightarrow>
               Err (''embedding '' @ dec_str (unat i) @ '' was sealed under key '' @ wanted @
                 '', which is not loadable: restore '' @ other_key_artifact ft cfg @
                 '' (the artifact for the other encryption method) or re-enroll'')
           | Some s \<Rightarrow> map_err (\<lambda>e. software_decrypt_error i e dev (aad \<noteq> None)) (unseal s))
      | None \<Rightarrow>
          if \<not> any_loaded keys
          then Err (''embedding '' @ dec_str (unat i) @ '' is software-encrypted but no key is configured'')
          else map_err
            (\<lambda>last_error.
               software_decrypt_error i
                 (case last_error of Some e \<Rightarrow> e | None \<Rightarrow> ''no loadable key could open it'') dev (aad \<noteq> None) @
               ''; or sealed under a key that is no longer loadable'')
            (first_success unseal (candidates_for_legacy_row keys) None))"

definition decrypt_row ::
  "crypto \<Rightarrow> bool \<Rightarrow> config \<Rightarrow> sealing_keys \<Rightarrow> tpm_access \<Rightarrow> raw_row \<Rightarrow> (face_embedding, string) result" where
  "decrypt_row cr ft cfg keys acc row =
     (let i = rw_model_id row; blob = rw_blob row in
      if rw_sealed row \<and> is_software_encrypted blob
      then decrypt_software_row cr ft i blob (rw_device_id row) (rw_key_id row) cfg keys
      else if rw_sealed row
      then and_then (access_sealer acc) (\<lambda>tp.
             map_err (\<lambda>e. ''TPM unseal failed for embedding '' @ dec_str (unat i) @ '': '' @ facelock_error_display e)
               (if ft then tpm_unseal_embedding tp blob else passthrough_unseal_embedding blob))
      else if length blob \<noteq> 512 * 4
      then Err (''invalid raw embedding size for id '' @ dec_str (unat i) @ '': expected 2048 bytes, got '' @
             dec_str (length blob))
      else Ok (bytes_f32s blob))"

subsection \<open>All rows\<close>

text \<open>The accumulated rows are wiped in place on any early exit.\<close>

fun decrypt_rows_into ::
  "crypto \<Rightarrow> bool \<Rightarrow> config \<Rightarrow> sealing_keys \<Rightarrow> tpm_access \<Rightarrow> raw_row list \<Rightarrow> (u32 \<times> face_embedding) list \<Rightarrow>
   (unit, string) result \<times> (u32 \<times> face_embedding) list" where
  "decrypt_rows_into cr ft cfg keys acc [] out = (Ok (), out)"
| "decrypt_rows_into cr ft cfg keys acc (row # rows) out =
     (case decrypt_row cr ft cfg keys acc row of
        Err e \<Rightarrow> (Err e, map wipe_stored out)
      | Ok e \<Rightarrow> decrypt_rows_into cr ft cfg keys acc rows (out @ [(rw_model_id row, e)]))"

definition unbound_model_ids :: "config \<Rightarrow> raw_row list \<Rightarrow> u32 list" where
  "unbound_model_ids cfg rows =
     remdups_adj (sort (map rw_model_id
       (filter (\<lambda>row. classify_device_binding cfg (rw_device_id row) = LegacyUnbound) rows)))"

text \<open>The result of the load and the buffer it leaves behind.\<close>

definition decrypt_user_embeddings ::
  "crypto \<Rightarrow> bool \<Rightarrow> config \<Rightarrow> sealing_keys \<Rightarrow> tpm_access \<Rightarrow> raw_row list \<Rightarrow>
   ((u32 \<times> face_embedding) list, string) result \<times> (u32 \<times> face_embedding) list" where
  "decrypt_user_embeddings cr ft cfg keys acc rows =
     (case decrypt_rows_into cr ft cfg keys acc rows [] of
        (Ok _, out) \<Rightarrow> (Ok out, [])
      | (Err e, out) \<Rightarrow> (Err e, out))"

subsection \<open>Loads are complete, typed and wiped\<close>

lemma length_bytes_f32s: "length (bytes_f32s bs) = length bs div 4"
  by (induction bs rule: bytes_f32s.induct) simp_all

lemma bytes_to_embedding_512: "bytes_to_embedding bs = Ok e \<Longrightarrow> length e = 512"
  by (auto simp: bytes_to_embedding_def length_bytes_f32s RAW_EMBEDDING_SIZE_def split: if_splits)

lemma unseal_512: "unseal_embedding_with_aad cr s blob aad = Ok e \<Longrightarrow> length e = 512"
  by (auto simp: unseal_embedding_with_aad_def dest: bytes_to_embedding_512)

lemma first_success_Ok: "first_success f ss l = Ok a \<Longrightarrow> \<exists>s \<in> set ss. f s = Ok a"
  by (induction f ss l rule: first_success.induct) (auto split: result.splits)

lemma software_row_512:
  "decrypt_software_row cr ft i blob dev key cfg keys = Ok e \<Longrightarrow> length e = 512"
  by (auto simp: decrypt_software_row_def Let_def dest!: first_success_Ok dest: unseal_512 split: option.splits if_splits)

lemma decrypt_row_512: "decrypt_row cr ft cfg keys acc row = Ok e \<Longrightarrow> length e = 512"
  by (auto simp: decrypt_row_def Let_def tpm_unseal_embedding_def passthrough_unseal_embedding_def length_bytes_f32s
      dest: software_row_512 bytes_to_embedding_512 split: if_splits)

abbreviation decrypted :: "crypto \<Rightarrow> bool \<Rightarrow> config \<Rightarrow> sealing_keys \<Rightarrow> tpm_access \<Rightarrow> raw_row list \<Rightarrow> face_embedding list \<Rightarrow> bool" where
  "decrypted cr ft cfg keys acc \<equiv> list_all2 (\<lambda>row e. decrypt_row cr ft cfg keys acc row = Ok e)"

lemma decrypt_rows_Ok:
  "decrypt_rows_into cr ft cfg keys acc rows out = (Ok u, out') \<Longrightarrow>
   \<exists>es. out' = out @ zip (map rw_model_id rows) es \<and> decrypted cr ft cfg keys acc rows es"
proof (induction rows arbitrary: out)
  case (Cons row rows)
  then obtain e where e: "decrypt_row cr ft cfg keys acc row = Ok e"
    and "decrypt_rows_into cr ft cfg keys acc rows (out @ [(rw_model_id row, e)]) = (Ok u, out')"
    by (auto split: result.splits)
  from Cons.IH[OF this(2)] obtain es where
    "out' = out @ (rw_model_id row, e) # zip (map rw_model_id rows) es" "decrypted cr ft cfg keys acc rows es" by auto
  then show ?case using e by (intro exI[of _ "e # es"]) simp
qed simp

lemma decrypt_rows_Err:
  "decrypt_rows_into cr ft cfg keys acc rows out = (Err m, out') \<Longrightarrow>
   \<exists>pre row post es. rows = pre @ row # post \<and> decrypt_row cr ft cfg keys acc row = Err m \<and>
     decrypted cr ft cfg keys acc pre es \<and> out' = map wipe_stored (out @ zip (map rw_model_id pre) es)"
proof (induction rows arbitrary: out)
  case (Cons row rows)
  show ?case
  proof (cases "decrypt_row cr ft cfg keys acc row")
    case (Ok e)
    then have "decrypt_rows_into cr ft cfg keys acc rows (out @ [(rw_model_id row, e)]) = (Err m, out')"
      using Cons.prems by simp
    from Cons.IH[OF this] obtain pre row' post es where
      "rows = pre @ row' # post" "decrypt_row cr ft cfg keys acc row' = Err m" "decrypted cr ft cfg keys acc pre es"
      "out' = map wipe_stored (out @ (rw_model_id row, e) # zip (map rw_model_id pre) es)" by auto
    then show ?thesis using Ok
      by (intro exI[of _ "row # pre"] exI[of _ row'] exI[of _ post] exI[of _ "e # es"]) simp
  next
    case (Err m')
    then show ?thesis using Cons.prems by (intro exI[of _ "[]"] exI[of _ row] exI[of _ rows]) simp
  qed
qed simp

lemma decrypted_512: "decrypted cr ft cfg keys acc rows es \<Longrightarrow> e \<in> set es \<Longrightarrow> length e = 512"
  by (induction rule: list_all2_induct) (auto dest: decrypt_row_512)

text \<open>Templates are loaded all or none, as 512-vectors, and a failed load leaves no template behind.
  A successful load has one 512-component vector per stored row, in the rows' order and under the
  rows' model ids, each the decryption of its own row. A failing one reports the first row that
  cannot be decrypted, and the buffer it leaves holds only zeroed vectors.\<close>

theorem load_complete_or_wiped:
  assumes "decrypt_user_embeddings cr ft cfg keys acc rows = (r, left)"
  shows "(case r of
      Ok es \<Rightarrow> left = [] \<and> map fst es = map rw_model_id rows \<and>
        list_all2 (\<lambda>row (i, e). decrypt_row cr ft cfg keys acc row = Ok e \<and> length e = 512) rows es
    | Err m \<Rightarrow> (\<exists>pre row post. rows = pre @ row # post \<and> decrypt_row cr ft cfg keys acc row = Err m \<and>
          list_all (\<lambda>row'. is_ok (decrypt_row cr ft cfg keys acc row')) pre \<and> length left = length pre) \<and>
        list_all (\<lambda>(i, e). e = replicate 512 0) left)"
proof (cases r)
  case (Ok es)
  then have "\<exists>u. decrypt_rows_into cr ft cfg keys acc rows [] = (Ok u, es)" and "left = []"
    using assms by (auto simp: decrypt_user_embeddings_def split: prod.splits result.splits)
  then obtain vs where es: "es = zip (map rw_model_id rows) vs" and vs: "decrypted cr ft cfg keys acc rows vs"
    by (auto dest: decrypt_rows_Ok)
  have "list_all2 (\<lambda>row (i, e). decrypt_row cr ft cfg keys acc row = Ok e \<and> length e = 512) rows es"
    using vs by (auto simp: es list_all2_conv_all_nth dest: decrypt_row_512)
  then show ?thesis using Ok \<open>left = []\<close> es list_all2_lengthD[OF vs] by simp
next
  case (Err m)
  then have "decrypt_rows_into cr ft cfg keys acc rows [] = (Err m, left)"
    using assms by (auto simp: decrypt_user_embeddings_def split: prod.splits result.splits)
  from decrypt_rows_Err[OF this] obtain pre row post es where
    rows: "rows = pre @ row # post" "decrypt_row cr ft cfg keys acc row = Err m" and
    es: "decrypted cr ft cfg keys acc pre es" and left: "left = map wipe_stored (zip (map rw_model_id pre) es)" by auto
  have "list_all (\<lambda>row'. is_ok (decrypt_row cr ft cfg keys acc row')) pre"
    using es by (auto simp: list_all2_conv_all_nth list_all_length is_ok_iff)
  moreover have "list_all (\<lambda>(i, e). e = replicate 512 0) left"
    using decrypted_512[OF es]
    by (auto simp: left list_all_iff wipe_stored_def zeroize_embedding_def map_replicate_const dest: set_zip_rightD)
  moreover have "length left = length pre" using left list_all2_lengthD[OF es] by simp
  ultimately show ?thesis unfolding Err result.case using rows by blast
qed

subsection \<open>What was sealed is loaded\<close>

text \<open>Among some keys, no key opens what another one sealed.\<close>

definition opens_only_own :: "crypto \<Rightarrow> software_sealer list \<Rightarrow> bool" where
  "opens_only_own cr ss =
     (\<forall>s \<in> set ss. \<forall>t \<in> set ss. \<forall>n a m c. s \<noteq> t \<longrightarrow> cr_encrypt cr (ss_key s) n a m = Ok c \<longrightarrow>
        \<not> is_ok (cr_decrypt cr (ss_key t) n a c))"

text \<open>A row as enrollment writes it, with the sealing key's id, or as a version before key ids left it.\<close>

definition sealed_row :: "crypto \<Rightarrow> config \<Rightarrow> software_sealer \<Rightarrow> raw_row \<Rightarrow> face_embedding \<Rightarrow> bool" where
  "sealed_row cr cfg s row e =
     (rw_sealed row \<and> rw_key_id row \<in> {None, Some (key_id cr s)} \<and> length e = 512 \<and>
      (\<exists>nonce. length nonce = AES_NONCE_SIZE \<and>
         seal_embedding_with_aad cr s nonce e (device_aad (cf_security cfg) (rw_device_id row)) = Ok (rw_blob row)))"

lemma other_key_fails:
  assumes "opens_only_own cr ss" and "s \<in> set ss" and "t \<in> set ss" and "s \<noteq> t" and "length nonce = AES_NONCE_SIZE"
    and "seal_embedding_with_aad cr s nonce e aad = Ok blob"
  shows "\<exists>m. unseal_embedding_with_aad cr t blob aad = Err m"
proof -
  obtain c where c: "cr_encrypt cr (ss_key s) nonce (aad_bytes aad) (embedding_bytes e) = Ok c"
    and blob: "blob = SOFTWARE_ENCRYPTED_VERSION_BYTE # nonce @ c"
    using assms(6) by (auto simp: seal_embedding_with_aad_def seal_bytes_with_aad_def)
  have "\<not> is_ok (cr_decrypt cr (ss_key t) nonce (aad_bytes aad) c)"
    using assms(1-4) c unfolding opens_only_own_def by blast
  then obtain m where "cr_decrypt cr (ss_key t) nonce (aad_bytes aad) c = Err m"
    by (cases "cr_decrypt cr (ss_key t) nonce (aad_bytes aad) c") auto
  then show ?thesis using assms(5)
    by (simp add: unseal_embedding_with_aad_def unseal_bytes_with_aad_def blob AES_NONCE_SIZE_def)
qed

lemma first_success_only:
  "s \<in> set ss \<Longrightarrow> f s = Ok a \<Longrightarrow> (\<And>t. t \<in> set ss \<Longrightarrow> t \<noteq> s \<Longrightarrow> \<exists>m. f t = Err m) \<Longrightarrow> first_success f ss l = Ok a"
proof (induction ss arbitrary: l)
  case (Cons t ss)
  show ?case
  proof (cases "t = s")
    case False
    then obtain m where "f t = Err m" using Cons.prems(3)[of t] by auto
    then show ?thesis using Cons False by auto
  qed (use Cons in simp)
qed simp

lemma sealed_row_opens:
  assumes "aead_lawful cr" and "sealed_row cr cfg s row e"
  shows "unseal_embedding_with_aad cr s (rw_blob row) (device_aad (cf_security cfg) (rw_device_id row)) = Ok e"
    and "is_software_encrypted (rw_blob row)"
proof -
  obtain nonce where n: "length nonce = AES_NONCE_SIZE" and len: "length e = 512"
    and seal: "seal_embedding_with_aad cr s nonce e (device_aad (cf_security cfg) (rw_device_id row)) = Ok (rw_blob row)"
    using assms(2) by (auto simp: sealed_row_def)
  note raw = unseal_seal_bytes[OF assms(1) n seal[unfolded seal_embedding_with_aad_def]]
  show "unseal_embedding_with_aad cr s (rw_blob row) (device_aad (cf_security cfg) (rw_device_id row)) = Ok e"
    using raw(1) len by (simp add: unseal_embedding_with_aad_def bytes_to_embedding_def bytes_f32s_embedding
      length_embedding_bytes RAW_EMBEDDING_SIZE_def)
  show "is_software_encrypted (rw_blob row)"
    using raw(2,3) len by (simp add: is_software_encrypted_def is_software_encrypted_shape_def
      length_embedding_bytes RAW_EMBEDDING_SIZE_def)
qed

lemma named_row_decrypts:
  assumes "aead_lawful cr" and "keyring_ok cr cfg keys" and "s \<in> set (candidates_for_legacy_row keys)"
    and row: "sealed_row cr cfg s row e" and key: "rw_key_id row = Some (key_id cr s)"
  shows "decrypt_row cr ft cfg keys acc row = Ok e"
  using sealed_row_opens[OF assms(1) row] ring.found[OF assms(2,3)] key row
  by (simp add: decrypt_row_def decrypt_software_row_def Let_def sealed_row_def)

lemma sealed_row_decrypts:
  assumes "aead_lawful cr" and "keyring_ok cr cfg keys" and "opens_only_own cr (candidates_for_legacy_row keys)"
    and s: "s \<in> set (candidates_for_legacy_row keys)" and row: "sealed_row cr cfg s row e"
  shows "decrypt_row cr ft cfg keys acc row = Ok e"
proof (cases "rw_key_id row")
  case None
  let ?aad = "device_aad (cf_security cfg) (rw_device_id row)"
  obtain nonce where n: "length nonce = AES_NONCE_SIZE"
    and seal: "seal_embedding_with_aad cr s nonce e ?aad = Ok (rw_blob row)"
    using row by (auto simp: sealed_row_def)
  have fails: "\<exists>m. map_err facelock_error_display (unseal_embedding_with_aad cr t (rw_blob row) ?aad) = Err m"
    if "t \<in> set (candidates_for_legacy_row keys)" "t \<noteq> s" for t
    using other_key_fails[OF assms(3) s that(1) that(2)[symmetric] n seal] by auto
  have "any_loaded keys" using s by (auto simp: any_loaded_def candidates_for_legacy_row_def split: option.splits)
  moreover have "first_success (\<lambda>t. map_err facelock_error_display (unseal_embedding_with_aad cr t (rw_blob row) ?aad))
      (candidates_for_legacy_row keys) None = Ok e"
    using sealed_row_opens(1)[OF assms(1) row] by (intro first_success_only[OF s _ fails]) simp_all
  ultimately show ?thesis using None sealed_row_opens(2)[OF assms(1) row] row
    by (simp add: decrypt_row_def decrypt_software_row_def Let_def sealed_row_def)
next
  case (Some k)
  then show ?thesis using named_row_decrypts[OF assms(1,2) s row] row by (auto simp: sealed_row_def)
qed

text \<open>Every template sealed under a loaded key is loaded again. For a keyring a process holds, rows
  sealed by any of its keys, the configured one or one kept from before a change of method,
  with the device data the configuration derives for them, all load and give back the enrolled
  vectors, whether they name their key or were written before keys were recorded.\<close>

theorem sealed_templates_load:
  assumes "aead_lawful cr" and "held_keyring cr cfg keys" and "opens_only_own cr (candidates_for_legacy_row keys)"
    and "list_all2 (\<lambda>row e. \<exists>s \<in> set (candidates_for_legacy_row keys). sealed_row cr cfg s row e) rows es"
  shows "decrypt_user_embeddings cr ft cfg keys acc rows = (Ok (zip (map rw_model_id rows) es), [])"
proof -
  have dec: "decrypted cr ft cfg keys acc rows es"
    using assms(4) sealed_row_decrypts[OF assms(1) held_keyring_ok[OF assms(2)] assms(3)]
    by (auto elim!: list_all2_mono)
  obtain r out where run: "decrypt_rows_into cr ft cfg keys acc rows [] = (r, out)" by (metis prod.exhaust)
  show ?thesis
  proof (cases r)
    case (Ok u)
    then obtain vs where "out = zip (map rw_model_id rows) vs" "decrypted cr ft cfg keys acc rows vs"
      using run by (auto dest: decrypt_rows_Ok)
    moreover have "vs = es" using calculation(2) dec by (auto simp: list_all2_conv_all_nth intro: nth_equalityI)
    ultimately show ?thesis using run Ok by (simp add: decrypt_user_embeddings_def)
  next
    case (Err m)
    then obtain pre row post where "rows = pre @ row # post" "decrypt_row cr ft cfg keys acc row = Err m"
      using run by (auto dest: decrypt_rows_Err)
    then show ?thesis using dec by (auto simp: list_all2_append1 list_all2_Cons1)
  qed
qed

definition sample_row :: "bytes \<Rightarrow> bool \<Rightarrow> string option \<Rightarrow> raw_row" where
  "sample_row blob sealed key =
     \<lparr>rw_model_id = 1, rw_blob = blob, rw_sealed = sealed, rw_device_id = Some ''046d:0825:A1'', rw_key_id = key\<rparr>"

theorem load_complete_or_wiped_witness:
  "\<exists>left m. decrypt_user_embeddings sample_crypto True default_config keys_none (Held None)
      [sample_row (replicate 2048 7) False None, sample_row [1] False None] = (Err m, left) \<and>
    list_all (\<lambda>(i, e). e = replicate 512 0) left"
proof -
  obtain r left where run: "decrypt_user_embeddings sample_crypto True default_config keys_none (Held None)
      [sample_row (replicate 2048 7) False None, sample_row [1] False None] = (r, left)" by (metis prod.exhaust)
  have "\<exists>m. r = Err m" using run
    by (cases r) (auto simp: decrypt_user_embeddings_def decrypt_row_def sample_row_def Let_def split: prod.splits result.splits)
  then show ?thesis using load_complete_or_wiped[OF run] run by auto
qed

definition sample_ring :: sealing_keys where
  "sample_ring = \<lparr>sk_primary = Some (from_key (replicate 32 9)), sk_primary_error = None, sk_secondary = []\<rparr>"

theorem sealed_templates_load_witness:
  "\<exists>blob. decrypt_user_embeddings sample_crypto True sample_key_config sample_ring (Held None)
     [sample_row blob True None, sample_row blob True (Some (key_id sample_crypto (from_key (replicate 32 9))))] =
   (Ok [(1, replicate 512 0), (1, replicate 512 0)], [])"
proof -
  have w: "kw_crypto sample_key_world = sample_crypto" by (simp add: sample_key_world_def)
  have held: "held_keyring sample_crypto sample_key_config sample_ring"
    using held_keyring.load[OF w sample_keys] by (simp add: sample_ring_def)
  have only: "opens_only_own sample_crypto (candidates_for_legacy_row sample_ring)"
    by (simp add: opens_only_own_def candidates_for_legacy_row_def sample_ring_def)
  obtain blob where blob: "seal_embedding_with_aad sample_crypto (from_key (replicate 32 9)) (replicate 12 1)
      (replicate 512 0) (device_aad (cf_security sample_key_config) (Some ''046d:0825:A1'')) = Ok blob"
    by (simp add: seal_embedding_with_aad_def seal_bytes_with_aad_def sample_crypto_def)
  have "sealed_row sample_crypto sample_key_config (from_key (replicate 32 9)) (sample_row blob True k) (replicate 512 0)"
    if "k \<in> {None, Some (key_id sample_crypto (from_key (replicate 32 9)))}" for k
    using blob that by (auto simp: sealed_row_def sample_row_def AES_NONCE_SIZE_def intro!: exI[of _ "replicate 12 1"])
  then have rows: "list_all2 (\<lambda>row e. \<exists>s \<in> set (candidates_for_legacy_row sample_ring). sealed_row sample_crypto sample_key_config s row e)
      [sample_row blob True None, sample_row blob True (Some (key_id sample_crypto (from_key (replicate 32 9))))]
      [replicate 512 0, replicate 512 0]"
    by (auto simp: candidates_for_legacy_row_def sample_ring_def)
  show ?thesis using sealed_templates_load[OF sample_crypto_lawful held only rows]
    by (intro exI[of _ blob]) (simp add: sample_row_def)
qed

end
