(* ===== verification/Enroll.thy ===== *)
theory Enroll
  imports Quality TemplateLoad
begin

text \<open>
  Enrollment, \<^verbatim>\<open>facelock-daemon/src/enroll.rs\<close>: the capture loop with its gates and rejection
  statistics, the checks on the accepted set, and the one write that seals the set and replaces the
  user's model. The loop consumes one observation per iteration, of the clock, the cancel token, the
  camera and the engine; the sleep between frames only passes time.
\<close>

subsection \<open>Outcomes and statistics\<close>

datatype enroll_outcome = Enrolled u32 u32 | EnrollError string | EnrollCancelled

definition MIN_CAPTURES :: nat where "MIN_CAPTURES = MIN_EMBEDDINGS_PER_MODEL"
definition MAX_CAPTURES :: nat where "MAX_CAPTURES = 10"

definition binding_error_display :: "enrollment_binding_error \<Rightarrow> string" where
  "binding_error_display e =
     (case e of
        UnitNeedsSerial i \<Rightarrow>
          ''refusing to enroll: security.device_match_granularity = \"unit\" binds each template to one camera '' @
          ''unit by its USB serial, and this camera (identity \"'' @ i @ ''\") exposes none, so a template bound to '' @
          ''it could never match. Set security.device_match_granularity = \"model\" to bind by VID:PID, or enroll '' @
          ''on a camera that reports a stable serial.''
      | UnitNeedsIdentity i \<Rightarrow>
          ''refusing to enroll: security.device_match_granularity = \"unit\" binds each template to one camera '' @
          ''unit, and this camera (identity \"'' @ i @ ''\") exposes no usable USB identity, so the template would '' @
          ''bind to nothing. Set security.device_match_granularity = \"model\", or enroll on a camera that reports '' @
          ''idVendor, idProduct, and a stable serial.''
      | LegacyBarredNeedsIdentity i \<Rightarrow>
          ''refusing to enroll: this camera (identity \"'' @ i @ ''\") exposes no usable USB identity, so its '' @
          ''template would be stored without a device id, and security.bind_legacy_templates = false bars such '' @
          ''templates from authenticating. Set security.bind_legacy_templates = true to accept templates with no '' @
          ''device id, or enroll on a camera that reports idVendor and idProduct.''
      | HardBindingNeedsDeviceId \<Rightarrow>
          ''refusing to enroll: security.bind_device_aad = true seals each template under its enrolling '' @
          ''camera'' @ CHR 0x27 # ''s device id, and this camera exposes no usable USB identity, so the template '' @
          ''could not be bound. Enroll on a camera that reports both idVendor and idProduct, or set '' @
          ''security.bind_device_aad = false; that disables hard binding for new enrollments only, and every '' @
          ''template already sealed under it stops decrypting until re-enrolled.'')"

record rejection_stats =
  rs_dark :: u32
  rs_no_face :: u32
  rs_multiple_faces :: u32
  rs_low_quality :: u32
  rs_capture_errors :: u32
  rs_last_capture_error :: "string option"
  rs_engine_errors :: u32
  rs_last_engine_error :: "string option"

definition no_rejections :: rejection_stats where
  "no_rejections =
     \<lparr>rs_dark = 0, rs_no_face = 0, rs_multiple_faces = 0, rs_low_quality = 0, rs_capture_errors = 0,
      rs_last_capture_error = None, rs_engine_errors = 0, rs_last_engine_error = None\<rparr>"

definition rs_total :: "rejection_stats \<Rightarrow> u32" where
  "rs_total st =
     rs_dark st + rs_no_face st + rs_multiple_faces st + rs_low_quality st + rs_capture_errors st + rs_engine_errors st"

definition rs_hint :: "rejection_stats \<Rightarrow> string option" where
  "rs_hint st =
     (let majority = rs_total st div 2 + 1 in
      if majority \<le> rs_dark st
      then Some (''Hint: the scene is too dark '' @ em_dash @ '' improve lighting and retry'')
      else if majority \<le> rs_capture_errors st
      then Some (''Hint: the camera is not delivering usable frames '' @ em_dash @
             '' check device.path and the camera format (see docs/troubleshooting.md)'')
      else if majority \<le> rs_engine_errors st
      then Some (''Hint: the face engine is failing on captured frames '' @ em_dash @
             '' check the model files and recognition.execution_provider (see docs/troubleshooting.md)'')
      else if majority \<le> rs_no_face st
      then Some (''Hint: no face was detected '' @ em_dash @
             '' face the camera directly and check `facelock preview`'')
      else None)"

fun join_str :: "string \<Rightarrow> string list \<Rightarrow> string" where
  "join_str sep [] = []"
| "join_str sep [x] = x"
| "join_str sep (x # y # xs) = x @ sep @ join_str sep (y # xs)"

definition rs_part :: "u32 \<Rightarrow> string \<Rightarrow> string option \<Rightarrow> string list" where
  "rs_part n what last_error =
     (if 0 < n
      then [dec_str (unat n) @ what @ (case last_error of None \<Rightarrow> [] | Some e \<Rightarrow> '' (last: '' @ e @ '')'')]
      else [])"

definition rs_summary :: "rejection_stats \<Rightarrow> string" where
  "rs_summary st =
     (if rs_total st = 0 then []
      else '' '' @ em_dash @ '' rejected frames: '' @
        join_str '', ''
          (rs_part (rs_dark st) '' too dark'' None @ rs_part (rs_no_face st) '' no face'' None @
           rs_part (rs_multiple_faces st) '' multiple faces'' None @
           rs_part (rs_low_quality st) '' low quality'' None @
           rs_part (rs_capture_errors st) '' capture errors'' (rs_last_capture_error st) @
           rs_part (rs_engine_errors st) '' engine errors'' (rs_last_engine_error st)) @
        (case rs_hint st of None \<Rightarrow> [] | Some h \<Rightarrow> ''. '' @ h))"

subsection \<open>The capture loop\<close>

record enroll_args =
  ea_config :: config
  ea_platform :: platform
  ea_user :: string
  ea_label :: string
  ea_sealer :: "software_sealer option"
  ea_device_id :: "string option"
  ea_key_id :: "string option"

record enroll_tick =
  et_now :: nat
  et_cancelled :: bool
  et_capture :: "(frame, string) result"
  et_engine :: "((detection \<times> face_embedding) list, string) result"

datatype frame_verdict = FrameAccepted face_embedding | FrameRejected rejection_stats | FramePanicked

definition enroll_frame :: "enroll_args \<Rightarrow> enroll_tick \<Rightarrow> rejection_stats \<Rightarrow> frame_verdict" where
  "enroll_frame ea tk st =
     (let dev = cf_device (ea_config ea); pl = ea_platform ea in
      case et_capture tk of
        Err e \<Rightarrow> FrameRejected (st\<lparr>rs_capture_errors := rs_capture_errors st + 1, rs_last_capture_error := Some e\<rparr>)
      | Ok fr \<Rightarrow>
          if is_dark_with_config pl fr (dc_dark_threshold dev) (dc_dark_pixel_value dev)
          then FrameRejected (st\<lparr>rs_dark := rs_dark st + 1\<rparr>)
          else case et_engine tk of
              Err e \<Rightarrow> FrameRejected (st\<lparr>rs_engine_errors := rs_engine_errors st + 1, rs_last_engine_error := Some e\<rparr>)
            | Ok [] \<Rightarrow> FrameRejected (st\<lparr>rs_no_face := rs_no_face st + 1\<rparr>)
            | Ok [(det, emb)] \<Rightarrow>
                (case score_frame pl det (fr_gray fr) (fr_width fr) (fr_height fr) of
                   None \<Rightarrow> FramePanicked
                 | Some q \<Rightarrow>
                     if meets_quality_threshold q then FrameAccepted emb
                     else FrameRejected (st\<lparr>rs_low_quality := rs_low_quality st + 1\<rparr>))
            | Ok (_ # _ # _) \<Rightarrow> FrameRejected (st\<lparr>rs_multiple_faces := rs_multiple_faces st + 1\<rparr>))"

datatype capture_end = StillCapturing | CaptureCancelled | CapturePanicked | Captured "face_embedding list" rejection_stats

fun enroll_loop ::
  "enroll_args \<Rightarrow> nat \<Rightarrow> face_embedding list \<Rightarrow> rejection_stats \<Rightarrow> enroll_tick list \<Rightarrow> capture_end" where
  "enroll_loop ea deadline accepted st [] = StillCapturing"
| "enroll_loop ea deadline accepted st (tk # tks) =
     (if \<not> (et_now tk < deadline \<and> length accepted < MAX_CAPTURES) then Captured accepted st
      else if et_cancelled tk then CaptureCancelled
      else case enroll_frame ea tk st of
          FrameAccepted e \<Rightarrow> enroll_loop ea deadline (accepted @ [e]) st tks
        | FrameRejected st' \<Rightarrow> enroll_loop ea deadline accepted st' tks
        | FramePanicked \<Rightarrow> CapturePanicked)"

subsection \<open>The write\<close>

record enroll_obs =
  eo_start :: nat
  eo_ticks :: "enroll_tick list"
  eo_cancel_end :: bool
  eo_nonce :: "nat \<Rightarrow> bytes"
  eo_cancel_commit :: bool
  eo_faults :: faults
  eo_clock :: "u64 option"

fun seal_all ::
  "crypto \<Rightarrow> software_sealer \<Rightarrow> (nat \<Rightarrow> bytes) \<Rightarrow> nat \<Rightarrow> string option \<Rightarrow> face_embedding list \<Rightarrow>
   (bytes list, facelock_error) result" where
  "seal_all cr s nonce k aad [] = Ok []"
| "seal_all cr s nonce k aad (e # es) =
     and_then (seal_embedding_with_aad cr s (nonce k) e aad) (\<lambda>blob.
     and_then (seal_all cr s nonce (Suc k) aad es) (\<lambda>blobs. Ok (blob # blobs)))"

definition persist_enrollment ::
  "crypto \<Rightarrow> enroll_args \<Rightarrow> enroll_obs \<Rightarrow> string option \<Rightarrow> face_embedding list \<Rightarrow> db \<Rightarrow> enroll_outcome \<times> db" where
  "persist_enrollment cr ea ob aad accepted d =
     (case (case ea_sealer ea of
              Some s \<Rightarrow> seal_all cr s (eo_nonce ob) 0 aad accepted
            | None \<Rightarrow> Ok (map embedding_bytes accepted)) of
        Err e \<Rightarrow> (EnrollError (''encryption error: '' @ facelock_error_display e), d)
      | Ok blobs \<Rightarrow>
          if eo_cancel_commit ob then (EnrollCancelled, d)
          else case replace_model_with_embeddings (eo_faults ob) (eo_clock ob) (ea_user ea) (ea_label ea) blobs
                      (ea_sealer ea \<noteq> None) (rc_embedder_model (cf_recognition (ea_config ea)))
                      (ea_device_id ea) (ea_key_id ea) d of
              (Ok mid, d') \<Rightarrow> (Enrolled mid (of_nat (length accepted)), d')
            | (Err e, d') \<Rightarrow> (EnrollError (''storage error: '' @ store_error_display e), d'))"

datatype enroll_run = EnrollRunning | EnrollPanicked | EnrollDone enroll_outcome db

definition enroll :: "crypto \<Rightarrow> enroll_args \<Rightarrow> enroll_obs \<Rightarrow> db \<Rightarrow> enroll_run" where
  "enroll cr ea ob d =
     (case require_device_aad (ea_config ea) (ea_device_id ea) of
        Err e \<Rightarrow> EnrollDone (EnrollError (binding_error_display e)) d
      | Ok aad \<Rightarrow>
          (case enroll_loop ea (eo_start ob + 1000 * enroll_timeout_secs (ea_config ea)) [] no_rejections (eo_ticks ob) of
             StillCapturing \<Rightarrow> EnrollRunning
           | CapturePanicked \<Rightarrow> EnrollPanicked
           | CaptureCancelled \<Rightarrow> EnrollDone EnrollCancelled d
           | Captured accepted st \<Rightarrow>
               if eo_cancel_end ob then EnrollDone EnrollCancelled d
               else if MIN_CAPTURES \<le> length accepted \<and> \<not> check_angle_diversity (ea_platform ea) accepted
               then EnrollDone (EnrollError (''insufficient angle diversity: please move your head to different '' @
                      ''angles during enrollment'')) d
               else if length accepted < MIN_CAPTURES
               then EnrollDone (EnrollError (''only captured '' @ dec_str (length accepted) @
                      '' frames, need at least 3'' @ rs_summary st)) d
               else case persist_enrollment cr ea ob aad accepted d of (out, d') \<Rightarrow> EnrollDone out d'))"

subsection \<open>What an enrollment stores\<close>

text \<open>A frame enrollment may use: bright, with exactly one face whose score reaches the threshold.\<close>

definition good_frame :: "enroll_args \<Rightarrow> enroll_tick \<Rightarrow> face_embedding \<Rightarrow> bool" where
  "good_frame ea tk e \<longleftrightarrow>
     (\<exists>fr det q. et_capture tk = Ok fr \<and> et_engine tk = Ok [(det, e)] \<and> \<not> et_cancelled tk \<and>
        \<not> is_dark_with_config (ea_platform ea) fr (dc_dark_threshold (cf_device (ea_config ea)))
             (dc_dark_pixel_value (cf_device (ea_config ea))) \<and>
        score_frame (ea_platform ea) det (fr_gray fr) (fr_width fr) (fr_height fr) = Some q \<and>
        meets_quality_threshold q)"

lemma accepted_good:
  "enroll_frame ea tk st = FrameAccepted e \<Longrightarrow> \<not> et_cancelled tk \<Longrightarrow> good_frame ea tk e"
  by (auto simp: enroll_frame_def good_frame_def Let_def split: result.splits if_splits list.splits option.splits)

lemma captured_frames:
  "enroll_loop ea deadline accepted st tks = Captured es st' \<Longrightarrow> length accepted \<le> MAX_CAPTURES \<Longrightarrow>
   length es \<le> MAX_CAPTURES \<and>
   (\<exists>new tks'. es = accepted @ new \<and> subseq tks' tks \<and> list_all2 (good_frame ea) tks' new)"
proof (induction tks arbitrary: accepted st)
  case (Cons tk tks)
  show ?case
  proof (cases "et_now tk < deadline \<and> length accepted < MAX_CAPTURES")
    case False
    then show ?thesis using Cons.prems by (intro conjI exI[of _ "[]"]) auto
  next
    case go: True
    then have nc: "\<not> et_cancelled tk" using Cons.prems by (auto split: if_splits)
    show ?thesis
    proof (cases "enroll_frame ea tk st")
      case (FrameAccepted e)
      then have "enroll_loop ea deadline (accepted @ [e]) st tks = Captured es st'" using Cons.prems go nc by simp
      from Cons.IH[OF this] go obtain new tks' where "length es \<le> MAX_CAPTURES" "es = accepted @ e # new"
        "subseq tks' tks" "list_all2 (good_frame ea) tks' new" by auto
      then show ?thesis using accepted_good[OF FrameAccepted nc]
        by (intro conjI exI[of _ "e # new"] exI[of _ "tk # tks'"]) auto
    next
      case (FrameRejected st1)
      then have "enroll_loop ea deadline accepted st1 tks = Captured es st'" using Cons.prems go nc by simp
      from Cons.IH[OF this Cons.prems(2)] show ?thesis by (auto intro: list_emb_Cons)
    next
      case FramePanicked
      then show ?thesis using Cons.prems go nc by simp
    qed
  qed
qed simp

lemma seal_all_Ok:
  "seal_all cr s nonce k aad es = Ok blobs \<Longrightarrow>
   length blobs = length es \<and>
   (\<forall>i < length es. seal_embedding_with_aad cr s (nonce (k + i)) (es ! i) aad = Ok (blobs ! i))"
proof (induction es arbitrary: k blobs)
  case (Cons e es)
  then obtain b bs where "seal_embedding_with_aad cr s (nonce k) e aad = Ok b" "seal_all cr s nonce (Suc k) aad es = Ok bs"
    "blobs = b # bs" by auto
  then show ?case using Cons.IH[of "Suc k" bs] by (auto simp: nth_Cons split: nat.splits)
qed simp

text \<open>The stored form of an accepted set.\<close>

definition stored_form :: "crypto \<Rightarrow> enroll_args \<Rightarrow> enroll_obs \<Rightarrow> string option \<Rightarrow> face_embedding list \<Rightarrow> bytes list \<Rightarrow> bool" where
  "stored_form cr ea ob aad accepted blobs =
     (length blobs = length accepted \<and>
      (case ea_sealer ea of
         None \<Rightarrow> blobs = map embedding_bytes accepted
       | Some s \<Rightarrow> (\<forall>i < length accepted.
           seal_embedding_with_aad cr s (eo_nonce ob i) (accepted ! i) aad = Ok (blobs ! i))))"

lemma persist_cases:
  assumes "persist_enrollment cr ea ob aad accepted d = (out, d')"
  shows "d' = d \<and> (\<forall>mid n. out \<noteq> Enrolled mid n) \<or>
    (\<exists>mid blobs. out = Enrolled mid (of_nat (length accepted)) \<and> stored_form cr ea ob aad accepted blobs \<and>
       replace_model_with_embeddings (eo_faults ob) (eo_clock ob) (ea_user ea) (ea_label ea) blobs
         (ea_sealer ea \<noteq> None) (rc_embedder_model (cf_recognition (ea_config ea))) (ea_device_id ea) (ea_key_id ea) d
         = (Ok mid, d'))"
proof (cases "ea_sealer ea")
  case None
  then show ?thesis using assms
    by (auto simp: persist_enrollment_def stored_form_def dest: replace_failed split: if_splits result.splits prod.splits)
next
  case (Some s)
  show ?thesis
  proof (cases "seal_all cr s (eo_nonce ob) 0 aad accepted")
    case (Ok blobs)
    then have "stored_form cr ea ob aad accepted blobs"
      using Some seal_all_Ok[of cr s "eo_nonce ob" 0 aad accepted blobs] by (simp add: stored_form_def)
    then show ?thesis using assms Some Ok
      by (auto simp: persist_enrollment_def dest: replace_failed split: if_splits result.splits prod.splits)
  next
    case (Err e)
    then show ?thesis using assms Some by (auto simp: persist_enrollment_def)
  qed
qed

text \<open>Everything a completed enrollment is made of.\<close>

definition enrolled_from :: "crypto \<Rightarrow> enroll_args \<Rightarrow> enroll_obs \<Rightarrow> face_embedding list \<Rightarrow> bytes list \<Rightarrow> bool" where
  "enrolled_from cr ea ob accepted blobs \<longleftrightarrow>
     3 \<le> length accepted \<and> length accepted \<le> 10 \<and>
     (\<exists>tks. subseq tks (eo_ticks ob) \<and> list_all2 (good_frame ea) tks accepted) \<and>
     (\<exists>i j. i < j \<and> j < length accepted \<and>
        f32_lt (cosine_similarity (ea_platform ea) (accepted ! i) (accepted ! j)) MAX_EMBEDDING_SIMILARITY) \<and>
     (\<exists>aad. require_device_aad (ea_config ea) (ea_device_id ea) = Ok aad \<and> stored_form cr ea ob aad accepted blobs)"

lemma enroll_cases:
  assumes "enroll cr ea ob d = EnrollDone out d'"
  shows "d' = d \<and> (\<forall>mid n. out \<noteq> Enrolled mid n) \<or>
    (\<exists>mid accepted blobs. out = Enrolled mid (of_nat (length accepted)) \<and> enrolled_from cr ea ob accepted blobs \<and>
       replace_model_with_embeddings (eo_faults ob) (eo_clock ob) (ea_user ea) (ea_label ea) blobs
         (ea_sealer ea \<noteq> None) (rc_embedder_model (cf_recognition (ea_config ea))) (ea_device_id ea) (ea_key_id ea) d
         = (Ok mid, d'))"
proof (cases "require_device_aad (ea_config ea) (ea_device_id ea)")
  case (Ok aad)
  show ?thesis
  proof (cases "enroll_loop ea (eo_start ob + 1000 * enroll_timeout_secs (ea_config ea)) [] no_rejections (eo_ticks ob)")
    case (Captured accepted st)
    show ?thesis
    proof (cases "\<not> eo_cancel_end ob \<and> MIN_CAPTURES \<le> length accepted \<and> check_angle_diversity (ea_platform ea) accepted")
      case True
      then have persist: "persist_enrollment cr ea ob aad accepted d = (out, d')"
        using assms Ok Captured by (auto simp: enroll_def split: prod.splits)
      have "length accepted \<le> 10"
        and "\<exists>tks. subseq tks (eo_ticks ob) \<and> list_all2 (good_frame ea) tks accepted"
        using captured_frames[OF Captured] by (auto simp: MAX_CAPTURES_def)
      moreover have "3 \<le> length accepted" using True by (simp add: MIN_CAPTURES_def MIN_EMBEDDINGS_PER_MODEL_def)
      moreover have "check_angle_diversity_from (ea_platform ea) accepted"
        using True calculation(3) by (simp add: check_angle_diversity_def)
      ultimately have "enrolled_from cr ea ob accepted blobs" if "stored_form cr ea ob aad accepted blobs" for blobs
        using Ok that unfolding enrolled_from_def diverse_pair by blast
      then show ?thesis using persist_cases[OF persist] by blast
    next
      case False
      then show ?thesis using assms Ok Captured by (auto simp: enroll_def split: if_splits)
    qed
  qed (use assms Ok in \<open>simp_all add: enroll_def\<close>)
next
  case (Err e)
  then show ?thesis using assms by (auto simp: enroll_def)
qed

text \<open>C40: enrollment stores a complete, genuine model or nothing. It ends as enrolled only with three to
  ten vectors, each from its own bright frame with exactly one face of sufficient quality, taken in
  order, at least two of them different enough, under a device binding the configuration demands;
  the store then holds exactly their stored forms in place of the user's previous model of that
  label, and nobody else's rows changed. With any other outcome the store is unchanged.\<close>

theorem enrollment_all_or_nothing:
  assumes "db_inv d" and "Suc (db_model_seq d) < 2 ^ 32" and "enroll cr ea ob d = EnrollDone out d'"
  shows "case out of
      Enrolled mid n \<Rightarrow>
        (\<exists>accepted blobs. n = of_nat (length accepted) \<and> enrolled_from cr ea ob accepted blobs \<and>
           (\<forall>u. u \<noteq> ea_user ea \<longrightarrow> get_user_embeddings_raw_with_device None u d' =
              get_user_embeddings_raw_with_device None u d) \<and>
           (\<exists>old. get_user_embeddings_raw_with_device None (ea_user ea) d = Ok old \<and>
              get_user_embeddings_raw_with_device None (ea_user ea) d' =
                Ok (filter (\<lambda>x. rw_model_id x \<notin> labelled_ids (ea_user ea) (ea_label ea) d) old @
                    map (\<lambda>b. \<lparr>rw_model_id = mid, rw_blob = b, rw_sealed = ea_sealer ea \<noteq> None,
                              rw_device_id = ea_device_id ea, rw_key_id = ea_key_id ea\<rparr>) blobs)))
    | _ \<Rightarrow> d' = d"
  using enroll_cases[OF assms(3)]
proof (elim disjE conjE exE)
  assume "d' = d" "\<forall>mid n. out \<noteq> Enrolled mid n"
  then show ?thesis by (cases out) auto
next
  fix mid accepted blobs
  assume "out = Enrolled mid (of_nat (length accepted))" "enrolled_from cr ea ob accepted blobs"
    and rep: "replace_model_with_embeddings (eo_faults ob) (eo_clock ob) (ea_user ea) (ea_label ea) blobs
      (ea_sealer ea \<noteq> None) (rc_embedder_model (cf_recognition (ea_config ea))) (ea_device_id ea) (ea_key_id ea) d
      = (Ok mid, d')"
  then show ?thesis using replaced_rows[OF assms(1,2) rep] by auto
qed

lemma enrolled_lengths:
  assumes "enrolled_from cr ea ob accepted blobs"
    and "\<forall>tk e det. tk \<in> set (eo_ticks ob) \<longrightarrow> et_engine tk = Ok [(det, e)] \<longrightarrow> length e = 512"
  shows "\<forall>e \<in> set accepted. length e = 512"
proof -
  obtain tks where "subseq tks (eo_ticks ob)" and good: "list_all2 (good_frame ea) tks accepted"
    using assms(1) by (auto simp: enrolled_from_def)
  then have "set tks \<subseteq> set (eo_ticks ob)" by (auto elim: list_emb_set)
  with good show ?thesis using assms(2)
    by (induction rule: list_all2_induct) (auto simp: good_frame_def)
qed

lemma required_aad:
  assumes "require_device_aad cfg dev = Ok aad" and "ec_method (cf_encryption cfg) \<noteq> EncNone"
  shows "device_aad (cf_security cfg) dev = aad"
  using assms by (auto simp: require_device_aad_def hard_binding_active_def device_aad_def split: if_splits option.splits)

text \<open>C39: what is enrolled can be loaded. After an enrollment that seals under a key of the keyring and
  records its id, every row it stored decrypts, for any keyring of the process that holds the key,
  to the vector accepted from the camera.\<close>

theorem enrolled_templates_load:
  assumes "db_inv d" and "Suc (db_model_seq d) < 2 ^ 32" and "enroll cr ea ob d = EnrollDone (Enrolled mid n) d'"
    and "aead_lawful cr" and "\<forall>k. length (eo_nonce ob k) = AES_NONCE_SIZE"
    and "\<forall>tk e det. tk \<in> set (eo_ticks ob) \<longrightarrow> et_engine tk = Ok [(det, e)] \<longrightarrow> length e = 512"
    and "ec_method (cf_encryption (ea_config ea)) \<noteq> EncNone"
    and "ea_sealer ea = Some s" and "ea_key_id ea = Some (key_id cr s)"
    and "held_keyring cr (ea_config ea) keys" and "s \<in> set (candidates_for_legacy_row keys)"
  shows "\<exists>accepted rows new. enrolled_from cr ea ob accepted (map rw_blob new) \<and>
    get_user_embeddings_raw_with_device None (ea_user ea) d' = Ok (rows @ new) \<and>
    list_all (\<lambda>row. rw_model_id row = mid) new \<and>
    list_all2 (\<lambda>row e. decrypt_row cr ft (ea_config ea) keys acc row = Ok e) new accepted"
proof -
  obtain accepted blobs where src: "enrolled_from cr ea ob accepted blobs"
    and rep: "replace_model_with_embeddings (eo_faults ob) (eo_clock ob) (ea_user ea) (ea_label ea) blobs
      (ea_sealer ea \<noteq> None) (rc_embedder_model (cf_recognition (ea_config ea))) (ea_device_id ea) (ea_key_id ea) d
      = (Ok mid, d')"
    using enroll_cases[OF assms(3)] by auto
  let ?row = "\<lambda>b. \<lparr>rw_model_id = mid, rw_blob = b, rw_sealed = True, rw_device_id = ea_device_id ea,
    rw_key_id = Some (key_id cr s)\<rparr>"
  obtain rows where rows: "get_user_embeddings_raw_with_device None (ea_user ea) d' = Ok (rows @ map ?row blobs)"
    using replaced_rows[OF assms(1,2) rep] assms(8,9) by auto
  obtain aad where aad: "device_aad (cf_security (ea_config ea)) (ea_device_id ea) = aad"
    and form: "stored_form cr ea ob aad accepted blobs"
    using src required_aad[OF _ assms(7)] by (auto simp: enrolled_from_def)
  have len: "length (accepted ! i) = 512" if "i < length accepted" for i
    using enrolled_lengths[OF src assms(6)] that by simp
  have sealed: "sealed_row cr (ea_config ea) s (?row (blobs ! i)) (accepted ! i)" if "i < length accepted" for i
    using form that len[OF that] assms(5,8) by (auto simp: sealed_row_def stored_form_def aad)
  have "list_all2 (\<lambda>row e. decrypt_row cr ft (ea_config ea) keys acc row = Ok e) (map ?row blobs) accepted"
    using form named_row_decrypts[OF assms(4) held_keyring_ok[OF assms(10)] assms(11) sealed]
    by (auto simp: list_all2_conv_all_nth stored_form_def)
  then show ?thesis using src rows
    by (intro exI[of _ accepted] exI[of _ rows] exI[of _ "map ?row blobs"]) (simp add: comp_def list_all_iff)
qed

subsection \<open>A concrete enrollment\<close>

definition sample_enroll_args :: enroll_args where
  "sample_enroll_args =
     \<lparr>ea_config = sample_key_config, ea_platform = std_platform, ea_user = ''alice'', ea_label = ''front'',
      ea_sealer = Some (from_key (replicate 32 9)), ea_device_id = Some ''046d:0825:A1'',
      ea_key_id = Some (key_id sample_crypto (from_key (replicate 32 9)))\<rparr>"

definition sample_enroll_tick :: "nat \<Rightarrow> face_embedding \<Rightarrow> enroll_tick" where
  "sample_enroll_tick now e =
     \<lparr>et_now = now, et_cancelled = False, et_capture = Ok portrait, et_engine = Ok [(portrait_face, e)]\<rparr>"

definition sample_enroll_obs :: enroll_obs where
  "sample_enroll_obs =
     \<lparr>eo_start = 0, eo_ticks = [sample_enroll_tick 1 (axis 0), sample_enroll_tick 2 (axis (Suc 0)),
        sample_enroll_tick 3 (axis 0), sample_enroll_tick 1000000 (axis 0)],
      eo_cancel_end = False, eo_nonce = \<lambda>k. replicate 12 1, eo_cancel_commit = False,
      eo_faults = \<lambda>_. None, eo_clock = Some 0\<rparr>"

lemma sample_accept: "enroll_frame sample_enroll_args (sample_enroll_tick now e) st = FrameAccepted e"
proof -
  obtain q where "score_frame std_platform portrait_face [128] 1 1 = Some q" "meets_quality_threshold q"
    using portrait_quality by blast
  then show ?thesis using portrait_bright[of std_platform]
    by (simp add: enroll_frame_def sample_enroll_args_def sample_enroll_tick_def sample_key_config_def default_config_def
      default_device_config_def portrait_def Let_def)
qed

lemma sample_loop:
  "enroll_loop sample_enroll_args (1000 * enroll_timeout_secs sample_key_config) [] no_rejections (eo_ticks sample_enroll_obs) =
   Captured [axis 0, axis (Suc 0), axis 0] no_rejections"
proof -
  have "15000 \<le> 1000 * enroll_timeout_secs sample_key_config" "1000 * enroll_timeout_secs sample_key_config \<le> 1000000"
    by (simp_all add: enroll_timeout_secs_def sample_key_config_def default_config_def default_recognition_config_def)
  then show ?thesis
    by (simp add: sample_enroll_obs_def sample_accept MAX_CAPTURES_def)
      (simp add: sample_enroll_tick_def)
qed

lemma sample_enroll_sel:
  "ea_config sample_enroll_args = sample_key_config" "ea_platform sample_enroll_args = std_platform"
  "ea_device_id sample_enroll_args = Some ''046d:0825:A1''" "eo_start sample_enroll_obs = 0" "\<not> eo_cancel_end sample_enroll_obs"
  by (simp_all add: sample_enroll_args_def sample_enroll_obs_def)

lemma sample_diverse: "check_angle_diversity std_platform [axis 0, axis (Suc 0), axis 0]"
proof -
  have "f32_lit 95 100 = 0x3F733333" "f32_lt 0 0x3F733333" by (simp_all add: f32_lit_def f32_eval)
  then show ?thesis by (simp add: check_angle_diversity_def MAX_EMBEDDING_SIMILARITY_def cosine_axis)
qed

lemma sample_enrollment:
  "\<exists>mid d'. enroll sample_crypto sample_enroll_args sample_enroll_obs (open_memory ''f.db'') = EnrollDone (Enrolled mid 3) d'"
proof -
  let ?s = "from_key (replicate 32 9)"
  have aad: "require_device_aad sample_key_config (Some ''046d:0825:A1'') = Ok None"
    by (simp add: require_device_aad_def hard_binding_active_def sample_key_config_def default_config_def default_security_config_def)
  obtain blobs where blobs: "seal_all sample_crypto ?s (\<lambda>k. replicate 12 1) 0 None [axis 0, axis (Suc 0), axis 0] = Ok blobs"
    and len: "length blobs = 3"
    by (simp add: seal_embedding_with_aad_def seal_bytes_with_aad_def sample_crypto_def)
  obtain mid d' where "replace_model_with_embeddings (\<lambda>_. None) (Some 0) ''alice'' ''front'' blobs True
      (rc_embedder_model (cf_recognition sample_key_config)) (Some ''046d:0825:A1'') (Some (key_id sample_crypto ?s))
      (open_memory ''f.db'') = (Ok mid, d')"
    using replace_progress[of "\<lambda>_. None" blobs "open_memory ''f.db''" "Some 0" "''alice''" "''front''" True
      "rc_embedder_model (cf_recognition sample_key_config)" "Some ''046d:0825:A1''" "Some (key_id sample_crypto ?s)"] len
    by (auto simp: open_memory_def is_ok_iff) (metis prod.collapse)
  then have "persist_enrollment sample_crypto sample_enroll_args sample_enroll_obs None [axis 0, axis (Suc 0), axis 0]
      (open_memory ''f.db'') = (Enrolled mid 3, d')"
    using blobs by (simp add: persist_enrollment_def sample_enroll_args_def sample_enroll_obs_def del: seal_all.simps)
  then show ?thesis using aad sample_loop sample_diverse
    by (simp add: enroll_def MIN_CAPTURES_def MIN_EMBEDDINGS_PER_MODEL_def sample_enroll_sel)
qed

theorem enrollment_all_or_nothing_witness:
  "\<exists>mid d' accepted blobs.
     enroll sample_crypto sample_enroll_args sample_enroll_obs (open_memory ''f.db'') = EnrollDone (Enrolled mid 3) d' \<and>
     enrolled_from sample_crypto sample_enroll_args sample_enroll_obs accepted blobs"
proof -
  obtain mid d' where run: "enroll sample_crypto sample_enroll_args sample_enroll_obs (open_memory ''f.db'') =
      EnrollDone (Enrolled mid 3) d'"
    using sample_enrollment by blast
  have "Suc (db_model_seq (open_memory ''f.db'')) < 2 ^ 32" by (simp add: open_memory_def)
  from enrollment_all_or_nothing[OF open_memory_inv this run] show ?thesis using run by auto
qed

theorem enrolled_templates_load_witness:
  "\<exists>mid d' rows accepted new. enroll sample_crypto sample_enroll_args sample_enroll_obs (open_memory ''f.db'') =
      EnrollDone (Enrolled mid 3) d' \<and>
    get_user_embeddings_raw_with_device None ''alice'' d' = Ok (rows @ new) \<and>
    list_all2 (\<lambda>row e. decrypt_row sample_crypto True sample_key_config sample_ring (Held None) row = Ok e) new accepted"
proof -
  obtain mid d' where run: "enroll sample_crypto sample_enroll_args sample_enroll_obs (open_memory ''f.db'') =
      EnrollDone (Enrolled mid 3) d'"
    using sample_enrollment by blast
  have fit: "Suc (db_model_seq (open_memory ''f.db'')) < 2 ^ 32" by (simp add: open_memory_def)
  have w: "kw_crypto sample_key_world = sample_crypto" by (simp add: sample_key_world_def)
  have held: "held_keyring sample_crypto (ea_config sample_enroll_args) sample_ring"
    using held_keyring.load[OF w sample_keys] by (simp add: sample_ring_def sample_enroll_args_def)
  have "\<forall>tk e det. tk \<in> set (eo_ticks sample_enroll_obs) \<longrightarrow> et_engine tk = Ok [(det, e)] \<longrightarrow> length e = 512"
    by (auto simp: sample_enroll_obs_def sample_enroll_tick_def axis_def)
  from enrolled_templates_load[OF open_memory_inv fit run sample_crypto_lawful _ this _ _ _ held] show ?thesis using run
    by (simp add: sample_enroll_args_def sample_enroll_obs_def AES_NONCE_SIZE_def sample_key_config_def
      candidates_for_legacy_row_def sample_ring_def) blast
qed

end
