(* ===== verification/Lease.thy ===== *)
theory Lease
  imports AuthGate Enroll
begin

text \<open>
  The camera lease of \<^verbatim>\<open>facelock-daemon/src/handler.rs\<close>: which ending of a request keeps the stream
  open and for how long, opening or reusing the camera with its frame discards, and every way the
  camera closes. Instants are nanoseconds; opening, capturing and the cancel token are observations.
\<close>

subsection \<open>Endings\<close>

datatype request_end = EndSuccess | EndFailure | EndCancelled | EndError

definition hold_secs :: "request_end \<Rightarrow> device_config \<Rightarrow> u32" where
  "hold_secs e dev =
     (case e of
        EndFailure \<Rightarrow> dc_camera_release_secs dev
      | EndSuccess \<Rightarrow> dc_camera_release_after_success_secs dev
      | _ \<Rightarrow> 0)"

definition end_of_auth :: "auth_outcome \<Rightarrow> request_end" where
  "end_of_auth out =
     (case out of
        AuthResult r \<Rightarrow> if mr_matched r then EndSuccess else EndFailure
      | Suppressed \<Rightarrow> EndError
      | AuthError _ _ \<Rightarrow> EndError
      | Cancelled \<Rightarrow> EndCancelled)"

definition end_of_enroll :: "enroll_outcome \<Rightarrow> request_end" where
  "end_of_enroll out =
     (case out of Enrolled _ _ \<Rightarrow> EndSuccess | EnrollError _ \<Rightarrow> EndError | EnrollCancelled \<Rightarrow> EndCancelled)"

subsection \<open>The lease\<close>

record camera =
  cm_caps :: camera_caps
  cm_pending_settle_frames :: u32

record lease =
  le_camera :: "camera option"
  le_deadline :: "nat option"
  le_factory :: bool
  le_warmup_override :: "u32 option"

definition MMAP_BUFFERS :: nat where "MMAP_BUFFERS = 4"
definition PREVIEW_MIN_HOLD :: nat where "PREVIEW_MIN_HOLD = 2 * 1000000000"

definition lease_new :: "bool \<Rightarrow> u32 option \<Rightarrow> lease" where
  "lease_new factory warmup =
     \<lparr>le_camera = None, le_deadline = None, le_factory = factory, le_warmup_override = warmup\<rparr>"

text \<open>The k-th discarded frame: the token, then the capture.\<close>

type_synonym discard_obs = "nat \<Rightarrow> bool \<times> (unit, string) result"

fun discard_from :: "discard_obs \<Rightarrow> nat \<Rightarrow> nat \<Rightarrow> (unit, string) result" where
  "discard_from ob k 0 = Ok ()"
| "discard_from ob k (Suc n) =
     (case ob k of (cancelled, captured) \<Rightarrow>
        if cancelled then Err CANCELLED_MESSAGE
        else and_then captured (\<lambda>_. discard_from ob (Suc k) n))"

definition discard_frames :: "discard_obs \<Rightarrow> nat \<Rightarrow> (unit, string) result" where
  "discard_frames ob count = discard_from ob 0 count"

datatype purpose = ForCapture | ForAuthentication

definition may_discard_from :: "purpose \<Rightarrow> camera \<Rightarrow> bool" where
  "may_discard_from p cam = (p \<noteq> ForAuthentication \<or> cc_ir_texture_scale (cm_caps cam) \<noteq> UnverifiedY16)"

definition warmup_discard_count :: "camera \<Rightarrow> u32 \<Rightarrow> nat" where
  "warmup_discard_count cam warmup = unat warmup - unat (cm_pending_settle_frames cam)"

text \<open>What an acquisition meets: the token at its start, the factory's answer, the discarded frames,
  and the token after a failed discard.\<close>

record acquire_obs =
  ao_cancelled :: bool
  ao_open :: "(camera, string) result"
  ao_discard :: discard_obs
  ao_cancelled_late :: bool

definition lease_close :: "lease \<Rightarrow> lease" where
  "lease_close l = l\<lparr>le_camera := None\<rparr>"

definition acquire_for :: "purpose \<Rightarrow> config \<Rightarrow> acquire_obs \<Rightarrow> lease \<Rightarrow> (camera, string) result \<times> lease" where
  "acquire_for p cfg ob l0 =
     (let l = l0\<lparr>le_deadline := None\<rparr> in
      if ao_cancelled ob then (Err CANCELLED_MESSAGE, lease_close l)
      else case le_camera l of
          Some cam \<Rightarrow>
            (case (if may_discard_from p cam then discard_frames (ao_discard ob) (MMAP_BUFFERS - 1) else Ok ()) of
               Ok _ \<Rightarrow> (Ok cam, l)
             | Err e \<Rightarrow>
                 if ao_cancelled_late ob then (Err CANCELLED_MESSAGE, lease_close l)
                 else (Err (''capture error: '' @ e), l\<lparr>le_camera := None\<rparr>))
        | None \<Rightarrow>
            if \<not> le_factory l then (Err ''no camera available'', l)
            else case ao_open ob of
                Err e \<Rightarrow> (Err (''failed to open camera: '' @ e), l)
              | Ok cam \<Rightarrow>
                  (let warmup = warmup_discard_count cam
                         (case le_warmup_override l of Some w \<Rightarrow> w | None \<Rightarrow> dc_warmup_frames (cf_device cfg)) in
                   if may_discard_from p cam \<and> \<not> is_ok (discard_frames (ao_discard ob) warmup) \<and> ao_cancelled_late ob
                   then (Err CANCELLED_MESSAGE, l)
                   else (Ok cam, l\<lparr>le_camera := Some cam\<rparr>)))"

definition lease_finish :: "request_end \<Rightarrow> config \<Rightarrow> nat \<Rightarrow> lease \<Rightarrow> lease" where
  "lease_finish e cfg now l =
     (let secs = hold_secs e (cf_device cfg) in
      if secs = 0 then lease_close l
      else l\<lparr>le_deadline := Some (now + unat secs * 1000000000)\<rparr>)"

definition touch_preview :: "config \<Rightarrow> nat \<Rightarrow> lease \<Rightarrow> lease" where
  "touch_preview cfg now l =
     l\<lparr>le_deadline := Some (now + max (unat (dc_camera_release_secs (cf_device cfg)) * 1000000000) PREVIEW_MIN_HOLD)\<rparr>"

definition lease_expire :: "nat \<Rightarrow> lease \<Rightarrow> lease" where
  "lease_expire now l =
     (case le_deadline l of
        Some t \<Rightarrow> if t \<le> now then lease_close (l\<lparr>le_deadline := None\<rparr>) else l
      | None \<Rightarrow> l)"

definition lease_release :: "lease \<Rightarrow> lease" where
  "lease_release l = lease_close (l\<lparr>le_deadline := None\<rparr>)"

definition holds_camera :: "lease \<Rightarrow> bool" where
  "holds_camera l = (le_camera l \<noteq> None)"

subsection \<open>The promise of the lease\<close>

text \<open>What an observer of the camera's light sees: dark, on for a request, or on until an instant.\<close>

datatype lamp = Dark | InUse | WarmUntil nat

definition lamp_of :: "lease \<Rightarrow> lamp" where
  "lamp_of l =
     (case le_camera l of None \<Rightarrow> Dark
      | Some _ \<Rightarrow> (case le_deadline l of None \<Rightarrow> InUse | Some t \<Rightarrow> WarmUntil t))"

definition lamp_acquire :: "bool \<Rightarrow> lamp" where
  "lamp_acquire granted = (if granted then InUse else Dark)"

definition lamp_hold :: "nat \<Rightarrow> nat \<Rightarrow> lamp \<Rightarrow> lamp" where
  "lamp_hold hold now s = (if hold = 0 \<or> s = Dark then Dark else WarmUntil (now + hold))"

definition lamp_tick :: "nat \<Rightarrow> lamp \<Rightarrow> lamp" where
  "lamp_tick now s = (case s of WarmUntil t \<Rightarrow> if t \<le> now then Dark else s | _ \<Rightarrow> s)"

definition hold_nanos :: "request_end \<Rightarrow> config \<Rightarrow> nat" where
  "hold_nanos e cfg = unat (hold_secs e (cf_device cfg)) * 1000000000"

definition preview_nanos :: "config \<Rightarrow> nat" where
  "preview_nanos cfg = max (unat (dc_camera_release_secs (cf_device cfg)) * 1000000000) PREVIEW_MIN_HOLD"

lemma ok_eqD: "Ok a = r \<Longrightarrow> is_ok r"
  by auto

lemma acquire_lamp:
  "acquire_for p cfg ob l = (r, l') \<Longrightarrow> lamp_of l' = lamp_acquire (is_ok r)"
  by (auto dest: ok_eqD simp: acquire_for_def lamp_of_def lamp_acquire_def lease_close_def Let_def split: if_splits option.splits result.splits)

lemma finish_lamp: "lamp_of (lease_finish e cfg now l) = lamp_hold (hold_nanos e cfg) now (lamp_of l)"
  by (auto simp: lease_finish_def lamp_of_def lamp_hold_def hold_nanos_def lease_close_def Let_def unat_eq_zero
      split: option.splits)

lemma preview_lamp: "lamp_of (touch_preview cfg now l) = lamp_hold (preview_nanos cfg) now (lamp_of l)"
  by (auto simp: touch_preview_def lamp_of_def lamp_hold_def preview_nanos_def PREVIEW_MIN_HOLD_def split: option.splits)

lemma expire_lamp: "lamp_of (lease_expire now l) = lamp_tick now (lamp_of l)"
  by (auto simp: lease_expire_def lamp_of_def lamp_tick_def lease_close_def split: option.splits)

lemma release_lamp: "lamp_of (lease_release l) = Dark"
  by (simp add: lease_release_def lamp_of_def lease_close_def)

text \<open>C30: the lease implements the light's specification. Seen through the light, every operation does
  exactly what is promised: acquiring leaves the camera on only if it was granted, an ending or a
  preview frame turns it off or sets the instant it goes off, a tick turns it off exactly from that
  instant on, and a release turns it off. No acquisition that fails leaves the camera on.\<close>

theorem lease_refines_lamp:
  "lamp_of (snd (acquire_for p cfg ob l)) = lamp_acquire (is_ok (fst (acquire_for p cfg ob l))) \<and>
   lamp_of (lease_finish e cfg now l) = lamp_hold (hold_nanos e cfg) now (lamp_of l) \<and>
   lamp_of (touch_preview cfg now l) = lamp_hold (preview_nanos cfg) now (lamp_of l) \<and>
   lamp_of (lease_expire now l) = lamp_tick now (lamp_of l) \<and>
   lamp_of (lease_release l) = Dark \<and> lamp_of (lease_new factory warmup) = Dark"
  using acquire_lamp[of p cfg ob l "fst (acquire_for p cfg ob l)" "snd (acquire_for p cfg ob l)"]
  by (simp add: finish_lamp preview_lamp expire_lamp release_lamp) (simp add: lamp_of_def lease_new_def)

subsection \<open>Requests that use the camera\<close>

text \<open>What a client of the lease relies on, with no knowledge of its fields: a refused acquisition
  leaves it dark, and both ways of ending a request settle it.\<close>

locale camera_contract =
  fixes acquire :: "'o \<Rightarrow> 'l \<Rightarrow> ('c, 'e) result \<times> 'l" and ending :: "'x \<Rightarrow> nat \<Rightarrow> 'l \<Rightarrow> 'l"
    and light :: "'l \<Rightarrow> lamp" and hold :: "'x \<Rightarrow> nat"
  assumes refused_dark: "acquire ob l = (Err e, l') \<Longrightarrow> light l' = Dark"
    and granted_on: "acquire ob l = (Ok c, l') \<Longrightarrow> light l' = InUse"
    and ending_light: "light (ending x now l) = lamp_hold (hold x) now (light l)"
begin

lemma request_settles: "light (ending x now l) \<noteq> InUse"
  by (simp add: ending_light lamp_hold_def)

lemma request_bound:
  assumes "acquire ob l = (Ok c, l')" and "hold x \<le> m"
  shows "light (ending x now l') = Dark \<or> (\<exists>t \<le> now + m. light (ending x now l') = WarmUntil t)"
  using assms granted_on by (auto simp: ending_light lamp_hold_def)

end

datatype camera_end = Ended request_end | PreviewShown

fun end_camera :: "config \<Rightarrow> camera_end \<Rightarrow> nat \<Rightarrow> lease \<Rightarrow> lease" where
  "end_camera cfg (Ended e) = lease_finish e cfg"
| "end_camera cfg PreviewShown = touch_preview cfg"

fun camera_hold :: "config \<Rightarrow> camera_end \<Rightarrow> nat" where
  "camera_hold cfg (Ended e) = hold_nanos e cfg"
| "camera_hold cfg PreviewShown = preview_nanos cfg"

interpretation cam: camera_contract "acquire_for p cfg" "end_camera cfg" lamp_of "camera_hold cfg" for p cfg
proof
  fix x now and l :: lease
  show "lamp_of (end_camera cfg x now l) = lamp_hold (camera_hold cfg x) now (lamp_of l)"
    by (cases x) (simp_all add: finish_lamp preview_lamp)
qed (auto dest: acquire_lamp simp: lamp_acquire_def)

end
