(* ===== verification/AuthLoop.thy ===== *)
theory AuthLoop
  imports AuthGate FrameChecks
begin

text \<open>
  \<^verbatim>\<open>authenticate_with_embeddings\<close> of \<^verbatim>\<open>facelock-daemon/src/auth.rs\<close>: the camera loop that
  compares captured faces with the stored templates. Everything the loop reads from outside
  (clock, cancel flag, captured frames, the face engine's answers) is an observation: one
  record for the entry of the function and one \<open>tick\<close> per loop iteration. The loop is a
  recursion over the ticks; \<open>Running\<close> is the value of a run whose observations end before
  the loop does, \<open>Panicked\<close> that of a frame whose texture check panics.
\<close>

subsection \<open>Observations and state\<close>

type_synonym faces = "(detection \<times> face_embedding) list"

text \<open>Instants are nanoseconds. \<open>en_deadline_read\<close> is the clock when the deadline is computed.\<close>

record entry_obs =
  en_start :: nat
  en_cancelled :: bool
  en_end :: nat
  en_stamp :: "u64 option"
  en_deadline_read :: nat

record tick =
  tk_now :: nat
  tk_cancelled :: bool
  tk_no_face_now :: nat
  tk_capture :: "(frame, string) result"
  tk_engine :: "(faces, string) result"
  tk_end :: nat
  tk_stamp :: "u64 option"

record loop_state =
  ls_best_similarity :: f32
  ls_window :: variance_window
  ls_matched_total :: u32
  ls_variance_passed :: bool
  ls_dark_count :: u32
  ls_frame_count :: u32
  ls_face_detected :: bool
  ls_best_model_id :: "u32 option"
  ls_tracker :: landmark_tracker
  ls_last_frame :: "frame option"

text \<open>What a finished attempt produced: the outcome, its audit entries, and the snapshots
  handed to the writer.\<close>

record auth_report =
  rp_outcome :: auth_outcome
  rp_audit :: "audit_entry list"
  rp_snapshots :: "(string \<times> f32 \<times> frame) list"

datatype auth_run = Finished auth_report | Panicked | Running

text \<open>The inputs fixed for one attempt.\<close>

record attempt =
  at_platform :: platform
  at_config :: config
  at_user :: string
  at_source :: audit_source
  at_caps :: camera_caps
  at_models :: "face_model_info list"
  at_start :: nat

subsection \<open>Pieces\<close>

definition label_for :: "face_model_info list \<Rightarrow> u32 \<Rightarrow> string option" where
  "label_for models i = map_option mi_label (find (\<lambda>m. mi_id m = i) models)"

definition elapsed_ms :: "nat \<Rightarrow> nat \<Rightarrow> u64" where
  "elapsed_ms start now = of_nat ((now - start) div 1000000)"

definition attempt_entry ::
  "attempt \<Rightarrow> u64 option \<Rightarrow> nat \<Rightarrow> string \<Rightarrow> f32 option \<Rightarrow> u32 \<Rightarrow> string option \<Rightarrow> string option \<Rightarrow> audit_entry" where
  "attempt_entry at stamp now result sim frames label err =
     \<lparr>ae_timestamp = now_iso8601 stamp, ae_user = at_user at, ae_result = result,
      ae_source = Some (at_source at), ae_similarity = sim, ae_frame_count = Some frames,
      ae_duration_ms = Some (elapsed_ms (at_start at) now), ae_device = dc_path (cf_device (at_config at)),
      ae_model_label = label, ae_error = err\<rparr>"

definition cancelled_run :: "attempt \<Rightarrow> u64 option \<Rightarrow> nat \<Rightarrow> u32 \<Rightarrow> auth_run" where
  "cancelled_run at stamp now frames =
     Finished \<lparr>rp_outcome = Cancelled,
       rp_audit = [attempt_entry at stamp now CANCELLED_MESSAGE None frames None None],
       rp_snapshots = []\<rparr>"

definition allowed_ids :: "attempt \<Rightarrow> u32 set" where
  "allowed_ids at =
     device_allowed_model_ids (at_models at) (cc_fingerprint (at_caps at))
       (device_binding_policy_of (cf_security (at_config at)))"

definition compare_set :: "attempt \<Rightarrow> (u32 \<times> face_embedding) list \<Rightarrow> (u32 \<times> face_embedding) list" where
  "compare_set at stored = filter (\<lambda>(i, _). i \<in> allowed_ids at) stored"

definition initial_state :: "attempt \<Rightarrow> loop_state" where
  "initial_state at =
     (let s = cf_security (at_config at) in
      \<lparr>ls_best_similarity = 0, ls_window = window_new (sc_min_auth_frames s), ls_matched_total = 0,
       ls_variance_passed = False, ls_dark_count = 0, ls_frame_count = 0, ls_face_detected = False,
       ls_best_model_id = None,
       ls_tracker = tracker_new 10 (sc_landmark_displacement_px s) (unat (sc_landmark_min_moving s)),
       ls_last_frame = None\<rparr>)"

definition face_texture :: "attempt \<Rightarrow> frame \<Rightarrow> detection \<Rightarrow> bool option" where
  "face_texture at fr det =
     check_ir_texture (at_platform at) (fr_gray fr) (bbox det) (fr_width fr)
       (sc_ir_texture_min_stddev (cf_security (at_config at)))"

text \<open>Texture verdicts of all faces of a frame; one panicking check panics the frame.\<close>

fun textures :: "attempt \<Rightarrow> frame \<Rightarrow> faces \<Rightarrow> bool list option" where
  "textures at fr [] = Some []"
| "textures at fr ((det, _) # fs) =
     (case face_texture at fr det of
        None \<Rightarrow> None
      | Some b \<Rightarrow> map_option ((#) b) (textures at fr fs))"

text \<open>One face of the comparison loop; the extra boolean is \<^verbatim>\<open>frame_matched\<close>.\<close>

definition compare_face ::
  "attempt \<Rightarrow> (u32 \<times> face_embedding) list \<Rightarrow> face_embedding \<Rightarrow> loop_state \<times> bool \<Rightarrow> loop_state \<times> bool" where
  "compare_face at cs emb stf =
     (case stf of (st, frame_matched) \<Rightarrow>
      let (sim, mid) = best_match (at_platform at) emb cs;
          st1 = (if f32_gt sim (ls_best_similarity st)
                 then st\<lparr>ls_best_similarity := sim, ls_best_model_id := mid\<rparr> else st)
      in if f32_ge sim (rc_threshold (cf_recognition (at_config at))) \<and> \<not> frame_matched
         then (st1\<lparr>ls_window := window_push emb (ls_window st1),
                   ls_matched_total := ls_matched_total st1 + 1\<rparr>, True)
         else (st1, frame_matched))"

fun compare_faces ::
  "attempt \<Rightarrow> (u32 \<times> face_embedding) list \<Rightarrow> (face_embedding \<times> bool) list \<Rightarrow> loop_state \<times> bool \<Rightarrow> loop_state \<times> bool" where
  "compare_faces at cs [] stf = stf"
| "compare_faces at cs ((emb, skip) # fs) stf =
     compare_faces at cs fs (if skip then stf else compare_face at cs emb stf)"

definition success_run :: "attempt \<Rightarrow> tick \<Rightarrow> loop_state \<Rightarrow> auth_run" where
  "success_run at tk st =
     (let label = Option.bind (ls_best_model_id st) (label_for (at_models at)) in
      Finished \<lparr>rp_outcome = AuthResult
          \<lparr>mr_matched = True, mr_model_id = ls_best_model_id st, mr_label = label,
           mr_similarity = ls_best_similarity st, mr_face_detected = ls_face_detected st,
           mr_failure_reason = None\<rparr>,
        rp_audit = [attempt_entry at (tk_stamp tk) (tk_end tk) ''success'' (Some (ls_best_similarity st))
                      (ls_frame_count st) label None],
        rp_snapshots =
          (if should_save (cf_snapshots (at_config at)) True
           then (case ls_last_frame st of None \<Rightarrow> []
                 | Some fr \<Rightarrow> [(at_user at, ls_best_similarity st, fr)]) else [])\<rparr>)"

datatype verdict = Continue loop_state | Accept loop_state | FramePanic

text \<open>The liveness decision after a frame's faces were compared.\<close>

definition accept_gate :: "attempt \<Rightarrow> loop_state \<Rightarrow> verdict" where
  "accept_gate at st =
     (let s = cf_security (at_config at);
          live = (\<not> sc_require_landmark_liveness s \<or> check_liveness (at_platform at) (ls_tracker st)) in
      if sc_require_frame_variance s
      then (if window_passes (at_platform at) (ls_window st) (sc_frame_variance_max_similarity s)
            then let st1 = st\<lparr>ls_variance_passed := True\<rparr> in if live then Accept st1 else Continue st1
            else Continue st)
      else if f32_ge (ls_best_similarity st) (rc_threshold (cf_recognition (at_config at)))
      then (if live then Accept st else Continue st)
      else Continue st)"

text \<open>A captured frame: darkness, the engine's faces, landmarks, texture, comparison, decision.\<close>

definition frame_step ::
  "attempt \<Rightarrow> (u32 \<times> face_embedding) list \<Rightarrow> frame \<Rightarrow> (faces, string) result \<Rightarrow> loop_state \<Rightarrow> verdict" where
  "frame_step at cs fr engine st0 =
     (let cfg = at_config at; st = st0\<lparr>ls_frame_count := ls_frame_count st0 + 1\<rparr> in
      if is_dark_with_config (at_platform at) fr (dc_dark_threshold (cf_device cfg)) (dc_dark_pixel_value (cf_device cfg))
      then Continue (st\<lparr>ls_dark_count := ls_dark_count st + 1\<rparr>)
      else
        let st1 = (if sn_mode (cf_snapshots cfg) \<noteq> SnapOff then st\<lparr>ls_last_frame := Some fr\<rparr> else st) in
        case engine of
          Err _ \<Rightarrow> Continue st1
        | Ok [] \<Rightarrow> Continue st1
        | Ok ((det, e) # fs) \<Rightarrow>
            let faces = (det, e) # fs;
                st2 = st1\<lparr>ls_face_detected := True, ls_tracker := tracker_push (landmarks det) (ls_tracker st1)\<rparr>
            in if cc_is_ir (at_caps at)
               then (case textures at fr faces of
                       None \<Rightarrow> FramePanic
                     | Some ts \<Rightarrow>
                         if list_all Not ts then Continue st2
                         else accept_gate at
                           (fst (compare_faces at cs (zip (map snd faces) (map Not ts)) (st2, False))))
               else accept_gate at
                      (fst (compare_faces at cs (map (\<lambda>(_, e). (e, False)) faces) (st2, False))))"

text \<open>The end of the loop: all frames dark, or a definitive non-match.\<close>

definition timeout_run :: "attempt \<Rightarrow> tick \<Rightarrow> loop_state \<Rightarrow> auth_run" where
  "timeout_run at tk st =
     (let cfg = at_config at;
          reason = (if sc_require_frame_variance (cf_security cfg) \<and> window_is_full (ls_window st) \<and>
                       \<not> ls_variance_passed st then Some VarianceNotSatisfied else None)
      in if ls_dark_count st = ls_frame_count st \<and> 0 < ls_frame_count st
         then Finished \<lparr>rp_outcome = error_with KAllFramesDark [],
                rp_audit = [attempt_entry at (tk_stamp tk) (tk_end tk) ''error'' None (ls_frame_count st) None
                              (Some (render KAllFramesDark []))],
                rp_snapshots = []\<rparr>
         else Finished \<lparr>rp_outcome = AuthResult
                  \<lparr>mr_matched = False, mr_model_id = None, mr_label = None,
                   mr_similarity = ls_best_similarity st, mr_face_detected = ls_face_detected st,
                   mr_failure_reason = reason\<rparr>,
                rp_audit = [attempt_entry at (tk_stamp tk) (tk_end tk) ''failure'' (Some (ls_best_similarity st))
                              (ls_frame_count st) None None],
                rp_snapshots =
                  (if should_save (cf_snapshots cfg) False
                   then (case ls_last_frame st of None \<Rightarrow> []
                         | Some fr \<Rightarrow> [(at_user at, ls_best_similarity st, fr)]) else [])\<rparr>)"

fun auth_loop ::
  "attempt \<Rightarrow> nat \<Rightarrow> nat option \<Rightarrow> (u32 \<times> face_embedding) list \<Rightarrow> loop_state \<Rightarrow> tick list \<Rightarrow> auth_run" where
  "auth_loop at deadline no_face cs st [] = Running"
| "auth_loop at deadline no_face cs st (tk # tks) =
     (if \<not> tk_now tk < deadline then timeout_run at tk st
      else if tk_cancelled tk then cancelled_run at (tk_stamp tk) (tk_end tk) (ls_frame_count st)
      else if \<not> ls_face_detected st \<and> (case no_face of None \<Rightarrow> False | Some d \<Rightarrow> d \<le> tk_no_face_now tk)
      then timeout_run at tk st
      else case tk_capture tk of
          Err _ \<Rightarrow> auth_loop at deadline no_face cs st tks
        | Ok fr \<Rightarrow>
            (case frame_step at cs fr (tk_engine tk) st of
               Continue st' \<Rightarrow> auth_loop at deadline no_face cs st' tks
             | Accept st' \<Rightarrow> success_run at tk st'
             | FramePanic \<Rightarrow> Panicked))"

definition authenticate_with_embeddings ::
  "attempt \<Rightarrow> entry_obs \<Rightarrow> (u32 \<times> face_embedding) list \<Rightarrow> tick list \<Rightarrow> auth_run" where
  "authenticate_with_embeddings at0 en stored ticks =
     (let at = at0\<lparr>at_start := en_start en\<rparr>; r = cf_recognition (at_config at) in
      if en_cancelled en then cancelled_run at (en_stamp en) (en_end en) 0
      else if cc_ir_texture_scale (at_caps at) = UnverifiedY16
      then Finished \<lparr>rp_outcome = error_with KY16BitDepthRequired [],
             rp_audit = [attempt_entry at (en_stamp en) (en_end en) (audit_result KY16BitDepthRequired) None 0 None
                           (Some (render KY16BitDepthRequired []))],
             rp_snapshots = []\<rparr>
      else auth_loop at (en_deadline_read en + unat (rc_timeout_secs r) * 1000000000)
             (map_option (\<lambda>s. en_start en + s * 1000000000) (effective_no_face_timeout r))
             (compare_set at stored) (initial_state at) ticks)"

subsection \<open>What the loop state records\<close>

text \<open>An embedding the loop may have compared: a face of a captured, bright enough frame, which
  passed the texture check on an IR camera.\<close>

abbreviation dark_frame :: "attempt \<Rightarrow> frame \<Rightarrow> bool" where
  "dark_frame at fr \<equiv> is_dark_with_config (at_platform at) fr (dc_dark_threshold (cf_device (at_config at)))
     (dc_dark_pixel_value (cf_device (at_config at)))"

definition seen :: "attempt \<Rightarrow> tick list \<Rightarrow> face_embedding \<Rightarrow> bool" where
  "seen at tks e \<longleftrightarrow> (\<exists>tk \<in> set tks. \<exists>fr fs det.
     tk_capture tk = Ok fr \<and> tk_engine tk = Ok fs \<and> (det, e) \<in> set fs \<and>
     \<not> dark_frame at fr \<and>
     (cc_is_ir (at_caps at) \<longrightarrow> face_texture at fr det = Some True))"

definition landmarks_seen :: "attempt \<Rightarrow> tick list \<Rightarrow> point2d list \<Rightarrow> bool" where
  "landmarks_seen at tks lm \<longleftrightarrow> (\<exists>tk \<in> set tks. \<exists>fr det e fs.
     tk_capture tk = Ok fr \<and> tk_engine tk = Ok ((det, e) # fs) \<and> lm = landmarks det)"

definition best_of :: "attempt \<Rightarrow> (u32 \<times> face_embedding) list \<Rightarrow> face_embedding \<Rightarrow> f32" where
  "best_of at cs e = fst (best_match (at_platform at) e cs)"

abbreviation threshold_of :: "attempt \<Rightarrow> f32" where
  "threshold_of at \<equiv> rc_threshold (cf_recognition (at_config at))"

abbreviation security_of :: "attempt \<Rightarrow> security_config" where
  "security_of at \<equiv> cf_security (at_config at)"

definition window_ok :: "attempt \<Rightarrow> (u32 \<times> face_embedding) list \<Rightarrow> tick list \<Rightarrow> variance_window \<Rightarrow> bool" where
  "window_ok at cs tks w \<longleftrightarrow> (\<exists>es. w = fold window_push es (window_new (sc_min_auth_frames (security_of at))) \<and>
     (\<forall>e \<in> set es. seen at tks e \<and> f32_ge (best_of at cs e) (threshold_of at)))"

definition best_ok :: "attempt \<Rightarrow> (u32 \<times> face_embedding) list \<Rightarrow> tick list \<Rightarrow> f32 \<Rightarrow> u32 option \<Rightarrow> bool" where
  "best_ok at cs tks s mid \<longleftrightarrow>
     s = 0 \<and> mid = None \<or> (\<exists>e. seen at tks e \<and> best_match (at_platform at) e cs = (s, mid))"

definition tracker_ok :: "attempt \<Rightarrow> tick list \<Rightarrow> landmark_tracker \<Rightarrow> bool" where
  "tracker_ok at tks t \<longleftrightarrow> (\<exists>ls. t = fold tracker_push ls
       (tracker_new 10 (sc_landmark_displacement_px (security_of at)) (unat (sc_landmark_min_moving (security_of at)))) \<and>
     (\<forall>l \<in> set ls. landmarks_seen at tks l))"

definition loop_inv :: "attempt \<Rightarrow> (u32 \<times> face_embedding) list \<Rightarrow> tick list \<Rightarrow> loop_state \<Rightarrow> bool" where
  "loop_inv at cs tks st \<longleftrightarrow>
     window_ok at cs tks (ls_window st) \<and> best_ok at cs tks (ls_best_similarity st) (ls_best_model_id st) \<and>
     tracker_ok at tks (ls_tracker st)"

text \<open>The conditions that end the loop before a capture.\<close>

definition loop_stops :: "nat \<Rightarrow> nat option \<Rightarrow> loop_state \<Rightarrow> tick \<Rightarrow> bool" where
  "loop_stops dl nf st tk \<longleftrightarrow> \<not> tk_now tk < dl \<or> tk_cancelled tk \<or>
     \<not> ls_face_detected st \<and> (case nf of None \<Rightarrow> False | Some d \<Rightarrow> d \<le> tk_no_face_now tk)"

lemma loop_inv_cong:
  assumes "loop_inv at cs tks st" "ls_window st' = ls_window st"
    "ls_best_similarity st' = ls_best_similarity st" "ls_best_model_id st' = ls_best_model_id st"
    "ls_tracker st' = ls_tracker st"
  shows "loop_inv at cs tks st'"
  using assms by (simp add: loop_inv_def)

lemma window_ok_push:
  assumes "window_ok at cs tks w" "seen at tks e" "f32_ge (best_of at cs e) (threshold_of at)"
  shows "window_ok at cs tks (window_push e w)"
proof -
  obtain es where "w = fold window_push es (window_new (sc_min_auth_frames (security_of at)))"
    "\<forall>e \<in> set es. seen at tks e \<and> f32_ge (best_of at cs e) (threshold_of at)"
    using assms(1) by (auto simp: window_ok_def)
  then show ?thesis using assms(2,3) unfolding window_ok_def
    by (intro exI[of _ "es @ [e]"]) auto
qed

lemma tracker_ok_push:
  assumes "tracker_ok at tks t" "landmarks_seen at tks l"
  shows "tracker_ok at tks (tracker_push l t)"
proof -
  obtain ls where "t = fold tracker_push ls (tracker_new 10 (sc_landmark_displacement_px (security_of at)) (unat (sc_landmark_min_moving (security_of at))))"
    "\<forall>l \<in> set ls. landmarks_seen at tks l"
    using assms(1) by (auto simp: tracker_ok_def)
  then show ?thesis using assms(2) unfolding tracker_ok_def
    by (intro exI[of _ "ls @ [l]"]) auto
qed

lemma compare_face_inv:
  assumes "loop_inv at cs tks st" "seen at tks e"
  shows "loop_inv at cs tks (fst (compare_face at cs e (st, fm)))"
proof -
  obtain s r where b: "best_match (at_platform at) e cs = (s, r)" by fastforce
  then have s: "best_of at cs e = s" by (simp add: best_of_def)
  have "best_ok at cs tks s r" using assms(2) b by (auto simp: best_ok_def)
  then show ?thesis using assms window_ok_push[OF _ assms(2)] s
    by (auto simp: compare_face_def b loop_inv_def Let_def)
qed

lemma compare_faces_inv:
  assumes "loop_inv at cs tks (fst stf)" "\<forall>(e, skip) \<in> set fs. \<not> skip \<longrightarrow> seen at tks e"
  shows "loop_inv at cs tks (fst (compare_faces at cs fs stf))"
  using assms
proof (induction fs arbitrary: stf)
  case (Cons f fs)
  obtain e skip where f: "f = (e, skip)" by fastforce
  obtain st fm where stf: "stf = (st, fm)" by fastforce
  have "loop_inv at cs tks (fst (if skip then stf else compare_face at cs e stf))"
    using Cons.prems compare_face_inv by (auto simp: f stf)
  then show ?case using Cons.IH Cons.prems(2) f by auto
qed simp

lemma accept_gate_inv:
  "loop_inv at cs tks st \<Longrightarrow> accept_gate at st = v \<Longrightarrow> v = Continue st' \<or> v = Accept st' \<Longrightarrow>
     loop_inv at cs tks st'"
  by (auto simp: accept_gate_def Let_def loop_inv_def split: if_splits)

lemma textures_nth:
  "textures at fr fs = Some ts \<Longrightarrow> length ts = length fs \<and> (\<forall>i < length fs. face_texture at fr (fst (fs ! i)) = Some (ts ! i))"
  by (induction at fr fs arbitrary: ts rule: textures.induct)
    (auto simp: nth_Cons less_Suc_eq_0_disj split: option.splits)

lemma textures_seen:
  assumes "tk \<in> set tks" "tk_capture tk = Ok fr" "tk_engine tk = Ok fs"
    "\<not> dark_frame at fr"
    "textures at fr fs = Some ts"
  shows "\<forall>(e, skip) \<in> set (zip (map snd fs) (map Not ts)). \<not> skip \<longrightarrow> seen at tks e"
proof (clarify)
  fix e skip assume "(e, skip) \<in> set (zip (map snd fs) (map Not ts))" "\<not> skip"
  then obtain i where i: "i < length fs" "e = snd (fs ! i)" "ts ! i"
    using textures_nth[OF assms(5)] by (auto simp: in_set_zip)
  then have "face_texture at fr (fst (fs ! i)) = Some True" "(fst (fs ! i), e) \<in> set fs"
    using textures_nth[OF assms(5)] by auto
  then show "seen at tks e" using assms(1-4) unfolding seen_def by blast
qed

lemma plain_seen:
  assumes "tk \<in> set tks" "tk_capture tk = Ok fr" "tk_engine tk = Ok fs" "\<not> cc_is_ir (at_caps at)"
    "\<not> dark_frame at fr"
  shows "\<forall>(e, skip) \<in> set (map (\<lambda>(_, e). (e, False)) fs). \<not> skip \<longrightarrow> seen at tks e"
proof (clarify)
  fix e skip assume "(e, skip) \<in> set (map (\<lambda>(_, e). (e, False)) fs)"
  then obtain det where "(det, e) \<in> set fs" by auto
  then show "seen at tks e" using assms unfolding seen_def by blast
qed

text \<open>A frame either changes no evidence, or its eligible faces are compared and the gate decides.\<close>

lemma frame_step_cases:
  assumes "loop_inv at cs tks st" "tk \<in> set tks" "tk_capture tk = Ok fr"
    "frame_step at cs fr (tk_engine tk) st \<noteq> FramePanic"
  obtains (skip) st' where "frame_step at cs fr (tk_engine tk) st = Continue st'" "loop_inv at cs tks st'"
  | (compare) st2 fs where "loop_inv at cs tks st2" "\<forall>(e, skip) \<in> set fs. \<not> skip \<longrightarrow> seen at tks e"
      "frame_step at cs fr (tk_engine tk) st = accept_gate at (fst (compare_faces at cs fs (st2, False)))"
proof (cases "dark_frame at fr \<or> (\<forall>det e fs. tk_engine tk \<noteq> Ok ((det, e) # fs))")
  case True
  then have "\<exists>st'. frame_step at cs fr (tk_engine tk) st = Continue st' \<and> ls_window st' = ls_window st \<and>
      ls_best_similarity st' = ls_best_similarity st \<and> ls_best_model_id st' = ls_best_model_id st \<and>
      ls_tracker st' = ls_tracker st"
    by (cases "tk_engine tk"; cases "case tk_engine tk of Ok fs \<Rightarrow> fs | Err _ \<Rightarrow> []")
      (auto simp: frame_step_def Let_def)
  then show thesis using assms(1) skip loop_inv_cong by metis
next
  case False
  then obtain det e fs where eng: "tk_engine tk = Ok ((det, e) # fs)"
    and nd: "\<not> dark_frame at fr" by auto
  define st1 where "st1 = (let st = st\<lparr>ls_frame_count := ls_frame_count st + 1\<rparr> in
     if sn_mode (cf_snapshots (at_config at)) \<noteq> SnapOff then st\<lparr>ls_last_frame := Some fr\<rparr> else st)"
  define st2 where "st2 = st1\<lparr>ls_face_detected := True, ls_tracker := tracker_push (landmarks det) (ls_tracker st1)\<rparr>"
  have "landmarks_seen at tks (landmarks det)" using assms(2,3) eng by (auto simp: landmarks_seen_def)
  then have st2: "loop_inv at cs tks st2"
    using assms(1) tracker_ok_push by (auto simp: st2_def st1_def loop_inv_def Let_def)
  note step = frame_step_def eng st2_def st1_def Let_def
  show thesis
  proof (cases "cc_is_ir (at_caps at)")
    case False
    then show thesis using compare[OF st2 plain_seen[OF assms(2,3) eng False nd]] nd by (simp add: step)
  next
    case ir: True
    then obtain ts where ts: "textures at fr ((det, e) # fs) = Some ts"
      using assms(4) nd by (cases "textures at fr ((det, e) # fs)") (auto simp: step)
    show thesis
      using compare[OF st2 textures_seen[OF assms(2,3) eng nd ts]] skip[of st2] st2 nd ir ts
      by (cases "list_all Not ts") (simp_all add: step)
  qed
qed

lemma frame_step_inv:
  assumes "loop_inv at cs tks st" "tk \<in> set tks" "tk_capture tk = Ok fr"
    "frame_step at cs fr (tk_engine tk) st = v" "v = Continue st' \<or> v = Accept st'"
  shows "loop_inv at cs tks st'"
proof -
  have "frame_step at cs fr (tk_engine tk) st \<noteq> FramePanic" using assms(4,5) by auto
  from assms(1-3) this show ?thesis
  proof (cases rule: frame_step_cases)
    case (skip st'')
    then show ?thesis using assms(4,5) by auto
  next
    case (compare st2 fs)
    then have "loop_inv at cs tks (fst (compare_faces at cs fs (st2, False)))"
      using compare_faces_inv[of at cs tks "(st2, False)" fs] by simp
    then show ?thesis using accept_gate_inv[OF _ _ assms(5)] compare(3) assms(4) by metis
  qed
qed

lemma accepted_state:
  assumes "frame_step at cs fr eng st = Accept st'"
  shows "(sc_require_frame_variance (security_of at) \<longrightarrow>
      window_passes (at_platform at) (ls_window st') (sc_frame_variance_max_similarity (security_of at))) \<and>
    (\<not> sc_require_frame_variance (security_of at) \<longrightarrow> f32_ge (ls_best_similarity st') (threshold_of at)) \<and>
    (sc_require_landmark_liveness (security_of at) \<longrightarrow> check_liveness (at_platform at) (ls_tracker st'))"
proof -
  obtain st2 where "accept_gate at st2 = Accept st'"
    using assms by (auto simp: frame_step_def Let_def split: if_splits result.splits list.splits option.splits)
  then show ?thesis by (auto simp: accept_gate_def Let_def split: if_splits)
qed

lemma auth_loop_stop:
  "loop_stops dl nf st tk \<Longrightarrow> auth_loop at dl nf cs st (tk # tks) \<in>
     {timeout_run at tk st, cancelled_run at (tk_stamp tk) (tk_end tk) (ls_frame_count st)}"
  by (auto simp: loop_stops_def)

lemma auth_loop_go:
  "\<not> loop_stops dl nf st tk \<Longrightarrow> auth_loop at dl nf cs st (tk # tks) =
     (case tk_capture tk of
        Err _ \<Rightarrow> auth_loop at dl nf cs st tks
      | Ok fr \<Rightarrow> (case frame_step at cs fr (tk_engine tk) st of
            Continue st' \<Rightarrow> auth_loop at dl nf cs st' tks
          | Accept st' \<Rightarrow> success_run at tk st'
          | FramePanic \<Rightarrow> Panicked))"
  unfolding loop_stops_def auth_loop.simps by (simp only: de_Morgan_disj not_not if_False if_True simp_thms)

lemma stopped_outcome:
  assumes "auth_loop at dl nf cs st (tk # tks) = Finished rp" "rp_outcome rp = AuthResult mr" "loop_stops dl nf st tk"
  shows "\<not> mr_matched mr \<and> mr_model_id mr = None \<and> mr_label mr = None \<and> mr_face_detected mr = ls_face_detected st"
  using auth_loop_stop[OF assms(3), of at cs tks] assms(1,2)
  by (auto simp: timeout_run_def cancelled_run_def error_with_def Let_def split: if_splits)

declare auth_loop.simps(2) [simp del]

lemma auth_loop_accepts:
  assumes "auth_loop at dl nf cs st tks' = Finished rp" "rp_outcome rp = AuthResult mr" "mr_matched mr"
    "loop_inv at cs tks st" "set tks' \<subseteq> set tks"
  shows "\<exists>st' tk fr st0. loop_inv at cs tks st' \<and> tk \<in> set tks \<and> Finished rp = success_run at tk st' \<and>
    frame_step at cs fr (tk_engine tk) st0 = Accept st'"
  using assms
proof (induction tks' arbitrary: st)
  case (Cons tk tks')
  have tk: "tk \<in> set tks" using Cons.prems(5) by simp
  have "\<not> loop_stops dl nf st tk" using stopped_outcome[OF Cons.prems(1,2)] Cons.prems(3) by blast
  note run = Cons.prems(1)[unfolded auth_loop_go[OF this]]
  show ?case
  proof (cases "tk_capture tk")
    case (Err e)
    then show ?thesis using Cons.IH[of st] Cons.prems run by simp
  next
    case (Ok fr)
    note inv = frame_step_inv[OF Cons.prems(4) tk Ok]
    show ?thesis
    proof (cases "frame_step at cs fr (tk_engine tk) st")
      case (Continue st')
      then show ?thesis using Cons.IH[of st'] Cons.prems run Ok inv[OF Continue] by simp
    next
      case (Accept st')
      then have "Finished rp = success_run at tk st'" using run Ok by simp
      then show ?thesis using inv[OF Accept] tk Accept by blast
    next
      case FramePanic
      then show ?thesis using run Ok by simp
    qed
  qed
qed simp

end
