(* ===== verification/AuthSafety.thy ===== *)
theory AuthSafety
  imports AuthLoop
begin

text \<open>
  What an authentication attempt guarantees: a success rests on genuine matches and on the
  liveness evidence the configuration asks for, static input never succeeds, the attempt ends,
  every attempt leaves one audit entry, and the reported presence is real. The samples at the
  end run the loop of \<^verbatim>\<open>auth.rs\<close> on three frames.
\<close>

subsection \<open>Vocabulary of the statements\<close>

text \<open>An embedding that was seen and reaches the threshold against a template the device policy
  admits for this camera.\<close>

definition genuine :: "attempt \<Rightarrow> (u32 \<times> face_embedding) list \<Rightarrow> tick list \<Rightarrow> face_embedding \<Rightarrow> bool" where
  "genuine at stored tks e \<longleftrightarrow> seen at tks e \<and>
     (\<exists>(i, t) \<in> set stored. i \<in> allowed_ids at \<and>
        f32_ge (cosine_similarity (at_platform at) e t) (threshold_of at))"

definition outcome_label :: "auth_outcome \<Rightarrow> string" where
  "outcome_label out = (case out of
      AuthResult mr \<Rightarrow> if mr_matched mr then ''success'' else ''failure''
    | AuthError k m \<Rightarrow> audit_result k
    | Suppressed \<Rightarrow> ''suppressed''
    | Cancelled \<Rightarrow> CANCELLED_MESSAGE)"

definition audited :: "attempt \<Rightarrow> auth_run \<Rightarrow> bool" where
  "audited at run \<longleftrightarrow> (\<forall>rp. run = Finished rp \<longrightarrow>
     rp_outcome rp \<noteq> Suppressed \<and>
     (\<exists>e. rp_audit rp = [e] \<and> ae_user e = at_user at \<and> ae_source e = Some (at_source at) \<and>
          ae_result e = outcome_label (rp_outcome rp)))"

text \<open>Somebody was in front of the camera: a bright frame with at least one face.\<close>

definition somebody_seen :: "attempt \<Rightarrow> tick list \<Rightarrow> bool" where
  "somebody_seen at tks \<longleftrightarrow> (\<exists>tk \<in> set tks. \<exists>fr f fs.
     tk_capture tk = Ok fr \<and> tk_engine tk = Ok (f # fs) \<and> \<not> dark_frame at fr)"

subsection \<open>Samples\<close>

definition sample_frame :: frame where
  "sample_frame = \<lparr>fr_rgb = [128, 128, 128], fr_gray = [128], fr_width = 1, fr_height = 1\<rparr>"

definition sample_detection :: detection where
  "sample_detection = \<lparr>bbox = \<lparr>bb_x = 0, bb_y = 0, bb_width = 0x3F800000, bb_height = 0x3F800000\<rparr>,
     confidence = 0x3F800000, landmarks = []\<rparr>"

definition sample_model :: "u32 \<Rightarrow> face_model_info" where
  "sample_model i = \<lparr>mi_id = i, mi_user = ''alice'', mi_label = ''front'', mi_created_at = 0,
     mi_embedder_model = ''m'', mi_device_id = None, mi_key_id = None\<rparr>"

definition sample_attempt :: attempt where
  "sample_attempt = \<lparr>at_platform = std_platform, at_config = default_config, at_user = ''alice'',
     at_source = SrcDaemon, at_caps = unqueryable default_fingerprint,
     at_models = [sample_model 1, sample_model 2], at_start = 0\<rparr>"

definition sample_obs :: entry_obs where
  "sample_obs = \<lparr>en_start = 0, en_cancelled = False, en_end = 0, en_stamp = None, en_deadline_read = 0\<rparr>"

definition sample_tick :: "nat \<Rightarrow> faces \<Rightarrow> tick" where
  "sample_tick n fs = \<lparr>tk_now = n, tk_cancelled = False, tk_no_face_now = n,
     tk_capture = Ok sample_frame, tk_engine = Ok fs, tk_end = n, tk_stamp = None\<rparr>"

text \<open>Three frames of one user's two templates, the same frame three times and then the deadline, and
  the templates themselves.\<close>

definition sample_ticks :: "tick list" where
  "sample_ticks = [sample_tick 1 [(sample_detection, axis 0)], sample_tick 2 [(sample_detection, axis (Suc 0))],
     sample_tick 3 [(sample_detection, axis 0)]]"

definition static_ticks :: "tick list" where
  "static_ticks = [sample_tick 1 [(sample_detection, axis 0)], sample_tick 2 [(sample_detection, axis 0)],
     sample_tick 3 [(sample_detection, axis 0)], sample_tick 6000000000 []]"

definition sample_stored :: "(u32 \<times> face_embedding) list" where
  "sample_stored = [(1, axis 0), (2, axis (Suc 0))]"

text \<open>An attempt with threshold 0 whose only template belongs to another camera.\<close>

definition lax_config :: config where
  "lax_config = default_config\<lparr>cf_recognition := default_recognition_config\<lparr>rc_threshold := 0\<rparr>,
     cf_security := default_security_config\<lparr>sc_require_ir := False\<rparr>\<rparr>"

definition lax_attempt :: attempt where
  "lax_attempt = sample_attempt\<lparr>at_config := lax_config,
     at_models := [(sample_model 1)\<lparr>mi_device_id := Some ''046d:085e:''\<rparr>]\<rparr>"

subsection \<open>Success\<close>

lemma attempt_start_simps [simp]:
  "seen (at\<lparr>at_start := s\<rparr>) tks e = seen at tks e"
  "landmarks_seen (at\<lparr>at_start := s\<rparr>) tks l = landmarks_seen at tks l"
  "allowed_ids (at\<lparr>at_start := s\<rparr>) = allowed_ids at"
  "compare_set (at\<lparr>at_start := s\<rparr>) stored = compare_set at stored"
  by (simp_all add: seen_def landmarks_seen_def face_texture_def allowed_ids_def compare_set_def)

lemma initial_inv: "loop_inv at cs tks (initial_state at)"
  unfolding loop_inv_def window_ok_def best_ok_def tracker_ok_def
  by (auto simp: initial_state_def Let_def intro!: exI[of _ "[]"])

lemma best_match_genuine:
  assumes "ct_lawful (at_platform at)" "f32_lt 0 (threshold_of at)" "seen at tks e"
    "best_match (at_platform at) e (compare_set at stored) = (s, r)" "f32_ge s (threshold_of at)"
  shows "genuine at stored tks e \<and> (\<forall>i. r = Some i \<longrightarrow> i \<in> allowed_ids at)"
proof -
  have "s \<noteq> 0" "s \<noteq> 0xBF800000" using assms(2,5) by (auto simp: f32_lt_def f32_le_def f32_key_def f32_mag_def f32_neg_def)
  then obtain i x where "(i, x) \<in> set (compare_set at stored)" "s = cosine_similarity (at_platform at) e x"
    "r = (if i = - 1 then None else Some i)"
    using best_match_member[OF assms(1,4)] by auto
  then show ?thesis using assms(3,5) by (auto simp: genuine_def compare_set_def split: if_splits)
qed

lemma best_match_id_allowed:
  assumes "ct_lawful (at_platform at)"
    "best_match (at_platform at) e (compare_set at stored) = (s, Some i)"
  shows "i \<in> allowed_ids at"
  using best_match_member[OF assms] by (auto simp: compare_set_def split: if_splits)

lemma window_ok_genuine:
  assumes "ct_lawful (at_platform at)" "f32_lt 0 (threshold_of at)" "window_ok at (compare_set at stored) tks w"
    "window_passes (at_platform at) w m"
  shows "\<exists>es. length es = max (unat (sc_min_auth_frames (security_of at))) 2 \<and>
    list_all (genuine at stored tks) es \<and>
    list_all (\<lambda>(a, b). f32_le (cosine_similarity (at_platform at) a b) m) (windows2 es)"
proof -
  let ?cap = "max (unat (sc_min_auth_frames (security_of at))) 2"
  obtain es where w: "w = fold window_push es (window_new (sc_min_auth_frames (security_of at)))"
    and es: "\<forall>e \<in> set es. seen at tks e \<and> f32_ge (best_of at (compare_set at stored) e) (threshold_of at)"
    using assms(3) by (auto simp: window_ok_def)
  have "\<forall>e \<in> set es. genuine at stored tks e"
    using es best_match_genuine[OF assms(1,2)] by (metis best_of_def prod.collapse)
  then have "list_all (genuine at stored tks) (take_last ?cap es)"
    using set_take_last[of ?cap es] by (auto simp: list_all_iff)
  then show ?thesis using assms(4) unfolding w window_passes_history
    by (intro exI[of _ "take_last ?cap es"]) (simp add: min_absorb1)
qed

text \<open>The state in which an attempt succeeded.\<close>

lemma success_state:
  assumes "authenticate_with_embeddings at en stored ticks = Finished rp"
    and "rp_outcome rp = AuthResult mr" and "mr_matched mr"
  obtains st where "\<not> en_cancelled en" "cc_ir_texture_scale (at_caps at) \<noteq> UnverifiedY16"
    "loop_inv at (compare_set at stored) ticks st" "mr_model_id mr = ls_best_model_id st"
    "mr_similarity mr = ls_best_similarity st"
    "sc_require_frame_variance (security_of at) \<Longrightarrow>
      window_passes (at_platform at) (ls_window st) (sc_frame_variance_max_similarity (security_of at))"
    "\<not> sc_require_frame_variance (security_of at) \<Longrightarrow> f32_ge (ls_best_similarity st) (threshold_of at)"
    "sc_require_landmark_liveness (security_of at) \<Longrightarrow> check_liveness (at_platform at) (ls_tracker st)"
proof -
  define at' where "at' = at\<lparr>at_start := en_start en\<rparr>"
  note same = attempt_start_simps[where at = at and s = "en_start en", folded at'_def]
  have cfg: "at_config at' = at_config at" "at_platform at' = at_platform at" by (simp_all add: at'_def)
  have run: "auth_loop at' (en_deadline_read en + unat (rc_timeout_secs (cf_recognition (at_config at))) * 1000000000)
      (map_option (\<lambda>s. en_start en + s * 1000000000) (effective_no_face_timeout (cf_recognition (at_config at))))
      (compare_set at stored) (initial_state at') ticks = Finished rp"
    and start: "\<not> en_cancelled en" "cc_ir_texture_scale (at_caps at) \<noteq> UnverifiedY16"
    using assms
    by (auto simp: authenticate_with_embeddings_def Let_def cancelled_run_def error_with_def at'_def split: if_splits)
  obtain st tk fr st0 where inv: "loop_inv at' (compare_set at stored) ticks st"
    and rp: "Finished rp = success_run at' tk st"
    and acc: "frame_step at' (compare_set at stored) fr (tk_engine tk) st0 = Accept st"
    using auth_loop_accepts[OF run assms(2,3) initial_inv subset_refl] by blast
  have "loop_inv at (compare_set at stored) ticks st"
    using inv by (simp add: loop_inv_def window_ok_def tracker_ok_def best_ok_def best_of_def cfg same)
  moreover have "mr_model_id mr = ls_best_model_id st" "mr_similarity mr = ls_best_similarity st"
    using rp assms(2) by (auto simp: success_run_def Let_def)
  ultimately show thesis using that start accepted_state[OF acc, unfolded cfg] by blast
qed

text \<open>Everything a success of an attempt rests on.\<close>

definition success_evidence ::
  "attempt \<Rightarrow> entry_obs \<Rightarrow> (u32 \<times> face_embedding) list \<Rightarrow> tick list \<Rightarrow> match_result \<Rightarrow> bool" where
  "success_evidence at en stored ticks mr \<longleftrightarrow> \<not> en_cancelled en \<and> cc_ir_texture_scale (at_caps at) \<noteq> UnverifiedY16 \<and>
    (\<exists>e. genuine at stored ticks e) \<and>
    (\<forall>i. mr_model_id mr = Some i \<longrightarrow> i \<in> allowed_ids at) \<and>
    (sc_require_frame_variance (security_of at) \<longrightarrow>
      (\<exists>es. length es = max (unat (sc_min_auth_frames (security_of at))) 2 \<and>
         list_all (genuine at stored ticks) es \<and>
         list_all (\<lambda>(a, b). f32_le (cosine_similarity (at_platform at) a b)
             (sc_frame_variance_max_similarity (security_of at))) (windows2 es))) \<and>
    (sc_require_landmark_liveness (security_of at) \<longrightarrow>
      (\<exists>ls. list_all (landmarks_seen at ticks) ls \<and>
         check_liveness (at_platform at) (fold tracker_push ls
           (tracker_new 10 (sc_landmark_displacement_px (security_of at))
             (unat (sc_landmark_min_moving (security_of at)))))))"

lemma success_has_evidence:
  assumes "ct_lawful (at_platform at)" and "f32_lt 0 (threshold_of at)"
    and "authenticate_with_embeddings at en stored ticks = Finished rp"
    and "rp_outcome rp = AuthResult mr" and "mr_matched mr"
  shows "success_evidence at en stored ticks mr"
proof -
  define cs where "cs = compare_set at stored"
  obtain st where start: "\<not> en_cancelled en" "cc_ir_texture_scale (at_caps at) \<noteq> UnverifiedY16"
    and inv: "loop_inv at cs ticks st" and mid: "mr_model_id mr = ls_best_model_id st"
    and gate: "sc_require_frame_variance (security_of at) \<Longrightarrow>
      window_passes (at_platform at) (ls_window st) (sc_frame_variance_max_similarity (security_of at))"
    "\<not> sc_require_frame_variance (security_of at) \<Longrightarrow> f32_ge (ls_best_similarity st) (threshold_of at)"
    "sc_require_landmark_liveness (security_of at) \<Longrightarrow> check_liveness (at_platform at) (ls_tracker st)"
    using success_state[OF assms(3-5)] unfolding cs_def by blast
  have win: "window_ok at cs ticks (ls_window st)" and tr: "tracker_ok at ticks (ls_tracker st)"
    and best: "best_ok at cs ticks (ls_best_similarity st) (ls_best_model_id st)"
    using inv by (simp_all add: loop_inv_def)
  have ids: "\<forall>i. mr_model_id mr = Some i \<longrightarrow> i \<in> allowed_ids at"
    using best best_match_id_allowed[OF assms(1)] by (auto simp: mid best_ok_def cs_def)
  have var: "\<exists>es. length es = max (unat (sc_min_auth_frames (security_of at))) 2 \<and>
         list_all (genuine at stored ticks) es \<and>
         list_all (\<lambda>(a, b). f32_le (cosine_similarity (at_platform at) a b)
             (sc_frame_variance_max_similarity (security_of at))) (windows2 es)"
    if "sc_require_frame_variance (security_of at)"
    using window_ok_genuine[OF assms(1,2) win[unfolded cs_def]] gate that by blast
  have "\<exists>e. genuine at stored ticks e"
  proof (cases "sc_require_frame_variance (security_of at)")
    case True
    then obtain es where "length es = max (unat (sc_min_auth_frames (security_of at))) 2"
      "list_all (genuine at stored ticks) es" using var by blast
    then show ?thesis by (cases es) auto
  next
    case False
    then have ge: "f32_ge (ls_best_similarity st) (threshold_of at)" using gate by blast
    then have "ls_best_similarity st \<noteq> 0" using assms(2) by (auto simp: f32_lt_def f32_le_def)
    then obtain e where "seen at ticks e" "best_match (at_platform at) e cs = (ls_best_similarity st, ls_best_model_id st)"
      using best by (auto simp: best_ok_def)
    then show ?thesis using best_match_genuine[OF assms(1,2)] ge cs_def by blast
  qed
  moreover have "\<exists>ls. list_all (landmarks_seen at ticks) ls \<and>
         check_liveness (at_platform at) (fold tracker_push ls
           (tracker_new 10 (sc_landmark_displacement_px (security_of at))
             (unat (sc_landmark_min_moving (security_of at)))))"
    if "sc_require_landmark_liveness (security_of at)"
    using tr gate that by (auto simp: tracker_ok_def list_all_iff)
  ultimately show ?thesis unfolding success_evidence_def using start ids var by blast
qed

text \<open>C15: an attempt that reports success was not cancelled at entry and not run on a camera with
  an unverified Y16 scale; some face of a bright (and, on IR, textured) frame reached the
  threshold against a template the device policy admits, and the reported model id is admitted;
  with frame variance required, the last full window consists of such faces, pairwise not more
  similar than the limit; with landmark liveness required, the landmarks seen moved.\<close>

theorem success_requires_genuine_match:
  assumes "ct_lawful (at_platform at)" and "f32_lt 0 (threshold_of at)"
    and "authenticate_with_embeddings at en stored ticks = Finished rp"
    and "rp_outcome rp = AuthResult mr" and "mr_matched mr"
  shows "\<not> en_cancelled en \<and> cc_ir_texture_scale (at_caps at) \<noteq> UnverifiedY16 \<and>
    (\<exists>e. genuine at stored ticks e) \<and>
    (\<forall>i. mr_model_id mr = Some i \<longrightarrow> i \<in> allowed_ids at) \<and>
    (sc_require_frame_variance (security_of at) \<longrightarrow>
      (\<exists>es. length es = max (unat (sc_min_auth_frames (security_of at))) 2 \<and>
         list_all (genuine at stored ticks) es \<and>
         list_all (\<lambda>(a, b). f32_le (cosine_similarity (at_platform at) a b)
             (sc_frame_variance_max_similarity (security_of at))) (windows2 es))) \<and>
    (sc_require_landmark_liveness (security_of at) \<longrightarrow>
      (\<exists>ls. list_all (landmarks_seen at ticks) ls \<and>
         check_liveness (at_platform at) (fold tracker_push ls
           (tracker_new 10 (sc_landmark_displacement_px (security_of at))
             (unat (sc_landmark_min_moving (security_of at)))))))"
  by (rule success_has_evidence[OF assms, unfolded success_evidence_def])

text \<open>C16: a static input never succeeds when frame variance is required: if any two faces the loop
  could compare are more similar than the configured limit, every finished attempt is a
  non-match, whatever the templates are.\<close>

theorem static_input_never_authenticates:
  assumes "sc_require_frame_variance (security_of at)"
    and "\<forall>a b. seen at ticks a \<and> seen at ticks b \<longrightarrow>
      f32_gt (cosine_similarity (at_platform at) a b) (sc_frame_variance_max_similarity (security_of at))"
    and "authenticate_with_embeddings at en stored ticks = Finished rp"
    and "rp_outcome rp = AuthResult mr"
  shows "\<not> mr_matched mr"
proof
  let ?cap = "max (unat (sc_min_auth_frames (security_of at))) 2"
  assume "mr_matched mr"
  then obtain st where "loop_inv at (compare_set at stored) ticks st"
    and pass: "window_passes (at_platform at) (ls_window st) (sc_frame_variance_max_similarity (security_of at))"
    using success_state[OF assms(3,4)] assms(1) by metis
  then obtain es where w: "ls_window st = fold window_push es (window_new (sc_min_auth_frames (security_of at)))"
    and es: "\<forall>e \<in> set es. seen at ticks e"
    by (auto simp: loop_inv_def window_ok_def)
  have "2 \<le> length (take_last ?cap es)" using pass unfolding w window_passes_history by simp
  then obtain a b rest where ab: "take_last ?cap es = a # b # rest"
    by (metis Suc_le_length_iff numeral_2_eq_2)
  then have "f32_le (cosine_similarity (at_platform at) a b) (sc_frame_variance_max_similarity (security_of at))"
    using pass unfolding w window_passes_history by simp
  moreover have "a \<in> set es" "b \<in> set es" using ab set_take_last[of ?cap es] by auto
  ultimately show False using assms(2) es by (fastforce simp: f32_le_def f32_lt_def)
qed

lemma auth_loop_stops:
  assumes "dl \<le> tk_now tk \<or> tk_cancelled tk"
  shows "auth_loop at dl nf cs st (pre @ tk # post) = auth_loop at dl nf cs st (pre @ [tk]) \<and>
    auth_loop at dl nf cs st (pre @ [tk]) \<noteq> Running"
proof (induction pre arbitrary: st)
  case Nil
  then show ?case using assms
    by (auto simp: auth_loop.simps timeout_run_def cancelled_run_def Let_def)
next
  case (Cons t pre)
  then show ?case
    by (auto simp: auth_loop.simps timeout_run_def cancelled_run_def success_run_def Let_def
        split: result.splits verdict.splits)
qed

text \<open>C25: the attempt ends. A clock reading at or after the deadline, or a set cancel flag, ends the
  loop in that very iteration, so no later observation is read.\<close>

theorem attempt_ends_on_deadline_or_cancel:
  assumes "en_deadline_read en + unat (rc_timeout_secs (cf_recognition (at_config at))) * 1000000000 \<le> tk_now tk
     \<or> tk_cancelled tk"
  shows "authenticate_with_embeddings at en stored (pre @ tk # post) =
      authenticate_with_embeddings at en stored (pre @ [tk]) \<and>
    authenticate_with_embeddings at en stored (pre @ [tk]) \<noteq> Running"
  using auth_loop_stops[where at = "at\<lparr>at_start := en_start en\<rparr>", OF assms]
  by (auto simp: authenticate_with_embeddings_def Let_def cancelled_run_def)

lemma audited_runs:
  "audited at (timeout_run at tk st)" "audited at (cancelled_run at s n k)" "audited at (success_run at tk st)"
  by (auto simp: audited_def timeout_run_def cancelled_run_def success_run_def Let_def attempt_entry_def
      outcome_label_def error_with_def)

lemma audited_loop: "audited at (auth_loop at dl nf cs st tks)"
proof (induction tks arbitrary: st)
  case Nil
  then show ?case by (simp add: audited_def)
next
  case (Cons tk tks)
  then show ?case
    by (auto simp: auth_loop.simps audited_runs split: result.splits verdict.splits) (simp_all add: audited_def)
qed

text \<open>C26: every finished attempt hands exactly one entry to the audit log, for the attempt's user and
  source, and its result field is the one of the outcome; the loop never reports suppression.\<close>

theorem every_attempt_audited_once:
  assumes "authenticate_with_embeddings at en stored ticks = Finished rp"
  shows "rp_outcome rp \<noteq> Suppressed \<and>
    (\<exists>e. rp_audit rp = [e] \<and> ae_user e = at_user at \<and> ae_source e = Some (at_source at) \<and>
         ae_result e = outcome_label (rp_outcome rp))"
proof -
  have "audited (at\<lparr>at_start := en_start en\<rparr>) (authenticate_with_embeddings at en stored ticks)"
    by (simp add: authenticate_with_embeddings_def Let_def audited_runs audited_loop)
       (simp add: audited_def attempt_entry_def outcome_label_def error_with_def)
  then show ?thesis using assms by (simp add: audited_def)
qed

lemma compare_face_face [simp]:
  "ls_face_detected (fst (compare_face at cs e stf)) = ls_face_detected (fst stf)"
  by (auto simp: compare_face_def Let_def split: prod.splits)

lemma compare_faces_face [simp]:
  "ls_face_detected (fst (compare_faces at cs fs stf)) = ls_face_detected (fst stf)"
  by (induction at cs fs stf rule: compare_faces.induct) auto

lemma accept_gate_face:
  "accept_gate at st = Continue st' \<or> accept_gate at st = Accept st' \<Longrightarrow> ls_face_detected st' = ls_face_detected st"
  by (auto simp: accept_gate_def Let_def split: if_splits)

lemma frame_step_face:
  assumes "frame_step at cs fr eng st = v" "v = Continue st' \<or> v = Accept st'"
  shows "(ls_face_detected st' \<longrightarrow> ls_face_detected st \<or> \<not> dark_frame at fr \<and> (\<exists>f fs. eng = Ok (f # fs))) \<and>
    (v = Accept st' \<longrightarrow> ls_face_detected st')"
proof (cases "\<not> dark_frame at fr \<and> (\<exists>f fs. eng = Ok (f # fs))")
  case True
  then obtain det e fs where eng: "eng = Ok ((det, e) # fs)" by auto
  have "v = Accept st' \<Longrightarrow> ls_face_detected st'"
    using assms True by (auto simp: frame_step_def eng Let_def split: if_splits option.splits dest!: accept_gate_face[OF disjI2])
  then show ?thesis using True by blast
next
  case False
  then show ?thesis using assms
    by (auto simp: frame_step_def Let_def split: result.splits list.splits if_splits)
qed

lemma auth_loop_face:
  assumes "auth_loop at dl nf cs st tks = Finished rp" "rp_outcome rp = AuthResult mr"
    "ls_face_detected st \<longrightarrow> S" "somebody_seen at tks \<longrightarrow> S"
  shows "(mr_face_detected mr \<longrightarrow> S) \<and> (mr_matched mr \<longrightarrow> mr_face_detected mr) \<and>
    (\<not> mr_matched mr \<longrightarrow> mr_model_id mr = None \<and> mr_label mr = None)"
  using assms
proof (induction tks arbitrary: st)
  case (Cons tk tks)
  have sub: "somebody_seen at tks \<longrightarrow> S" using Cons.prems(4) by (auto simp: somebody_seen_def)
  show ?case
  proof (cases "loop_stops dl nf st tk")
    case True
    then show ?thesis using stopped_outcome[OF Cons.prems(1,2)] Cons.prems(3) by simp
  next
    case go: False
    note run = Cons.prems(1)[unfolded auth_loop_go[OF go]]
    show ?thesis
    proof (cases "tk_capture tk")
      case (Err e)
      then show ?thesis using Cons.IH[of st] Cons.prems(2,3) run sub by simp
    next
      case (Ok fr)
      have face: "ls_face_detected st' \<longrightarrow> S" "v = Accept st' \<longrightarrow> ls_face_detected st'"
        if "frame_step at cs fr (tk_engine tk) st = v" "v = Continue st' \<or> v = Accept st'" for v st'
        using frame_step_face[OF that] Cons.prems(3,4) Ok by (auto simp: somebody_seen_def)
      show ?thesis
      proof (cases "frame_step at cs fr (tk_engine tk) st")
        case (Continue st')
        then show ?thesis using Cons.IH[of st'] Cons.prems(2) run sub Ok face[OF Continue] by simp
      next
        case (Accept st')
        then show ?thesis using Cons.prems(2) run Ok face[OF Accept] by (auto simp: success_run_def Let_def)
      next
        case FramePanic
        then show ?thesis using run Ok by simp
      qed
    qed
  qed
qed simp

text \<open>A result claims a face only when a bright frame contained one, a match always claims one,
  and a non-match names neither model nor label.\<close>

theorem result_reports_presence:
  assumes "authenticate_with_embeddings at en stored ticks = Finished rp" and "rp_outcome rp = AuthResult mr"
  shows "(mr_face_detected mr \<longrightarrow> somebody_seen at ticks) \<and> (mr_matched mr \<longrightarrow> mr_face_detected mr) \<and>
    (\<not> mr_matched mr \<longrightarrow> mr_model_id mr = None \<and> mr_label mr = None)"
proof -
  let ?at = "at\<lparr>at_start := en_start en\<rparr>"
  have "somebody_seen ?at ticks = somebody_seen at ticks" by (simp add: somebody_seen_def)
  moreover have "\<not> ls_face_detected (initial_state ?at)" by (simp add: initial_state_def Let_def)
  ultimately show ?thesis using assms auth_loop_face[of ?at _ _ _ "initial_state ?at" ticks rp mr "somebody_seen at ticks"]
    by (auto simp: authenticate_with_embeddings_def Let_def cancelled_run_def error_with_def split: if_splits)
qed

subsection \<open>Evaluation of the samples\<close>

lemma lit_80: "f32_lit 80 100 = 0x3F4CCCCD" by (simp add: f32_lit_def f32_eval)
lemma lit_6: "f32_lit 6 10 = 0x3F19999A" by (simp add: f32_lit_def f32_eval)
lemma lit_20: "f32_lit 20 (Suc 0) = 0x41A00000"
proof -
  have "f32_lit 20 1 = 0x41A00000" by (simp add: f32_lit_def f32_eval)
  then show ?thesis by simp
qed
lemma lit_985: "f32_lit 985 1000 = 0x3F7C28F6" by (simp add: f32_lit_def f32_eval)
lemmas f32_lits = lit_80 lit_6 lit_20 lit_985

lemma f32_pixels:
  "f32_of_nat 0 = 0" "f32_of_nat (Suc 0) = 0x3F800000" "f32_of_nat 128 = 0x43000000"
  "f32_div q 0 0x3F800000 = 0" "f32_div q 0x43000000 0x3F800000 = 0x43000000"
proof -
  have "f32_of_nat 1 = 0x3F800000" by (simp add: f32_of_nat_def f32_eval)
  then show "f32_of_nat (Suc 0) = 0x3F800000" by simp
qed (simp_all add: f32_of_nat_def f32_div_def f32_eval)

lemma sample_bright: "\<not> is_dark_with_config std_platform sample_frame 0x3F19999A 10"
  apply (simp add: is_dark_with_config_def sample_frame_def f32_lits f32_pixels)
  apply (simp add: f32_le_def f32_lt_def f32_key_def f32_mag_def f32_neg_def is_nan_def)
  done

lemma cosine_axis_1:
  "cosine_similarity pl (axis (Suc 0)) (axis (Suc 0)) = 0x3F800000"
  "cosine_similarity pl (axis (Suc 0)) (axis 0) = 0"
proof -
  have a: "axis 0 = [0x3F800000, 0] @ replicate 510 0" "axis (Suc 0) = [0, 0x3F800000] @ replicate 510 0"
    by (simp_all add: axis_def numeral_2_eq_2)
  have c: "cosine_similarity pl [0, 0x3F800000] [0, 0x3F800000] = 0x3F800000"
     "cosine_similarity pl [0, 0x3F800000] [0x3F800000, 0] = 0"
    by (simp_all add: cosine_similarity_def f32_sum_def f32_eval)
  show "cosine_similarity pl (axis (Suc 0)) (axis (Suc 0)) = 0x3F800000"
    unfolding a by (subst cosine_zero_tail) (simp_all add: c, simp add: f32_eval)
  show "cosine_similarity pl (axis (Suc 0)) (axis 0) = 0"
    unfolding a by (subst cosine_zero_tail) (simp_all add: c)
qed

lemma best_axis:
  "best_match std_platform (axis 0) [(1, axis 0), (2, axis (Suc 0))] = (0x3F800000, Some 1)"
  "best_match std_platform (axis (Suc 0)) [(1, axis 0), (2, axis (Suc 0))] = (0x3F800000, Some 2)"
  by (simp_all add: best_match_def best_match_step_eq[OF std_platform_lawful] cosine_axis cosine_axis_1 Let_def
      ordered_less_iff f32_eval)


lemma axis_pair_numbers [simp]:
  "\<not> f32_gt 0x3F800000 0x3F800000" "f32_gt 0x3F800000 0" "f32_gt 0x3F800000 0x3F7C28F6"
  "f32_le 0 0x3F7C28F6" "\<not> f32_le 0x3F800000 0x3F7C28F6" "f32_le 0x3F4CCCCD 0x3F800000" "f32_lt 0 0x3F4CCCCD"
  by (simp_all add: f32_eval)

lemma plain_frame_step:
  assumes "\<not> dark_frame at fr" "\<not> cc_is_ir (at_caps at)" "sn_mode (cf_snapshots (at_config at)) = SnapOff"
  shows "frame_step at cs fr (Ok [(det, e)]) st = accept_gate at (fst (compare_face at cs e
      (st\<lparr>ls_frame_count := ls_frame_count st + 1, ls_face_detected := True,
          ls_tracker := tracker_push (landmarks det) (ls_tracker st)\<rparr>, False)))"
  using assms by (simp add: frame_step_def Let_def)

lemma matching_compare:
  assumes "best_match (at_platform at) e cs = (s, r)" "f32_ge s (threshold_of at)"
  shows "fst (compare_face at cs e (st, False)) =
    (let st1 = (if f32_gt s (ls_best_similarity st) then st\<lparr>ls_best_similarity := s, ls_best_model_id := r\<rparr> else st)
     in st1\<lparr>ls_window := window_push e (ls_window st1), ls_matched_total := ls_matched_total st1 + 1\<rparr>)"
  using assms by (simp add: compare_face_def Let_def)

lemma variance_gate:
  assumes "sc_require_frame_variance (security_of at)" "\<not> sc_require_landmark_liveness (security_of at)"
  shows "accept_gate at st =
    (if window_passes (at_platform at) (ls_window st) (sc_frame_variance_max_similarity (security_of at))
     then Accept (st\<lparr>ls_variance_passed := True\<rparr>) else Continue st)"
  using assms by (simp add: accept_gate_def Let_def)

lemma sample_window:
  "\<not> window_passes std_platform (window_push (axis 0) (window_new 3)) m"
  "\<not> window_passes std_platform (window_push e (window_push (axis 0) (window_new 3))) m"
  "window_passes std_platform
     (window_push (axis 0) (window_push (axis (Suc 0)) (window_push (axis 0) (window_new 3)))) 0x3F7C28F6"
  "\<not> window_passes std_platform
     (window_push (axis 0) (window_push (axis 0) (window_push (axis 0) (window_new 3)))) 0x3F7C28F6"
  using window_passes_history[of std_platform "[axis 0]" 3 m]
    window_passes_history[of std_platform "[axis 0, e]" 3 m]
    window_passes_history[of std_platform "[axis 0, axis (Suc 0), axis 0]" 3 "0x3F7C28F6"]
    window_passes_history[of std_platform "[axis 0, axis 0, axis 0]" 3 "0x3F7C28F6"]
  by (simp_all add: take_last_short cosine_axis cosine_axis_1)

lemma sample_settings:
  "rc_timeout_secs (cf_recognition (at_config sample_attempt)) = 5"
  "effective_no_face_timeout (cf_recognition (at_config sample_attempt)) = Some 2"
  "cc_ir_texture_scale (at_caps sample_attempt) = NotY16" "\<not> cc_is_ir (at_caps sample_attempt)"
  "sn_mode (cf_snapshots (at_config sample_attempt)) = SnapOff" "at_platform sample_attempt = std_platform"
  "sc_require_frame_variance (security_of sample_attempt)"
  "\<not> sc_require_landmark_liveness (security_of sample_attempt)"
  "sc_frame_variance_max_similarity (security_of sample_attempt) = 0x3F7C28F6"
  "threshold_of sample_attempt = 0x3F4CCCCD" "sc_min_auth_frames (security_of sample_attempt) = 3"
  "compare_set sample_attempt sample_stored = sample_stored"
  "dc_dark_threshold (cf_device (at_config sample_attempt)) = 0x3F19999A"
  "dc_dark_pixel_value (cf_device (at_config sample_attempt)) = 10"
  by (simp_all add: sample_attempt_def default_config_def default_recognition_config_def default_security_config_def
      default_snapshot_config_def default_device_config_def effective_no_face_timeout_def min_def f32_lits
      unqueryable_def DEFAULT_FRAME_VARIANCE_MAX_SIMILARITY_def sample_stored_def compare_set_def allowed_ids_def
      device_allowed_model_ids_def sample_model_def device_binding_allows_def device_binding_policy_of_def)

lemma lax_settings:
  "rc_timeout_secs (cf_recognition (at_config lax_attempt)) = 5"
  "effective_no_face_timeout (cf_recognition (at_config lax_attempt)) = Some 2"
  "cc_ir_texture_scale (at_caps lax_attempt) = NotY16" "\<not> cc_is_ir (at_caps lax_attempt)"
  "sn_mode (cf_snapshots (at_config lax_attempt)) = SnapOff" "at_platform lax_attempt = std_platform"
  "sc_require_frame_variance (security_of lax_attempt)"
  "\<not> sc_require_landmark_liveness (security_of lax_attempt)"
  "sc_frame_variance_max_similarity (security_of lax_attempt) = 0x3F7C28F6"
  "threshold_of lax_attempt = 0" "sc_min_auth_frames (security_of lax_attempt) = 3"
  "compare_set lax_attempt [(1, axis 0)] = []"
  "dc_dark_threshold (cf_device (at_config lax_attempt)) = 0x3F19999A"
  "dc_dark_pixel_value (cf_device (at_config lax_attempt)) = 10"
  by (simp_all add: lax_attempt_def lax_config_def sample_attempt_def default_config_def default_recognition_config_def
      default_security_config_def default_snapshot_config_def default_device_config_def
      effective_no_face_timeout_def min_def f32_lits unqueryable_def DEFAULT_FRAME_VARIANCE_MAX_SIMILARITY_def
      compare_set_def allowed_ids_def device_allowed_model_ids_def sample_model_def device_binding_allows_def
      device_binding_policy_of_def device_ids_match_def eq_ignore_ascii_case_def default_fingerprint_def Let_def)

lemmas run_simps = authenticate_with_embeddings_def sample_obs_def sample_tick_def auth_loop.simps
  initial_state_def plain_frame_step matching_compare variance_gate sample_window sample_bright Let_def

lemma sample_run:
  "\<exists>rp mr. authenticate_with_embeddings sample_attempt sample_obs sample_stored sample_ticks = Finished rp \<and>
     rp_outcome rp = AuthResult mr \<and> mr_matched mr \<and> mr_model_id mr = Some 1"
  by (simp add: run_simps sample_settings sample_ticks_def best_axis[folded sample_stored_def])
    (simp add: success_run_def Let_def)

lemma static_run:
  "\<exists>rp mr. authenticate_with_embeddings sample_attempt sample_obs sample_stored static_ticks = Finished rp \<and>
     rp_outcome rp = AuthResult mr \<and> \<not> mr_matched mr \<and> mr_face_detected mr"
  by (simp add: run_simps sample_settings static_ticks_def best_axis[folded sample_stored_def])
    (simp add: timeout_run_def Let_def)

lemma lax_run:
  "\<exists>rp mr. authenticate_with_embeddings lax_attempt sample_obs [(1, axis 0)] sample_ticks = Finished rp \<and>
     rp_outcome rp = AuthResult mr \<and> mr_matched mr \<and> mr_model_id mr = None"
proof -
  have [simp]: "best_match std_platform e [] = (0, None)" for e by (simp add: best_match_def Let_def)
  have [simp]: "\<not> f32_lt 0 0" "f32_le 0 0" by (simp_all add: f32_eval)
  show ?thesis
    by (simp add: run_simps lax_settings sample_ticks_def) (simp add: success_run_def Let_def)
qed

subsection \<open>The statements at the samples\<close>

theorem success_requires_genuine_match_witness:
  "\<exists>rp mr. authenticate_with_embeddings sample_attempt sample_obs sample_stored sample_ticks = Finished rp \<and>
     rp_outcome rp = AuthResult mr \<and> mr_matched mr \<and> (\<exists>e. genuine sample_attempt sample_stored sample_ticks e)"
proof -
  have "ct_lawful (at_platform sample_attempt)" "f32_lt 0 (threshold_of sample_attempt)"
    by (simp_all add: sample_settings std_platform_lawful)
  then show ?thesis using sample_run success_requires_genuine_match by metis
qed

lemma static_seen: "seen sample_attempt static_ticks e \<Longrightarrow> e = axis 0"
  by (auto simp: seen_def static_ticks_def sample_tick_def)

theorem static_input_never_authenticates_witness:
  "\<exists>rp mr. authenticate_with_embeddings sample_attempt sample_obs sample_stored static_ticks = Finished rp \<and>
     rp_outcome rp = AuthResult mr \<and> \<not> mr_matched mr"
proof -
  have "\<forall>a b. seen sample_attempt static_ticks a \<and> seen sample_attempt static_ticks b \<longrightarrow>
      f32_gt (cosine_similarity (at_platform sample_attempt) a b)
        (sc_frame_variance_max_similarity (security_of sample_attempt))"
    by (auto dest!: static_seen simp: cosine_axis sample_settings)
  then show ?thesis
    using static_run static_input_never_authenticates[OF sample_settings(7)] by metis
qed

theorem attempt_ends_on_deadline_or_cancel_witness:
  "authenticate_with_embeddings sample_attempt sample_obs sample_stored
     ([sample_tick 1 []] @ (sample_tick 2 [])\<lparr>tk_cancelled := True\<rparr> # [sample_tick 3 []]) \<noteq> Running"
  using attempt_ends_on_deadline_or_cancel[of sample_obs sample_attempt "(sample_tick 2 [])\<lparr>tk_cancelled := True\<rparr>"
      sample_stored "[sample_tick 1 []]" "[sample_tick 3 []]"]
  by simp

theorem every_attempt_audited_once_witness:
  "\<exists>rp e. authenticate_with_embeddings sample_attempt sample_obs sample_stored sample_ticks = Finished rp \<and>
     rp_audit rp = [e] \<and> ae_user e = ''alice'' \<and> ae_result e = ''success''"
proof -
  obtain rp mr where run: "authenticate_with_embeddings sample_attempt sample_obs sample_stored sample_ticks = Finished rp"
    and out: "rp_outcome rp = AuthResult mr" "mr_matched mr" using sample_run by blast
  have "at_user sample_attempt = ''alice''" by (simp add: sample_attempt_def)
  then show ?thesis using run every_attempt_audited_once[OF run] out by (auto simp: outcome_label_def)
qed

theorem result_reports_presence_witness:
  "\<exists>rp mr. authenticate_with_embeddings sample_attempt sample_obs sample_stored sample_ticks = Finished rp \<and>
     rp_outcome rp = AuthResult mr \<and> mr_face_detected mr \<and> somebody_seen sample_attempt sample_ticks"
  using sample_run result_reports_presence by metis


end
