(* ===== verification/Handler.thy ===== *)
theory Handler
  imports Lease AuthSafety
begin

text \<open>
  The request handler of \<^verbatim>\<open>facelock-daemon/src/handler.rs\<close>: the intents of an authentication, the
  request and response vocabulary, the handler's state, and every request it serves. A request is
  served against one record of observations: the gates' environment, the key material, the camera,
  the frames and what the engine sees in them, statement faults and clocks.
\<close>

subsection \<open>Vocabulary\<close>

datatype auth_intent = IntentAuthenticate | IntentTest

definition charges_rate_limit :: "auth_intent \<Rightarrow> bool" where
  "charges_rate_limit i = (i = IntentAuthenticate)"

definition intent_context :: "auth_intent \<Rightarrow> pre_check_context" where
  "intent_context i = (case i of IntentAuthenticate \<Rightarrow> ctx_enforced | IntentTest \<Rightarrow> ctx_test)"

definition intent_source :: "auth_intent \<Rightarrow> audit_source" where
  "intent_source i = (case i of IntentAuthenticate \<Rightarrow> SrcDaemon | IntentTest \<Rightarrow> SrcTest)"

datatype daemon_request =
    ReqAuthenticate string
  | ReqEnroll string string
  | ReqListModels string
  | ReqRemoveModel string u32
  | ReqClearModels string
  | ReqPreviewFrame
  | ReqPreviewDetectFrame string
  | ReqListDevices
  | ReqReleaseCamera
  | ReqPing
  | ReqShutdown

record preview_face =
  pf_x :: f32
  pf_y :: f32
  pf_width :: f32
  pf_height :: f32
  pf_confidence :: f32
  pf_similarity :: f32
  pf_recognized :: bool

record format_info =
  fi_fourcc :: string
  fi_description :: string
  fi_sizes :: "(u32 \<times> u32) list"

record ipc_device_info =
  id_path :: string
  id_name :: string
  id_driver :: string
  id_is_ir :: bool
  id_formats :: "format_info list"
  id_modalias :: "string option"
  id_node_name :: "string option"

datatype daemon_response =
    DAuth match_result
  | DEnrolled u32 u32
  | DModels "face_model_info list"
  | DRemoved
  | DFrame bytes
  | DDetectFrame bytes "preview_face list"
  | DDevices "ipc_device_info list"
  | DOk
  | DSuppressed
  | DError string

definition response_of_auth :: "auth_outcome \<Rightarrow> daemon_response" where
  "response_of_auth out =
     (case out of
        AuthResult r \<Rightarrow> DAuth r
      | Suppressed \<Rightarrow> DSuppressed
      | AuthError _ message \<Rightarrow> DError message
      | Cancelled \<Rightarrow> DError CANCELLED_MESSAGE)"

definition response_of_enroll :: "enroll_outcome \<Rightarrow> daemon_response" where
  "response_of_enroll out =
     (case out of
        Enrolled mid n \<Rightarrow> DEnrolled mid n
      | EnrollError message \<Rightarrow> DError message
      | EnrollCancelled \<Rightarrow> DError CANCELLED_MESSAGE)"

subsection \<open>State and observations\<close>

record handler =
  hd_config :: config
  hd_store :: db
  hd_rate_limiter :: rate_limiter
  hd_device_caps :: camera_caps
  hd_shutdown_requested :: bool
  hd_lease :: lease
  hd_tpm_sealer :: "tpm option"
  hd_keys :: sealing_keys
  hd_preview :: "(string \<times> (u32 \<times> face_embedding) list) option"

text \<open>\<open>ro_now\<close> is the clock when the camera is handed back.\<close>

record request_obs =
  ro_gate :: gate_env
  ro_keys :: key_world
  ro_list_fault :: "sql_error option"
  ro_load_fault :: "sql_error option"
  ro_write_fault :: "sql_error option"
  ro_started :: nat
  ro_acquire :: acquire_obs
  ro_cancel_stamp :: "u64 option"
  ro_cancel_end :: nat
  ro_entry :: entry_obs
  ro_ticks :: "tick list"
  ro_now :: nat
  ro_charge_faults :: faults
  ro_charge_clock :: clock_reads
  ro_enroll :: enroll_obs
  ro_capture :: "(frame, string) result"
  ro_engine :: "(faces, string) result"
  ro_jpeg :: "(bytes, string) result"
  ro_devices :: "(ipc_device_info list, string) result"

text \<open>A request is served with a response, the new state and the audit entries handed to the writer;
  it waits for more observations; or it panics, leaving the state it had reached.\<close>

datatype handler_run =
    Served daemon_response handler "audit_entry list"
  | StillServing
  | HandlerPanicked handler

definition handler_new ::
  "key_world \<Rightarrow> config \<Rightarrow> db \<Rightarrow> rate_limiter \<Rightarrow> camera_caps \<Rightarrow> bool \<Rightarrow> u32 option \<Rightarrow> (handler, string) result option" where
  "handler_new w cfg d rl caps factory warmup =
     map_option
       (\<lambda>r. and_then r (\<lambda>keys. Ok
          \<lparr>hd_config = cfg, hd_store = d, hd_rate_limiter = rl, hd_device_caps = caps, hd_shutdown_requested = False,
           hd_lease = lease_new factory warmup,
           hd_tpm_sealer = (if tc_seal_database (cf_tpm cfg) \<and> is_ok (kw_tpm_new w) then Some (kw_tpm w) else None),
           hd_keys = keys, hd_preview = None\<rparr>))
       (keys_load w cfg d)"

definition refresh_software_sealer :: "key_world \<Rightarrow> handler \<Rightarrow> handler option" where
  "refresh_software_sealer w h =
     (if sk_primary_error (hd_keys h) = None \<or> ec_method (cf_encryption (hd_config h)) \<noteq> EncKeyfile then Some h
      else map_option
        (\<lambda>keys. if sk_primary_error keys = None then h\<lparr>hd_keys := keys, hd_preview := None\<rparr> else h\<lparr>hd_keys := keys\<rparr>)
        (refresh_primary w (hd_config h) (hd_store h) (hd_keys h)))"

definition expire_camera :: "nat \<Rightarrow> handler \<Rightarrow> handler" where
  "expire_camera now h =
     (let h1 = h\<lparr>hd_lease := lease_expire now (hd_lease h)\<rparr> in
      if holds_camera (hd_lease h1) then h1 else h1\<lparr>hd_preview := None\<rparr>)"

definition storage_error :: "store_error \<Rightarrow> daemon_response" where
  "storage_error e = DError (''storage error: '' @ store_error_display e)"

definition load_user_embeddings ::
  "request_obs \<Rightarrow> string \<Rightarrow> handler \<Rightarrow> ((u32 \<times> face_embedding) list, daemon_response) result" where
  "load_user_embeddings ob user h =
     (let cfg = hd_config h; keys = hd_keys h; w = ro_keys ob in
      if \<not> needs_raw_rows cfg (any_loaded keys) (sk_primary_error keys \<noteq> None)
      then map_err storage_error (get_user_embeddings (ro_load_fault ob) user (hd_store h))
      else and_then (map_err storage_error (get_user_embeddings_raw_with_device (ro_load_fault ob) user (hd_store h)))
        (\<lambda>rows. map_err
           (\<lambda>message. DError (case sk_primary_error keys of
                Some reason \<Rightarrow> message @ '' '' @ em_dash @ '' '' @ reason
              | None \<Rightarrow> message))
           (fst (decrypt_user_embeddings (kw_crypto w) (kw_tpm_feature w) cfg keys (Held (hd_tpm_sealer h)) rows))))"

subsection \<open>Authentication\<close>

definition preflight_authenticate_with_context ::
  "request_obs \<Rightarrow> string \<Rightarrow> auth_intent \<Rightarrow> pre_check_context \<Rightarrow> handler \<Rightarrow>
   daemon_response option \<times> handler \<times> audit_entry list" where
  "preflight_authenticate_with_context ob user intent ctx h =
     (case pre_check_audited_with_context (hd_config h) (ro_gate ob) user (hd_rate_limiter h) (hd_device_caps h)
             (intent_source intent) ctx (hd_store h) of
        (r, d, log) \<Rightarrow> (map_option response_of_auth r, h\<lparr>hd_store := d\<rparr>, log))"

definition preflight_authenticate ::
  "request_obs \<Rightarrow> string \<Rightarrow> auth_intent \<Rightarrow> handler \<Rightarrow> daemon_response option \<times> handler \<times> audit_entry list" where
  "preflight_authenticate ob user intent h =
     preflight_authenticate_with_context ob user intent (intent_context intent) h"

definition attempt_for ::
  "platform \<Rightarrow> string \<Rightarrow> auth_intent \<Rightarrow> camera_caps \<Rightarrow> face_model_info list \<Rightarrow> nat \<Rightarrow> handler \<Rightarrow> attempt" where
  "attempt_for pl user intent caps models start h =
     \<lparr>at_platform = pl, at_config = hd_config h, at_user = user, at_source = intent_source intent,
      at_caps = caps, at_models = models, at_start = start\<rparr>"

text \<open>A wrong face: somebody was seen and not recognized.\<close>

definition wrong_face :: "auth_outcome \<Rightarrow> bool" where
  "wrong_face out = (case out of AuthResult mr \<Rightarrow> \<not> mr_matched mr \<and> mr_face_detected mr | _ \<Rightarrow> False)"

text \<open>After the loop: the camera is handed back, and a wrong face is charged when the intent charges. A
  failed charge is only logged.\<close>

definition settle_attempt ::
  "request_obs \<Rightarrow> string \<Rightarrow> auth_intent \<Rightarrow> auth_outcome \<Rightarrow> lease \<Rightarrow> handler \<Rightarrow> handler" where
  "settle_attempt ob user intent out l h =
     (let h1 = h\<lparr>hd_lease := lease_finish (end_of_auth out) (hd_config h) (ro_now ob) l\<rparr> in
      if wrong_face out \<and> charges_rate_limit intent
      then h1\<lparr>hd_store := snd (rl_record_failure (ro_charge_faults ob) (ro_charge_clock ob)
                (hd_rate_limiter h1) user (hd_store h1))\<rparr>
      else h1)"

definition handle_authenticate_prechecked ::
  "platform \<Rightarrow> request_obs \<Rightarrow> string \<Rightarrow> auth_intent \<Rightarrow> handler \<Rightarrow> handler_run" where
  "handle_authenticate_prechecked pl ob user intent h0 =
     (case refresh_software_sealer (ro_keys ob) h0 of
        None \<Rightarrow> StillServing
      | Some h \<Rightarrow>
          (case list_models (ro_list_fault ob) user (hd_store h) of
             Err e \<Rightarrow> Served (storage_error e) h []
           | Ok models \<Rightarrow>
               (case load_user_embeddings ob user h of
                  Err resp \<Rightarrow> Served resp h []
                | Ok stored \<Rightarrow>
                    (case acquire_for ForAuthentication (hd_config h) (ro_acquire ob) (hd_lease h) of
                       (Err message, l) \<Rightarrow>
                         if message = CANCELLED_MESSAGE
                         then Served (response_of_auth Cancelled) (h\<lparr>hd_lease := l\<rparr>)
                                [attempt_entry (attempt_for pl user intent (hd_device_caps h) models (ro_started ob) h)
                                   (ro_cancel_stamp ob) (ro_cancel_end ob) CANCELLED_MESSAGE None 0 None None]
                         else Served (DError message) (h\<lparr>hd_lease := l\<rparr>) []
                     | (Ok cam, l) \<Rightarrow>
                         (case authenticate_with_embeddings
                                 (attempt_for pl user intent (cm_caps cam) models (ro_started ob) h)
                                 (ro_entry ob) stored (ro_ticks ob) of
                            Running \<Rightarrow> StillServing
                          | Panicked \<Rightarrow> HandlerPanicked (h\<lparr>hd_lease := l\<rparr>)
                          | Finished rp \<Rightarrow>
                              Served (response_of_auth (rp_outcome rp))
                                (settle_attempt ob user intent (rp_outcome rp) l h) (rp_audit rp))))))"

definition handle_authenticate ::
  "platform \<Rightarrow> request_obs \<Rightarrow> string \<Rightarrow> auth_intent \<Rightarrow> handler \<Rightarrow> handler_run" where
  "handle_authenticate pl ob user intent h =
     (case preflight_authenticate ob user intent h of
        (Some response, h1, log) \<Rightarrow> Served response h1 log
      | (None, h1, _) \<Rightarrow> handle_authenticate_prechecked pl ob user intent h1)"

subsection \<open>Enrollment\<close>

definition enroll_refusal :: "string \<Rightarrow> string" where
  "enroll_refusal cause =
     ''refusing to enroll: '' @ sentence cause @
     '' Storing your face would otherwise fall back to plaintext. Fix the keyfile path/permissions (or set '' @
     ''encryption.method = '' @ CHR 0x22 # ''none'' @ CHR 0x22 # '' with security.allow_plaintext = true to '' @
     ''intentionally store plaintext).''"

definition handle_enroll :: "platform \<Rightarrow> request_obs \<Rightarrow> string \<Rightarrow> string \<Rightarrow> handler \<Rightarrow> handler_run" where
  "handle_enroll pl ob user label h0 =
     (let cfg = hd_config h0 in
      case ensure_enroll_encryption_allowed cfg of
        Err message \<Rightarrow> Served (DError message) h0 []
      | Ok _ \<Rightarrow>
          (case refresh_software_sealer (ro_keys ob) h0 of
             None \<Rightarrow> StillServing
           | Some h \<Rightarrow>
               if ec_method (cf_encryption cfg) \<noteq> EncNone \<and> sk_primary (hd_keys h) = None
               then Served (DError (enroll_refusal
                      (case sk_primary_error (hd_keys h) of
                         Some cause \<Rightarrow> cause
                       | None \<Rightarrow> ''the configured encryption sealer could not be initialized''))) h []
               else
                 (case acquire_for ForCapture cfg (ro_acquire ob) (hd_lease h) of
                    (Err message, l) \<Rightarrow> Served (DError message) (h\<lparr>hd_lease := l\<rparr>) []
                  | (Ok cam, l) \<Rightarrow>
                      let fp = cc_fingerprint (cm_caps cam) in
                      (case ensure_enrollment_binding_allowed cfg fp of
                         Err e \<Rightarrow> Served (DError (binding_error_display e))
                                    (h\<lparr>hd_lease := lease_finish EndError cfg (ro_now ob) l\<rparr>) []
                       | Ok _ \<Rightarrow>
                           (case enroll (kw_crypto (ro_keys ob))
                                   \<lparr>ea_config = cfg, ea_platform = pl, ea_user = user, ea_label = label,
                                    ea_sealer = sk_primary (hd_keys h), ea_device_id = canonical_for_storage fp,
                                    ea_key_id = primary_key_id (kw_crypto (ro_keys ob)) (hd_keys h)\<rparr>
                                   (ro_enroll ob) (hd_store h) of
                              EnrollRunning \<Rightarrow> StillServing
                            | EnrollPanicked \<Rightarrow> HandlerPanicked (h\<lparr>hd_lease := l\<rparr>)
                            | EnrollDone out d \<Rightarrow>
                                Served (response_of_enroll out)
                                  (h\<lparr>hd_lease := lease_finish (end_of_enroll out) cfg (ro_now ob) l,
                                     hd_store := d, hd_preview := None\<rparr>) [])))))"

subsection \<open>Preview\<close>

definition preview_set :: "request_obs \<Rightarrow> string \<Rightarrow> handler \<Rightarrow> handler" where
  "preview_set ob user h =
     (if (case hd_preview h of Some (u, _) \<Rightarrow> u = user | None \<Rightarrow> False) then h
      else h\<lparr>hd_preview := (case load_user_embeddings ob user h of Ok es \<Rightarrow> Some (user, es) | Err _ \<Rightarrow> None)\<rparr>)"

definition preview_face_of ::
  "platform \<Rightarrow> f32 \<Rightarrow> (u32 \<times> face_embedding) list \<Rightarrow> detection \<times> face_embedding \<Rightarrow> preview_face" where
  "preview_face_of pl threshold stored de =
     (case de of (det, e) \<Rightarrow>
      let sim = fst (best_match pl e stored); b = bbox det in
      \<lparr>pf_x = bb_x b, pf_y = bb_y b, pf_width = bb_width b, pf_height = bb_height b,
       pf_confidence = confidence det, pf_similarity = sim, pf_recognized = f32_ge sim threshold\<rparr>)"

definition detect_and_match :: "platform \<Rightarrow> request_obs \<Rightarrow> string \<Rightarrow> handler \<Rightarrow> preview_face list \<times> handler" where
  "detect_and_match pl ob user h =
     (case ro_engine ob of
        Err _ \<Rightarrow> ([], h)
      | Ok detections \<Rightarrow>
          let h1 = preview_set ob user h;
              stored = (case hd_preview h1 of Some (_, es) \<Rightarrow> es | None \<Rightarrow> [])
          in (map (preview_face_of pl (rc_threshold (cf_recognition (hd_config h))) stored) detections, h1))"

definition jpeg_response :: "request_obs \<Rightarrow> (bytes \<Rightarrow> daemon_response) \<Rightarrow> daemon_response" where
  "jpeg_response ob answer =
     (case ro_jpeg ob of Ok data \<Rightarrow> answer data | Err e \<Rightarrow> DError (''JPEG encode error: '' @ e))"

text \<open>Both preview requests acquire the camera, capture one frame and either extend the hold or close.\<close>

definition preview_capture :: "request_obs \<Rightarrow> handler \<Rightarrow> (frame, daemon_response) result \<times> handler" where
  "preview_capture ob h =
     (let cfg = hd_config h in
      case acquire_for ForCapture cfg (ro_acquire ob) (hd_lease h) of
        (Err message, l) \<Rightarrow> (Err (DError message), h\<lparr>hd_lease := l\<rparr>)
      | (Ok _, l) \<Rightarrow>
          (case ro_capture ob of
             Ok fr \<Rightarrow> (Ok fr, h\<lparr>hd_lease := touch_preview cfg (ro_now ob) l\<rparr>)
           | Err e \<Rightarrow> (Err (DError (''capture error: '' @ e)), h\<lparr>hd_lease := lease_finish EndError cfg (ro_now ob) l\<rparr>)))"

subsection \<open>Every request\<close>

definition end_session :: "handler \<Rightarrow> handler" where
  "end_session h = h\<lparr>hd_lease := lease_release (hd_lease h), hd_preview := None\<rparr>"

definition handle :: "platform \<Rightarrow> request_obs \<Rightarrow> daemon_request \<Rightarrow> handler \<Rightarrow> handler_run" where
  "handle pl ob req h =
     (case req of
        ReqPing \<Rightarrow> Served DOk h []
      | ReqShutdown \<Rightarrow> Served DOk (end_session h\<lparr>hd_shutdown_requested := True\<rparr>) []
      | ReqReleaseCamera \<Rightarrow> Served DOk (end_session h) []
      | ReqAuthenticate user \<Rightarrow> handle_authenticate pl ob user IntentAuthenticate h
      | ReqEnroll user label \<Rightarrow> handle_enroll pl ob user label h
      | ReqListModels user \<Rightarrow>
          Served (case list_models (ro_list_fault ob) user (hd_store h) of
                    Ok models \<Rightarrow> DModels models | Err e \<Rightarrow> storage_error e) h []
      | ReqRemoveModel user mid \<Rightarrow>
          (case remove_model (ro_write_fault ob) user mid (hd_store h) of
             (Ok _, d) \<Rightarrow> Served DRemoved (h\<lparr>hd_preview := None, hd_store := d\<rparr>) []
           | (Err e, d) \<Rightarrow> Served (storage_error e) (h\<lparr>hd_preview := None, hd_store := d\<rparr>) [])
      | ReqClearModels user \<Rightarrow>
          (case clear_user (ro_write_fault ob) user (hd_store h) of
             (Ok _, d) \<Rightarrow> Served DRemoved (h\<lparr>hd_preview := None, hd_store := d\<rparr>) []
           | (Err e, d) \<Rightarrow> Served (storage_error e) (h\<lparr>hd_preview := None, hd_store := d\<rparr>) [])
      | ReqListDevices \<Rightarrow>
          Served (case ro_devices ob of
                    Ok devices \<Rightarrow> DDevices devices
                  | Err e \<Rightarrow> DError (''device enumeration failed: '' @ e)) h []
      | ReqPreviewFrame \<Rightarrow>
          (case preview_capture ob h of
             (Ok _, h1) \<Rightarrow> Served (jpeg_response ob DFrame) h1 []
           | (Err resp, h1) \<Rightarrow> Served resp h1 [])
      | ReqPreviewDetectFrame user \<Rightarrow>
          (case preview_capture ob h of
             (Err resp, h1) \<Rightarrow> Served resp h1 []
           | (Ok _, h1) \<Rightarrow>
               (case detect_and_match pl ob user h1 of
                  (faces, h2) \<Rightarrow> Served (jpeg_response ob (\<lambda>data. DDetectFrame data faces)) h2 [])))"

end
