(* ===== verification/Daemon.thy ===== *)
theory Daemon
  imports Handler
begin

text \<open>
  The daemon around the handler: the mutex cell of \<^verbatim>\<open>facelock-daemon/src/server.rs\<close> with its poison
  flag, dispatch of a call, and the poll that expires the warm camera. The statements combine the
  gates, the limiter, the template store, the keyring, the attempt loop and the camera lease: what a
  daemon success rests on, which attempts lock a user out, and when the camera goes dark.
\<close>

subsection \<open>The shared cell\<close>

record daemon =
  dm_handler :: handler
  dm_poisoned :: bool

text \<open>What a D-Bus method hands to the handler.\<close>

datatype call = Request daemon_request | TestAuthenticate string

definition handle_call :: "platform \<Rightarrow> request_obs \<Rightarrow> call \<Rightarrow> handler \<Rightarrow> handler_run" where
  "handle_call pl ob c h =
     (case c of
        Request req \<Rightarrow> handle pl ob req h
      | TestAuthenticate user \<Rightarrow> handle_authenticate pl ob user IntentTest h)"

text \<open>Dispatch recovers a poisoned mutex and goes on; a panic while the guard is held poisons it.\<close>

definition dispatch :: "platform \<Rightarrow> request_obs \<Rightarrow> call \<Rightarrow> daemon \<Rightarrow> (daemon_response option \<times> daemon) option" where
  "dispatch pl ob c dm =
     (case handle_call pl ob c (dm_handler dm) of
        Served r h _ \<Rightarrow> Some (Some r, dm\<lparr>dm_handler := h\<rparr>)
      | StillServing \<Rightarrow> None
      | HandlerPanicked h \<Rightarrow> Some (None, \<lparr>dm_handler = h, dm_poisoned = True\<rparr>))"

text \<open>One round of \<^verbatim>\<open>poll_shutdown\<close> on a free mutex: whether to stop, and the cell.\<close>

definition poll_tick :: "nat \<Rightarrow> daemon \<Rightarrow> bool \<times> daemon" where
  "poll_tick now dm =
     (if dm_poisoned dm then (False, dm)
      else if hd_shutdown_requested (dm_handler dm) then (True, dm)
      else (False, dm\<lparr>dm_handler := expire_camera now (dm_handler dm)\<rparr>))"

datatype daemon_event = Call request_obs call | Tick nat

fun daemon_run :: "platform \<Rightarrow> daemon_event list \<Rightarrow> daemon \<Rightarrow> daemon option" where
  "daemon_run pl [] dm = Some dm"
| "daemon_run pl (Call ob c # evs) dm =
     (case dispatch pl ob c dm of None \<Rightarrow> None | Some (_, dm') \<Rightarrow> daemon_run pl evs dm')"
| "daemon_run pl (Tick now # evs) dm = daemon_run pl evs (snd (poll_tick now dm))"

subsection \<open>What a success rests on\<close>

text \<open>A template that was read from a stored row of this user, decrypted with the handler's keys
  unless nothing can be encrypted.\<close>

definition template_of :: "request_obs \<Rightarrow> handler \<Rightarrow> string \<Rightarrow> u32 \<Rightarrow> face_embedding \<Rightarrow> bool" where
  "template_of ob h user i t \<longleftrightarrow>
     (\<exists>m e. m \<in> set (db_models (hd_store h)) \<and> e \<in> set (db_embs (hd_store h)) \<and>
        m_user m = user \<and> m_id m = unat i \<and> e_model_id e = m_id m \<and>
        (if needs_raw_rows (hd_config h) (any_loaded (hd_keys h)) (sk_primary_error (hd_keys h) \<noteq> None)
         then decrypt_row (kw_crypto (ro_keys ob)) (kw_tpm_feature (ro_keys ob)) (hd_config h) (hd_keys h)
                (Held (hd_tpm_sealer h))
                \<lparr>rw_model_id = i, rw_blob = e_blob e, rw_sealed = e_sealed e,
                 rw_device_id = m_device_id m, rw_key_id = m_key_id m\<rparr> = Ok t
         else t = bytes_f32s (e_blob e) \<and> length (e_blob e) = 2048))"

lemma collect_mem: "collect f rs = Ok as \<Longrightarrow> a \<in> set as \<Longrightarrow> \<exists>r \<in> set rs. f r = Ok a"
  by (induction rs arbitrary: as) (auto split: result.splits)

lemma get_u32_Ok: "get_u32 n = Ok i \<Longrightarrow> n = unat i"
  by (auto simp: get_u32_def unat_of_nat split: if_splits)

lemma query_Ok: "query fault q d = Ok a \<longleftrightarrow> fault = None \<and> q d = Ok a"
  by (auto simp: query_def split: option.splits)

lemma plain_load_rows:
  assumes "get_user_embeddings fault user d = Ok stored" "(i, t) \<in> set stored"
  shows "\<exists>m e. (m, e) \<in> set (user_join user d) \<and> m_id m = unat i \<and> t = bytes_f32s (e_blob e) \<and> length (e_blob e) = 2048"
proof -
  obtain rows where rows: "collect read_embedding (user_join user d) = Ok rows" "decode_rows (db_path d) rows = Ok stored"
    using assms(1) by (auto simp: get_user_embeddings_def query_Ok)
  then obtain b where b: "(i, b) \<in> set rows" "length b = 2048" "t = bytes_f32s b"
    using assms(2) by (auto simp: decode_rows_Ok)
  obtain m e where "(m, e) \<in> set (user_join user d)" "read_embedding (m, e) = Ok (i, b)"
    using collect_mem[OF rows(1) b(1)] by auto
  then show ?thesis using b by (intro exI[of _ m] exI[of _ e]) (auto simp: read_embedding_def dest!: get_u32_Ok)
qed

lemma raw_load_rows:
  assumes "get_user_embeddings_raw_with_device fault user d = Ok rows" "row \<in> set rows"
  shows "\<exists>m e. (m, e) \<in> set (user_join user d) \<and> m_id m = unat (rw_model_id row) \<and>
    row = \<lparr>rw_model_id = rw_model_id row, rw_blob = e_blob e, rw_sealed = e_sealed e,
           rw_device_id = m_device_id m, rw_key_id = m_key_id m\<rparr>"
proof -
  let ?read = "\<lambda>(m, e). and_then (get_u32 (m_id m)) (\<lambda>i.
         Ok \<lparr>rw_model_id = i, rw_blob = e_blob e, rw_sealed = e_sealed e,
             rw_device_id = m_device_id m, rw_key_id = m_key_id m\<rparr>)"
  have "collect ?read (user_join user d) = Ok rows"
    using assms(1) by (simp add: get_user_embeddings_raw_with_device_def query_Ok)
  from collect_mem[OF this assms(2)] obtain m e where "(m, e) \<in> set (user_join user d)" "?read (m, e) = Ok row" by auto
  then show ?thesis by (intro exI[of _ m] exI[of _ e]) (auto dest!: get_u32_Ok)
qed

lemma decrypt_member:
  assumes "decrypt_user_embeddings cr ft cfg keys acc rows = (Ok stored, left)" "(i, t) \<in> set stored"
  shows "\<exists>row \<in> set rows. rw_model_id row = i \<and> decrypt_row cr ft cfg keys acc row = Ok t"
proof -
  have "\<exists>u. decrypt_rows_into cr ft cfg keys acc rows [] = (Ok u, stored)"
    using assms(1) by (auto simp: decrypt_user_embeddings_def split: prod.splits result.splits)
  then obtain vs where vs: "stored = zip (map rw_model_id rows) vs" "decrypted cr ft cfg keys acc rows vs"
    by (auto dest: decrypt_rows_Ok)
  then obtain k where "k < length rows" "i = rw_model_id (rows ! k)" "t = vs ! k"
    using assms(2) by (auto simp: in_set_zip)
  then show ?thesis using vs(2) by (auto simp: list_all2_conv_all_nth intro!: bexI[of _ "rows ! k"])
qed

lemma loaded_from_user:
  assumes "load_user_embeddings ob user h = Ok stored" "(i, t) \<in> set stored"
  shows "template_of ob h user i t"
proof (cases "needs_raw_rows (hd_config h) (any_loaded (hd_keys h)) (sk_primary_error (hd_keys h) \<noteq> None)")
  case True
  then obtain rows where rows: "get_user_embeddings_raw_with_device (ro_load_fault ob) user (hd_store h) = Ok rows"
    and dec: "fst (decrypt_user_embeddings (kw_crypto (ro_keys ob)) (kw_tpm_feature (ro_keys ob)) (hd_config h)
      (hd_keys h) (Held (hd_tpm_sealer h)) rows) = Ok stored"
    using assms(1) by (auto simp: load_user_embeddings_def Let_def)
  obtain row where row: "row \<in> set rows" "rw_model_id row = i" "decrypt_row (kw_crypto (ro_keys ob))
      (kw_tpm_feature (ro_keys ob)) (hd_config h) (hd_keys h) (Held (hd_tpm_sealer h)) row = Ok t"
    using decrypt_member[OF _ assms(2)] dec by (metis prod.collapse)
  moreover obtain m e where "(m, e) \<in> set (user_join user (hd_store h))" "m_id m = unat (rw_model_id row)"
    "row = \<lparr>rw_model_id = rw_model_id row, rw_blob = e_blob e, rw_sealed = e_sealed e,
           rw_device_id = m_device_id m, rw_key_id = m_key_id m\<rparr>"
    using raw_load_rows[OF rows row(1)] by blast
  ultimately show ?thesis using True unfolding template_of_def user_join_mem
    by (intro exI[of _ m] exI[of _ e]) simp
next
  case False
  then have "get_user_embeddings (ro_load_fault ob) user (hd_store h) = Ok stored"
    using assms(1) by (simp add: load_user_embeddings_def Let_def)
  from plain_load_rows[OF this assms(2)] show ?thesis using False
    unfolding template_of_def user_join_mem by auto
qed

lemma and_then_eq_Err: "and_then r f = Err e \<longleftrightarrow> r = Err e \<or> (\<exists>a. r = Ok a \<and> f a = Err e)"
  by (cases r) auto

lemma map_err_eq_Err: "map_err f r = Err e \<longleftrightarrow> (\<exists>e'. r = Err e' \<and> e = f e')"
  by (cases r) auto

lemma load_error: "load_user_embeddings ob user h = Err resp \<Longrightarrow> \<exists>m. resp = DError m"
  by (auto simp: load_user_embeddings_def Let_def storage_error_def and_then_eq_Err map_err_eq_Err split: if_splits)

lemma prechecked_cases:
  assumes "handle_authenticate_prechecked pl ob user intent h0 = Served r h' log"
  obtains (refused) h m where "refresh_software_sealer (ro_keys ob) h0 = Some h" "r = DError m" "h' = h"
  | (no_camera) h m l where "refresh_software_sealer (ro_keys ob) h0 = Some h" "r = DError m"
      "acquire_for ForAuthentication (hd_config h) (ro_acquire ob) (hd_lease h) = (Err m, l)" "h' = h\<lparr>hd_lease := l\<rparr>"
  | (attempted) h models stored cam l rp where "refresh_software_sealer (ro_keys ob) h0 = Some h"
      "load_user_embeddings ob user h = Ok stored"
      "acquire_for ForAuthentication (hd_config h) (ro_acquire ob) (hd_lease h) = (Ok cam, l)"
      "authenticate_with_embeddings (attempt_for pl user intent (cm_caps cam) models (ro_started ob) h)
         (ro_entry ob) stored (ro_ticks ob) = Finished rp"
      "r = response_of_auth (rp_outcome rp)" "h' = settle_attempt ob user intent (rp_outcome rp) l h"
proof -
  obtain h where h: "refresh_software_sealer (ro_keys ob) h0 = Some h"
    using assms by (auto simp: handle_authenticate_prechecked_def split: option.splits)
  show thesis
  proof (cases "list_models (ro_list_fault ob) user (hd_store h)")
    case (Err e)
    then show thesis using assms h refused by (auto simp: handle_authenticate_prechecked_def storage_error_def)
  next
    case models: (Ok models)
    show thesis
    proof (cases "load_user_embeddings ob user h")
      case (Err resp)
      then show thesis using assms h models refused load_error[OF Err] by (auto simp: handle_authenticate_prechecked_def)
    next
      case stored: (Ok stored)
      obtain g l where g: "acquire_for ForAuthentication (hd_config h) (ro_acquire ob) (hd_lease h) = (g, l)" by force
      show thesis
      proof (cases g)
        case (Err m)
        then show thesis using assms h models stored g no_camera
          by (auto simp: handle_authenticate_prechecked_def response_of_auth_def split: if_splits)
      next
        case (Ok cam)
        then show thesis using assms h models stored g attempted
          by (auto simp: handle_authenticate_prechecked_def split: auth_run.splits)
      qed
    qed
  qed
qed

lemma refresh_frame:
  "refresh_software_sealer w h = Some h1 \<Longrightarrow>
   hd_config h1 = hd_config h \<and> hd_store h1 = hd_store h \<and> hd_rate_limiter h1 = hd_rate_limiter h \<and>
   hd_device_caps h1 = hd_device_caps h \<and> hd_lease h1 = hd_lease h \<and> hd_tpm_sealer h1 = hd_tpm_sealer h \<and>
   hd_shutdown_requested h1 = hd_shutdown_requested h"
  by (auto simp: refresh_software_sealer_def split: if_splits)

lemma settle_frame:
  "hd_config (settle_attempt ob user intent out l h) = hd_config h"
  "hd_rate_limiter (settle_attempt ob user intent out l h) = hd_rate_limiter h"
  "hd_lease (settle_attempt ob user intent out l h) = lease_finish (end_of_auth out) (hd_config h) (ro_now ob) l"
  "hd_shutdown_requested (settle_attempt ob user intent out l h) = hd_shutdown_requested h"
  by (simp_all add: settle_attempt_def Let_def)

text \<open>The gates in front of an attempt.\<close>

lemma authenticate_cases:
  assumes "handle_authenticate pl ob user intent h = Served r h' log"
  obtains (rejected) out d where "r = response_of_auth out" "h' = h\<lparr>hd_store := d\<rparr>"
      "pre_check_with_context (hd_config h) (ro_gate ob) user (hd_rate_limiter h) (hd_device_caps h)
         (intent_context intent) (hd_store h) = (Some out, d)"
  | (admitted) d where "handle_authenticate_prechecked pl ob user intent (h\<lparr>hd_store := d\<rparr>) = Served r h' log"
      "pre_check_with_context (hd_config h) (ro_gate ob) user (hd_rate_limiter h) (hd_device_caps h)
         (intent_context intent) (hd_store h) = (None, d)"
proof -
  obtain v d where v: "pre_check_with_context (hd_config h) (ro_gate ob) user (hd_rate_limiter h) (hd_device_caps h)
      (intent_context intent) (hd_store h) = (v, d)" by force
  show thesis
  proof (cases v)
    case None
    then show thesis using assms v admitted
      by (simp add: handle_authenticate_def preflight_authenticate_def preflight_authenticate_with_context_def
          pre_check_audited_with_context_def)
  next
    case (Some out)
    then show thesis using assms v rejected
      by (auto simp: handle_authenticate_def preflight_authenticate_def preflight_authenticate_with_context_def
          pre_check_audited_with_context_def Let_def split: prod.splits)
  qed
qed

lemma pre_check_store:
  assumes "pre_check_with_context cfg ge user rl caps ctx d = (v, d')"
  shows "db_models d' = db_models d \<and> db_embs d' = db_embs d \<and>
    (d' = d \<or> d' = rl_step rl (RlCheck (ge_rl_faults ge) (ge_rl_clock ge) user) d)"
  using pre_check_db[of cfg ge user rl caps ctx d] assms rl_check_db by auto

lemma response_matched: "response_of_auth out = DAuth mr \<longleftrightarrow> out = AuthResult mr"
  by (cases out) (simp_all add: response_of_auth_def)

text \<open>What a success of the attempt itself rests on, whatever gates came before it.\<close>

lemma prechecked_success:
  assumes "ct_lawful pl" and "f32_lt 0 (rc_threshold (cf_recognition (hd_config h)))"
    and "handle_authenticate_prechecked pl ob user intent h = Served (DAuth mr) h' log" and "mr_matched mr"
  shows "\<exists>h1 models stored (cam :: camera). hd_config h1 = hd_config h \<and> hd_tpm_sealer h1 = hd_tpm_sealer h \<and>
       hd_store h1 = hd_store h \<and> list_all (\<lambda>(i, t). template_of ob h1 user i t) stored \<and>
       success_evidence (attempt_for pl user intent (cm_caps cam) models (ro_started ob) h1) (ro_entry ob) stored
         (ro_ticks ob) mr"
  using assms(3)
proof (cases rule: prechecked_cases)
  case (attempted h1 models stored cam l rp)
  let ?at = "attempt_for pl user intent (cm_caps cam) models (ro_started ob) h1"
  have frame: "hd_config h1 = hd_config h" "hd_tpm_sealer h1 = hd_tpm_sealer h" "hd_store h1 = hd_store h"
    using refresh_frame[OF attempted(1)] by simp_all
  have "at_platform ?at = pl" "threshold_of ?at = rc_threshold (cf_recognition (hd_config h))"
    using frame by (simp_all add: attempt_for_def)
  then have "success_evidence ?at (ro_entry ob) stored (ro_ticks ob) mr"
    using success_has_evidence[OF _ _ attempted(4)] attempted(5) assms by (metis response_matched)
  moreover have "list_all (\<lambda>(i, t). template_of ob h1 user i t) stored"
    using loaded_from_user[OF attempted(2)] by (auto simp: list_all_iff)
  ultimately show ?thesis using frame by blast
qed simp_all

lemma prechecked_acquired:
  "handle_authenticate_prechecked pl ob user intent h = Served (DAuth mr) h' log \<Longrightarrow> \<not> ao_cancelled (ro_acquire ob)"
  by (erule prechecked_cases) (auto simp: acquire_for_def split: if_splits)

text \<open>A daemon success is genuine end to end. Whatever the intent, every gate of its context was open
  for this user in the state the request met; the templates compared were read from rows of this
  very user, decrypted with the handler's keys; and the attempt on the camera that was opened has
  the full evidence of a success: a face seen in this request that reaches the threshold against
  one of those templates the device policy admits, with the liveness the configuration demands.\<close>

theorem daemon_success_genuine:
  assumes "ct_lawful pl" and "f32_lt 0 (rc_threshold (cf_recognition (hd_config h)))"
    and "handle_authenticate pl ob user intent h = Served (DAuth mr) h' log" and "mr_matched mr"
  shows "gates_open (hd_config h) (ro_gate ob) user (hd_rate_limiter h) (hd_device_caps h) (intent_context intent) (hd_store h) \<and>
    (\<exists>h1 models stored (cam :: camera). hd_config h1 = hd_config h \<and> hd_tpm_sealer h1 = hd_tpm_sealer h \<and>
       db_models (hd_store h1) = db_models (hd_store h) \<and> db_embs (hd_store h1) = db_embs (hd_store h) \<and>
       list_all (\<lambda>(i, t). template_of ob h1 user i t) stored \<and>
       success_evidence (attempt_for pl user intent (cm_caps cam) models (ro_started ob) h1) (ro_entry ob) stored
         (ro_ticks ob) mr)"
  using assms(3)
proof (cases rule: authenticate_cases)
  case (rejected out d)
  then show ?thesis using pre_check_never_matches[of "hd_config h" "ro_gate ob" user] assms(4) response_matched
    by (metis fst_conv)
next
  case (admitted d)
  note gate = pre_check_None_iff[of "hd_config h" "ro_gate ob" user "hd_rate_limiter h" "hd_device_caps h"
      "intent_context intent" "hd_store h", unfolded admitted(2) fst_conv]
  have "f32_lt 0 (rc_threshold (cf_recognition (hd_config (h\<lparr>hd_store := d\<rparr>))))" using assms(2) by simp
  from prechecked_success[OF assms(1) this admitted(1) assms(4)] show ?thesis
    using gate pre_check_store[OF admitted(2)] by fastforce
qed

subsection \<open>Who is locked out\<close>

text \<open>What an answered attempt charges to the user: a wrong face in a real authentication, unless the
  insertion failed.\<close>

definition charges :: "request_obs \<Rightarrow> string \<Rightarrow> auth_intent \<Rightarrow> daemon_response \<Rightarrow> (string \<times> u64) list" where
  "charges ob user intent r =
     (case r of
        DAuth mr \<Rightarrow>
          if \<not> mr_matched mr \<and> mr_face_detected mr \<and> intent = IntentAuthenticate \<and> ro_charge_faults ob 0 = None
          then [(user, rl_now (ro_charge_clock ob 0))] else []
      | _ \<Rightarrow> [])"

definition attempt_timely :: "int \<Rightarrow> request_obs \<Rightarrow> bool" where
  "attempt_timely now ob \<longleftrightarrow>
     rl_timely now (RlCheck (ge_rl_faults (ro_gate ob)) (ge_rl_clock (ro_gate ob)) []) \<and>
     rl_timely now (RlFail (ro_charge_faults ob) (ro_charge_clock ob) [])"

text \<open>Attempts one after the other, each with its observations; all of them are answered.\<close>

fun serve_attempts ::
  "platform \<Rightarrow> (request_obs \<times> string \<times> auth_intent) list \<Rightarrow> handler \<Rightarrow> (daemon_response list \<times> handler) option" where
  "serve_attempts pl [] h = Some ([], h)"
| "serve_attempts pl ((ob, user, intent) # as) h =
     (case handle_authenticate pl ob user intent h of
        Served r h1 _ \<Rightarrow> map_option (\<lambda>(rs, h2). (r # rs, h2)) (serve_attempts pl as h1)
      | _ \<Rightarrow> None)"

definition charged :: "(request_obs \<times> string \<times> auth_intent) list \<Rightarrow> daemon_response list \<Rightarrow> (string \<times> u64) list" where
  "charged as rs = concat (map (\<lambda>((ob, user, intent), r). charges ob user intent r) (zip as rs))"

lemma pre_check_no_face:
  "pre_check_with_context cfg ge user rl caps ctx d = (Some (AuthResult mr), d') \<Longrightarrow> \<not> mr_face_detected mr"
  by (auto simp: pre_check_with_context_def Let_def error_with_def no_models_result_def
      split: option.splits result.splits bool.splits prod.splits if_splits)

lemma gate_effect:
  assumes "pre_check_with_context cfg (ro_gate ob) user rl caps ctx d = (v, d')" "attempt_timely now ob"
  shows "\<exists>evs. d' = rl_run rl evs d \<and> rl_history evs = [] \<and> list_all (rl_timely now) evs"
proof -
  let ?ev = "RlCheck (ge_rl_faults (ro_gate ob)) (ge_rl_clock (ro_gate ob)) user"
  have "d' = rl_run rl [] d \<or> d' = rl_run rl [?ev] d" using pre_check_store[OF assms(1)] by (simp add: rl_run_def)
  moreover have "rl_timely now ?ev" using assms(2) by (simp add: attempt_timely_def)
  ultimately show ?thesis by (auto simp: rl_history_def intro: exI[of _ "[]"] exI[of _ "[?ev]"])
qed

lemma prechecked_effect:
  assumes "handle_authenticate_prechecked pl ob user intent h = Served r h' log" "attempt_timely now ob"
  shows "hd_rate_limiter h' = hd_rate_limiter h \<and>
    (\<exists>evs. hd_store h' = rl_run (hd_rate_limiter h) evs (hd_store h) \<and> rl_history evs = charges ob user intent r \<and>
       list_all (rl_timely now) evs)"
  using assms(1)
proof (cases rule: prechecked_cases)
  case (attempted h1 models stored cam l rp)
  let ?ev = "RlFail (ro_charge_faults ob) (ro_charge_clock ob) user"
  have t: "rl_timely now ?ev" using assms(2) by (simp add: attempt_timely_def)
  have frame: "hd_store h1 = hd_store h" "hd_rate_limiter h1 = hd_rate_limiter h"
    using refresh_frame[OF attempted(1)] by simp_all
  show ?thesis
  proof (cases "wrong_face (rp_outcome rp) \<and> charges_rate_limit intent")
    case True
    then show ?thesis using attempted(5,6) frame t
      by (intro conjI exI[of _ "[?ev]"])
        (auto simp: settle_attempt_def Let_def charges_def response_of_auth_def wrong_face_def rl_run_def rl_history_def
          charges_rate_limit_def split: auth_outcome.splits)
  next
    case False
    then show ?thesis using attempted(5,6) frame
      by (intro conjI exI[of _ "[]"])
        (auto simp: settle_attempt_def Let_def charges_def response_of_auth_def wrong_face_def rl_run_def rl_history_def
          charges_rate_limit_def split: auth_outcome.splits)
  qed
qed (auto simp: rl_run_def rl_history_def charges_def dest!: refresh_frame intro!: exI[of _ "[]"])

lemma rl_run_append: "rl_run rl (xs @ ys) d = rl_run rl ys (rl_run rl xs d)"
  by (simp add: rl_run_def)

lemma rl_history_append: "rl_history (xs @ ys) = rl_history xs @ rl_history ys"
  by (simp add: rl_history_def)

lemma attempt_effect:
  assumes "handle_authenticate pl ob user intent h = Served r h' log" "attempt_timely now ob"
  shows "hd_rate_limiter h' = hd_rate_limiter h \<and>
    (\<exists>evs. hd_store h' = rl_run (hd_rate_limiter h) evs (hd_store h) \<and> rl_history evs = charges ob user intent r \<and>
       list_all (rl_timely now) evs)"
  using assms(1)
proof (cases rule: authenticate_cases)
  case (rejected out d)
  have "charges ob user intent r = []" using rejected(1,3) pre_check_no_face
    by (cases out) (auto simp: charges_def response_of_auth_def)
  then show ?thesis using rejected(2) gate_effect[OF rejected(3) assms(2)] by simp
next
  case (admitted d)
  obtain e1 where e1: "d = rl_run (hd_rate_limiter h) e1 (hd_store h)" "rl_history e1 = []" "list_all (rl_timely now) e1"
    using gate_effect[OF admitted(2) assms(2)] by blast
  obtain e2 where "hd_rate_limiter h' = hd_rate_limiter h" "hd_store h' = rl_run (hd_rate_limiter h) e2 d"
    "rl_history e2 = charges ob user intent r" "list_all (rl_timely now) e2"
    using prechecked_effect[OF admitted(1) assms(2)] by auto
  then show ?thesis using e1 by (intro conjI exI[of _ "e1 @ e2"]) (simp_all add: rl_run_append rl_history_append)
qed

lemma attempts_effect:
  assumes "serve_attempts pl as h = Some (rs, h')" "list_all (\<lambda>(ob, _). attempt_timely now ob) as"
  shows "hd_rate_limiter h' = hd_rate_limiter h \<and>
    (\<exists>evs. hd_store h' = rl_run (hd_rate_limiter h) evs (hd_store h) \<and> rl_history evs = charged as rs \<and>
       list_all (rl_timely now) evs)"
  using assms
proof (induction pl as h arbitrary: rs h' rule: serve_attempts.induct)
  case (1 pl h)
  then show ?case by (auto simp: rl_run_def rl_history_def charged_def intro!: exI[of _ "[]"])
next
  case (2 pl ob user intent as h)
  then obtain r h1 log rs1 where run: "handle_authenticate pl ob user intent h = Served r h1 log"
    and rest: "serve_attempts pl as h1 = Some (rs1, h')" and rs: "rs = r # rs1"
    by (auto split: handler_run.splits)
  obtain e1 where e1: "hd_rate_limiter h1 = hd_rate_limiter h" "hd_store h1 = rl_run (hd_rate_limiter h) e1 (hd_store h)"
    "rl_history e1 = charges ob user intent r" "list_all (rl_timely now) e1"
    using attempt_effect[OF run, of now] 2(3) by auto
  obtain e2 where e2: "hd_rate_limiter h' = hd_rate_limiter h1" "hd_store h' = rl_run (hd_rate_limiter h1) e2 (hd_store h1)"
    "rl_history e2 = charged as rs1" "list_all (rl_timely now) e2"
    using 2(1)[OF run rest] 2(3) by auto
  show ?case using e1 e2
    by (intro conjI exI[of _ "e1 @ e2"]) (simp_all add: rl_run_append rl_history_append rs charged_def)
qed

text \<open>C17: the lockout counts wrong faces and nothing else. After any sequence of answered attempts, real
  or test, by any users, with any statement failures and with clocks not beyond \<^verbatim>\<open>now\<close>,
  the limiter's next verdict for a user at \<^verbatim>\<open>now\<close> admits them exactly when fewer than
  \<^verbatim>\<open>max_failures\<close> entries within the window are theirs, among those the table started with and their
  own real attempts answered with a face that was seen and not recognized. Test runs, empty chairs, errors, rejections by the gates,
  cancellations and successes never count.\<close>

theorem wrong_faces_lock_out:
  assumes "0 \<le> sint (rlm_window_secs (hd_rate_limiter h))" and "0 \<le> sint now"
    and "serve_attempts pl as h = Some (rs, h')"
    and "list_all (\<lambda>(ob, _). attempt_timely (sint now) ob) as"
    and "recent (sint (rlm_window_secs (hd_rate_limiter h))) user (sint now) (db_rate (hd_store h) @ charged as rs) < 2 ^ 32"
  shows "fst (rl_check (\<lambda>_. None) (\<lambda>_. Some now) (hd_rate_limiter h') user (hd_store h')) =
    Ok (recent (sint (rlm_window_secs (hd_rate_limiter h))) user (sint now) (db_rate (hd_store h) @ charged as rs)
        < unat (rlm_max_failures (hd_rate_limiter h)))"
proof -
  obtain evs where "hd_rate_limiter h' = hd_rate_limiter h" "hd_store h' = rl_run (hd_rate_limiter h) evs (hd_store h)"
    "rl_history evs = charged as rs" "list_all (rl_timely (sint now)) evs"
    using attempts_effect[OF assms(3,4)] by blast
  then show ?thesis using limiter_verdict[OF assms(1,2), of evs user "hd_store h"] assms(5) by simp
qed

subsection \<open>When the camera goes dark\<close>

text \<open>The light is off, or goes off at the latest at the given instant.\<close>

definition dark_by :: "nat \<Rightarrow> lamp \<Rightarrow> bool" where
  "dark_by t s \<longleftrightarrow> s = Dark \<or> (\<exists>t' \<le> t. s = WarmUntil t')"

definition max_hold :: "config \<Rightarrow> nat" where
  "max_hold cfg = max (hold_nanos EndSuccess cfg) (preview_nanos cfg)"

lemma camera_hold_bound: "camera_hold cfg x \<le> max_hold cfg"
proof (cases x)
  case (Ended e)
  then show ?thesis by (cases e) (auto simp: max_hold_def hold_nanos_def hold_secs_def preview_nanos_def)
qed (simp add: max_hold_def)

lemma ended_dark_by:
  assumes "acquire_for p cfg ob l0 = (Ok c, l)"
  shows "dark_by (now + max_hold cfg) (lamp_of (end_camera cfg x now l))"
  using cam.request_bound[OF assms camera_hold_bound[of cfg x], of now] by (auto simp: dark_by_def)

lemmas finished_dark_by = ended_dark_by[where x = "Ended e" for e, simplified]
lemmas previewed_dark_by = ended_dark_by[where x = PreviewShown, simplified]

lemma refused_dark_by: "acquire_for p cfg ob l0 = (Err e, l) \<Longrightarrow> dark_by t (lamp_of l)"
  by (simp add: cam.refused_dark dark_by_def)

lemma dark_by_mono: "dark_by t s \<Longrightarrow> t \<le> t' \<Longrightarrow> dark_by t' s"
  by (auto simp: dark_by_def)

text \<open>A served request keeps the configuration and either leaves the light as it was or bounds it.\<close>

definition light_kept :: "request_obs \<Rightarrow> handler \<Rightarrow> handler \<Rightarrow> bool" where
  "light_kept ob h h' \<longleftrightarrow> hd_config h' = hd_config h \<and>
     (hd_lease h' = hd_lease h \<or> dark_by (ro_now ob + max_hold (hd_config h)) (lamp_of (hd_lease h')))"

lemma prechecked_light:
  "handle_authenticate_prechecked pl ob user intent h = Served r h' log \<Longrightarrow> light_kept ob h h'"
  by (erule prechecked_cases)
    (auto simp: light_kept_def settle_frame dest!: refresh_frame intro: refused_dark_by finished_dark_by)

lemma authenticate_light: "handle_authenticate pl ob user intent h = Served r h' log \<Longrightarrow> light_kept ob h h'"
  by (erule authenticate_cases) (auto simp: light_kept_def dest!: prechecked_light)

lemma enroll_light:
  assumes "handle_enroll pl ob user label h = Served r h' log"
  shows "light_kept ob h h'"
proof (cases "ensure_enroll_encryption_allowed (hd_config h)")
  case (Err m)
  then show ?thesis using assms by (auto simp: handle_enroll_def Let_def light_kept_def)
next
  case allowed: (Ok u)
  then obtain h1 where h1: "refresh_software_sealer (ro_keys ob) h = Some h1"
    using assms by (auto simp: handle_enroll_def Let_def split: option.splits)
  obtain g l where g: "acquire_for ForCapture (hd_config h) (ro_acquire ob) (hd_lease h1) = (g, l)" by force
  have frame: "hd_config h1 = hd_config h" "hd_lease h1 = hd_lease h" using refresh_frame[OF h1] by simp_all
  show ?thesis
  proof (cases g)
    case (Err m)
    then show ?thesis using assms allowed h1 g frame
      by (auto simp: handle_enroll_def Let_def light_kept_def refused_dark_by[OF g[unfolded Err]] split: if_splits)
  next
    case (Ok c)
    note fin = finished_dark_by[OF g[unfolded Ok]]
    show ?thesis using assms allowed h1 g frame Ok
      by (auto simp: handle_enroll_def Let_def light_kept_def fin split: if_splits result.splits enroll_run.splits)
  qed
qed

lemma preview_light: "preview_capture ob h = (r, h') \<Longrightarrow> light_kept ob h h'"
  by (auto simp: preview_capture_def Let_def light_kept_def split: prod.splits result.splits
      intro: refused_dark_by previewed_dark_by finished_dark_by)

lemma detect_frame:
  "detect_and_match pl ob user h = (fs, h') \<Longrightarrow> hd_config h' = hd_config h \<and> hd_lease h' = hd_lease h"
  by (auto simp: detect_and_match_def preview_set_def Let_def split: result.splits if_splits)

lemma end_session_light: "light_kept ob h (end_session h)" "light_kept ob h (end_session h\<lparr>hd_shutdown_requested := b\<rparr>)"
  by (simp_all add: light_kept_def end_session_def release_lamp dark_by_def)

lemma call_light: "handle_call pl ob c h = Served r h' log \<Longrightarrow> light_kept ob h h'"
proof (cases c)
  case (Request req)
  assume "handle_call pl ob c h = Served r h' log"
  then have run: "handle pl ob req h = Served r h' log" by (simp add: handle_call_def Request)
  show ?thesis
  proof (cases req)
    case (ReqPreviewDetectFrame user)
    then show ?thesis using run
      by (auto simp: handle_def light_kept_def split: prod.splits result.splits dest!: preview_light detect_frame)
  next
    case ReqPreviewFrame
    then show ?thesis using run by (auto simp: handle_def split: prod.splits result.splits dest!: preview_light)
  next
    case (ReqAuthenticate user)
    then show ?thesis using run authenticate_light by (simp add: handle_def)
  next
    case (ReqEnroll user label)
    then show ?thesis using run enroll_light by (simp add: handle_def)
  next
    case (ReqRemoveModel user mid)
    then show ?thesis using run by (auto simp: handle_def light_kept_def split: prod.splits result.splits)
  next
    case (ReqClearModels user)
    then show ?thesis using run by (auto simp: handle_def light_kept_def split: prod.splits result.splits)
  next
    case ReqShutdown
    then show ?thesis using run end_session_light by (auto simp: handle_def)
  next
    case ReqReleaseCamera
    then show ?thesis using run end_session_light by (auto simp: handle_def)
  qed (use run in \<open>auto simp: handle_def light_kept_def\<close>)
next
  case (TestAuthenticate user)
  then show "handle_call pl ob c h = Served r h' log \<Longrightarrow> ?thesis" by (auto simp: handle_call_def dest: authenticate_light)
qed

lemma prechecked_panic:
  "handle_authenticate_prechecked pl ob user intent h = HandlerPanicked h' \<Longrightarrow> lamp_of (hd_lease h') = InUse"
  by (auto simp: handle_authenticate_prechecked_def cam.granted_on
      split: option.splits result.splits prod.splits if_splits auth_run.splits)

lemma call_panic: "handle_call pl ob c h = HandlerPanicked h' \<Longrightarrow> lamp_of (hd_lease h') = InUse"
  by (auto simp: handle_call_def handle_def handle_authenticate_def handle_enroll_def Let_def cam.granted_on
      dest!: prechecked_panic split: call.splits daemon_request.splits option.splits result.splits prod.splits
        if_splits enroll_run.splits)

lemma poisoned_run: "daemon_run pl evs dm = Some dm' \<Longrightarrow> dm_poisoned dm \<Longrightarrow> dm_poisoned dm'"
  by (induction pl evs dm rule: daemon_run.induct)
    (auto simp: dispatch_def poll_tick_def split: option.splits handler_run.splits)

lemma tick_dark: "dark_by t s \<Longrightarrow> dark_by t (lamp_tick now s)"
  by (cases s) (auto simp: dark_by_def lamp_tick_def)

lemma expire_camera_lamp:
  "lamp_of (hd_lease (expire_camera now h)) = lamp_tick now (lamp_of (hd_lease h))"
  "hd_config (expire_camera now h) = hd_config h" "hd_shutdown_requested (expire_camera now h) = hd_shutdown_requested h"
  by (simp_all add: expire_camera_def Let_def expire_lamp)

lemma daemon_run_light:
  assumes "daemon_run pl evs dm = Some dm'" "\<not> dm_poisoned dm'"
    and "\<forall>ob c. Call ob c \<in> set evs \<longrightarrow> ro_now ob \<le> T"
    and "hd_config (dm_handler dm) = cfg" "dark_by (T + max_hold cfg) (lamp_of (hd_lease (dm_handler dm)))"
  shows "hd_config (dm_handler dm') = cfg \<and> dark_by (T + max_hold cfg) (lamp_of (hd_lease (dm_handler dm')))"
  using assms
proof (induction pl evs dm rule: daemon_run.induct)
  case (2 pl ob c evs dm)
  then obtain r dm1 where step: "dispatch pl ob c dm = Some (r, dm1)" and run: "daemon_run pl evs dm1 = Some dm'"
    by (auto split: option.splits)
  have "\<not> dm_poisoned dm1" using poisoned_run[OF run] 2(3) by blast
  then obtain resp h log where h: "handle_call pl ob c (dm_handler dm) = Served resp h log" "dm_handler dm1 = h"
    using step by (auto simp: dispatch_def split: handler_run.splits)
  have now: "ro_now ob + max_hold cfg \<le> T + max_hold cfg" using 2(4) by auto
  have "hd_config h = cfg" "dark_by (T + max_hold cfg) (lamp_of (hd_lease h))"
    using call_light[OF h(1)] 2(5,6) dark_by_mono[OF _ now] by (auto simp: light_kept_def)
  then show ?case using 2(1)[OF step refl run 2(3)] 2(4) h(2) by auto
next
  case (3 pl now evs dm)
  then show ?case by (auto simp: poll_tick_def expire_camera_lamp tick_dark split: if_splits)
qed simp

text \<open>C29: the camera goes dark. Whatever calls the daemon served without a panic, with any outcome, and
  however polls were interleaved, if every camera was handed back by an instant, the first poll at
  or after that instant plus the longest hold the configuration allows either stops the daemon or
  leaves the camera closed and the cached preview templates dropped. No request leaves the light on
  without a deadline.\<close>

theorem camera_goes_dark:
  assumes "lamp_of (hd_lease (dm_handler dm)) = Dark"
    and "daemon_run pl evs dm = Some dm'" and "\<not> dm_poisoned dm'"
    and "\<forall>ob c. Call ob c \<in> set evs \<longrightarrow> ro_now ob \<le> T"
    and "T + max_hold (hd_config (dm_handler dm)) \<le> now"
  shows "lamp_of (hd_lease (dm_handler dm')) \<noteq> InUse \<and>
    (fst (poll_tick now dm') \<or>
     \<not> holds_camera (hd_lease (dm_handler (snd (poll_tick now dm')))) \<and>
     hd_preview (dm_handler (snd (poll_tick now dm'))) = None)"
proof -
  have dark: "dark_by (T + max_hold (hd_config (dm_handler dm))) (lamp_of (hd_lease (dm_handler dm')))"
    using daemon_run_light[OF assms(2-4) refl] assms(1) by (simp add: dark_by_def)
  then have "lamp_of (lease_expire now (hd_lease (dm_handler dm'))) = Dark"
    using assms(5) by (auto simp: expire_lamp dark_by_def lamp_tick_def)
  then have "\<not> holds_camera (lease_expire now (hd_lease (dm_handler dm')))"
    by (auto simp: lamp_of_def holds_camera_def split: option.splits)
  then show ?thesis using dark assms(3) by (auto simp: poll_tick_def expire_camera_def Let_def dark_by_def)
qed

text \<open>C31: a panic disables the poll for good. A request that panics leaves the camera open with no
  deadline and the mutex poisoned. Dispatch recovers from the poison but the poll does not: no number
  of polls closes that camera, and after any later calls, a shutdown request among them, no poll
  ever stops the daemon or expires a hold.\<close>

theorem poisoned_poll_inert:
  assumes "handle_call pl ob c (dm_handler dm) = HandlerPanicked h"
    and "dispatch pl ob c dm = Some (r, dm')"
  shows "lamp_of (hd_lease (dm_handler dm')) = InUse \<and> daemon_run pl (map Tick ticks) dm' = Some dm' \<and>
    (\<forall>evs dm2 now. daemon_run pl evs dm' = Some dm2 \<longrightarrow> poll_tick now dm2 = (False, dm2))"
proof -
  have dm': "dm' = \<lparr>dm_handler = h, dm_poisoned = True\<rparr>" using assms by (simp add: dispatch_def)
  have "daemon_run pl (map Tick ticks) dm' = Some dm'" by (induction ticks) (simp_all add: dm' poll_tick_def)
  moreover have "poll_tick now dm2 = (False, dm2)" if "daemon_run pl evs dm' = Some dm2" for evs dm2 now
    using poisoned_run[OF that] by (simp add: dm' poll_tick_def)
  ultimately show ?thesis using call_panic[OF assms(1)] by (simp add: dm')
qed

subsection \<open>A concrete daemon\<close>

text \<open>Two plain templates of one user, a cold lease, and one real attempt with a non-IR or an IR camera.\<close>

definition sample_model_row :: "nat \<Rightarrow> model_row" where
  "sample_model_row i = \<lparr>m_id = i, m_user = ''alice'', m_label = ''front'', m_created_at = 0,
     m_embedder_model = ''m'', m_device_id = None, m_key_id = None\<rparr>"

definition sample_emb_row :: "nat \<Rightarrow> face_embedding \<Rightarrow> emb_row" where
  "sample_emb_row i e = \<lparr>e_id = i, e_model_id = i, e_blob = embedding_bytes e, e_sealed = False\<rparr>"

definition sample_store :: db where
  "sample_store = \<lparr>db_path = ''f.db'', db_models = [sample_model_row 1, sample_model_row 2],
     db_embs = [sample_emb_row 1 (axis 0), sample_emb_row 2 (axis (Suc 0))], db_rate = [],
     db_model_seq = 2, db_emb_seq = 2\<rparr>"

definition sample_caps :: "bool \<Rightarrow> camera_caps" where
  "sample_caps ir = (unqueryable default_fingerprint)\<lparr>cc_is_ir := ir\<rparr>"

definition sample_handler :: handler where
  "sample_handler =
     \<lparr>hd_config = default_config, hd_store = sample_store,
      hd_rate_limiter = \<lparr>rlm_max_failures = 1, rlm_window_secs = 60\<rparr>, hd_device_caps = sample_caps True,
      hd_shutdown_requested = False, hd_lease = lease_new True None, hd_tpm_sealer = None, hd_keys = keys_none,
      hd_preview = None\<rparr>"

definition sample_request :: "bool \<Rightarrow> tick list \<Rightarrow> request_obs" where
  "sample_request ir ticks =
     \<lparr>ro_gate = sample_env, ro_keys = sample_key_world, ro_list_fault = None, ro_load_fault = None,
      ro_write_fault = None, ro_started = 0,
      ro_acquire = \<lparr>ao_cancelled = False, ao_open = Ok \<lparr>cm_caps = sample_caps ir, cm_pending_settle_frames = 0\<rparr>,
        ao_discard = \<lambda>_. (False, Ok ()), ao_cancelled_late = False\<rparr>,
      ro_cancel_stamp = None, ro_cancel_end = 0, ro_entry = sample_obs, ro_ticks = ticks, ro_now = 0,
      ro_charge_faults = \<lambda>_. None, ro_charge_clock = \<lambda>_. Some 1000, ro_enroll = sample_enroll_obs,
      ro_capture = Ok sample_frame, ro_engine = Ok [], ro_jpeg = Ok [], ro_devices = Ok []\<rparr>"

lemma sample_join:
  "user_join ''alice'' sample_store =
     [(sample_model_row 1, sample_emb_row 1 (axis 0)), (sample_model_row 2, sample_emb_row 2 (axis (Suc 0)))]"
  by (simp add: user_join_def sample_store_def sample_model_row_def sample_emb_row_def)

lemma length_axis: "length (axis k) = 512"
  by (simp add: axis_def)

lemma sample_loads:
  "get_user_embeddings None ''alice'' sample_store = Ok sample_stored"
  "list_models None ''alice'' sample_store = Ok [sample_model 1, sample_model 2]"
  by (simp_all add: get_user_embeddings_def list_models_def query_def sample_join read_embedding_def get_u32_def
      bytes_f32s_embedding length_embedding_bytes length_axis sample_stored_def sample_emb_row_def)
    (simp_all add: sample_model_row_def sample_store_def read_model_def get_u32_def sample_model_def)

lemma sample_check:
  "rl_check (ge_rl_faults sample_env) (ge_rl_clock sample_env) (hd_rate_limiter sample_handler) ''alice'' sample_store =
     (Ok True, sample_store)"
  by (simp add: rl_check_def cleanup_rate_limit_def check_rate_limit_def query_def get_u32_def sample_env_def
      sample_handler_def sample_store_def Let_def)

lemma sample_has_models: "has_models None ''alice'' sample_store = Ok True"
  by (simp add: has_models_def count_models_def query_def get_u32_def sample_store_def sample_model_row_def)

lemma sample_gates:
  assumes "lid_gate default_config ctx sample_env = None"
  shows "pre_check_with_context default_config sample_env ''alice'' (hd_rate_limiter sample_handler) (sample_caps True)
     ctx sample_store = (None, sample_store)"
proof -
  have "\<not> is_ssh_session sample_env" "ge_has_models_fault sample_env = None"
    by (simp_all add: sample_env_def is_ssh_session_def)
  then show ?thesis using assms
    by (simp add: pre_check_with_context_def Let_def sample_check sample_has_models sample_caps_def unqueryable_def
        default_config_def default_security_config_def)
qed

lemma sample_lid: "lid_gate default_config ctx_enforced sample_env = None"
  by (simp add: lid_gate_def ctx_enforced_def lid_refusal_def lid_state_under_def sample_env_def)

lemma sample_discard: "discard_from (\<lambda>_. (False, Ok ())) k n = Ok ()"
  by (induction n arbitrary: k) simp_all

lemma sample_acquire:
  "acquire_for p cfg (ro_acquire (sample_request ir ticks)) (lease_new True None) =
     (Ok \<lparr>cm_caps = sample_caps ir, cm_pending_settle_frames = 0\<rparr>,
      (lease_new True None)\<lparr>le_camera := Some \<lparr>cm_caps = sample_caps ir, cm_pending_settle_frames = 0\<rparr>\<rparr>)"
  by (simp add: acquire_for_def sample_request_def lease_new_def discard_frames_def sample_discard Let_def)

text \<open>The sample attempt reaches the loop with the templates of the store.\<close>

lemma sample_prechecked:
  "handle_authenticate_prechecked std_platform (sample_request ir ticks) ''alice'' IntentAuthenticate sample_handler =
   (case authenticate_with_embeddings (sample_attempt\<lparr>at_caps := sample_caps ir\<rparr>) sample_obs sample_stored ticks of
      Running \<Rightarrow> StillServing
    | Panicked \<Rightarrow> HandlerPanicked (sample_handler\<lparr>hd_lease :=
        (lease_new True None)\<lparr>le_camera := Some \<lparr>cm_caps = sample_caps ir, cm_pending_settle_frames = 0\<rparr>\<rparr>\<rparr>)
    | Finished rp \<Rightarrow> Served (response_of_auth (rp_outcome rp))
        (settle_attempt (sample_request ir ticks) ''alice'' IntentAuthenticate (rp_outcome rp)
           ((lease_new True None)\<lparr>le_camera := Some \<lparr>cm_caps = sample_caps ir, cm_pending_settle_frames = 0\<rparr>\<rparr>)
           sample_handler) (rp_audit rp))"
proof -
  let ?ob = "sample_request ir ticks"
  have sel: "hd_config sample_handler = default_config" "hd_store sample_handler = sample_store"
    "hd_lease sample_handler = lease_new True None" "hd_keys sample_handler = keys_none" "ro_list_fault ?ob = None"
    "ro_load_fault ?ob = None" "ro_entry ?ob = sample_obs" "ro_ticks ?ob = ticks" "ro_started ?ob = 0"
    by (simp_all add: sample_handler_def sample_request_def)
  have fresh: "refresh_software_sealer (ro_keys ?ob) sample_handler = Some sample_handler"
    by (simp add: refresh_software_sealer_def sel keys_none_def)
  have load: "load_user_embeddings ?ob ''alice'' sample_handler = Ok sample_stored"
    by (simp add: load_user_embeddings_def sel Let_def needs_raw_rows_def any_loaded_def keys_none_def
        default_config_def default_tpm_config_def sample_loads)
  have at: "attempt_for std_platform ''alice'' IntentAuthenticate (sample_caps ir) [sample_model 1, sample_model 2] 0
      sample_handler = sample_attempt\<lparr>at_caps := sample_caps ir\<rparr>"
    by (simp add: attempt_for_def sample_attempt_def intent_source_def sel)
  show ?thesis by (simp add: handle_authenticate_prechecked_def sel fresh sample_loads load sample_acquire at)
qed

lemma sample_handler_preflight:
  assumes "lid_gate default_config ctx sample_env = None"
  shows "preflight_authenticate_with_context (sample_request ir ticks) ''alice'' IntentAuthenticate ctx sample_handler =
    (None, sample_handler, [])"
proof -
  have "hd_config sample_handler = default_config" "hd_store sample_handler = sample_store"
    "hd_device_caps sample_handler = sample_caps True" "ro_gate (sample_request ir ticks) = sample_env"
    "sample_handler\<lparr>hd_store := sample_store\<rparr> = sample_handler"
    by (simp_all add: sample_handler_def sample_request_def)
  then show ?thesis
    by (simp add: preflight_authenticate_with_context_def pre_check_audited_with_context_def sample_gates[OF assms])
qed

lemma sample_serves:
  "handle_authenticate std_platform (sample_request ir ticks) ''alice'' IntentAuthenticate sample_handler =
   handle_authenticate_prechecked std_platform (sample_request ir ticks) ''alice'' IntentAuthenticate sample_handler"
  by (simp add: handle_authenticate_def preflight_authenticate_def intent_context_def sample_handler_preflight[OF sample_lid])

lemma sample_caps_plain: "sample_attempt\<lparr>at_caps := sample_caps False\<rparr> = sample_attempt"
  by (simp add: sample_attempt_def sample_caps_def unqueryable_def)

lemma sample_success:
  "\<exists>mr h log. handle_authenticate std_platform (sample_request False sample_ticks) ''alice'' IntentAuthenticate
     sample_handler = Served (DAuth mr) h log \<and> mr_matched mr"
  using sample_run by (auto simp: sample_serves sample_prechecked sample_caps_plain response_of_auth_def)

lemma sample_wrong_face:
  "\<exists>mr h log. handle_authenticate std_platform (sample_request False static_ticks) ''alice'' IntentAuthenticate
     sample_handler = Served (DAuth mr) h log \<and> \<not> mr_matched mr \<and> mr_face_detected mr \<and> \<not> hd_shutdown_requested h"
  using static_run
  by (auto simp: sample_serves sample_prechecked sample_caps_plain response_of_auth_def settle_frame) (simp add: sample_handler_def)

theorem daemon_success_genuine_witness:
  "\<exists>mr h log. handle_authenticate std_platform (sample_request False sample_ticks) ''alice'' IntentAuthenticate
     sample_handler = Served (DAuth mr) h log \<and> mr_matched mr \<and>
   gates_open default_config sample_env ''alice'' (hd_rate_limiter sample_handler) (sample_caps True) ctx_enforced sample_store"
proof -
  obtain mr h log where run: "handle_authenticate std_platform (sample_request False sample_ticks) ''alice''
      IntentAuthenticate sample_handler = Served (DAuth mr) h log" "mr_matched mr"
    using sample_success by blast
  have "f32_lt 0 (rc_threshold (cf_recognition (hd_config sample_handler)))"
    using sample_settings(10) by (simp add: sample_handler_def sample_attempt_def)
  from daemon_success_genuine[OF std_platform_lawful this run] show ?thesis
    using run by (simp add: sample_handler_def sample_request_def intent_context_def)
qed

theorem wrong_faces_lock_out_witness:
  "\<exists>mr h. serve_attempts std_platform [(sample_request False static_ticks, ''alice'', IntentAuthenticate)] sample_handler =
     Some ([DAuth mr], h) \<and>
   fst (rl_check (\<lambda>_. None) (\<lambda>_. Some 1000) (hd_rate_limiter h) ''alice'' (hd_store h)) = Ok False"
proof -
  let ?as = "[(sample_request False static_ticks, ''alice'', IntentAuthenticate)]"
  obtain mr h where run: "serve_attempts std_platform ?as sample_handler = Some ([DAuth mr], h)"
    and mr: "\<not> mr_matched mr" "mr_face_detected mr"
    using sample_wrong_face by auto
  have c: "charged ?as [DAuth mr] = [(''alice'', 1000)]"
    using mr by (simp add: charged_def charges_def sample_request_def rl_now_def)
  have "list_all (\<lambda>(ob, _). attempt_timely (sint (1000 :: u64)) ob) ?as"
    by (simp add: attempt_timely_def sample_request_def sample_env_def rl_now_def)
  then show ?thesis using wrong_faces_lock_out[OF _ _ run, of 1000 "''alice''"] run
    by (simp add: c sample_handler_def sample_store_def recent_def)
qed

theorem camera_goes_dark_witness:
  "\<exists>dm. daemon_run std_platform [Call (sample_request False static_ticks) (Request (ReqAuthenticate ''alice'')), Tick 1]
       \<lparr>dm_handler = sample_handler, dm_poisoned = False\<rparr> = Some dm \<and>
     \<not> holds_camera (hd_lease (dm_handler (snd (poll_tick 3000000000 dm))))"
proof -
  let ?evs = "[Call (sample_request False static_ticks) (Request (ReqAuthenticate ''alice'')), Tick 1]"
  let ?dm = "\<lparr>dm_handler = sample_handler, dm_poisoned = False\<rparr>"
  obtain mr h log where h: "handle_authenticate std_platform (sample_request False static_ticks) ''alice''
      IntentAuthenticate sample_handler = Served (DAuth mr) h log" "\<not> hd_shutdown_requested h" using sample_wrong_face by blast
  obtain dm where dm: "daemon_run std_platform ?evs ?dm = Some dm" "\<not> dm_poisoned dm"
    and stop: "\<not> fst (poll_tick 3000000000 dm)"
    using h by (simp add: dispatch_def handle_call_def handle_def poll_tick_def expire_camera_lamp)
  have "T + max_hold (hd_config sample_handler) \<le> 3000000000" if "T = 0" for T
    using that by (simp add: max_hold_def hold_nanos_def hold_secs_def preview_nanos_def PREVIEW_MIN_HOLD_def
      sample_handler_def default_config_def default_device_config_def)
  then show ?thesis using camera_goes_dark[OF _ dm, of 0 3000000000] dm(1) stop
    by (simp add: sample_handler_def sample_request_def lamp_of_def lease_new_def)
qed

text \<open>A frame without columns from an IR camera panics the texture check.\<close>

definition broken_ticks :: "tick list" where
  "broken_ticks = [(sample_tick 1 [(sample_detection, axis 0)])\<lparr>tk_capture := Ok (sample_frame\<lparr>fr_width := 0\<rparr>)\<rparr>]"

lemma broken_run:
  "authenticate_with_embeddings (sample_attempt\<lparr>at_caps := sample_caps True\<rparr>) sample_obs sample_stored broken_ticks = Panicked"
proof -
  let ?fr = "sample_frame\<lparr>fr_width := 0\<rparr>" and ?at = "sample_attempt\<lparr>at_caps := sample_caps True, at_start := 0\<rparr>"
  have bright: "\<not> dark_frame ?at ?fr"
    using sample_bright by (simp add: sample_settings is_dark_with_config_def)
  have "textures ?at ?fr [(sample_detection, axis 0)] = None"
    by (simp add: face_texture_def check_ir_texture_def extract_bbox_region_def)
  then have "frame_step ?at cs ?fr (Ok [(sample_detection, axis 0)]) st = FramePanic" for cs st
    using bright by (simp add: frame_step_def Let_def sample_caps_def)
  then show ?thesis
    by (simp add: authenticate_with_embeddings_def broken_ticks_def sample_tick_def sample_obs_def auth_loop.simps Let_def
        initial_state_def sample_settings sample_caps_def unqueryable_def)
qed

theorem poisoned_poll_inert_witness:
  "\<exists>dm r. dispatch std_platform (sample_request True broken_ticks) (Request (ReqAuthenticate ''alice''))
       \<lparr>dm_handler = sample_handler, dm_poisoned = False\<rparr> = Some (r, dm) \<and>
     lamp_of (hd_lease (dm_handler dm)) = InUse \<and> daemon_run std_platform (map Tick [1000000000000]) dm = Some dm"
proof -
  let ?dm = "\<lparr>dm_handler = sample_handler, dm_poisoned = False\<rparr>"
  obtain h where h: "handle_call std_platform (sample_request True broken_ticks) (Request (ReqAuthenticate ''alice''))
      (dm_handler ?dm) = HandlerPanicked h"
    by (simp add: handle_call_def handle_def sample_serves sample_prechecked broken_run)
  obtain r dm where dm: "dispatch std_platform (sample_request True broken_ticks) (Request (ReqAuthenticate ''alice'')) ?dm =
      Some (r, dm)" using h by (simp add: dispatch_def)
  show ?thesis using poisoned_poll_inert[OF h dm, of "[1000000000000]"] dm by blast
qed

end
