(* ===== verification/Ingress.thy ===== *)
theory Ingress
  imports Prelude
begin

text \<open>
  The ingress limiter of \<^verbatim>\<open>facelock-daemon/src/server.rs\<close>: a token bucket per caller UID in front of
  every shared resource of an authentication. Instants are nanoseconds of the monotonic clock. The
  list of buckets is the hash map in its iteration order.
\<close>

record bucket =
  bk_tokens :: u32
  bk_last_refill :: nat
  bk_last_seen :: nat

type_synonym buckets = "(u32 \<times> bucket) list"

record ingress =
  in_poisoned :: bool
  in_buckets :: buckets

definition INGRESS_BURST :: u32 where "INGRESS_BURST = 10"
definition INGRESS_REFILL :: nat where "INGRESS_REFILL = 1000000000"
definition INGRESS_BUCKET_TTL :: nat where "INGRESS_BUCKET_TTL = 10 * 1000000000"
definition MAX_INGRESS_BUCKETS :: nat where "MAX_INGRESS_BUCKETS = 1024"

text \<open>\<^verbatim>\<open>min_by_key\<close> on the last use: the first of the least recently seen.\<close>

fun oldest_uid :: "buckets \<Rightarrow> u32 option" where
  "oldest_uid [] = None"
| "oldest_uid ((u, b) # bs) =
     (case oldest_uid bs of
        None \<Rightarrow> Some u
      | Some v \<Rightarrow>
          (case map_of bs v of
             Some c \<Rightarrow> if bk_last_seen b \<le> bk_last_seen c then Some u else Some v
           | None \<Rightarrow> Some u))"

text \<open>\<^verbatim>\<open>u32::saturating_add\<close>.\<close>

definition sat_add :: "u32 \<Rightarrow> nat \<Rightarrow> u32" where
  "sat_add t n = of_nat (min (unat t + n) (2 ^ 32 - 1))"

definition refill :: "nat \<Rightarrow> bucket \<Rightarrow> bucket" where
  "refill now b =
     (let units = (now - bk_last_refill b) div INGRESS_REFILL in
      if unat INGRESS_BURST \<le> units then b\<lparr>bk_tokens := INGRESS_BURST, bk_last_refill := now\<rparr>
      else if 0 < units
      then b\<lparr>bk_tokens := min (sat_add (bk_tokens b) units) INGRESS_BURST,
             bk_last_refill := bk_last_refill b + INGRESS_REFILL * units\<rparr>
      else b)"

definition make_room :: "u32 \<Rightarrow> buckets \<Rightarrow> buckets" where
  "make_room uid bs =
     (if uid \<notin> fst ` set bs \<and> MAX_INGRESS_BUCKETS \<le> length bs
      then (case oldest_uid bs of Some v \<Rightarrow> filter (\<lambda>(u, _). u \<noteq> v) bs | None \<Rightarrow> bs)
      else bs)"

definition live_buckets :: "nat \<Rightarrow> buckets \<Rightarrow> buckets" where
  "live_buckets now bs = filter (\<lambda>(_, b). now - bk_last_seen b < INGRESS_BUCKET_TTL) bs"

text \<open>The bucket of the caller after the entry lookup and the refill.\<close>

definition entry_bucket :: "u32 \<Rightarrow> nat \<Rightarrow> buckets \<Rightarrow> bucket" where
  "entry_bucket uid now bs =
     refill now ((case map_of bs uid of
                    Some b \<Rightarrow> b
                  | None \<Rightarrow> \<lparr>bk_tokens = INGRESS_BURST, bk_last_refill = now, bk_last_seen = now\<rparr>)\<lparr>bk_last_seen := now\<rparr>)"

fun set_bucket :: "u32 \<Rightarrow> bucket \<Rightarrow> buckets \<Rightarrow> buckets" where
  "set_bucket uid b [] = [(uid, b)]"
| "set_bucket uid b ((u, c) # bs) = (if u = uid then (uid, b) # bs else (u, c) # set_bucket uid b bs)"

definition check_and_charge_at :: "u32 \<Rightarrow> nat \<Rightarrow> ingress \<Rightarrow> bool \<times> ingress" where
  "check_and_charge_at uid now st =
     (if in_poisoned st then (False, st)
      else let bs = make_room uid (live_buckets now (in_buckets st));
               b = entry_bucket uid now bs
           in if bk_tokens b = 0 then (False, st\<lparr>in_buckets := set_bucket uid b bs\<rparr>)
              else (True, st\<lparr>in_buckets := set_bucket uid (b\<lparr>bk_tokens := bk_tokens b - 1\<rparr>) bs\<rparr>))"

text \<open>Calls answered one after the other.\<close>

fun serve_calls :: "('c \<Rightarrow> 's \<Rightarrow> bool \<times> 's) \<Rightarrow> 'c list \<Rightarrow> 's \<Rightarrow> bool list \<times> 's" where
  "serve_calls step [] s = ([], s)"
| "serve_calls step (c # cs) s =
     (case step c s of (ok, s1) \<Rightarrow> case serve_calls step cs s1 of (oks, s2) \<Rightarrow> (ok # oks, s2))"

definition ingress_run :: "(u32 \<times> nat) list \<Rightarrow> ingress \<Rightarrow> bool list \<times> ingress" where
  "ingress_run = serve_calls (\<lambda>(uid, now). check_and_charge_at uid now)"

definition admitted :: "('c \<Rightarrow> bool) \<Rightarrow> 'c list \<Rightarrow> bool list \<Rightarrow> nat" where
  "admitted mine calls oks = length (filter (\<lambda>(c, ok). mine c \<and> ok) (zip calls oks))"

subsection \<open>The invariant\<close>

definition bucket_ok :: "nat \<Rightarrow> bucket \<Rightarrow> bool" where
  "bucket_ok now b \<longleftrightarrow> bk_tokens b \<le> INGRESS_BURST \<and> bk_last_refill b \<le> bk_last_seen b \<and> bk_last_seen b \<le> now"

definition ingress_inv :: "nat \<Rightarrow> ingress \<Rightarrow> bool" where
  "ingress_inv now st \<longleftrightarrow> distinct (map fst (in_buckets st)) \<and> length (in_buckets st) \<le> MAX_INGRESS_BUCKETS \<and>
     list_all (\<lambda>(_, b). bucket_ok now b) (in_buckets st)"

lemma unat_min: "unat (min a b) = min (unat a) (unat b)" for a b :: u32
  by (simp add: min_def word_le_nat_alt)

lemma unat_sat_add: "unat (sat_add t n) = min (unat t + n) (2 ^ 32 - 1)"
  by (simp add: sat_add_def take_bit_nat_eq_self unat_of_nat min_def)

lemma refill_seen [simp]: "bk_last_seen (refill now b) = bk_last_seen b"
  by (simp add: refill_def Let_def)

text \<open>What a bucket is worth: tokens and pending time, in nanoseconds.\<close>

definition worth :: "nat \<Rightarrow> bucket \<Rightarrow> nat" where
  "worth now b = unat (bk_tokens b) * INGRESS_REFILL + (now - bk_last_refill b)"

text \<open>A refill never creates credit and leaves less than one unit of pending time.\<close>

lemma refill_credit:
  assumes "bk_tokens b \<le> INGRESS_BURST" "bk_last_refill b \<le> now"
  shows "unat (bk_tokens (refill now b)) \<le> 10 \<and> bk_last_refill (refill now b) \<le> now \<and>
    now - bk_last_refill (refill now b) < INGRESS_REFILL \<and>
    worth now (refill now b) \<le> worth now b"
proof -
  let ?e = "now - bk_last_refill b" let ?u = "?e div INGRESS_REFILL"
  have R: "0 < INGRESS_REFILL" by (simp add: INGRESS_REFILL_def)
  have split: "?u * INGRESS_REFILL + ?e mod INGRESS_REFILL = ?e" by simp
  have t: "unat (bk_tokens b) \<le> 10" using assms(1) by (simp add: INGRESS_BURST_def word_le_nat_alt)
  show ?thesis
  proof (cases "10 \<le> ?u")
    case True
    then have "10 * INGRESS_REFILL \<le> ?e" using split mult_le_mono1[OF True, of INGRESS_REFILL] by linarith
    then show ?thesis using True R by (simp add: refill_def Let_def INGRESS_BURST_def worth_def)
  next
    case False
    show ?thesis
    proof (cases "?u = 0")
      case True
      then show ?thesis using t R assms(2) by (simp add: refill_def Let_def INGRESS_BURST_def div_eq_0_iff)
    next
      case pos: False
      have sum: "unat (bk_tokens b) + ?u < 2 ^ 32 - 1" using t False by simp
      then have tok: "unat (bk_tokens (refill now b)) = min (unat (bk_tokens b) + ?u) 10"
        using pos False by (simp add: refill_def Let_def INGRESS_BURST_def unat_min unat_sat_add)
      have last: "bk_last_refill (refill now b) = bk_last_refill b + INGRESS_REFILL * ?u"
        using pos False by (simp add: refill_def Let_def INGRESS_BURST_def)
      have rest: "now - bk_last_refill (refill now b) = ?e mod INGRESS_REFILL"
        unfolding last using split by (simp add: minus_mod_eq_mult_div[symmetric] mult.commute)
      have "INGRESS_REFILL * ?u \<le> ?e" using split by (simp add: mult.commute)
      then have past: "bk_last_refill (refill now b) \<le> now" unfolding last using assms(2) by linarith
      have "min (unat (bk_tokens b) + ?u) 10 * INGRESS_REFILL \<le> (unat (bk_tokens b) + ?u) * INGRESS_REFILL" by simp
      also have "\<dots> = unat (bk_tokens b) * INGRESS_REFILL + ?u * INGRESS_REFILL" by (simp add: add_mult_distrib)
      finally have "min (unat (bk_tokens b) + ?u) 10 * INGRESS_REFILL + ?e mod INGRESS_REFILL \<le>
          unat (bk_tokens b) * INGRESS_REFILL + ?e" using split by linarith
      then show ?thesis unfolding worth_def rest tok using past R by simp
    qed
  qed
qed

lemma set_bucket_keys: "fst ` set (set_bucket uid b bs) = insert uid (fst ` set bs)"
  by (induction uid b bs rule: set_bucket.induct) auto

lemma set_bucket_map: "map_of (set_bucket uid b bs) u = (if u = uid then Some b else map_of bs u)"
  by (induction uid b bs rule: set_bucket.induct) auto

lemma set_bucket_set: "x \<in> set (set_bucket uid b bs) \<Longrightarrow> x = (uid, b) \<or> x \<in> set bs"
  by (induction uid b bs rule: set_bucket.induct) (auto split: if_splits)

lemma set_bucket_length: "length (set_bucket uid b bs) = (if uid \<in> fst ` set bs then length bs else Suc (length bs))"
  by (induction uid b bs rule: set_bucket.induct) (auto split: if_splits)

lemma set_bucket_distinct: "distinct (map fst bs) \<Longrightarrow> distinct (map fst (set_bucket uid b bs))"
  by (induction uid b bs rule: set_bucket.induct) (auto simp: set_bucket_keys image_iff[symmetric])

lemma oldest_member: "bs \<noteq> [] \<Longrightarrow> \<exists>v. oldest_uid bs = Some v \<and> v \<in> fst ` set bs"
proof (induction bs rule: oldest_uid.induct)
  case (2 u b bs)
  show ?case
  proof (cases "bs = []")
    case False
    then obtain v where "oldest_uid bs = Some v" "v \<in> fst ` set bs" using 2 by blast
    then show ?thesis by (simp split: option.splits)
  qed simp
qed simp

lemma filter_keys: "distinct (map fst bs) \<Longrightarrow> distinct (map fst (filter P bs))"
  by (induction bs) auto

lemma make_room_subset: "set (make_room uid bs) \<subseteq> set bs"
  by (auto simp: make_room_def split: option.splits)

lemma make_room_distinct: "distinct (map fst bs) \<Longrightarrow> distinct (map fst (make_room uid bs))"
  by (auto simp: make_room_def filter_keys split: option.splits)

lemma make_room_length:
  assumes "length bs \<le> MAX_INGRESS_BUCKETS"
  shows "length (set_bucket uid b (make_room uid bs)) \<le> MAX_INGRESS_BUCKETS"
proof (cases "uid \<notin> fst ` set bs \<and> MAX_INGRESS_BUCKETS \<le> length bs")
  case True
  then have "bs \<noteq> []" by (auto simp: MAX_INGRESS_BUCKETS_def)
  then obtain v x where v: "oldest_uid bs = Some v" "x \<in> set bs" "fst x = v" using oldest_member[of bs] by auto
  have "length (filter (\<lambda>(u, _). u \<noteq> v) bs) < length bs"
    using length_filter_less[OF v(2), of "\<lambda>(u, _). u \<noteq> v"] v(3) by (simp add: case_prod_unfold)
  then show ?thesis using True v(1) assms by (auto simp: make_room_def set_bucket_length)
next
  case False
  then have "make_room uid bs = bs" by (auto simp: make_room_def)
  then show ?thesis using False assms by (auto simp: set_bucket_length)
qed

lemma entry_ok:
  assumes "list_all (\<lambda>(_, b). bucket_ok t b) bs" "t \<le> now"
  shows "bucket_ok now (entry_bucket uid now bs) \<and> now - bk_last_refill (entry_bucket uid now bs) < INGRESS_REFILL"
proof -
  define b where "b = (case map_of bs uid of Some b \<Rightarrow> b
      | None \<Rightarrow> \<lparr>bk_tokens = INGRESS_BURST, bk_last_refill = now, bk_last_seen = now\<rparr>)\<lparr>bk_last_seen := now\<rparr>"
  have b: "bk_tokens b \<le> INGRESS_BURST" "bk_last_refill b \<le> now" "bk_last_seen b = now"
    using assms by (auto simp: b_def bucket_ok_def list_all_iff dest!: map_of_SomeD split: option.splits)
  from refill_credit[OF b(1,2)] show ?thesis using b(3)
    by (simp add: entry_bucket_def b_def[symmetric] bucket_ok_def INGRESS_BURST_def word_le_nat_alt)
qed

lemma charge_inv:
  assumes "check_and_charge_at uid now st = (ok, st')" "ingress_inv t st" "t \<le> now"
  shows "ingress_inv now st' \<and> in_poisoned st' = in_poisoned st"
proof (cases "in_poisoned st")
  case True
  then show ?thesis using assms
    by (auto simp: check_and_charge_at_def ingress_inv_def list_all_iff bucket_ok_def)
next
  case False
  let ?bs = "make_room uid (live_buckets now (in_buckets st))" let ?b = "entry_bucket uid now ?bs"
  have live: "set (live_buckets now (in_buckets st)) \<subseteq> set (in_buckets st)" by (auto simp: live_buckets_def)
  have all: "list_all (\<lambda>(_, b). bucket_ok t b) ?bs"
    using assms(2) make_room_subset[of uid "live_buckets now (in_buckets st)"] live
    by (auto simp: ingress_inv_def list_all_iff)
  note b = entry_ok[OF all assms(3), of uid]
  have old: "\<forall>x \<in> set ?bs. bucket_ok now (snd x)" using all assms(3) by (auto simp: list_all_iff bucket_ok_def)
  have dist: "distinct (map fst ?bs)"
    using assms(2) by (intro make_room_distinct) (simp add: ingress_inv_def live_buckets_def filter_keys)
  have len: "length (live_buckets now (in_buckets st)) \<le> MAX_INGRESS_BUCKETS"
    using assms(2) order_trans[OF length_filter_le] by (auto simp: ingress_inv_def live_buckets_def)
  have inv: "ingress_inv now (st\<lparr>in_buckets := set_bucket uid c ?bs\<rparr>)" if "bucket_ok now c" for c
    using set_bucket_distinct[OF dist] make_room_length[OF len] old that
    by (auto simp: ingress_inv_def list_all_iff dest!: set_bucket_set)
  have "bucket_ok now (?b\<lparr>bk_tokens := bk_tokens ?b - 1\<rparr>)" if "bk_tokens ?b \<noteq> 0"
    using b that by (auto simp: bucket_ok_def INGRESS_BURST_def word_le_nat_alt unat_minus_one)
  then show ?thesis using assms(1) False inv b
    by (auto simp: check_and_charge_at_def Let_def split: if_splits)
qed

subsection \<open>Credit\<close>

text \<open>A metered service: a call that is granted to the observed caller costs a price, credit grows with
  time at most one for one, and no other call creates any. Then the grants of a run are paid by the
  credit at its start and the time it took.\<close>

locale metered =
  fixes step :: "'c \<Rightarrow> 's \<Rightarrow> bool \<times> 's" and at_time :: "'c \<Rightarrow> nat" and mine :: "'c \<Rightarrow> bool"
    and legal :: "'c \<Rightarrow> bool" and state_ok :: "nat \<Rightarrow> 's \<Rightarrow> bool" and credit :: "nat \<Rightarrow> 's \<Rightarrow> nat" and price :: nat
  assumes step_ok: "state_ok t s \<Longrightarrow> legal c \<Longrightarrow> t \<le> at_time c \<Longrightarrow> state_ok (at_time c) (snd (step c s))"
    and step_credit: "state_ok t s \<Longrightarrow> legal c \<Longrightarrow> t \<le> at_time c \<Longrightarrow>
      credit (at_time c) (snd (step c s)) + (if mine c \<and> fst (step c s) then price else 0) \<le>
        credit t s + (at_time c - t)"
begin

lemma run_ok:
  "state_ok t s \<Longrightarrow> list_all legal cs \<Longrightarrow> sorted (map at_time cs) \<Longrightarrow> \<forall>c \<in> set cs. t \<le> at_time c \<and> at_time c \<le> e \<Longrightarrow> t \<le> e \<Longrightarrow>
   \<exists>t' \<le> e. state_ok t' (snd (serve_calls step cs s))"
proof (induction cs arbitrary: s t)
  case (Cons c cs)
  have "\<exists>t' \<le> e. state_ok t' (snd (serve_calls step cs (snd (step c s))))"
    using Cons.IH[OF step_ok[OF Cons.prems(1), of c]] Cons.prems by simp
  then show ?case by (simp add: case_prod_unfold)
qed auto

lemma grants_paid:
  "state_ok t s \<Longrightarrow> list_all legal cs \<Longrightarrow> sorted (map at_time cs) \<Longrightarrow> \<forall>c \<in> set cs. t \<le> at_time c \<and> at_time c \<le> e \<Longrightarrow> t \<le> e \<Longrightarrow>
   admitted mine cs (fst (serve_calls step cs s)) * price \<le> credit t s + (e - t)"
proof (induction cs arbitrary: s t)
  case (Cons c cs)
  let ?s = "snd (step c s)"
  have "admitted mine cs (fst (serve_calls step cs ?s)) * price \<le> credit (at_time c) ?s + (e - at_time c)"
    using Cons.IH[OF step_ok[OF Cons.prems(1), of c]] Cons.prems by simp
  moreover have "admitted mine (c # cs) (fst (serve_calls step (c # cs) s)) * price =
      admitted mine cs (fst (serve_calls step cs ?s)) * price + (if mine c \<and> fst (step c s) then price else 0)"
    by (simp add: admitted_def case_prod_unfold)
  moreover have "legal c" "t \<le> at_time c" "at_time c \<le> e" using Cons.prems by simp_all
  ultimately show ?case using step_credit[OF Cons.prems(1), of c] by linarith
qed (simp add: admitted_def)

end

text \<open>The credit of a UID is what its bucket is worth, capped where a refill caps it; a UID without a bucket
  would get a full one.\<close>

definition credit_in :: "nat \<Rightarrow> bucket option \<Rightarrow> nat" where
  "credit_in now ob =
     (case ob of None \<Rightarrow> 10 * INGRESS_REFILL | Some b \<Rightarrow> min (worth now b) (11 * INGRESS_REFILL - 1))"

definition credit_of :: "u32 \<Rightarrow> nat \<Rightarrow> ingress \<Rightarrow> nat" where
  "credit_of uid now st = credit_in now (map_of (in_buckets st) uid)"

definition within :: "u32 set \<Rightarrow> nat \<Rightarrow> ingress \<Rightarrow> bool" where
  "within us now st \<longleftrightarrow> ingress_inv now st \<and> fst ` set (in_buckets st) \<subseteq> us \<and>
     finite us \<and> card us \<le> MAX_INGRESS_BUCKETS"

lemma no_eviction:
  assumes "within us t st" "uid \<in> us"
  shows "make_room uid (live_buckets now (in_buckets st)) = live_buckets now (in_buckets st)"
proof -
  let ?bs = "live_buckets now (in_buckets st)"
  have d: "distinct (map fst ?bs)" using assms(1) by (simp add: within_def ingress_inv_def live_buckets_def filter_keys)
  have sub: "fst ` set ?bs \<subseteq> us" using assms(1) by (auto simp: within_def live_buckets_def)
  have "length ?bs = card (fst ` set ?bs)" using distinct_card[OF d] by simp
  moreover have "card (fst ` set ?bs) < card us" if "uid \<notin> fst ` set ?bs"
    using that sub assms by (intro psubset_card_mono) (auto simp: within_def)
  ultimately have "length ?bs < MAX_INGRESS_BUCKETS" if "uid \<notin> fst ` set ?bs"
    using that assms(1) by (simp add: within_def)
  then show ?thesis by (auto simp: make_room_def not_le)
qed

lemma worth_later: "t \<le> now \<Longrightarrow> worth now b \<le> worth t b + (now - t)"
  by (simp add: worth_def)

lemma worth_spent:
  assumes "bk_tokens b \<noteq> 0"
  shows "worth now (b\<lparr>bk_tokens := bk_tokens b - 1\<rparr>) + INGRESS_REFILL = worth now b"
proof -
  have "unat (bk_tokens b) = unat (bk_tokens b - 1) + 1"
    using unat_minus_one[OF assms] assms by (simp add: unat_gt_0)
  then have "unat (bk_tokens b) * INGRESS_REFILL = unat (bk_tokens b - 1) * INGRESS_REFILL + INGRESS_REFILL"
    by (metis add_mult_distrib mult_1)
  then show ?thesis by (simp add: worth_def)
qed

lemma live_credit:
  assumes "ingress_inv t st" "t \<le> now"
  shows "credit_in now (map_of (live_buckets now (in_buckets st)) u) \<le> credit_of u t st + (now - t)"
proof (cases "map_of (in_buckets st) u")
  case None
  then have "map_of (live_buckets now (in_buckets st)) u = None"
    by (force simp: live_buckets_def map_of_eq_None_iff)
  then show ?thesis using None by (simp add: credit_of_def credit_in_def)
next
  case (Some b)
  then have b: "(u, b) \<in> set (in_buckets st)" by (rule map_of_SomeD)
  have ok: "bucket_ok t b" and d: "distinct (map fst (in_buckets st))"
    using assms(1) b by (auto simp: ingress_inv_def list_all_iff)
  have c: "credit_in now (Some b) \<le> credit_of u t st + (now - t)"
    using Some worth_later[OF assms(2), of b] by (simp add: credit_of_def credit_in_def)
  show ?thesis
  proof (cases "now - bk_last_seen b < INGRESS_BUCKET_TTL")
    case True
    then have "map_of (live_buckets now (in_buckets st)) u = Some b"
      using b d by (auto simp: live_buckets_def filter_keys intro!: map_of_is_SomeI)
    then show ?thesis using c by simp
  next
    case False
    then have "(u, c) \<notin> set (live_buckets now (in_buckets st))" for c
      using b d by (auto simp: live_buckets_def dest: eq_key_imp_eq_value)
    then have "map_of (live_buckets now (in_buckets st)) u = None" by (auto simp: map_of_eq_None_iff)
    moreover have "10 * INGRESS_REFILL \<le> now - bk_last_refill b"
      using False ok unfolding bucket_ok_def INGRESS_BUCKET_TTL_def INGRESS_REFILL_def by linarith
    then have "credit_in now None \<le> credit_in now (Some b)" by (simp add: credit_in_def worth_def INGRESS_REFILL_def)
    ultimately show ?thesis using c by simp
  qed
qed

lemma entry_credit:
  assumes "list_all (\<lambda>(_, b). bucket_ok t b) bs" "t \<le> now"
  shows "worth now (entry_bucket uid now bs) \<le> credit_in now (map_of bs uid)"
proof -
  define b where "b = (case map_of bs uid of Some b \<Rightarrow> b
      | None \<Rightarrow> \<lparr>bk_tokens = INGRESS_BURST, bk_last_refill = now, bk_last_seen = now\<rparr>)\<lparr>bk_last_seen := now\<rparr>"
  have b: "bk_tokens b \<le> INGRESS_BURST" "bk_last_refill b \<le> now"
    using assms by (auto simp: b_def bucket_ok_def list_all_iff dest!: map_of_SomeD split: option.splits)
  note cr = refill_credit[OF b]
  have "unat (bk_tokens (refill now b)) * INGRESS_REFILL \<le> 10 * INGRESS_REFILL" using cr by simp
  then have cap: "worth now (refill now b) \<le> 11 * INGRESS_REFILL - 1" using cr unfolding worth_def by linarith
  have e: "entry_bucket uid now bs = refill now b" by (simp add: entry_bucket_def b_def)
  show ?thesis
  proof (cases "map_of bs uid")
    case None
    then have "worth now b = 10 * INGRESS_REFILL" by (simp add: b_def INGRESS_BURST_def worth_def)
    then show ?thesis using cr None unfolding e by (simp add: credit_in_def)
  next
    case (Some c)
    then have "worth now b = worth now c" by (simp add: b_def worth_def)
    then show ?thesis using cr cap Some unfolding e by (simp add: credit_in_def)
  qed
qed

lemma charge_keys:
  "fst ` set (in_buckets (snd (check_and_charge_at uid now st))) \<subseteq> insert uid (fst ` set (in_buckets st))"
proof -
  have "fst ` set (make_room uid (live_buckets now (in_buckets st))) \<subseteq> fst ` set (in_buckets st)"
    using make_room_subset[of uid "live_buckets now (in_buckets st)"] by (auto simp: live_buckets_def)
  then show ?thesis by (auto simp: check_and_charge_at_def Let_def set_bucket_keys image_iff)
qed

lemma charge_credit:
  assumes "within us t st" "uid \<in> us" "t \<le> now" "\<not> in_poisoned st"
  shows "credit_of u now (snd (check_and_charge_at uid now st)) +
      (if uid = u \<and> fst (check_and_charge_at uid now st) then INGRESS_REFILL else 0) \<le> credit_of u t st + (now - t)"
proof -
  let ?bs = "live_buckets now (in_buckets st)" let ?b = "entry_bucket uid now ?bs"
  have inv: "ingress_inv t st" using assms(1) by (simp add: within_def)
  have all: "list_all (\<lambda>(_, b). bucket_ok t b) ?bs" using inv by (auto simp: ingress_inv_def live_buckets_def list_all_iff)
  have run: "check_and_charge_at uid now st =
      (if bk_tokens ?b = 0 then (False, st\<lparr>in_buckets := set_bucket uid ?b ?bs\<rparr>)
       else (True, st\<lparr>in_buckets := set_bucket uid (?b\<lparr>bk_tokens := bk_tokens ?b - 1\<rparr>) ?bs\<rparr>))"
    using assms(4) by (simp add: check_and_charge_at_def Let_def no_eviction[OF assms(1,2)])
  note live = live_credit[OF inv assms(3), of u]
  show ?thesis
  proof (cases "uid = u")
    case True
    note entry = entry_credit[OF all assms(3), of uid]
    show ?thesis
    proof (cases "bk_tokens ?b = 0")
      case none: True
      have "credit_of u now (st\<lparr>in_buckets := set_bucket uid ?b ?bs\<rparr>) \<le> worth now ?b"
        using True by (simp add: credit_of_def set_bucket_map credit_in_def)
      then show ?thesis using entry live True none unfolding run by simp
    next
      case some: False
      have "credit_of u now (st\<lparr>in_buckets := set_bucket uid (?b\<lparr>bk_tokens := bk_tokens ?b - 1\<rparr>) ?bs\<rparr>) \<le>
          worth now (?b\<lparr>bk_tokens := bk_tokens ?b - 1\<rparr>)"
        using True by (simp add: credit_of_def set_bucket_map credit_in_def)
      then show ?thesis using entry live True worth_spent[OF some, of now] some unfolding run by simp
    qed
  next
    case False
    then show ?thesis using live by (simp add: run credit_of_def set_bucket_map)
  qed
qed

text \<open>The limiter is metered for every UID, as long as at most 1024 UIDs take part.\<close>

interpretation ingress_meter: metered "\<lambda>(uid, now). check_and_charge_at uid now" snd "\<lambda>(uid, _). uid = u"
  "\<lambda>(uid, _). uid \<in> us" "\<lambda>t st. within us t st \<and> \<not> in_poisoned st" "credit_of u" INGRESS_REFILL for u us
proof
  fix t st and c :: "u32 \<times> nat"
  assume ok: "within us t st \<and> \<not> in_poisoned st" and l: "case c of (uid, _) \<Rightarrow> uid \<in> us" and t: "t \<le> snd c"
  obtain uid now where c: "c = (uid, now)" by force
  obtain b st' where run: "check_and_charge_at uid now st = (b, st')" by force
  show "within us (snd c) (snd ((case c of (uid, now) \<Rightarrow> check_and_charge_at uid now) st)) \<and>
      \<not> in_poisoned (snd ((case c of (uid, now) \<Rightarrow> check_and_charge_at uid now) st))"
    using charge_inv[OF run, of t] charge_keys[of uid now st] ok l t by (auto simp: c run within_def)
  show "credit_of u (snd c) (snd ((case c of (uid, now) \<Rightarrow> check_and_charge_at uid now) st)) +
      (if (case c of (uid, _) \<Rightarrow> uid = u) \<and> fst ((case c of (uid, now) \<Rightarrow> check_and_charge_at uid now) st)
       then INGRESS_REFILL else 0) \<le> credit_of u t st + (snd c - t)"
    using charge_credit[of us t st uid now u] ok l t by (simp add: c)
qed

lemma credit_bound: "credit_of u now st \<le> 11 * INGRESS_REFILL - 1"
  by (simp add: credit_of_def credit_in_def INGRESS_REFILL_def split: option.splits)

lemma ingress_memory: "ingress_inv t st \<Longrightarrow> sorted (map snd calls) \<Longrightarrow> \<forall>c \<in> set calls. t \<le> snd c \<Longrightarrow>
  length (in_buckets (snd (ingress_run calls st))) \<le> MAX_INGRESS_BUCKETS"
proof (induction calls arbitrary: t st)
  case (Cons c calls)
  obtain b st' where run: "check_and_charge_at (fst c) (snd c) st = (b, st')" by force
  have "ingress_inv (snd c) st'" using charge_inv[OF run Cons.prems(1)] Cons.prems(3) by simp
  from Cons.IH[OF this] show ?case using Cons.prems run by (simp add: ingress_run_def case_prod_unfold)
qed (simp add: ingress_run_def ingress_inv_def)


definition fresh_ingress :: ingress where
  "fresh_ingress = \<lparr>in_poisoned = False, in_buckets = []\<rparr>"


end
