(* ===== verification/Provenance.thy ===== *)
theory Provenance
  imports Prelude
begin

text \<open>
  Where a D-Bus caller comes from, as \<^verbatim>\<open>facelock-daemon/src/server.rs\<close> decides it for the SSH gate:
  the caller's process file descriptor, its logind session, and the systemd unit and sessions of a
  caller outside every session. Answers of the bus and of the kernel are observations.
\<close>

subsection \<open>Strings\<close>

text \<open>\<^verbatim>\<open>lines\<close> and \<^verbatim>\<open>trim\<close>.\<close>

definition strip_cr :: "string \<Rightarrow> string" where
  "strip_cr l = (if l \<noteq> [] \<and> last l = CHR 0x0D then butlast l else l)"

fun lines_from :: "string \<Rightarrow> string \<Rightarrow> string list" where
  "lines_from acc [] = (if acc = [] then [] else [rev acc])"
| "lines_from acc (c # cs) = (if c = CHR 0x0A then strip_cr (rev acc) # lines_from [] cs else lines_from (c # acc) cs)"

definition lines_of :: "string \<Rightarrow> string list" where
  "lines_of s = lines_from [] s"

definition is_white :: "char \<Rightarrow> bool" where
  "is_white c = (c \<in> {CHR 0x09, CHR 0x0A, CHR 0x0B, CHR 0x0C, CHR 0x0D, CHR '' ''})"

definition trim :: "string \<Rightarrow> string" where
  "trim s = rev (dropWhile is_white (rev (dropWhile is_white s)))"

text \<open>\<^verbatim>\<open>str::parse::<u32>\<close>: an optional plus sign and decimal digits; the first digit that is none or that
  overflows decides the error.\<close>

fun parse_digits :: "nat \<Rightarrow> string \<Rightarrow> (nat, string) result" where
  "parse_digits n [] = Ok n"
| "parse_digits n (c # cs) =
     (let d = of_char c :: nat in
      if \<not> (48 \<le> d \<and> d \<le> 57) then Err ''invalid digit found in string''
      else if 2 ^ 32 \<le> n * 10 + (d - 48) then Err ''number too large to fit in target type''
      else parse_digits (n * 10 + (d - 48)) cs)"

definition parse_u32 :: "string \<Rightarrow> (u32, string) result" where
  "parse_u32 s =
     (if s = [] then Err ''cannot parse integer from empty string''
      else if s = ''+'' then Err ''invalid digit found in string''
      else and_then (parse_digits 0 (if hd s = CHR ''+'' then tl s else s)) (\<lambda>n. Ok (of_nat n)))"

subsection \<open>The process behind a connection\<close>

datatype provenance_error = PMissing | PInvalid string | PDead | PSessionLookup string

definition provenance_error_display :: "provenance_error \<Rightarrow> string" where
  "provenance_error_display e =
     (case e of
        PMissing \<Rightarrow> ''D-Bus credentials omitted ProcessFD''
      | PInvalid m \<Rightarrow> ''invalid D-Bus ProcessFD: '' @ m
      | PDead \<Rightarrow> ''D-Bus ProcessFD no longer identifies a live process''
      | PSessionLookup m \<Rightarrow> ''logind session lookup failed: '' @ m)"

definition pid_from_pidfd :: "(string, string) result \<Rightarrow> (u32, provenance_error) result" where
  "pid_from_pidfd fdinfo =
     and_then (map_err PInvalid fdinfo) (\<lambda>text.
       case List.map_filter (strip_prefix ''Pid:'') (lines_of text) of
         [] \<Rightarrow> Err (PInvalid ''descriptor is not a Linux process file descriptor'')
       | v # _ \<Rightarrow>
           let value = trim v in
           if value = ''-1'' then Err PDead
           else and_then (map_err PInvalid (parse_u32 value)) (\<lambda>pid.
                  if pid = 0 then Err (PInvalid ''pidfd reported PID 0'') else Ok pid))"

text \<open>One non-blocking \<^verbatim>\<open>poll\<close>: the error of a failing call, or whether \<^verbatim>\<open>POLLNVAL\<close> is set and how many
  descriptors are ready.\<close>

datatype poll_obs = PollFailed string | PollReady bool nat

definition pidfd_is_live :: "poll_obs \<Rightarrow> (bool, provenance_error) result" where
  "pidfd_is_live p =
     (case p of
        PollFailed e \<Rightarrow> Err (PInvalid e)
      | PollReady invalid n \<Rightarrow> if invalid then Err (PInvalid ''descriptor was closed'') else Ok (n = 0))"

definition stable_process_session_is_remote ::
  "poll_obs \<Rightarrow> poll_obs \<Rightarrow> (bool, string) result \<Rightarrow> (bool, provenance_error) result" where
  "stable_process_session_is_remote before after session =
     and_then (pidfd_is_live before) (\<lambda>live.
       if \<not> live then Err PDead
       else and_then (map_err PSessionLookup session) (\<lambda>remote.
            and_then (pidfd_is_live after) (\<lambda>live'. if \<not> live' then Err PDead else Ok remote)))"

subsection \<open>A caller outside every session\<close>

record session_facts =
  sf_remote :: bool
  sf_seat :: string
  sf_kind :: string
  sf_active :: bool

definition is_active_local :: "session_facts \<Rightarrow> bool" where
  "is_active_local s =
     (\<not> sf_remote s \<and> sf_seat s \<noteq> [] \<and> sf_kind s \<in> {''wayland'', ''x11'', ''tty''} \<and> sf_active s)"

datatype user_manager_refusal =
    NotInUserManager u32 string
  | RootNotInSystemService string
  | UnitLookupFailed u32 string
  | NoActiveLocalSession u32

definition user_manager_refusal_display :: "user_manager_refusal \<Rightarrow> string" where
  "user_manager_refusal_display r =
     (case r of
        NotInUserManager uid detail \<Rightarrow>
          ''no logind session and caller is not in user@'' @ dec_str (unat uid) @ ''.service: '' @ detail
      | RootNotInSystemService detail \<Rightarrow>
          ''no logind session and root caller is in neither a user manager nor a system service: '' @ detail
      | UnitLookupFailed uid detail \<Rightarrow>
          ''no logind session and unit lookup failed for caller UID '' @ dec_str (unat uid) @ '': '' @ detail
      | NoActiveLocalSession uid \<Rightarrow>
          ''caller is in user@'' @ dec_str (unat uid) @ ''.service but user '' @ dec_str (unat uid) @
          '' has no active local session'')"

datatype unit_provenance = UserManager u32 | RootSystemService

definition user_manager_unit :: "u32 \<Rightarrow> string" where
  "user_manager_unit uid = ''user@'' @ dec_str (unat uid) @ ''.service''"

definition user_manager_owner :: "string \<Rightarrow> u32 option" where
  "user_manager_owner unit_name =
     (case Option.bind (strip_prefix ''user@'' unit_name) (strip_suffix ''.service'') of
        None \<Rightarrow> None
      | Some stem \<Rightarrow>
          (case parse_u32 stem of
             Err _ \<Rightarrow> None
           | Ok uid \<Rightarrow> if unit_name = user_manager_unit uid then Some uid else None))"

definition is_system_service :: "string \<Rightarrow> bool" where
  "is_system_service unit_name =
     (case strip_suffix ''.service'' unit_name of
        None \<Rightarrow> False
      | Some stem \<Rightarrow> stem \<noteq> [] \<and> \<not> starts_with stem ''user@'' \<and> stem \<notin> {''sshd'', ''ssh''} \<and>
          \<not> starts_with stem ''sshd@'' \<and> \<not> starts_with stem ''ssh@'')"

text \<open>\<open>quoted\<close> is the debug rendering of a string.\<close>

definition classify_caller_unit ::
  "(string \<Rightarrow> string) \<Rightarrow> u32 \<Rightarrow> string \<Rightarrow> (unit_provenance, user_manager_refusal) result" where
  "classify_caller_unit quoted caller_uid unit_name =
     (let detail = ''caller unit is '' @ quoted unit_name in
      case user_manager_owner unit_name of
        Some owner \<Rightarrow>
          if owner = caller_uid \<or> caller_uid = 0 then Ok (UserManager owner)
          else Err (NotInUserManager caller_uid detail)
      | None \<Rightarrow>
          if caller_uid \<noteq> 0 then Err (NotInUserManager caller_uid detail)
          else if is_system_service unit_name then Ok RootSystemService
          else Err (RootNotInSystemService detail))"

definition check_user_manager_sessions :: "u32 \<Rightarrow> session_facts list \<Rightarrow> (unit, user_manager_refusal) result" where
  "check_user_manager_sessions owner sessions =
     (if list_ex is_active_local sessions then Ok () else Err (NoActiveLocalSession owner))"

definition manager_answer ::
  "(u32 \<Rightarrow> (session_facts list, string) result) \<Rightarrow> unit_provenance \<Rightarrow> (bool, string) result" where
  "manager_answer user_sessions p =
     (case p of
        RootSystemService \<Rightarrow> Ok False
      | UserManager owner \<Rightarrow>
          and_then (map_err (\<lambda>e. ''enumerate logind sessions for UID '' @ dec_str (unat owner) @ '': '' @ e)
                      (user_sessions owner)) (\<lambda>sessions.
          and_then (map_err user_manager_refusal_display (check_user_manager_sessions owner sessions)) (\<lambda>_. Ok False)))"

definition user_manager_session_is_remote ::
  "(string \<Rightarrow> string) \<Rightarrow> u32 \<Rightarrow> (string, string) result \<Rightarrow> (u32 \<Rightarrow> (session_facts list, string) result) \<Rightarrow> (bool, string) result" where
  "user_manager_session_is_remote quoted caller_uid unit_by_pid user_sessions =
     and_then (map_err (\<lambda>d. user_manager_refusal_display (UnitLookupFailed caller_uid d)) unit_by_pid) (\<lambda>u.
     and_then (map_err user_manager_refusal_display (classify_caller_unit quoted caller_uid u)) (manager_answer user_sessions))"

text \<open>A listed session: its id, owner and seat, and the three properties read from it.\<close>

record listed_session =
  lsn_id :: string
  lsn_uid :: u32
  lsn_seat :: string
  lsn_proxy :: "(unit, string) result"
  lsn_remote :: "(bool, string) result"
  lsn_type :: "(string, string) result"
  lsn_active :: "(bool, string) result"

definition read_session :: "listed_session \<Rightarrow> (session_facts, string) result" where
  "read_session l =
     (let fail = (\<lambda>what e. ''read logind session '' @ lsn_id l @ '' '' @ what @ '': '' @ e) in
      and_then (map_err (\<lambda>e. ''create logind session '' @ lsn_id l @ '' proxy: '' @ e) (lsn_proxy l)) (\<lambda>_.
      and_then (map_err (fail ''Remote'') (lsn_remote l)) (\<lambda>remote.
      and_then (map_err (fail ''Type'') (lsn_type l)) (\<lambda>kind.
      and_then (map_err (fail ''Active'') (lsn_active l)) (\<lambda>active.
        Ok \<lparr>sf_remote = remote, sf_seat = lsn_seat l, sf_kind = kind, sf_active = active\<rparr>)))))"

fun read_sessions :: "u32 \<Rightarrow> listed_session list \<Rightarrow> (session_facts list, string) result" where
  "read_sessions uid [] = Ok []"
| "read_sessions uid (l # ls) =
     (if lsn_uid l \<noteq> uid then read_sessions uid ls
      else and_then (read_session l) (\<lambda>s. and_then (read_sessions uid ls) (\<lambda>ss. Ok (s # ss))))"

datatype session_call = SessionFound | NoSessionForPid | SessionCallFailed string

record session_obs =
  so_has_sender :: bool
  so_dbus_proxy :: "(unit, string) result"
  so_credentials :: "(bool, string) result"
  so_sender_name :: string
  so_fdinfo :: "(string, string) result"
  so_poll_before :: poll_obs
  so_poll_after :: poll_obs
  so_manager :: "(unit, string) result"
  so_call :: "u32 \<Rightarrow> session_call"
  so_session_proxy :: "(unit, string) result"
  so_remote :: "u32 \<Rightarrow> (bool, string) result"
  so_unit :: "u32 \<Rightarrow> (string, string) result"
  so_listed :: "(listed_session list, string) result"
  so_quoted :: "string \<Rightarrow> string"

definition logind_user_sessions :: "session_obs \<Rightarrow> u32 \<Rightarrow> (session_facts list, string) result" where
  "logind_user_sessions ob uid =
     and_then (map_err (\<lambda>e. ''create logind manager proxy: '' @ e) (so_manager ob)) (\<lambda>_.
     and_then (map_err (\<lambda>e. ''logind ListSessions failed: '' @ e) (so_listed ob)) (read_sessions uid))"

definition logind_session_is_remote :: "session_obs \<Rightarrow> u32 \<Rightarrow> u32 \<Rightarrow> (bool, string) result" where
  "logind_session_is_remote ob caller_uid pid =
     and_then (map_err (\<lambda>e. ''create logind manager proxy: '' @ e) (so_manager ob)) (\<lambda>_.
       case so_call ob pid of
         SessionCallFailed e \<Rightarrow> Err (''logind GetSessionByPID('' @ dec_str (unat pid) @ '') failed: '' @ e)
       | NoSessionForPid \<Rightarrow>
           user_manager_session_is_remote (so_quoted ob) caller_uid (so_unit ob pid) (logind_user_sessions ob)
       | SessionFound \<Rightarrow>
           and_then (map_err (\<lambda>e. ''create logind session proxy: '' @ e) (so_session_proxy ob)) (\<lambda>_.
             map_err (\<lambda>e. ''read logind session Remote property: '' @ e) (so_remote ob pid)))"

definition processfd_session_is_remote :: "session_obs \<Rightarrow> u32 \<Rightarrow> bool \<Rightarrow> (bool, provenance_error) result" where
  "processfd_session_is_remote ob caller_uid has_fd =
     (if \<not> has_fd then Err PMissing
      else and_then (pid_from_pidfd (so_fdinfo ob)) (\<lambda>pid.
        stable_process_session_is_remote (so_poll_before ob) (so_poll_after ob) (logind_session_is_remote ob caller_uid pid)))"

definition caller_session_is_remote :: "session_obs \<Rightarrow> u32 \<Rightarrow> (bool, string) result" where
  "caller_session_is_remote ob caller_uid =
     (if \<not> so_has_sender ob then Err ''D-Bus message omitted its sender''
      else and_then (map_err (\<lambda>e. ''create D-Bus credentials proxy: '' @ e) (so_dbus_proxy ob)) (\<lambda>_.
           and_then (map_err (\<lambda>e. ''GetConnectionCredentials('' @ so_sender_name ob @ '') failed: '' @ e)
                       (so_credentials ob)) (\<lambda>has_fd.
             map_err provenance_error_display (processfd_session_is_remote ob caller_uid has_fd))))"

subsection \<open>Unit names\<close>

lemma parse_digits_append:
  "parse_digits n (s @ t) = and_then (parse_digits n s) (\<lambda>m. parse_digits m t)"
  by (induction n s rule: parse_digits.induct) (simp_all add: Let_def)

lemma parse_digits_dec:
  "n < 2 ^ 32 \<Longrightarrow> parse_digits 0 (dec_str n) = Ok n"
proof (induction n rule: dec_str.induct)
  case (1 n)
  show ?case
  proof (cases "n < 10")
    case True
    then show ?thesis by (subst dec_str.simps) (simp add: digit_char Let_def)
  next
    case False
    have "n div 10 * 10 + n mod 10 = n" by simp
    then show ?thesis using 1 False by (subst dec_str.simps) (simp add: parse_digits_append digit_char Let_def)
  qed
qed

lemma parse_dec: "parse_u32 (dec_str (unat u)) = Ok u"
proof -
  have plus: "CHR ''+'' \<notin> set (dec_str (unat u))"
  proof
    assume "CHR ''+'' \<in> set (dec_str (unat u))"
    then obtain d :: nat where "d < 10" "CHR ''+'' = char_of (48 + d)" using dec_str_digits by blast
    then have "(of_char (CHR ''+'') :: nat) = 48 + d" using digit_char by metis
    then show False by simp
  qed
  have "unat u < 2 ^ 32" using unsigned_less[of u] by simp
  then have "parse_digits 0 (dec_str (unat u)) = Ok (unat u)" by (rule parse_digits_dec)
  moreover have "dec_str (unat u) \<noteq> ''+''" "hd (dec_str (unat u)) \<noteq> CHR ''+''"
    using plus dec_str_nonempty[of "unat u"] by (auto, metis list.set_sel(1))
  ultimately show ?thesis by (simp add: parse_u32_def dec_str_nonempty)
qed

text \<open>The owner of a unit is read exactly from its canonical name.\<close>

lemma user_manager_owner_iff: "user_manager_owner u = Some uid \<longleftrightarrow> u = user_manager_unit uid"
proof
  assume "u = user_manager_unit uid"
  then have "Option.bind (strip_prefix ''user@'' u) (strip_suffix ''.service'') = Some (dec_str (unat uid))"
    by (simp add: user_manager_unit_def bind_eq_Some_conv strip_prefix_Some strip_suffix_Some)
  then show "user_manager_owner u = Some uid"
    using \<open>u = user_manager_unit uid\<close> by (simp add: user_manager_owner_def parse_dec)
qed (auto simp: user_manager_owner_def split: option.splits result.splits if_splits)

subsection \<open>What a local caller is\<close>

definition system_service :: "string \<Rightarrow> bool" where
  "system_service u \<longleftrightarrow> (\<exists>stem. u = stem @ ''.service'' \<and> stem \<noteq> [] \<and> \<not> starts_with stem ''user@'' \<and>
     stem \<noteq> ''sshd'' \<and> stem \<noteq> ''ssh'' \<and> \<not> starts_with stem ''sshd@'' \<and> \<not> starts_with stem ''ssh@'')"

lemma is_system_service_iff: "is_system_service u \<longleftrightarrow> system_service u"
proof (cases "strip_suffix ''.service'' u")
  case None
  then have "u \<noteq> stem @ ''.service''" for stem by (metis strip_suffix_Some option.distinct(1))
  then show ?thesis using None by (simp add: is_system_service_def system_service_def)
next
  case (Some stem)
  then have "u = t @ ''.service'' \<longleftrightarrow> t = stem" for t by (auto simp: strip_suffix_Some)
  then show ?thesis using Some by (simp add: is_system_service_def system_service_def)
qed

lemma read_sessions_Ok:
  "read_sessions uid ls = Ok ss \<longleftrightarrow>
     list_all2 (\<lambda>l s. read_session l = Ok s) (filter (\<lambda>l. lsn_uid l = uid) ls) ss"
  by (induction ls arbitrary: ss) (auto simp: list_all2_Cons1)

text \<open>A process outside every session that may count as local: root in a system service that is not the
  SSH daemon, or a process in the manager of its own user, or for root of any user, while that user
  has an active session at a seat.\<close>

definition unit_local :: "session_obs \<Rightarrow> u32 \<Rightarrow> u32 \<Rightarrow> bool" where
  "unit_local ob uid pid \<longleftrightarrow> (\<exists>u. so_unit ob pid = Ok u \<and>
     (uid = 0 \<and> user_manager_owner u = None \<and> system_service u \<or>
      (\<exists>owner ss. u = user_manager_unit owner \<and> (owner = uid \<or> uid = 0) \<and>
         logind_user_sessions ob owner = Ok ss \<and> list_ex is_active_local ss)))"

definition local_caller :: "session_obs \<Rightarrow> u32 \<Rightarrow> bool" where
  "local_caller ob uid \<longleftrightarrow> so_has_sender ob \<and> is_ok (so_dbus_proxy ob) \<and> so_credentials ob = Ok True \<and>
     so_poll_before ob = PollReady False 0 \<and> so_poll_after ob = PollReady False 0 \<and> is_ok (so_manager ob) \<and>
     (\<exists>pid. pid_from_pidfd (so_fdinfo ob) = Ok pid \<and>
        (so_call ob pid = SessionFound \<and> is_ok (so_session_proxy ob) \<and> so_remote ob pid = Ok False \<or>
         so_call ob pid = NoSessionForPid \<and> unit_local ob uid pid))"

lemma live_iff: "pidfd_is_live p = Ok True \<longleftrightarrow> p = PollReady False 0"
  by (auto simp: pidfd_is_live_def split: poll_obs.splits)

lemma classify_unit_iff:
  "classify_caller_unit q uid u = Ok p \<longleftrightarrow>
     (case p of
        RootSystemService \<Rightarrow> uid = 0 \<and> user_manager_owner u = None \<and> system_service u
      | UserManager owner \<Rightarrow> u = user_manager_unit owner \<and> (owner = uid \<or> uid = 0))"
  unfolding user_manager_owner_iff[symmetric]
  by (auto simp: classify_caller_unit_def is_system_service_iff Let_def split: option.splits unit_provenance.splits)

lemma ex_provenance: "(\<exists>p. P p) \<longleftrightarrow> P RootSystemService \<or> (\<exists>owner. P (UserManager owner))"
  by (metis unit_provenance.exhaust)

lemma manager_answer_local:
  "manager_answer f p = Ok False \<longleftrightarrow>
     (case p of RootSystemService \<Rightarrow> True | UserManager owner \<Rightarrow> \<exists>ss. f owner = Ok ss \<and> list_ex is_active_local ss)"
  by (auto simp: manager_answer_def check_user_manager_sessions_def split: unit_provenance.splits)

lemma manager_local_iff:
  "user_manager_session_is_remote (so_quoted ob) uid (so_unit ob pid) (logind_user_sessions ob) = Ok False \<longleftrightarrow>
     unit_local ob uid pid"
  unfolding user_manager_session_is_remote_def and_then_eq_Ok map_err_eq_Ok classify_unit_iff manager_answer_local
    ex_provenance unit_local_def
  by auto

lemma session_local_iff:
  "logind_session_is_remote ob uid pid = Ok False \<longleftrightarrow> is_ok (so_manager ob) \<and>
     (so_call ob pid = SessionFound \<and> is_ok (so_session_proxy ob) \<and> so_remote ob pid = Ok False \<or>
      so_call ob pid = NoSessionForPid \<and> unit_local ob uid pid)"
  by (auto simp: logind_session_is_remote_def manager_local_iff is_ok_iff split: session_call.splits)

lemma stable_local_iff:
  "stable_process_session_is_remote b a r = Ok False \<longleftrightarrow> b = PollReady False 0 \<and> r = Ok False \<and> a = PollReady False 0"
  unfolding live_iff[symmetric] by (cases r) (auto simp: stable_process_session_is_remote_def split: if_splits)

lemma process_local_iff:
  "processfd_session_is_remote ob uid fd = Ok False \<longleftrightarrow> fd \<and> so_poll_before ob = PollReady False 0 \<and>
     so_poll_after ob = PollReady False 0 \<and>
     (\<exists>pid. pid_from_pidfd (so_fdinfo ob) = Ok pid \<and> logind_session_is_remote ob uid pid = Ok False)"
  by (auto simp: processfd_session_is_remote_def stable_local_iff)

lemma caller_local_iff: "caller_session_is_remote ob uid = Ok False \<longleftrightarrow> local_caller ob uid"
  unfolding local_caller_def
  by (auto simp: caller_session_is_remote_def process_local_iff session_local_iff is_ok_iff)

end
