(* ===== verification/Cancellation.thy ===== *)
theory Cancellation
  imports Prelude
begin

text \<open>
  How a suspend, a camera release or a shutdown reaches the request in flight: the capture slot and
  \<^verbatim>\<open>CurrentRequest\<close> of \<^verbatim>\<open>facelock-daemon/src/server.rs\<close>, over the tokens of \<^verbatim>\<open>cancel.rs\<close>. Requests are
  numbered, and a request owns the token of its number. Each step is one critical section of the source; the
  steps of concurrent requests interleave freely.
\<close>

subsection \<open>The in-flight request\<close>

text \<open>\<open>cr_cancelled\<close> holds the tokens whose flag is set.\<close>

record current_request =
  cr_slot :: "(u64 \<times> nat) option"
  cr_generation :: u64
  cr_epoch :: u64
  cr_cancelled :: "nat set"

definition no_request :: current_request where
  "no_request = \<lparr>cr_slot = None, cr_generation = 0, cr_epoch = 0, cr_cancelled = {}\<rparr>"

definition cancel_token :: "nat \<Rightarrow> current_request \<Rightarrow> current_request" where
  "cancel_token t cr = cr\<lparr>cr_cancelled := insert t (cr_cancelled cr)\<rparr>"

text \<open>An installation returns the generation its guard clears.\<close>

definition install :: "nat \<Rightarrow> current_request \<Rightarrow> u64 \<times> current_request" where
  "install t cr =
     (let g = cr_generation cr + 1 in (g, cr\<lparr>cr_generation := g, cr_slot := Some (g, t)\<rparr>))"

definition install_unless_cancelled_since :: "nat \<Rightarrow> u64 \<Rightarrow> current_request \<Rightarrow> u64 option \<times> current_request" where
  "install_unless_cancelled_since t checkpoint cr =
     (if cr_epoch cr \<noteq> checkpoint then (None, cancel_token t cr)
      else let (g, cr') = install t cr in (Some g, cr'))"

definition cancel_current :: "current_request \<Rightarrow> current_request" where
  "cancel_current cr =
     (let cr' = cr\<lparr>cr_epoch := cr_epoch cr + 1\<rparr> in
      case cr_slot cr of Some (_, t) \<Rightarrow> cancel_token t cr' | None \<Rightarrow> cr')"

definition drop_guard :: "u64 \<Rightarrow> current_request \<Rightarrow> current_request" where
  "drop_guard g cr =
     (case cr_slot cr of Some (i, _) \<Rightarrow> if i = g then cr\<lparr>cr_slot := None\<rparr> else cr | None \<Rightarrow> cr)"

subsection \<open>Requests\<close>

text \<open>Where a request stands. An authentication takes its checkpoint, and after its gates claims the capture
  slot and publishes its token; it drops the token's guard before the slot. An enrollment publishes on
  arrival and releases the capture slot first. A preview claims the slot and publishes nothing.\<close>

datatype stage =
    Unseen
  | Preflight u64
  | Capturing "u64 option"
  | Closing
  | Enrolling u64
  | Lingering u64
  | Gone

datatype event =
    Arrive nat
  | Refuse nat
  | Admit nat
  | EnrollStart nat
  | PreviewStart nat
  | DropCurrent nat
  | DropCapture nat
  | CancelAll
  | Depart nat

record requests =
  rs_current :: current_request
  rs_busy :: bool
  rs_stage :: "nat \<Rightarrow> stage"

definition no_requests :: requests where
  "no_requests = \<lparr>rs_current = no_request, rs_busy = False, rs_stage = (\<lambda>_. Unseen)\<rparr>"

abbreviation enter :: "nat \<Rightarrow> stage \<Rightarrow> requests \<Rightarrow> requests" where
  "enter t st rs \<equiv> rs\<lparr>rs_stage := (rs_stage rs)(t := st)\<rparr>"

inductive request_step :: "event \<Rightarrow> requests \<Rightarrow> requests \<Rightarrow> bool" where
  arrive: "rs_stage rs t = Unseen \<Longrightarrow> request_step (Arrive t) rs (enter t (Preflight (cr_epoch (rs_current rs))) rs)"
| refuse: "rs_stage rs t = Preflight cp \<Longrightarrow> request_step (Refuse t) rs (enter t Gone rs)"
| admit: "rs_stage rs t = Preflight cp \<Longrightarrow> \<not> rs_busy rs \<Longrightarrow>
    install_unless_cancelled_since t cp (rs_current rs) = (g, cr) \<Longrightarrow>
    request_step (Admit t) rs (enter t (Capturing g) (rs\<lparr>rs_busy := True, rs_current := cr\<rparr>))"
| enroll: "rs_stage rs t = Unseen \<Longrightarrow> \<not> rs_busy rs \<Longrightarrow> install t (rs_current rs) = (g, cr) \<Longrightarrow>
    request_step (EnrollStart t) rs (enter t (Enrolling g) (rs\<lparr>rs_busy := True, rs_current := cr\<rparr>))"
| preview: "rs_stage rs t = Unseen \<Longrightarrow> \<not> rs_busy rs \<Longrightarrow>
    request_step (PreviewStart t) rs (enter t Closing (rs\<lparr>rs_busy := True\<rparr>))"
| finish: "rs_stage rs t = Capturing g \<Longrightarrow>
    request_step (DropCurrent t) rs
      (enter t Closing (rs\<lparr>rs_current := (case g of Some i \<Rightarrow> drop_guard i (rs_current rs) | None \<Rightarrow> rs_current rs)\<rparr>))"
| close: "rs_stage rs t = Closing \<Longrightarrow> request_step (DropCapture t) rs (enter t Gone (rs\<lparr>rs_busy := False\<rparr>))"
| enrolled: "rs_stage rs t = Enrolling g \<Longrightarrow>
    request_step (DropCapture t) rs (enter t (Lingering g) (rs\<lparr>rs_busy := False\<rparr>))"
| leave: "rs_stage rs t = Lingering g \<Longrightarrow>
    request_step (DropCurrent t) rs (enter t Gone (rs\<lparr>rs_current := drop_guard g (rs_current rs)\<rparr>))"
| cancel: "request_step CancelAll rs (rs\<lparr>rs_current := cancel_current (rs_current rs)\<rparr>)"
| depart: "request_step (Depart t) rs (rs\<lparr>rs_current := cancel_token t (rs_current rs)\<rparr>)"

text \<open>The states a trace of events leads to.\<close>

inductive requests_after :: "event list \<Rightarrow> requests \<Rightarrow> bool" where
  started: "requests_after [] no_requests"
| continued: "requests_after es rs \<Longrightarrow> request_step e rs rs' \<Longrightarrow> requests_after (es @ [e]) rs'"

text \<open>A request in flight holds the camera: cancelling it must stop it.\<close>

definition in_flight :: "nat \<Rightarrow> requests \<Rightarrow> bool" where
  "in_flight t rs = (case rs_stage rs t of Capturing _ \<Rightarrow> True | Enrolling _ \<Rightarrow> True | _ \<Rightarrow> False)"

text \<open>The events from a request's arrival on, and whether one of them is meant for it.\<close>

definition starts :: "nat \<Rightarrow> event \<Rightarrow> bool" where
  "starts t e \<longleftrightarrow> e = Arrive t \<or> e = EnrollStart t \<or> e = PreviewStart t"

definition since_arrival :: "nat \<Rightarrow> event list \<Rightarrow> event list" where
  "since_arrival t es = dropWhile (\<lambda>e. \<not> starts t e) es"

definition called_off :: "nat \<Rightarrow> event list \<Rightarrow> bool" where
  "called_off t es \<longleftrightarrow> Depart t \<in> set es \<or> CancelAll \<in> set (since_arrival t es)"

subsection \<open>Cancels are neither lost nor misdirected\<close>

fun guard_of :: "stage \<Rightarrow> u64 option" where
  "guard_of (Capturing g) = g"
| "guard_of (Enrolling g) = Some g"
| "guard_of (Lingering g) = Some g"
| "guard_of _ = None"

fun holds_slot :: "stage \<Rightarrow> bool" where
  "holds_slot (Capturing _) = True"
| "holds_slot Closing = True"
| "holds_slot (Enrolling _) = True"
| "holds_slot _ = False"

lemma starts_outside [simp]: "\<not> starts t CancelAll" "\<not> starts t (Depart u)"
  by (simp_all add: starts_def)

lemma since_arrival_Nil [simp]: "since_arrival t [] = []"
  by (simp add: since_arrival_def)

lemma since_arrival_snoc:
  "since_arrival t (es @ [e]) =
     (if \<exists>e \<in> set es. starts t e then since_arrival t es @ [e] else if starts t e then [e] else [])"
  by (auto simp: since_arrival_def dropWhile_append)

text \<open>The invariant after a trace: the counters have not wrapped, live guards are distinct, and the slot is
  the guard of the capturing request.\<close>

definition counters_ok :: "nat \<Rightarrow> requests \<Rightarrow> bool" where
  "counters_ok n rs \<longleftrightarrow> unat (cr_epoch (rs_current rs)) \<le> n \<and> unat (cr_generation (rs_current rs)) \<le> n \<and>
     (\<forall>t g. guard_of (rs_stage rs t) = Some g \<longrightarrow> g \<le> cr_generation (rs_current rs)) \<and>
     (\<forall>t cp. rs_stage rs t = Preflight cp \<longrightarrow> cp \<le> cr_epoch (rs_current rs))"

definition slot_ok :: "requests \<Rightarrow> bool" where
  "slot_ok rs \<longleftrightarrow>
     (\<forall>t t' g. guard_of (rs_stage rs t) = Some g \<and> guard_of (rs_stage rs t') = Some g \<longrightarrow> t = t') \<and>
     (\<forall>t g. cr_slot (rs_current rs) = Some (g, t) \<longrightarrow> guard_of (rs_stage rs t) = Some g) \<and>
     (\<forall>t t'. holds_slot (rs_stage rs t) \<and> holds_slot (rs_stage rs t') \<longrightarrow> t = t') \<and>
     (\<forall>t. holds_slot (rs_stage rs t) \<longrightarrow> rs_busy rs) \<and>
     (\<forall>t g. rs_stage rs t = Capturing (Some g) \<or> rs_stage rs t = Enrolling g \<longrightarrow> cr_slot (rs_current rs) = Some (g, t))"

definition flags_ok :: "event list \<Rightarrow> requests \<Rightarrow> bool" where
  "flags_ok es rs \<longleftrightarrow>
     (\<forall>t. rs_stage rs t = Unseen \<longleftrightarrow> \<not> (\<exists>e \<in> set es. starts t e)) \<and>
     (\<forall>t cp. rs_stage rs t = Preflight cp \<longrightarrow> (cp \<noteq> cr_epoch (rs_current rs) \<longleftrightarrow> CancelAll \<in> set (since_arrival t es))) \<and>
     (\<forall>t \<in> cr_cancelled (rs_current rs). called_off t es) \<and>
     (\<forall>t. Depart t \<in> set es \<longrightarrow> t \<in> cr_cancelled (rs_current rs)) \<and>
     (\<forall>t. rs_stage rs t = Capturing None \<longrightarrow> t \<in> cr_cancelled (rs_current rs)) \<and>
     (\<forall>t. in_flight t rs \<and> called_off t es \<longrightarrow> t \<in> cr_cancelled (rs_current rs))"

lemmas current_defs = install_def install_unless_cancelled_since_def cancel_current_def cancel_token_def drop_guard_def Let_def

lemma succ_greater:
  assumes "unat (w :: u64) < 2 ^ 64 - 1"
  shows "unat (w + 1) = unat w + 1" "g \<le> w \<Longrightarrow> g \<le> w + 1" "g \<le> w \<Longrightarrow> g \<noteq> w + 1"
proof -
  show "unat (w + 1) = unat w + 1" using assms by (simp add: unat_word_ariths)
  then have "w < w + 1" by (simp add: word_less_nat_alt)
  then show "g \<le> w \<Longrightarrow> g \<le> w + 1" "g \<le> w \<Longrightarrow> g \<noteq> w + 1" by auto
qed

lemma counters_step:
  assumes "request_step e rs rs'" "counters_ok n rs" "n < 2 ^ 64 - 1"
  shows "counters_ok (Suc n) rs'"
proof -
  have c: "unat (cr_epoch (rs_current rs)) < 2 ^ 64 - 1" "unat (cr_generation (rs_current rs)) < 2 ^ 64 - 1"
    using assms(2,3) by (auto simp: counters_ok_def)
  note up = succ_greater[OF c(1)] succ_greater[OF c(2)]
  have guards: "guard_of (rs_stage rs t) = Some g \<Longrightarrow> g \<le> cr_generation (rs_current rs)" for t g
    using assms(2) by (simp add: counters_ok_def)
  have marks: "rs_stage rs t = Preflight cp \<Longrightarrow> cp \<le> cr_epoch (rs_current rs)" for t cp
    using assms(2) by (simp add: counters_ok_def)
  have n: "unat (cr_epoch (rs_current rs)) \<le> n" "unat (cr_generation (rs_current rs)) \<le> n"
    using assms(2) by (simp_all add: counters_ok_def)
  note facts = guards marks n up
  show ?thesis using assms(1)
  proof cases
    case (enrolled t g)
    then show ?thesis using facts guards[of t g] by (auto simp: counters_ok_def)
  next
    case cancel
    then show ?thesis using facts by (cases "cr_slot (rs_current rs)") (auto simp: counters_ok_def current_defs)
  next
    case (finish t g)
    then show ?thesis using facts by (auto simp: counters_ok_def current_defs split: option.splits)
  next
    case (leave t g)
    then show ?thesis using facts by (auto simp: counters_ok_def current_defs split: option.splits)
  qed (use facts in \<open>auto simp: counters_ok_def current_defs split: if_splits\<close>)
qed

text \<open>The parts of the slot's invariant, one by one.\<close>

lemma slot_okD:
  assumes "slot_ok rs"
  shows "guard_of (rs_stage rs t) = Some g \<Longrightarrow> guard_of (rs_stage rs t') = Some g \<Longrightarrow> t = t'"
    "cr_slot (rs_current rs) = Some (g, t) \<Longrightarrow> guard_of (rs_stage rs t) = Some g"
    "holds_slot (rs_stage rs t) \<Longrightarrow> holds_slot (rs_stage rs t') \<Longrightarrow> t = t'"
    "holds_slot (rs_stage rs t) \<Longrightarrow> rs_busy rs"
    "rs_stage rs t = Capturing (Some g) \<Longrightarrow> cr_slot (rs_current rs) = Some (g, t)"
    "rs_stage rs t = Enrolling g \<Longrightarrow> cr_slot (rs_current rs) = Some (g, t)"
  using assms unfolding slot_ok_def by blast+

lemma holder_alone:
  assumes "slot_ok rs" "holds_slot (rs_stage rs t)"
  shows "rs_busy rs" "t' \<noteq> t \<Longrightarrow> \<not> holds_slot (rs_stage rs t')"
    "t' \<noteq> t \<Longrightarrow> rs_stage rs t' \<noteq> Capturing g" "t' \<noteq> t \<Longrightarrow> rs_stage rs t' \<noteq> Enrolling i"
  using slot_okD(4)[OF assms] slot_okD(3)[OF assms, of t'] by auto

lemma nobody_captures:
  assumes "slot_ok rs" "\<not> rs_busy rs"
  shows "\<not> holds_slot (rs_stage rs t)" "rs_stage rs t \<noteq> Capturing g" "rs_stage rs t \<noteq> Enrolling i"
  using slot_okD(4)[OF assms(1), of t] assms(2) by auto

text \<open>A step moves one request; what it must respect of the others.\<close>

lemma slot_move:
  assumes ok: "slot_ok rs" and st: "rs_stage rs' = (rs_stage rs)(t := st)"
    and guard: "\<And>g t'. guard_of st = Some g \<Longrightarrow> guard_of (rs_stage rs t') = Some g \<Longrightarrow> t' = t"
    and slot: "\<And>g u. cr_slot (rs_current rs') = Some (g, u) \<Longrightarrow>
      if u = t then guard_of st = Some g else cr_slot (rs_current rs) = Some (g, u)"
    and mine: "holds_slot st \<Longrightarrow> rs_busy rs' \<and> (\<forall>t'. t' \<noteq> t \<longrightarrow> \<not> holds_slot (rs_stage rs t'))"
    and other: "\<And>t'. t' \<noteq> t \<Longrightarrow> holds_slot (rs_stage rs t') \<Longrightarrow>
      rs_busy rs' \<and> (cr_slot (rs_current rs') = cr_slot (rs_current rs) \<or> (\<exists>g. cr_slot (rs_current rs) = Some (g, t)))"
    and cap: "\<And>g. st = Capturing (Some g) \<or> st = Enrolling g \<Longrightarrow> cr_slot (rs_current rs') = Some (g, t)"
  shows "slot_ok rs'"
proof -
  have stage: "rs_stage rs' u = (if u = t then st else rs_stage rs u)" for u using st by simp
  have one: "u = u'" if "guard_of (rs_stage rs' u) = Some g" "guard_of (rs_stage rs' u') = Some g" for u u' g
    using that slot_okD(1)[OF ok, of u g u'] guard[of g u] guard[of g u'] unfolding stage by metis
  have owner: "guard_of (rs_stage rs' u) = Some g" if "cr_slot (rs_current rs') = Some (g, u)" for u g
    using slot[OF that] slot_okD(2)[OF ok, of g u] unfolding stage by metis
  have alone: "u = u'" if "holds_slot (rs_stage rs' u)" "holds_slot (rs_stage rs' u')" for u u'
    using that slot_okD(3)[OF ok, of u u'] mine unfolding stage by metis
  have busy: "rs_busy rs'" if "holds_slot (rs_stage rs' u)" for u
    using that mine other[of u] unfolding stage by metis
  have published: "cr_slot (rs_current rs') = Some (g, u)"
    if "rs_stage rs' u = Capturing (Some g) \<or> rs_stage rs' u = Enrolling g" for u g
  proof (cases "u = t")
    case True
    then show ?thesis using that cap unfolding stage by simp
  next
    case False
    then have u: "rs_stage rs u = Capturing (Some g) \<or> rs_stage rs u = Enrolling g" using that unfolding stage by simp
    then have "cr_slot (rs_current rs) = Some (g, u)" using slot_okD(5,6)[OF ok, of u g] by blast
    moreover have "holds_slot (rs_stage rs u)" using u by auto
    ultimately show ?thesis using other[OF False] False by auto
  qed
  show ?thesis unfolding slot_ok_def using one owner alone busy published by blast
qed

lemma slot_of_unguarded: "slot_ok rs \<Longrightarrow> guard_of (rs_stage rs t) = None \<Longrightarrow> cr_slot (rs_current rs) \<noteq> Some (g, t)"
  by (auto dest: slot_okD(2))

lemma drop_guard_slot:
  assumes "slot_ok rs" "guard_of (rs_stage rs t) = Some g"
  shows "cr_slot (drop_guard g (rs_current rs)) =
    (if \<exists>i. cr_slot (rs_current rs) = Some (i, t) then None else cr_slot (rs_current rs))"
proof (cases "cr_slot (rs_current rs)")
  case (Some p)
  obtain i u where p: "p = (i, u)" by force
  have "guard_of (rs_stage rs u) = Some i" using Some p slot_okD(2)[OF assms(1)] by simp
  then have "i = g \<longleftrightarrow> u = t" using slot_okD(1)[OF assms(1), of u g t] assms(2) by auto
  then show ?thesis using Some p by (simp add: drop_guard_def)
qed (simp add: drop_guard_def)

lemma slot_step:
  assumes "request_step e rs rs'" "slot_ok rs" "counters_ok n rs" "n < 2 ^ 64 - 1"
  shows "slot_ok rs'"
proof -
  have "unat (cr_generation (rs_current rs)) < 2 ^ 64 - 1" using assms(3,4) by (auto simp: counters_ok_def)
  note new = succ_greater(3)[OF this]
  have old: "guard_of (rs_stage rs t) \<noteq> Some (cr_generation (rs_current rs) + 1)" for t
    using assms(3) new by (auto simp: counters_ok_def)
  note free = slot_of_unguarded[OF assms(2)] and lone = holder_alone(2)[OF assms(2)] and busy = slot_okD(4)[OF assms(2)]
  show ?thesis using assms(1)
  proof cases
    case (arrive t)
    then show ?thesis using free[of t] busy by (intro slot_move[OF assms(2), of _ t]) auto
  next
    case (refuse t cp)
    then show ?thesis using free[of t] busy by (intro slot_move[OF assms(2), of _ t]) auto
  next
    case (admit t cp g cr)
    note idle = nobody_captures[OF assms(2) admit(4)]
    show ?thesis using admit free[of t] old idle
      by (intro slot_move[OF assms(2), of _ t "Capturing g"]) (auto simp: current_defs split: if_splits)
  next
    case (enroll t g cr)
    note idle = nobody_captures[OF assms(2) enroll(4)]
    show ?thesis using enroll old idle
      by (intro slot_move[OF assms(2), of _ t "Enrolling g"]) (auto simp: current_defs split: if_splits)
  next
    case (preview t)
    then show ?thesis using nobody_captures[OF assms(2)] free[of t] by (intro slot_move[OF assms(2), of _ t Closing]) auto
  next
    case (finish t g)
    have "guard_of (rs_stage rs t) = g" "holds_slot (rs_stage rs t)" using finish by simp_all
    then show ?thesis using finish free[of t] busy[of t] lone[of t] drop_guard_slot[OF assms(2), of t]
      by (intro slot_move[OF assms(2), of _ t Closing]) (auto split: option.splits if_splits)
  next
    case (close t)
    then show ?thesis using free[of t] lone[of t] by (intro slot_move[OF assms(2), of _ t Gone]) auto
  next
    case (enrolled t g)
    then have "guard_of (rs_stage rs t) = Some g" "holds_slot (rs_stage rs t)" "cr_slot (rs_current rs) = Some (g, t)"
      using slot_okD(6)[OF assms(2)] by auto
    moreover have "guard_of (rs_stage rs t') = Some g \<longleftrightarrow> t' = t" for t'
      using slot_okD(1)[OF assms(2), of t' g t] calculation(1) by blast
    ultimately show ?thesis using enrolled(1,2) lone[of t]
      by (intro slot_move[OF assms(2), of _ t "Lingering g"]) auto
  next
    case (leave t g)
    then have "guard_of (rs_stage rs t) = Some g" by simp
    note gone = drop_guard_slot[OF assms(2) this]
    show ?thesis using leave(1,2) busy gone by (intro slot_move[OF assms(2), of _ t Gone]) (auto split: if_splits)
  next
    case cancel
    then show ?thesis using assms(2) by (cases "cr_slot (rs_current rs)") (auto simp: slot_ok_def current_defs)
  next
    case (depart t)
    then show ?thesis using assms(2) by (simp add: slot_ok_def current_defs)
  qed
qed

text \<open>The parts of the tokens' invariant.\<close>

lemma flags_okD:
  assumes "flags_ok es rs"
  shows "rs_stage rs t = Unseen \<longleftrightarrow> \<not> (\<exists>e \<in> set es. starts t e)"
    "rs_stage rs t = Preflight cp \<Longrightarrow> cp \<noteq> cr_epoch (rs_current rs) \<longleftrightarrow> CancelAll \<in> set (since_arrival t es)"
    "t \<in> cr_cancelled (rs_current rs) \<Longrightarrow> called_off t es"
    "Depart t \<in> set es \<Longrightarrow> t \<in> cr_cancelled (rs_current rs)"
    "in_flight t rs \<Longrightarrow> called_off t es \<Longrightarrow> t \<in> cr_cancelled (rs_current rs)"
    "rs_stage rs t = Capturing None \<Longrightarrow> t \<in> cr_cancelled (rs_current rs)"
  using assms unfolding flags_ok_def by blast+

lemma since_arrival_unseen: "\<not> (\<exists>e \<in> set es. starts t e) \<Longrightarrow> since_arrival t es = []"
  by (auto simp: since_arrival_def dropWhile_eq_Nil_conv)

lemma called_off_snoc:
  "called_off t (es @ [e]) \<longleftrightarrow> called_off t es \<or> e = Depart t \<or>
     e = CancelAll \<and> (\<exists>e \<in> set es. starts t e)"
  by (auto simp: called_off_def since_arrival_snoc since_arrival_unseen)

lemma since_cancel_snoc:
  "CancelAll \<in> set (since_arrival t (es @ [e])) \<longleftrightarrow> CancelAll \<in> set (since_arrival t es) \<or>
     e = CancelAll \<and> (\<exists>e \<in> set es. starts t e)"
  by (auto simp: since_arrival_snoc since_arrival_unseen)

lemma in_flight_iff: "in_flight t rs \<longleftrightarrow> (\<exists>g. rs_stage rs t = Capturing g) \<or> (\<exists>g. rs_stage rs t = Enrolling g)"
  by (auto simp: in_flight_def split: stage.splits)

text \<open>A step that neither cancels nor admits: it only moves one request on.\<close>

lemma flags_move:
  assumes ok: "flags_ok es rs" and st: "rs_stage rs' = (rs_stage rs)(t := st)" "st \<noteq> Unseen"
    and cr: "cr_epoch (rs_current rs') = cr_epoch (rs_current rs)" "cr_cancelled (rs_current rs') = cr_cancelled (rs_current rs)"
    and e: "\<And>u. e \<noteq> Depart u" "e \<noteq> CancelAll" "\<And>u. u \<noteq> t \<Longrightarrow> \<not> starts u e"
    and seen: "rs_stage rs t \<noteq> Unseen \<or> starts t e"
    and pre: "\<And>cp. st = Preflight cp \<Longrightarrow> rs_stage rs t = Unseen \<and> cp = cr_epoch (rs_current rs)"
    and unpublished: "st = Capturing None \<Longrightarrow> t \<in> cr_cancelled (rs_current rs)"
    and flight: "(\<exists>g. st = Capturing g) \<or> (\<exists>g. st = Enrolling g) \<Longrightarrow> called_off t es \<Longrightarrow> t \<in> cr_cancelled (rs_current rs)"
  shows "flags_ok (es @ [e]) rs'"
proof -
  have stage: "rs_stage rs' u = (if u = t then st else rs_stage rs u)" for u using st by simp
  have same: "called_off u (es @ [e]) = called_off u es" "CancelAll \<in> set (since_arrival u (es @ [e])) \<longleftrightarrow> CancelAll \<in> set (since_arrival u es)" for u
    using e(1)[of u] e(2) by (auto simp: called_off_snoc since_cancel_snoc)
  have unseen: "rs_stage rs' u = Unseen \<longleftrightarrow> \<not> (\<exists>e \<in> set (es @ [e]). starts u e)" for u
  proof (cases "u = t")
    case True
    then show ?thesis using st(2) seen flags_okD(1)[OF ok, of t] unfolding stage by auto
  next
    case False
    then show ?thesis using e(3)[OF False] flags_okD(1)[OF ok, of u] unfolding stage by auto
  qed
  have marks: "cp \<noteq> cr_epoch (rs_current rs') \<longleftrightarrow> CancelAll \<in> set (since_arrival u es)" if "rs_stage rs' u = Preflight cp" for u cp
  proof (cases "u = t")
    case True
    then have "rs_stage rs t = Unseen" "cp = cr_epoch (rs_current rs)" using that pre unfolding stage by auto
    then show ?thesis using True flags_okD(1)[OF ok, of t] cr(1) by (simp add: since_arrival_unseen)
  next
    case False
    then show ?thesis using that flags_okD(2)[OF ok, of u cp] cr(1) unfolding stage by simp
  qed
  have stops: "u \<in> cr_cancelled (rs_current rs')" if "in_flight u rs'" "called_off u es" for u
  proof (cases "u = t")
    case True
    then show ?thesis using that flight cr(2) unfolding in_flight_iff stage by auto
  next
    case False
    then have "in_flight u rs" using that(1) unfolding in_flight_iff stage by simp
    then show ?thesis using flags_okD(5)[OF ok] that(2) cr(2) by simp
  qed
  have "u \<in> cr_cancelled (rs_current rs')" if "rs_stage rs' u = Capturing None" for u
    using that unpublished flags_okD(6)[OF ok, of u] cr(2) unfolding stage by (simp split: if_splits)
  moreover have "Depart u \<in> set (es @ [e]) \<Longrightarrow> u \<in> cr_cancelled (rs_current rs')" for u
    using flags_okD(4)[OF ok] e(1)[of u] cr(2) by auto
  ultimately show ?thesis unfolding flags_ok_def same
    using unseen marks stops flags_okD(3)[OF ok] cr(2) by blast
qed

lemma flags_mark:
  assumes "flags_ok es rs" "called_off t es"
  shows "flags_ok es (rs\<lparr>rs_current := cancel_token t (rs_current rs)\<rparr>)"
  using assms by (auto simp: flags_ok_def cancel_token_def in_flight_def)

lemma flags_depart:
  assumes ok: "flags_ok es rs"
  shows "flags_ok (es @ [Depart t]) (rs\<lparr>rs_current := cancel_token t (rs_current rs)\<rparr>)"
  using flags_okD[OF ok] unfolding flags_ok_def called_off_snoc since_cancel_snoc
  by (simp add: cancel_token_def in_flight_def) blast

lemma flags_cancel:
  assumes ok: "flags_ok es rs" and slot: "slot_ok rs" and n: "counters_ok n rs" "n < 2 ^ 64 - 1"
  shows "flags_ok (es @ [CancelAll]) (rs\<lparr>rs_current := cancel_current (rs_current rs)\<rparr>)"
proof -
  let ?cr = "rs_current rs" and ?cr' = "cancel_current (rs_current rs)"
  have hit: "cr_cancelled ?cr' = cr_cancelled ?cr \<union> {t. \<exists>g. cr_slot ?cr = Some (g, t)}" "cr_epoch ?cr' = cr_epoch ?cr + 1"
    by (auto simp: cancel_current_def cancel_token_def Let_def split: option.splits)
  have "unat (cr_epoch ?cr) < 2 ^ 64 - 1" using n by (auto simp: counters_ok_def)
  then have moved: "rs_stage rs t = Preflight cp \<Longrightarrow> cp \<noteq> cr_epoch ?cr + 1" for t cp
    using n(1) succ_greater(3) by (auto simp: counters_ok_def)
  have known: "rs_stage rs t \<noteq> Unseen \<longleftrightarrow> (\<exists>e \<in> set es. starts t e)" for t
    using flags_okD(1)[OF ok, of t] by blast
  have owner: "rs_stage rs t \<noteq> Unseen" if "cr_slot ?cr = Some (g, t)" for g t
    using slot_okD(2)[OF slot that] by auto
  have reached: "t \<in> cr_cancelled ?cr'" if "in_flight t rs" for t
  proof -
    consider g where "cr_slot ?cr = Some (g, t)" | "rs_stage rs t = Capturing None"
      using \<open>in_flight t rs\<close> slot_okD(5,6)[OF slot] unfolding in_flight_iff by (metis option.exhaust)
    then show ?thesis using hit(1) flags_okD(6)[OF ok] by cases auto
  qed
  let ?rs = "rs\<lparr>rs_current := ?cr'\<rparr>"
  have flight: "in_flight t ?rs = in_flight t rs" for t by (simp add: in_flight_def)
  have "cp \<noteq> cr_epoch ?cr' \<longleftrightarrow> CancelAll \<in> set (since_arrival t (es @ [CancelAll]))" if "rs_stage rs t = Preflight cp" for t cp
    using moved[OF that] that known[of t] hit(2) by (auto simp: since_cancel_snoc)
  moreover have "called_off t (es @ [CancelAll])" if "t \<in> cr_cancelled ?cr'" for t
    using that hit(1) flags_okD(3)[OF ok, of t] owner known[of t] unfolding called_off_snoc by blast
  moreover have "t \<in> cr_cancelled ?cr'" if "t \<in> cr_cancelled ?cr" for t using that hit(1) by blast
  ultimately show ?thesis
    unfolding flags_ok_def flight using flags_okD(1,4,6)[OF ok] reached by simp
qed

lemma flags_step:
  assumes "request_step e rs rs'" "flags_ok es rs" "slot_ok rs" "counters_ok n rs" "n < 2 ^ 64 - 1"
  shows "flags_ok (es @ [e]) rs'"
  using assms(1)
proof cases
  case (arrive t)
  then show ?thesis by (intro flags_move[OF assms(2), of _ t]) (auto simp: starts_def)
next
  case (refuse t cp)
  then show ?thesis by (intro flags_move[OF assms(2), of _ t]) (auto simp: starts_def)
next
  case (admit t cp g cr)
  note mark = flags_okD(2)[OF assms(2) admit(3)]
  show ?thesis
  proof (cases "cp = cr_epoch (rs_current rs)")
    case True
    then have "called_off t es \<Longrightarrow> t \<in> cr_cancelled (rs_current rs)"
      using mark flags_okD(4)[OF assms(2), of t] unfolding called_off_def by blast
    then show ?thesis using admit True
      by (intro flags_move[OF assms(2), of _ t "Capturing g"]) (auto simp: current_defs starts_def)
  next
    case False
    then have "called_off t es" using mark by (simp add: called_off_def)
    from flags_mark[OF assms(2) this] show ?thesis
      by (rule flags_move[of _ _ _ t "Capturing g"]) (use admit False in \<open>auto simp: install_unless_cancelled_since_def cancel_token_def starts_def\<close>)
  qed
next
  case (enroll t g cr)
  then have "since_arrival t es = []" using flags_okD(1)[OF assms(2), of t] by (simp add: since_arrival_unseen)
  then have "called_off t es \<Longrightarrow> t \<in> cr_cancelled (rs_current rs)"
    using flags_okD(4)[OF assms(2), of t] unfolding called_off_def by simp
  then show ?thesis using enroll by (intro flags_move[OF assms(2), of _ t "Enrolling g"]) (auto simp: current_defs starts_def)
next
  case (preview t)
  then show ?thesis by (intro flags_move[OF assms(2), of _ t]) (auto simp: starts_def)
next
  case (finish t g)
  then show ?thesis
    by (intro flags_move[OF assms(2), of _ t]) (auto simp: drop_guard_def starts_def split: option.splits)
next
  case (leave t g)
  then show ?thesis
    by (intro flags_move[OF assms(2), of _ t]) (auto simp: drop_guard_def starts_def split: option.splits)
next
  case cancel
  then show ?thesis using flags_cancel[OF assms(2-5)] by simp
next
  case (depart t)
  then show ?thesis using flags_depart[OF assms(2)] by simp
next
  case (close t)
  then show ?thesis by (intro flags_move[OF assms(2), of _ t]) (auto simp: starts_def)
next
  case (enrolled t g)
  then show ?thesis by (intro flags_move[OF assms(2), of _ t]) (auto simp: starts_def)
qed

lemma requests_invariant:
  assumes "requests_after es rs" "length es < 2 ^ 64"
  shows "counters_ok (length es) rs \<and> slot_ok rs \<and> flags_ok es rs"
  using assms
proof (induction rule: requests_after.induct)
  case started
  then show ?case by (simp add: counters_ok_def slot_ok_def flags_ok_def no_requests_def no_request_def in_flight_def)
next
  case (continued es rs e rs')
  then have "counters_ok (length es) rs" "slot_ok rs" "flags_ok es rs" "length es < 2 ^ 64 - 1" by simp_all
  then show ?case using counters_step slot_step flags_step continued(2) by (metis length_append_singleton)
qed

text \<open>C3: cancelling is exact under every interleaving. Whatever the order in which concurrent
  authentications and enrollments arrive, claim the camera and end, at most one request is in flight, and its
  token is set exactly when its caller left or a suspend, release or shutdown came after it arrived. A
  cancel that lands while the gates are still being checked is not lost, and one meant for an
  earlier request does not stop a later one. The bound is the width of the 64-bit counters.\<close>

theorem cancel_exact:
  assumes "requests_after es rs" and "length es < 2 ^ 64" and "in_flight t rs"
  shows "(t \<in> cr_cancelled (rs_current rs) \<longleftrightarrow> called_off t es) \<and> (\<forall>t'. in_flight t' rs \<longleftrightarrow> t' = t)"
proof -
  have ok: "slot_ok rs" "flags_ok es rs" using requests_invariant[OF assms(1,2)] by simp_all
  have "holds_slot (rs_stage rs u)" if "in_flight u rs" for u using that unfolding in_flight_iff by auto
  then show ?thesis using slot_okD(3)[OF ok(1)] flags_okD(3,5)[OF ok(2)] assms(3) by blast
qed

text \<open>A cancel that comes between the checkpoint and the capture is seen by the request it caught.\<close>

theorem cancel_exact_witness:
  "\<exists>rs. requests_after [Arrive 1, CancelAll, Admit 1] rs \<and> in_flight 1 rs \<and> 1 \<in> cr_cancelled (rs_current rs)"
proof -
  let ?a = "enter 1 (Preflight 0) no_requests"
  let ?b = "?a\<lparr>rs_current := no_request\<lparr>cr_epoch := 1\<rparr>\<rparr>"
  let ?c = "enter 1 (Capturing None) (?b\<lparr>rs_busy := True, rs_current := cancel_token 1 (rs_current ?b)\<rparr>)"
  have "request_step (Arrive 1) no_requests ?a" "request_step CancelAll ?a ?b" "request_step (Admit 1) ?b ?c"
    by (simp_all add: request_step.simps no_requests_def no_request_def current_defs)
  then have "requests_after ((([] @ [Arrive 1]) @ [CancelAll]) @ [Admit 1]) ?c"
    by (meson continued started)
  then have run: "requests_after [Arrive 1, CancelAll, Admit 1] ?c" by simp
  have "called_off 1 [Arrive 1, CancelAll, Admit 1]" by (simp add: called_off_def since_arrival_def starts_def)
  moreover have "in_flight 1 ?c" by (simp add: in_flight_def)
  ultimately show ?thesis using cancel_exact[OF run, of 1] run by auto
qed

end
