(* ===== verification/F64.thy ===== *)
theory F64
  imports F32
begin

text \<open>
  IEEE 754 double precision as far as the code uses it: the similarity score crosses the bus as
  \<^verbatim>\<open>f64\<close>, so the module models the two casts \<^verbatim>\<open>f32 as f64\<close> (exact) and \<^verbatim>\<open>f64 as f32\<close> (rounding).
\<close>

type_synonym f64 = "64 word"

definition f64_mag :: "f64 \<Rightarrow> nat" where
  "f64_mag x = unat x mod 2 ^ 63"

definition f64_neg :: "f64 \<Rightarrow> bool" where
  "f64_neg x = (2 ^ 63 \<le> unat x)"

definition f64_make :: "bool \<Rightarrow> nat \<Rightarrow> f64" where
  "f64_make s m = of_nat (if s then 2 ^ 63 + m else m)"

text \<open>The value of a finite magnitude in units of $2^{-1074}$.\<close>

definition mag64_val :: "nat \<Rightarrow> nat" where
  "mag64_val m = (if m < 2 ^ 52 then m else (2 ^ 52 + m mod 2 ^ 52) * 2 ^ (m div 2 ^ 52 - 1))"

text \<open>Widening of a magnitude: exponents are rebiased, subnormals become normal.\<close>

definition widen_mag :: "nat \<Rightarrow> nat" where
  "widen_mag m =
     (if m = 0 then 0
      else if 0x7F800000 \<le> m then 2047 * 2 ^ 52 + (m - 0x7F800000) * 2 ^ 29
      else if 2 ^ 23 \<le> m then 896 * 2 ^ 52 + m * 2 ^ 29
      else (bit_len m + 872) * 2 ^ 52 + m * 2 ^ (53 - bit_len m))"

definition f32_to_f64 :: "f32 \<Rightarrow> f64" where
  "f32_to_f64 x = f64_make (f32_neg x)
     (widen_mag (f32_mag x) + (if is_nan x \<and> f32_mag x < 0x7FC00000 then 2 ^ 51 else 0))"

text \<open>Narrowing; \<open>qn\<close> chooses the NaN pattern.\<close>

definition f64_to_f32 :: "nan_rule \<Rightarrow> f64 \<Rightarrow> f32" where
  "f64_to_f32 qn x =
     (let m = f64_mag x in
      if 2047 * 2 ^ 52 < m then f32_nan qn 0 0
      else if m = 2047 * 2 ^ 52 then f32_make (f64_neg x) 0x7F800000
      else f32_round (f64_neg x) (mag64_val m) (2 ^ 925))"

lemma f64_make_sel:
  "m < 2 ^ 63 \<Longrightarrow> f64_mag (f64_make s m) = m" "m < 2 ^ 63 \<Longrightarrow> f64_neg (f64_make s m) = s"
  by (auto simp: f64_mag_def f64_neg_def f64_make_def unat_of_nat)

lemma round_mag_scale: "0 < k \<Longrightarrow> round_mag (n * k) (d * k) = round_mag n d"
  by (simp add: round_mag_def round_half_even_def Let_def mult.commute mult.left_commute)

lemma bit_len_bounds: "0 < n \<Longrightarrow> 2 ^ (bit_len n - 1) \<le> n \<and> n < 2 ^ bit_len n"
proof (induction n rule: bit_len.induct)
  case (1 n)
  show ?case
  proof (cases "n = 1")
    case True
    then show ?thesis by (simp add: bit_len.simps)
  next
    case False
    then have pos: "0 < n div 2" "n \<noteq> 0" using 1(2) by auto
    then have IH: "2 ^ (bit_len (n div 2) - 1) \<le> n div 2" "n div 2 < 2 ^ bit_len (n div 2)"
      using 1(1) by auto
    have len: "bit_len n = Suc (bit_len (n div 2))" using pos by (subst bit_len.simps) simp
    have "0 < bit_len (n div 2)" using pos by (subst bit_len.simps) simp
    then obtain k where k: "bit_len (n div 2) = Suc k" by (cases "bit_len (n div 2)") auto
    show ?thesis using IH unfolding len k by simp linarith
  qed
qed

lemma mag64_val_split:
  "r < 2 ^ 52 \<Longrightarrow> mag64_val (Suc d * 2 ^ 52 + r) = (2 ^ 52 + r) * 2 ^ d"
proof -
  assume r: "r < 2 ^ 52"
  then have "(Suc d * 2 ^ 52 + r) div 2 ^ 52 = Suc d" "(Suc d * 2 ^ 52 + r) mod 2 ^ 52 = r"
    by (simp_all only: mult.commute[of "Suc d"] div_mult_self4 mod_mult_self4 div_less mod_less)
  with r show ?thesis by (simp only: mag64_val_def) simp
qed

lemma mag64_widen_normal:
  assumes "m < 0x7F800000" "2 ^ 23 \<le> m"
  shows "mag64_val (widen_mag m) = mag_val m * 2 ^ 925 \<and> widen_mag m < 2047 * 2 ^ 52"
proof -
  define d r where "d = m div 2 ^ 23 - 1" and "r = m mod 2 ^ 23"
  have "0 < m div 2 ^ 23" using assms(2) by (simp add: div_greater_zero_iff)
  then have m: "m = Suc d * 2 ^ 23 + r" and r: "r < 2 ^ 23"
    using div_mult_mod_eq[of m "2 ^ 23"] by (simp_all add: d_def r_def)
  have d: "d < 254" using assms(1) m by simp
  have w: "widen_mag m = Suc (896 + d) * 2 ^ 52 + r * 2 ^ 29"
    using assms by (simp add: widen_mag_def) (simp add: m algebra_simps)
  have "mag64_val (widen_mag m) = (2 ^ 52 + r * 2 ^ 29) * 2 ^ (896 + d)"
    unfolding w using r by (intro mag64_val_split) simp
  also have "\<dots> = (2 ^ 23 + r) * 2 ^ 29 * 2 ^ (896 + d)" by simp
  also have "\<dots> = (2 ^ 23 + r) * 2 ^ d * 2 ^ 925" by (simp only: mult.assoc power_add[symmetric]) (simp add: add.commute)
  also have "\<dots> = mag_val m * 2 ^ 925" unfolding m mag_val_split[OF r] by simp
  finally show ?thesis using w d r by simp
qed

lemma mag64_widen_subnormal:
  assumes "0 < m" "m < 2 ^ 23"
  shows "mag64_val (widen_mag m) = mag_val m * 2 ^ 925 \<and> widen_mag m < 2047 * 2 ^ 52"
proof -
  have "bit_len m \<le> 23" using assms(2) by (rule bit_len_small)
  moreover have "0 < bit_len m" using assms(1) by (subst bit_len.simps) simp
  ultimately obtain k where k: "bit_len m = Suc k" "k \<le> 22" by (cases "bit_len m") auto
  have b: "2 ^ k \<le> m" "m < 2 ^ Suc k" using bit_len_bounds[OF assms(1)] by (simp_all add: k)
  have e: "(2 :: nat) ^ 52 = 2 ^ k * 2 ^ (52 - k)" "(2 :: nat) ^ 53 = 2 ^ Suc k * 2 ^ (52 - k)"
    using k(2) by (simp_all add: power_add[symmetric] flip: power_Suc)
  define r where "r = m * 2 ^ (52 - k) - 2 ^ 52"
  have "2 ^ k * 2 ^ (52 - k) \<le> m * 2 ^ (52 - k)" using b(1) by simp
  moreover have "m * 2 ^ (52 - k) < 2 ^ Suc k * 2 ^ (52 - k)" using b(2) by simp
  ultimately have mm: "m * 2 ^ (52 - k) = 2 ^ 52 + r" and r: "r < 2 ^ 52"
    unfolding r_def e[symmetric] by simp_all
  have w: "widen_mag m = Suc (k + 873) * 2 ^ 52 + r"
    using assms by (simp add: widen_mag_def k mm algebra_simps)
  have "mag64_val (widen_mag m) = (2 ^ 52 + r) * 2 ^ (k + 873)"
    unfolding w using r by (rule mag64_val_split)
  also have "\<dots> = m * 2 ^ 925"
    unfolding mm[symmetric] using k(2) by (simp only: mult.assoc power_add[symmetric]) simp
  also have "\<dots> = mag_val m * 2 ^ 925" using assms by (simp add: mag_val_def)
  finally show ?thesis using w k(2) r by simp
qed

lemma mag64_widen:
  assumes "m < 0x7F800000"
  shows "mag64_val (widen_mag m) = mag_val m * 2 ^ 925 \<and> widen_mag m < 2047 * 2 ^ 52"
proof (cases "m = 0")
  case True
  then show ?thesis by (simp add: widen_mag_def mag64_val_def)
next
  case False
  then show ?thesis using assms mag64_widen_normal[of m] mag64_widen_subnormal[of m] by linarith
qed

lemma f64_roundtrip:
  assumes "\<not> is_nan x"
  shows "f64_to_f32 qn (f32_to_f64 x) = x"
proof (cases "is_inf x")
  case True
  then have "f32_mag x = 0x7F800000" by (simp add: is_inf_def)
  then show ?thesis using assms f32_make_mag[of x]
    by (simp add: f32_to_f64_def f64_to_f32_def widen_mag_def f64_make_sel Let_def)
next
  case False
  then have m: "f32_mag x < 0x7F800000" using assms by (auto simp: is_inf_def is_nan_def)
  note w = mag64_widen[OF m]
  then have lt: "widen_mag (f32_mag x) < 2 ^ 63" by simp
  have "round_mag (mag_val (f32_mag x) * 2 ^ 925) (2 ^ 925) = f32_mag x"
    using round_mag_scale[of "2 ^ 925" "mag_val (f32_mag x)" 1] round_mag_exact[of "f32_mag x"] m by simp
  then show ?thesis using assms w
    by (simp add: f32_to_f64_def f64_to_f32_def f64_make_sel[OF lt] Let_def f32_round_def)
qed

end
