(* ===== verification/Server.thy ===== *)
theory Server
  imports Daemon Ingress Provenance Cancellation F64
begin

text \<open>
  The D-Bus service of \<^verbatim>\<open>facelock-daemon/src/server.rs\<close>: who may call which method, the wire formats and
  their redaction, the live reload, and every method from authorization to reply. Tasks run
  concurrently; a method is a sequence of sections that each hold a lock, and what other tasks do to
  the service between two sections is an arbitrary function. Reads of shared atomics are observations.
\<close>

subsection \<open>Authorization\<close>

datatype service_error = Failed string | AccessDenied string

record caller =
  ca_uid :: u32
  ca_username :: "string option"

definition display_name :: "caller \<Rightarrow> string" where
  "display_name c = (case ca_username c of Some n \<Rightarrow> n | None \<Rightarrow> ''UID '' @ dec_str (unat (ca_uid c)))"

datatype bus_method =
    MAuthenticate | MAuthenticateSilent | MTestAuthenticate | MEnroll | MListModels | MRemoveModel | MClearModels
  | MPreviewFrame | MPreviewDetectFrame | MListDevices | MReleaseCamera | MPing | MShutdown

fun method_name :: "bus_method \<Rightarrow> string" where
  "method_name MAuthenticate = ''Authenticate''"
| "method_name MAuthenticateSilent = ''AuthenticateSilent''"
| "method_name MTestAuthenticate = ''TestAuthenticate''"
| "method_name MEnroll = ''Enroll''"
| "method_name MListModels = ''ListModels''"
| "method_name MRemoveModel = ''RemoveModel''"
| "method_name MClearModels = ''ClearModels''"
| "method_name MPreviewFrame = ''PreviewFrame''"
| "method_name MPreviewDetectFrame = ''PreviewDetectFrame''"
| "method_name MListDevices = ''ListDevices''"
| "method_name MReleaseCamera = ''ReleaseCamera''"
| "method_name MPing = ''Ping''"
| "method_name MShutdown = ''Shutdown''"

definition is_authentication :: "bus_method \<Rightarrow> bool" where
  "is_authentication m = (m \<in> {MAuthenticate, MAuthenticateSilent})"

datatype scope = RootOnly | UserScoped

definition method_scope :: "bus_method \<Rightarrow> scope" where
  "method_scope m =
     (case m of MAuthenticate \<Rightarrow> UserScoped | MAuthenticateSilent \<Rightarrow> UserScoped | MTestAuthenticate \<Rightarrow> RootOnly | _ \<Rightarrow> RootOnly)"

definition quote_str :: "string \<Rightarrow> string" where
  "quote_str s = CHR 0x27 # s @ [CHR 0x27]"

definition require_root :: "caller \<Rightarrow> string \<Rightarrow> (unit, service_error) result" where
  "require_root c operation =
     (if ca_uid c = 0 then Ok ()
      else Err (AccessDenied (operation @ '' requires root (caller: '' @ quote_str (display_name c) @ '', UID '' @
             dec_str (unat (ca_uid c)) @ '')'')))"

definition require_user_authorized :: "caller \<Rightarrow> string \<Rightarrow> string \<Rightarrow> (unit, service_error) result" where
  "require_user_authorized c user operation =
     (if ca_uid c = 0 then Ok ()
      else case ca_username c of
          None \<Rightarrow> Err (Failed (''failed to resolve UID '' @ dec_str (unat (ca_uid c)) @ '' to username''))
        | Some name \<Rightarrow>
            if name = user then Ok ()
            else Err (AccessDenied (operation @ '' not authorized: caller '' @ quote_str name @ '' (UID '' @
                   dec_str (unat (ca_uid c)) @ '') cannot act as '' @ quote_str user)))"

definition authorize_method :: "caller \<Rightarrow> bus_method \<Rightarrow> string option \<Rightarrow> (unit, service_error) result" where
  "authorize_method c m target =
     (case method_scope m of
        RootOnly \<Rightarrow> require_root c (method_name m)
      | UserScoped \<Rightarrow>
          (case target of
             None \<Rightarrow> Err (Failed (method_name m @ '' requires a target user''))
           | Some user \<Rightarrow> require_user_authorized c user (method_name m)))"

subsection \<open>The wire\<close>

record auth_wire =
  aw_matched :: bool
  aw_model_id :: i32
  aw_label :: string
  aw_similarity :: f64

record model_info_wire =
  mw_id :: u32
  mw_user :: string
  mw_label :: string
  mw_created_at :: u64
  mw_embedder_model :: string
  mw_device_id :: string
  mw_key_id :: string

record preview_face_wire =
  pw_x :: f64
  pw_y :: f64
  pw_width :: f64
  pw_height :: f64
  pw_confidence :: f64
  pw_similarity :: f64
  pw_recognized :: bool

record device_info_wire =
  dw_path :: string
  dw_name :: string
  dw_driver :: string
  dw_is_ir :: bool

definition redact_auth :: "bool \<Rightarrow> auth_wire \<Rightarrow> auth_wire" where
  "redact_auth root w = (if root then w else w\<lparr>aw_similarity := 0\<rparr>)"

definition redact_preview :: "bool \<Rightarrow> preview_face_wire \<Rightarrow> preview_face_wire" where
  "redact_preview root w = (if root then w else w\<lparr>pw_similarity := 0\<rparr>)"

definition sanitize_preview_jpeg :: "bytes \<Rightarrow> bool \<Rightarrow> bytes" where
  "sanitize_preview_jpeg data allow = (if allow then data else [])"

definition recoverable_auth_error :: "string \<Rightarrow> auth_wire" where
  "recoverable_auth_error message =
     \<lparr>aw_matched = False, aw_model_id = - 2, aw_label = message, aw_similarity = 0\<rparr>"

definition NO_MATCH_NO_FACE :: i32 where "NO_MATCH_NO_FACE = - 1"
definition NO_MATCH_FACE_SEEN :: i32 where "NO_MATCH_FACE_SEEN = - 4"

definition wire_model_id :: "match_result \<Rightarrow> i32" where
  "wire_model_id r =
     (case mr_model_id r of
        Some i \<Rightarrow> i
      | None \<Rightarrow> if mr_face_detected r \<and> \<not> mr_matched r then NO_MATCH_FACE_SEEN else NO_MATCH_NO_FACE)"

text \<open>\<open>dbg\<close> is the derived debug rendering of a response.\<close>

definition unexpected :: "(daemon_response \<Rightarrow> string) \<Rightarrow> daemon_response \<Rightarrow> service_error" where
  "unexpected dbg r = (case r of DError m \<Rightarrow> Failed m | _ \<Rightarrow> Failed (''unexpected response: '' @ dbg r))"

definition encode_auth :: "(daemon_response \<Rightarrow> string) \<Rightarrow> daemon_response \<Rightarrow> (auth_wire, service_error) result" where
  "encode_auth dbg r =
     (case r of
        DAuth mr \<Rightarrow> Ok \<lparr>aw_matched = mr_matched mr, aw_model_id = wire_model_id mr, aw_label = opt_str (mr_label mr),
                       aw_similarity = f32_to_f64 (mr_similarity mr)\<rparr>
      | DSuppressed \<Rightarrow> Ok \<lparr>aw_matched = False, aw_model_id = - 3, aw_label = [], aw_similarity = 0\<rparr>
      | DError message \<Rightarrow> Ok (recoverable_auth_error message)
      | _ \<Rightarrow> Err (unexpected dbg r))"

definition encode_model :: "face_model_info \<Rightarrow> model_info_wire" where
  "encode_model m =
     \<lparr>mw_id = mi_id m, mw_user = mi_user m, mw_label = mi_label m, mw_created_at = mi_created_at m,
      mw_embedder_model = mi_embedder_model m, mw_device_id = opt_str (mi_device_id m), mw_key_id = opt_str (mi_key_id m)\<rparr>"

definition encode_face :: "preview_face \<Rightarrow> preview_face_wire" where
  "encode_face f =
     \<lparr>pw_x = f32_to_f64 (pf_x f), pw_y = f32_to_f64 (pf_y f), pw_width = f32_to_f64 (pf_width f),
      pw_height = f32_to_f64 (pf_height f), pw_confidence = f32_to_f64 (pf_confidence f),
      pw_similarity = f32_to_f64 (pf_similarity f), pw_recognized = pf_recognized f\<rparr>"

definition encode_device :: "ipc_device_info \<Rightarrow> device_info_wire" where
  "encode_device d = \<lparr>dw_path = id_path d, dw_name = id_name d, dw_driver = id_driver d, dw_is_ir = id_is_ir d\<rparr>"

subsection \<open>The service\<close>

record service =
  sv_cell :: daemon
  sv_mtime :: "nat option"
  sv_mtime_poisoned :: bool
  sv_ingress :: ingress
  sv_last_activity :: u64

definition busy_error :: "string \<Rightarrow> service_error" where
  "busy_error operation =
     Failed (''daemon busy: another capture operation is in progress ('' @ operation @ '' rejected)'')"

text \<open>The rounds of the lock loop: the mutex is free, poisoned or not; or it is held, with the capture slot
  and the deadline as they were read then.\<close>

datatype try_lock = LockTaken | WouldBlock bool bool

fun lock_handler :: "string option \<Rightarrow> try_lock list \<Rightarrow> (unit, service_error) result option" where
  "lock_handler capture [] = None"
| "lock_handler capture (LockTaken # _) = Some (Ok ())"
| "lock_handler capture (WouldBlock busy expired # rounds) =
     (case capture of
        Some operation \<Rightarrow>
          if busy then Some (Err (busy_error operation))
          else if expired then Some (Err (Failed ''daemon busy: previous operation timed out''))
          else lock_handler capture rounds
      | None \<Rightarrow>
          if expired then Some (Err (Failed ''daemon busy: previous operation timed out''))
          else lock_handler capture rounds)"

text \<open>The live reload: the observed modification time is claimed, the handler rebuilt outside the lock, and
  installed if the claim still stands. \<open>meanwhile\<close> is what other tasks do during the rebuild.\<close>

record reload_obs =
  rb_recipe :: "(handler, string) result option"
  rb_mtime :: "nat option"
  rb_meanwhile :: "service \<Rightarrow> service"

definition mtime_newer :: "nat option \<Rightarrow> nat option \<Rightarrow> bool" where
  "mtime_newer old new = (case (old, new) of (Some a, Some b) \<Rightarrow> a < b | _ \<Rightarrow> False)"

definition maybe_reload_handler :: "reload_obs \<Rightarrow> service \<Rightarrow> service" where
  "maybe_reload_handler ob sv =
     (case rb_recipe ob of
        None \<Rightarrow> sv
      | Some rebuilt \<Rightarrow>
          if sv_mtime_poisoned sv \<or> \<not> mtime_newer (sv_mtime sv) (rb_mtime ob) then sv
          else let sv1 = rb_meanwhile ob (sv\<lparr>sv_mtime := rb_mtime ob\<rparr>) in
            (case rebuilt of
               Err _ \<Rightarrow> sv1
             | Ok h \<Rightarrow>
                 if sv_mtime_poisoned sv1 \<or> sv_mtime sv1 \<noteq> rb_mtime ob then sv1
                 else sv1\<lparr>sv_cell := (sv_cell sv1)\<lparr>dm_handler := h\<rparr>\<rparr>))"

subsection \<open>Authentication\<close>

datatype check_failure = CheckCancelled | CheckUnresolved string

text \<open>How the bounded wait for a check ended.\<close>

datatype 'a bounded = WaitCancelled | WaitTimedOut | Answered 'a

definition run_bounded_check ::
  "string \<Rightarrow> string \<Rightarrow> (bool, string) result bounded \<Rightarrow> (bool, check_failure) result" where
  "run_bounded_check what deadline b =
     (case b of
        WaitCancelled \<Rightarrow> Err CheckCancelled
      | WaitTimedOut \<Rightarrow> Err (CheckUnresolved (what @ '' exceeded its '' @ deadline @ '' deadline''))
      | Answered (Ok a) \<Rightarrow> Ok a
      | Answered (Err reason) \<Rightarrow> Err (CheckUnresolved reason))"

definition maybe_check ::
  "bool \<Rightarrow> string \<Rightarrow> string \<Rightarrow> (bool, string) result bounded \<Rightarrow> (bool, check_failure) result option" where
  "maybe_check required what deadline b = (if required then Some (run_bounded_check what deadline b) else None)"

definition PROCESS_PROVENANCE_DENIED_MESSAGE :: string where
  "PROCESS_PROVENANCE_DENIED_MESSAGE = ''Authenticate requires a live local caller process''"

record bus_call_obs =
  co_ingress_now :: nat
  co_busy_entry :: bool
  co_epoch :: u64
  co_activity :: u64
  co_reload :: reload_obs
  co_before_policy :: "service \<Rightarrow> service"
  co_policy_lock :: "try_lock list"
  co_session_wait :: "unit bounded"
  co_session :: session_obs
  co_lid :: "(bool, string) result bounded"
  co_before_lock :: "service \<Rightarrow> service"
  co_lock :: "try_lock list"
  co_busy_claim :: bool
  co_epoch_install :: u64
  co_request :: request_obs
  co_join :: string
  co_debug :: "daemon_response \<Rightarrow> string"

definition session_answer :: "bus_call_obs \<Rightarrow> caller \<Rightarrow> (bool, string) result bounded" where
  "session_answer ob c =
     (case co_session_wait ob of
        WaitCancelled \<Rightarrow> WaitCancelled
      | WaitTimedOut \<Rightarrow> WaitTimedOut
      | Answered _ \<Rightarrow> Answered (caller_session_is_remote (co_session ob) (ca_uid c)))"

text \<open>The first section: authorization, the ingress charge, the early busy check, and the reload. A result
  ends the call.\<close>

definition authenticate_entry ::
  "caller \<Rightarrow> string \<Rightarrow> bus_method \<Rightarrow> bus_call_obs \<Rightarrow> service \<Rightarrow> (auth_wire, service_error) result option \<times> service" where
  "authenticate_entry c user m ob sv =
     (case authorize_method c m (Some user) of
        Err e \<Rightarrow> (Some (Err e), sv)
      | Ok _ \<Rightarrow>
          (case (if is_authentication m \<and> ca_uid c \<noteq> 0
                 then check_and_charge_at (ca_uid c) (co_ingress_now ob) (sv_ingress sv) else (True, sv_ingress sv)) of
             (admitted_call, ing) \<Rightarrow>
               let sv1 = sv\<lparr>sv_ingress := ing\<rparr> in
               if \<not> admitted_call then (Some (Ok (recoverable_auth_error (render KRateLimited []))), sv1)
               else if co_busy_entry ob then (Some (Err (busy_error (method_name m))), sv1)
               else (None, maybe_reload_handler (co_reload ob) (sv1\<lparr>sv_last_activity := co_activity ob\<rparr>))))"

definition lid_source_of :: "(bool, check_failure) result option \<Rightarrow> lid_source" where
  "lid_source_of lid = (case lid of Some (Ok closed) \<Rightarrow> Resolved closed | _ \<Rightarrow> Unavailable)"

text \<open>A cancel since the checkpoint marks the request's token before the camera is considered.\<close>

definition with_token :: "bus_call_obs \<Rightarrow> request_obs" where
  "with_token ob =
     (if co_epoch_install ob \<noteq> co_epoch ob
      then (co_request ob)\<lparr>ro_acquire := (ro_acquire (co_request ob))\<lparr>ao_cancelled := True\<rparr>\<rparr>
      else co_request ob)"

text \<open>The locked section: the installed policy decides on the checks, then the gates, the capture slot and
  the attempt.\<close>

definition authenticate_locked ::
  "platform \<Rightarrow> string \<Rightarrow> bus_method \<Rightarrow> auth_intent \<Rightarrow> bus_call_obs \<Rightarrow> (bool, check_failure) result option \<Rightarrow>
   (bool, check_failure) result option \<Rightarrow> service \<Rightarrow> ((auth_wire, service_error) result \<times> service) option" where
  "authenticate_locked pl user m intent ob provenance lid sv =
     (let h = dm_handler (sv_cell sv); s = cf_security (hd_config h);
          ctx = (if is_authentication m then ctx_daemon_authenticate (lid_source_of lid) else intent_context intent);
          put = (\<lambda>h'. sv\<lparr>sv_cell := (sv_cell sv)\<lparr>dm_handler := h'\<rparr>\<rparr>) in
      if is_authentication m \<and> sc_abort_if_ssh s \<and> provenance \<noteq> Some (Ok False)
      then Some (Err (AccessDenied PROCESS_PROVENANCE_DENIED_MESSAGE), sv)
      else if lid = Some (Err CheckCancelled) \<and> sc_abort_if_lid_closed s
      then Some (Ok (recoverable_auth_error CANCELLED_MESSAGE), sv)
      else case preflight_authenticate_with_context (co_request ob) user intent ctx h of
          (Some response, h1, _) \<Rightarrow> Some (encode_auth (co_debug ob) response, put h1)
        | (None, h1, _) \<Rightarrow>
            if co_busy_claim ob then Some (Err (busy_error (method_name m)), put h1)
            else (case handle_authenticate_prechecked pl (with_token ob) user intent h1 of
                    StillServing \<Rightarrow> None
                  | HandlerPanicked h2 \<Rightarrow>
                      Some (Err (Failed (''task join error: '' @ co_join ob)),
                            sv\<lparr>sv_cell := \<lparr>dm_handler = h2, dm_poisoned = True\<rparr>\<rparr>)
                  | Served response h2 _ \<Rightarrow> Some (encode_auth (co_debug ob) response, put h2)))"

definition run_authentication ::
  "platform \<Rightarrow> caller \<Rightarrow> string \<Rightarrow> bus_method \<Rightarrow> auth_intent \<Rightarrow> bus_call_obs \<Rightarrow> service \<Rightarrow>
   ((auth_wire, service_error) result \<times> service) option" where
  "run_authentication pl c user m intent ob sv =
     (case authenticate_entry c user m ob sv of
        (Some r, sv1) \<Rightarrow> Some (r, sv1)
      | (None, sv1) \<Rightarrow>
          let sv2 = co_before_policy ob sv1; s = cf_security (hd_config (dm_handler (sv_cell sv2))) in
          (case (if is_authentication m
                 then map_option (\<lambda>r. and_then r (\<lambda>_. Ok (sc_abort_if_ssh s, sc_abort_if_lid_closed s)))
                        (lock_handler (Some (method_name m)) (co_policy_lock ob))
                 else Some (Ok (False, False))) of
             None \<Rightarrow> None
           | Some (Err e) \<Rightarrow> Some (Err e, sv2)
           | Some (Ok (need_session, need_lid)) \<Rightarrow>
               let provenance = maybe_check need_session ''caller session provenance'' ''4s'' (session_answer ob c);
                   lid = maybe_check need_lid ''lid state'' ''1s'' (co_lid ob);
                   sv3 = co_before_lock ob sv2 in
               (case lock_handler (Some (method_name m)) (co_lock ob) of
                  None \<Rightarrow> None
                | Some (Err e) \<Rightarrow> Some (Err e, sv3)
                | Some (Ok _) \<Rightarrow>
                    map_option (\<lambda>(r, sv4). (and_then r (\<lambda>w. Ok (redact_auth (ca_uid c = 0) w)), sv4))
                      (authenticate_locked pl user m intent ob provenance lid sv3))))"

subsection \<open>Every method\<close>

datatype method_call =
    CAuthenticate string bool
  | CTestAuthenticate string
  | CEnroll string string
  | CListModels string
  | CRemoveModel string u32
  | CClearModels string
  | CPreviewFrame
  | CPreviewDetectFrame string
  | CListDevices
  | CReleaseCamera
  | CPing
  | CShutdown

datatype reply =
    WAuth auth_wire
  | WEnrolled u32 u32
  | WModels "model_info_wire list"
  | WDone
  | WFrame bytes
  | WDetect bytes "preview_face_wire list"
  | WDevices "device_info_wire list"
  | WText string

definition answer_enroll :: "(daemon_response \<Rightarrow> string) \<Rightarrow> daemon_response \<Rightarrow> (reply, service_error) result" where
  "answer_enroll dbg r = (case r of DEnrolled i n \<Rightarrow> Ok (WEnrolled i n) | _ \<Rightarrow> Err (unexpected dbg r))"

definition answer_models :: "(daemon_response \<Rightarrow> string) \<Rightarrow> daemon_response \<Rightarrow> (reply, service_error) result" where
  "answer_models dbg r = (case r of DModels ms \<Rightarrow> Ok (WModels (map encode_model ms)) | _ \<Rightarrow> Err (unexpected dbg r))"

definition answer_removed :: "(daemon_response \<Rightarrow> string) \<Rightarrow> daemon_response \<Rightarrow> (reply, service_error) result" where
  "answer_removed dbg r = (case r of DRemoved \<Rightarrow> Ok WDone | _ \<Rightarrow> Err (unexpected dbg r))"

definition answer_frame :: "(daemon_response \<Rightarrow> string) \<Rightarrow> daemon_response \<Rightarrow> (reply, service_error) result" where
  "answer_frame dbg r = (case r of DFrame data \<Rightarrow> Ok (WFrame data) | _ \<Rightarrow> Err (unexpected dbg r))"

definition answer_detect ::
  "(daemon_response \<Rightarrow> string) \<Rightarrow> bool \<Rightarrow> daemon_response \<Rightarrow> (reply, service_error) result" where
  "answer_detect dbg root r =
     (case r of
        DDetectFrame data fs \<Rightarrow>
          Ok (WDetect (sanitize_preview_jpeg data root) (map (\<lambda>f. redact_preview root (encode_face f)) fs))
      | _ \<Rightarrow> Err (unexpected dbg r))"

definition answer_devices :: "(daemon_response \<Rightarrow> string) \<Rightarrow> daemon_response \<Rightarrow> (reply, service_error) result" where
  "answer_devices dbg r = (case r of DDevices ds \<Rightarrow> Ok (WDevices (map encode_device ds)) | _ \<Rightarrow> Err (unexpected dbg r))"

definition answer_ok :: "(daemon_response \<Rightarrow> string) \<Rightarrow> daemon_response \<Rightarrow> (reply, service_error) result" where
  "answer_ok dbg r = (case r of DOk \<Rightarrow> Ok WDone | _ \<Rightarrow> Err (unexpected dbg r))"

text \<open>A method that locks the handler, dispatches one request and answers.\<close>

definition with_handler ::
  "platform \<Rightarrow> bus_call_obs \<Rightarrow> daemon_request \<Rightarrow> (daemon_response \<Rightarrow> (reply, service_error) result) \<Rightarrow> service \<Rightarrow>
   ((reply, service_error) result \<times> service) option" where
  "with_handler pl ob req answer sv0 =
     (let sv = co_before_lock ob sv0 in
      case lock_handler None (co_lock ob) of
        None \<Rightarrow> None
      | Some (Err e) \<Rightarrow> Some (Err e, sv)
      | Some (Ok _) \<Rightarrow>
          (case dispatch pl (co_request ob) (Request req) (sv_cell sv) of
             None \<Rightarrow> None
           | Some (Some r, cell) \<Rightarrow> Some (answer r, sv\<lparr>sv_cell := cell\<rparr>)
           | Some (None, cell) \<Rightarrow> Some (Err (Failed (''task join error: '' @ co_join ob)), sv\<lparr>sv_cell := cell\<rparr>)))"

text \<open>The common start of the root methods: authorization and the activity stamp, and for capturing methods
  the claim of the capture slot.\<close>

definition root_call ::
  "caller \<Rightarrow> bus_method \<Rightarrow> bool \<Rightarrow> bus_call_obs \<Rightarrow> (service \<Rightarrow> service) \<Rightarrow>
   (service \<Rightarrow> ((reply, service_error) result \<times> service) option) \<Rightarrow> service \<Rightarrow> ((reply, service_error) result \<times> service) option" where
  "root_call c m captures ob prepare body sv =
     (case authorize_method c m None of
        Err e \<Rightarrow> Some (Err e, sv)
      | Ok _ \<Rightarrow>
          let sv1 = prepare (sv\<lparr>sv_last_activity := co_activity ob\<rparr>) in
          if captures \<and> co_busy_claim ob then Some (Err (busy_error (method_name m)), sv1) else body sv1)"

definition service_call ::
  "platform \<Rightarrow> caller \<Rightarrow> method_call \<Rightarrow> bus_call_obs \<Rightarrow> service \<Rightarrow> ((reply, service_error) result \<times> service) option" where
  "service_call pl c mc ob sv =
     (let auth = (\<lambda>user m intent. map_option (\<lambda>(r, sv'). (and_then r (\<lambda>w. Ok (WAuth w)), sv'))
                    (run_authentication pl c user m intent ob sv));
          dbg = co_debug ob; root = (ca_uid c = 0) in
      case mc of
        CAuthenticate user silent \<Rightarrow>
          auth user (if silent then MAuthenticateSilent else MAuthenticate) IntentAuthenticate
      | CTestAuthenticate user \<Rightarrow> auth user MTestAuthenticate IntentTest
      | CEnroll user label \<Rightarrow>
          root_call c MEnroll True ob (maybe_reload_handler (co_reload ob))
            (with_handler pl ob (ReqEnroll user label) (answer_enroll dbg)) sv
      | CListModels user \<Rightarrow>
          root_call c MListModels False ob id (with_handler pl ob (ReqListModels user) (answer_models dbg)) sv
      | CRemoveModel user i \<Rightarrow>
          root_call c MRemoveModel False ob id (with_handler pl ob (ReqRemoveModel user i) (answer_removed dbg)) sv
      | CClearModels user \<Rightarrow>
          root_call c MClearModels False ob id (with_handler pl ob (ReqClearModels user) (answer_removed dbg)) sv
      | CPreviewFrame \<Rightarrow>
          root_call c MPreviewFrame True ob id (with_handler pl ob ReqPreviewFrame (answer_frame dbg)) sv
      | CPreviewDetectFrame user \<Rightarrow>
          root_call c MPreviewDetectFrame True ob id
            (with_handler pl ob (ReqPreviewDetectFrame user) (answer_detect dbg root)) sv
      | CListDevices \<Rightarrow> root_call c MListDevices False ob id (with_handler pl ob ReqListDevices (answer_devices dbg)) sv
      | CReleaseCamera \<Rightarrow> root_call c MReleaseCamera False ob id (with_handler pl ob ReqReleaseCamera (answer_ok dbg)) sv
      | CPing \<Rightarrow> root_call c MPing False ob id (\<lambda>sv1. Some (Ok (WText ''pong''), sv1)) sv
      | CShutdown \<Rightarrow> root_call c MShutdown False ob id (with_handler pl ob ReqShutdown (answer_ok dbg)) sv)"

subsection \<open>What a caller can get\<close>

text \<open>The callers a method admits.\<close>

definition may_authenticate :: "caller \<Rightarrow> bus_method \<Rightarrow> string \<Rightarrow> bool" where
  "may_authenticate c m user \<longleftrightarrow> ca_uid c = 0 \<or> is_authentication m \<and> ca_username c = Some user"

lemma authorize_user_iff:
  "authorize_method c m (Some user) = Ok () \<longleftrightarrow> may_authenticate c m user"
  by (cases m) (auto simp: authorize_method_def method_scope_def require_root_def require_user_authorized_def
      may_authenticate_def is_authentication_def split: option.splits if_splits)

lemma authorize_root_refuses:
  "ca_uid c \<noteq> 0 \<Longrightarrow> m \<notin> {MAuthenticate, MAuthenticateSilent} \<Longrightarrow> \<exists>msg. authorize_method c m t = Err (AccessDenied msg)"
  by (cases m) (auto simp: authorize_method_def method_scope_def require_root_def)

lemma root_call_refuses:
  assumes "ca_uid c \<noteq> 0" "m \<notin> {MAuthenticate, MAuthenticateSilent}"
  shows "\<exists>e. root_call c m captures ob prepare body sv = Some (Err e, sv)"
  using authorize_root_refuses[OF assms, of None] by (auto simp: root_call_def)

lemma run_authentication_refuses:
  assumes "\<not> may_authenticate c m user"
  shows "\<exists>e. run_authentication pl c user m intent ob sv = Some (Err e, sv)"
proof -
  obtain e where "authorize_method c m (Some user) = Err e"
    using assms authorize_user_iff[of c m user] by (metis (full_types) old.unit.exhaust result.exhaust)
  then show ?thesis by (simp add: run_authentication_def authenticate_entry_def)
qed

lemma redacted: "ca_uid c \<noteq> 0 \<Longrightarrow> and_then r (\<lambda>w. Ok (redact_auth (ca_uid c = 0) w)) = Ok w \<Longrightarrow> aw_similarity w = 0"
  by (cases r) (auto simp: redact_auth_def)

lemma run_authentication_redacts:
  assumes "run_authentication pl c user m intent ob sv = Some (Ok w, sv')" "ca_uid c \<noteq> 0"
  shows "aw_similarity w = 0"
proof (cases "authenticate_entry c user m ob sv")
  case (Pair r sv1)
  show ?thesis
  proof (cases r)
    case (Some res)
    then have "res = Ok w" using assms(1) Pair by (simp add: run_authentication_def)
    then show ?thesis using Pair Some
      by (auto simp: authenticate_entry_def recoverable_auth_error_def Let_def split: result.splits prod.splits if_splits)
  next
    case None
    then show ?thesis using assms Pair
      by (auto simp: run_authentication_def Let_def redact_auth_def split: option.splits result.splits prod.splits if_splits)
  qed
qed

text \<open>C2: an unprivileged caller is confined to authenticating as themselves. Every other call of the
  interface, the previews, the model list and the diagnostic authentication included, is refused with
  an error and leaves the service exactly as it was; and an authentication for their own
  name reports no similarity score, whatever the attempt measured and whatever runs beside it.\<close>

theorem unprivileged_confined:
  assumes "ca_uid c \<noteq> 0"
  shows "if \<exists>user silent. mc = CAuthenticate user silent \<and> ca_username c = Some user
    then \<forall>r sv'. service_call pl c mc ob sv = Some (Ok r, sv') \<longrightarrow> (\<exists>w. r = WAuth w \<and> aw_similarity w = 0)
    else \<exists>e. service_call pl c mc ob sv = Some (Err e, sv)"
proof (cases "\<exists>user silent. mc = CAuthenticate user silent \<and> ca_username c = Some user")
  case True
  then show ?thesis using run_authentication_redacts[OF _ assms] by (fastforce simp: service_call_def)
next
  case False
  have "\<exists>e. service_call pl c mc ob sv = Some (Err e, sv)"
  proof (cases mc)
    case (CAuthenticate user silent)
    then have "\<not> may_authenticate c (if silent then MAuthenticateSilent else MAuthenticate) user"
      using False assms by (simp add: may_authenticate_def)
    from run_authentication_refuses[OF this, of pl IntentAuthenticate ob sv] show ?thesis
      using CAuthenticate by (auto simp: service_call_def)
  next
    case (CTestAuthenticate user)
    then have "\<not> may_authenticate c MTestAuthenticate user" using assms by (simp add: may_authenticate_def is_authentication_def)
    from run_authentication_refuses[OF this, of pl IntentTest ob sv] show ?thesis
      using CTestAuthenticate by (auto simp: service_call_def)
  qed (simp_all add: service_call_def root_call_refuses[OF assms])
  then show ?thesis unfolding if_not_P[OF False] .
qed

subsection \<open>What a success on the bus rests on\<close>

text \<open>The service as the locked section of an authentication meets it, after everything other tasks did.\<close>

definition at_lock :: "caller \<Rightarrow> string \<Rightarrow> bus_method \<Rightarrow> bus_call_obs \<Rightarrow> service \<Rightarrow> service" where
  "at_lock c user m ob sv = co_before_lock ob (co_before_policy ob (snd (authenticate_entry c user m ob sv)))"

lemma entry_not_matched: "authenticate_entry c user m ob sv = (Some (Ok w), sv1) \<Longrightarrow> \<not> aw_matched w"
  by (auto simp: authenticate_entry_def recoverable_auth_error_def Let_def split: result.splits prod.splits if_splits)

lemma entry_authorized: "authenticate_entry c user m ob sv = (None, sv1) \<Longrightarrow> may_authenticate c m user"
  unfolding authorize_user_iff[symmetric] by (auto simp: authenticate_entry_def split: result.splits)

lemma encode_matched: "encode_auth dbg r = Ok w \<Longrightarrow> aw_matched w \<Longrightarrow> \<exists>mr. r = DAuth mr \<and> mr_matched mr"
  by (cases r) (auto simp: encode_auth_def recoverable_auth_error_def)

lemma with_token_frame [simp]:
  "ro_gate (with_token ob) = ro_gate (co_request ob)" "ro_keys (with_token ob) = ro_keys (co_request ob)"
  "ro_started (with_token ob) = ro_started (co_request ob)" "ro_entry (with_token ob) = ro_entry (co_request ob)"
  "ro_ticks (with_token ob) = ro_ticks (co_request ob)"
  by (simp_all add: with_token_def)

lemma template_of_with_token [simp]: "template_of (with_token ob) = template_of (co_request ob)"
  by (intro ext) (simp add: template_of_def)

text \<open>How a method's checks end up in the locked section.\<close>

lemma run_authentication_matched:
  assumes "run_authentication pl c user m intent ob sv = Some (Ok w, sv')" "aw_matched w"
  obtains need_session lid w' where "may_authenticate c m user"
    "authenticate_locked pl user m intent ob (maybe_check need_session ''caller session provenance'' ''4s'' (session_answer ob c))
       lid (at_lock c user m ob sv) = Some (Ok w', sv')" "w = redact_auth (ca_uid c = 0) w'"
proof (cases "authenticate_entry c user m ob sv")
  case (Pair r sv1)
  show thesis
  proof (cases r)
    case (Some res)
    then show thesis using assms Pair entry_not_matched[of c user m ob sv w sv1] by (auto simp: run_authentication_def)
  next
    case None
    then have "may_authenticate c m user" using entry_authorized Pair by blast
    then show thesis using that assms Pair None
      by (auto simp: run_authentication_def at_lock_def Let_def split: option.splits result.splits prod.splits)
  qed
qed

lemma preflight_refusal_unmatched:
  "preflight_authenticate_with_context ob user intent ctx h = (Some (DAuth mr), h1, log) \<Longrightarrow> \<not> mr_matched mr"
  using pre_check_never_matches[of "hd_config h" "ro_gate ob" user "hd_rate_limiter h" "hd_device_caps h" ctx "hd_store h"]
  by (auto simp: preflight_authenticate_with_context_def pre_check_audited_with_context_def Let_def response_matched
      split: prod.splits option.splits)

lemma preflight_passed:
  "preflight_authenticate_with_context ob user intent ctx h = (None, h1, log) \<Longrightarrow>
   \<exists>d. pre_check_with_context (hd_config h) (ro_gate ob) user (hd_rate_limiter h) (hd_device_caps h) ctx (hd_store h) = (None, d) \<and>
     h1 = h\<lparr>hd_store := d\<rparr>"
  by (auto simp: preflight_authenticate_with_context_def pre_check_audited_with_context_def Let_def
      split: prod.splits option.splits)

lemma locked_matched:
  assumes "authenticate_locked pl user m intent ob prov lid sv = Some (Ok w, sv')" "aw_matched w"
    and "h = dm_handler (sv_cell sv)"
    and "ctx = (if is_authentication m then ctx_daemon_authenticate (lid_source_of lid) else intent_context intent)"
  shows "is_authentication m \<and> sc_abort_if_ssh (cf_security (hd_config h)) \<Longrightarrow> prov = Some (Ok False)"
    and "\<exists>d mr h2 log.
      pre_check_with_context (hd_config h) (ro_gate (co_request ob)) user (hd_rate_limiter h) (hd_device_caps h) ctx
        (hd_store h) = (None, d) \<and>
      handle_authenticate_prechecked pl (with_token ob) user intent (h\<lparr>hd_store := d\<rparr>) = Served (DAuth mr) h2 log \<and>
      mr_matched mr \<and> aw_label w = opt_str (mr_label mr)"
proof -
  have open_path: "\<not> (is_authentication m \<and> sc_abort_if_ssh (cf_security (hd_config h)) \<and> prov \<noteq> Some (Ok False))"
    "\<not> (lid = Some (Err CheckCancelled) \<and> sc_abort_if_lid_closed (cf_security (hd_config h)))"
    using assms(1-3) by (auto simp: authenticate_locked_def Let_def recoverable_auth_error_def split: if_splits)
  then show "is_authentication m \<and> sc_abort_if_ssh (cf_security (hd_config h)) \<Longrightarrow> prov = Some (Ok False)" by blast
  obtain r h1 log where pre: "preflight_authenticate_with_context (co_request ob) user intent ctx h = (r, h1, log)"
    by (metis prod_cases3)
  note run = assms(1)[unfolded authenticate_locked_def Let_def assms(3,4)[symmetric] if_not_P[OF open_path(1)]
      if_not_P[OF open_path(2)] pre prod.case]
  have none: "r = None"
  proof (rule ccontr)
    assume "r \<noteq> None"
    then obtain x where "r = Some x" by blast
    then show False using run pre preflight_refusal_unmatched encode_matched assms(2) by fastforce
  qed
  then obtain d where d: "pre_check_with_context (hd_config h) (ro_gate (co_request ob)) user (hd_rate_limiter h)
      (hd_device_caps h) ctx (hd_store h) = (None, d)" "h1 = h\<lparr>hd_store := d\<rparr>"
    using preflight_passed pre by blast
  obtain x h2 log2 where x: "handle_authenticate_prechecked pl (with_token ob) user intent h1 = Served x h2 log2"
    "encode_auth (co_debug ob) x = Ok w"
    using run none by (auto split: if_splits handler_run.splits)
  then obtain mr where "x = DAuth mr" "mr_matched mr" using encode_matched assms(2) by blast
  then show "\<exists>d mr h2 log.
      pre_check_with_context (hd_config h) (ro_gate (co_request ob)) user (hd_rate_limiter h) (hd_device_caps h) ctx
        (hd_store h) = (None, d) \<and>
      handle_authenticate_prechecked pl (with_token ob) user intent (h\<lparr>hd_store := d\<rparr>) = Served (DAuth mr) h2 log \<and>
      mr_matched mr \<and> aw_label w = opt_str (mr_label mr)"
    using d x by (auto simp: encode_auth_def)
qed


subsection \<open>A sample service\<close>

definition sample_session :: session_obs where
  "sample_session =
     \<lparr>so_has_sender = True, so_dbus_proxy = Ok (), so_credentials = Ok True, so_sender_name = '':1.7'',
      so_fdinfo = Ok ''Pid:42'', so_poll_before = PollReady False 0, so_poll_after = PollReady False 0,
      so_manager = Ok (), so_call = \<lambda>_. SessionFound, so_session_proxy = Ok (), so_remote = \<lambda>_. Ok False,
      so_unit = \<lambda>_. Ok [], so_listed = Ok [], so_quoted = id\<rparr>"

definition sample_service :: service where
  "sample_service =
     \<lparr>sv_cell = \<lparr>dm_handler = sample_handler, dm_poisoned = False\<rparr>, sv_mtime = None, sv_mtime_poisoned = False,
      sv_ingress = fresh_ingress, sv_last_activity = 0\<rparr>"

definition sample_bus_call :: bus_call_obs where
  "sample_bus_call =
     \<lparr>co_ingress_now = 0, co_busy_entry = False, co_epoch = 0, co_activity = 5,
      co_reload = \<lparr>rb_recipe = None, rb_mtime = None, rb_meanwhile = id\<rparr>, co_before_policy = id,
      co_policy_lock = [WouldBlock False False, LockTaken], co_session_wait = Answered (), co_session = sample_session,
      co_lid = Answered (Ok False), co_before_lock = id, co_lock = [LockTaken], co_busy_claim = False,
      co_epoch_install = 0, co_request = sample_request False sample_ticks, co_join = [], co_debug = \<lambda>_. []\<rparr>"

definition sample_caller :: "string \<Rightarrow> caller" where
  "sample_caller name = \<lparr>ca_uid = 1000, ca_username = Some name\<rparr>"

theorem unprivileged_confined_witness:
  "ca_uid (sample_caller ''bob'') \<noteq> 0 \<and>
   (\<exists>e. service_call std_platform (sample_caller ''bob'') (CAuthenticate ''alice'' True) sample_bus_call sample_service =
      Some (Err e, sample_service))"
proof -
  have bob: "ca_uid (sample_caller ''bob'') \<noteq> 0" "ca_username (sample_caller ''bob'') = Some ''bob''"
    by (simp_all add: sample_caller_def)
  show ?thesis
    using unprivileged_confined[OF bob(1), of "CAuthenticate ''alice'' True" std_platform sample_bus_call sample_service] bob
    by simp
qed

lemma sample_charge: "\<exists>st. check_and_charge_at 1000 0 fresh_ingress = (True, st)"
  by (simp add: check_and_charge_at_def fresh_ingress_def live_buckets_def make_room_def entry_bucket_def MAX_INGRESS_BUCKETS_def
      INGRESS_BURST_def refill_def Let_def)

lemma sample_entry:
  "\<exists>sv. authenticate_entry (sample_caller ''alice'') ''alice'' MAuthenticate sample_bus_call sample_service = (None, sv) \<and>
     dm_handler (sv_cell sv) = sample_handler"
  using sample_charge
  by (auto simp: authenticate_entry_def authorize_method_def method_scope_def require_user_authorized_def sample_caller_def
      sample_bus_call_def sample_service_def is_authentication_def maybe_reload_handler_def Let_def)

lemma sample_session_local: "caller_session_is_remote sample_session 1000 = Ok False"
proof -
  have "pid_from_pidfd (Ok ''Pid:42'') = Ok 42"
    by (simp add: pid_from_pidfd_def lines_of_def strip_prefix_def trim_def is_white_def parse_u32_def List.map_filter_simps)
  then show ?thesis unfolding caller_local_iff local_caller_def sample_session_def by simp
qed

lemma sample_locked:
  assumes "dm_handler (sv_cell sv) = sample_handler"
  shows "\<exists>w sv'. authenticate_locked std_platform ''alice'' MAuthenticate IntentAuthenticate sample_bus_call (Some (Ok False))
     (Some (Ok False)) sv = Some (Ok w, sv') \<and> aw_matched w"
proof -
  obtain mr h log where run: "handle_authenticate_prechecked std_platform (sample_request False sample_ticks) ''alice''
      IntentAuthenticate sample_handler = Served (DAuth mr) h log" "mr_matched mr"
    using sample_success by (auto simp: sample_serves)
  have "lid_gate default_config (ctx_daemon_authenticate (lid_source_of (Some (Ok False)))) sample_env = None"
    by (simp add: lid_gate_def ctx_daemon_authenticate_def lid_source_of_def lid_refusal_def)
  note pre = sample_handler_preflight[OF this]
  have call: "co_request sample_bus_call = sample_request False sample_ticks" "co_busy_claim sample_bus_call = False"
    "with_token sample_bus_call = sample_request False sample_ticks"
    by (simp_all add: sample_bus_call_def with_token_def)
  show ?thesis
    by (simp add: authenticate_locked_def Let_def assms is_authentication_def call pre run encode_auth_def)
qed

lemma sample_bus_match:
  "\<exists>w sv. run_authentication std_platform (sample_caller ''alice'') ''alice'' MAuthenticate IntentAuthenticate sample_bus_call
     sample_service = Some (Ok w, sv) \<and> aw_matched w"
proof -
  obtain sv where sv: "authenticate_entry (sample_caller ''alice'') ''alice'' MAuthenticate sample_bus_call sample_service = (None, sv)"
    "dm_handler (sv_cell sv) = sample_handler"
    using sample_entry by blast
  have cfg: "sc_abort_if_ssh (cf_security (hd_config sample_handler))" "sc_abort_if_lid_closed (cf_security (hd_config sample_handler))"
    by (simp_all add: sample_handler_def default_config_def default_security_config_def)
  have call: "co_before_policy sample_bus_call = id" "co_before_lock sample_bus_call = id" "co_lock sample_bus_call = [LockTaken]"
    "co_policy_lock sample_bus_call = [WouldBlock False False, LockTaken]" "co_lid sample_bus_call = Answered (Ok False)"
    "session_answer sample_bus_call (sample_caller ''alice'') = Answered (Ok False)"
    by (simp_all add: sample_bus_call_def session_answer_def sample_caller_def sample_session_local)
  have "is_authentication MAuthenticate" "ca_uid (sample_caller ''alice'') \<noteq> 0"
    by (simp_all add: is_authentication_def sample_caller_def)
  then show ?thesis using sample_locked[OF sv(2)]
    by (auto simp: run_authentication_def sv Let_def call cfg maybe_check_def run_bounded_check_def redact_auth_def)
qed


end
