(* ===== verification/PamClient.thy ===== *)
theory PamClient
  imports AuthGate F64
begin

text \<open>
  The lower half of \<^verbatim>\<open>pam-facelock/src/lib.rs\<close> and \<^verbatim>\<open>oneshot_exit.rs\<close>: the module's own minimal
  configuration, the bus client with its peer check and error classes, the trust checks on the
  configuration file and the helper binary, and the daemonless child process. The bus, the file
  system, the clock and the child are observations; log lines, conversation texts and the
  spawned command are the events the functions return.
\<close>

subsection \<open>Return codes and the exit-code table\<close>

type_synonym pam_code = i32

definition PAM_SUCCESS :: pam_code where "PAM_SUCCESS = 0"
definition PAM_AUTH_ERR :: pam_code where "PAM_AUTH_ERR = 7"
definition PAM_AUTHINFO_UNAVAIL :: pam_code where "PAM_AUTHINFO_UNAVAIL = 9"
definition PAM_IGNORE :: pam_code where "PAM_IGNORE = 25"

lemmas pam_codes = PAM_SUCCESS_def PAM_AUTH_ERR_def PAM_AUTHINFO_UNAVAIL_def PAM_IGNORE_def

record oneshot_exit =
  ox_pam_code :: pam_code
  ox_label :: "string option"
  ox_warn :: bool

definition classify_exit :: "i32 \<Rightarrow> oneshot_exit" where
  "classify_exit code =
     (if code = 0 then \<lparr>ox_pam_code = PAM_SUCCESS, ox_label = Some ''success (oneshot)'', ox_warn = False\<rparr>
      else if code = 1 then \<lparr>ox_pam_code = PAM_AUTH_ERR, ox_label = Some ''no_match (oneshot)'', ox_warn = False\<rparr>
      else if code = 3 then \<lparr>ox_pam_code = PAM_AUTH_ERR, ox_label = Some ''rate_limited (oneshot)'', ox_warn = True\<rparr>
      else if code = 4 then \<lparr>ox_pam_code = PAM_AUTHINFO_UNAVAIL,
             ox_label = Some ''suppressed (oneshot, no enrolled models)'', ox_warn = False\<rparr>
      else if code = 5 then \<lparr>ox_pam_code = PAM_IGNORE, ox_label = Some ''all_frames_dark (oneshot)'', ox_warn = True\<rparr>
      else \<lparr>ox_pam_code = PAM_IGNORE, ox_label = None, ox_warn = True\<rparr>)"

subsection \<open>Configuration\<close>

datatype pam_notification_mode = PamOff | PamTerminal | PamDesktop | PamBoth

datatype pam_notification_policy = PamPolicyOn | PamPolicyOff | PamPolicySystem

definition pam_policy_enabled :: "pam_notification_policy \<Rightarrow> bool \<Rightarrow> bool" where
  "pam_policy_enabled p pam_silent =
     (case p of PamPolicyOn \<Rightarrow> True | PamPolicyOff \<Rightarrow> False | PamPolicySystem \<Rightarrow> \<not> pam_silent)"

definition pam_policy_of_bool :: "bool \<Rightarrow> pam_notification_policy" where
  "pam_policy_of_bool b = (if b then PamPolicyOn else PamPolicyOff)"

text \<open>\<^verbatim>\<open>visit_str\<close> of the policy deserializer; \<open>None\<close> is the unknown-variant error.\<close>

definition pam_policy_of_str :: "string \<Rightarrow> pam_notification_policy option" where
  "pam_policy_of_str v =
     (if v = ''on'' then Some PamPolicyOn else if v = ''off'' then Some PamPolicyOff
      else if v = ''system'' then Some PamPolicySystem else None)"

record pam_policy_config =
  pp_allowed_services :: "string list"
  pp_denied_services :: "string list"

record pam_security_config =
  ps_disabled :: bool
  ps_abort_if_ssh :: bool
  ps_abort_if_lid_closed :: bool
  ps_suppress_unknown :: bool
  ps_pam_policy :: "pam_policy_config option"

record pam_notification_config =
  pn_mode :: pam_notification_mode
  pn_notify_prompt :: pam_notification_policy
  pn_notify_on_success :: pam_notification_policy
  pn_notify_on_failure :: pam_notification_policy

record pam_config =
  pc_daemon_mode :: string
  pc_security :: pam_security_config
  pc_timeout_secs :: u32
  pc_notification :: pam_notification_config

definition default_pam_security :: pam_security_config where
  "default_pam_security =
     \<lparr>ps_disabled = False, ps_abort_if_ssh = True, ps_abort_if_lid_closed = True,
      ps_suppress_unknown = False, ps_pam_policy = None\<rparr>"

definition default_pam_notification :: pam_notification_config where
  "default_pam_notification =
     \<lparr>pn_mode = PamTerminal, pn_notify_prompt = pam_policy_of_bool True,
      pn_notify_on_success = pam_policy_of_bool True, pn_notify_on_failure = pam_policy_of_bool False\<rparr>"

definition default_pam_config :: pam_config where
  "default_pam_config =
     \<lparr>pc_daemon_mode = ''daemon'', pc_security = default_pam_security, pc_timeout_secs = 5,
      pc_notification = default_pam_notification\<rparr>"

definition pam_terminal :: "pam_notification_config \<Rightarrow> bool" where
  "pam_terminal n = (pn_mode n \<in> {PamTerminal, PamBoth})"

subsection \<open>Events\<close>

datatype pam_event =
    Syslog bool string
  | ConvInfo string
  | Spawned string "string list" "(string \<times> string) list"

text \<open>\<^verbatim>\<open>CString::new\<close> fails on an interior NUL; such a line is dropped. The flag is the warning level.\<close>

definition log_auth :: "string \<Rightarrow> string \<Rightarrow> string \<Rightarrow> bool \<Rightarrow> pam_event list" where
  "log_auth service result user warn =
     (let msg = ''pam_facelock('' @ service @ ''): '' @ result @ '' for user '' @ user
      in if CHR 0x00 \<in> set msg then [] else [Syslog warn msg])"

text \<open>\<open>tr\<close> is gettext; \<open>conv\<close> whether the application offers a conversation function.\<close>

definition pam_info :: "(string \<Rightarrow> string) \<Rightarrow> bool \<Rightarrow> string \<Rightarrow> pam_event list" where
  "pam_info tr conv msg = (if CHR 0x00 \<in> set (tr msg) \<or> \<not> conv then [] else [ConvInfo (tr msg)])"

subsection \<open>Environment\<close>

text \<open>\<^verbatim>\<open>split\<close> at a separator.\<close>

fun split_on :: "char \<Rightarrow> string \<Rightarrow> string list" where
  "split_on c [] = [[]]"
| "split_on c (x # xs) =
     (if x = c then [] # split_on c xs
      else case split_on c xs of [] \<Rightarrow> [[x]] | p # ps \<Rightarrow> (x # p) # ps)"

definition pam_is_ssh_session :: "string option \<Rightarrow> bool" where
  "pam_is_ssh_session environ =
     (case environ of None \<Rightarrow> False
      | Some data \<Rightarrow> list_ex (\<lambda>v. starts_with v ''SSH_CONNECTION='' \<or> starts_with v ''SSH_TTY='')
                      (split_on (CHR 0x00) data))"

definition oneshot_child_env :: "(string \<times> string) list \<Rightarrow> (string \<times> string) list" where
  "oneshot_child_env parent =
     filter (\<lambda>(k, _). k \<in> {''SSH_CONNECTION'', ''SSH_TTY''}) parent @ [(''PATH'', ''/usr/bin:/bin'')]"

subsection \<open>Bus errors\<close>

text \<open>The client library's errors as far as the module distinguishes them; every error carries its
  rendered text.\<close>

datatype fdo_kind =
    FdoNoReply | FdoTimeout | FdoTimedOut | FdoAccessDenied | FdoUnknownMethod | FdoUnknownInterface | FdoOther

record fdo_error =
  fe_kind :: fdo_kind
  fe_text :: string

datatype zbus_kind = ZInputOutput bool | ZMethodError string | ZFdo fdo_kind | ZOther

record zbus_error =
  ze_kind :: zbus_kind
  ze_text :: string

definition is_timeout_fdo_error :: "fdo_kind \<Rightarrow> bool" where
  "is_timeout_fdo_error k = (k \<in> {FdoNoReply, FdoTimeout, FdoTimedOut})"

text \<open>The flag of \<open>ZInputOutput\<close> tells whether the I/O error kind is \<^verbatim>\<open>TimedOut\<close>.\<close>

definition is_timeout_zbus_error :: "zbus_kind \<Rightarrow> bool" where
  "is_timeout_zbus_error k =
     (case k of
        ZInputOutput timed_out \<Rightarrow> timed_out
      | ZMethodError name \<Rightarrow>
          name \<in> {''org.freedesktop.DBus.Error.NoReply'', ''org.freedesktop.DBus.Error.Timeout'',
                  ''org.freedesktop.DBus.Error.TimedOut''}
      | ZFdo f \<Rightarrow> is_timeout_fdo_error f
      | ZOther \<Rightarrow> False)"

definition classify_zbus_error :: "string \<Rightarrow> zbus_error \<Rightarrow> string" where
  "classify_zbus_error pre err =
     (if is_timeout_zbus_error (ze_kind err) then ''dbus_timeout: '' @ ze_text err
      else pre @ '': '' @ ze_text err)"

definition classify_fdo_error :: "string \<Rightarrow> fdo_error \<Rightarrow> string" where
  "classify_fdo_error pre err =
     (if is_timeout_fdo_error (fe_kind err) then ''dbus_timeout: '' @ fe_text err
      else pre @ '': '' @ fe_text err)"

definition DBUS_ACCESS_DENIED :: string where
  "DBUS_ACCESS_DENIED = ''org.freedesktop.DBus.Error.AccessDenied''"

definition classify_authenticate_error :: "zbus_error \<Rightarrow> string" where
  "classify_authenticate_error err =
     (let denied = (case ze_kind err of
          ZMethodError name \<Rightarrow> name = DBUS_ACCESS_DENIED
        | ZFdo f \<Rightarrow> f = FdoAccessDenied
        | _ \<Rightarrow> False)
      in if denied then ''dbus_access_denied: '' @ ze_text err
         else classify_zbus_error ''dbus_call_failed'' err)"

definition classify_authentication_reply_error :: "zbus_error \<Rightarrow> bool \<Rightarrow> string" where
  "classify_authentication_reply_error err silent =
     (let unsupported = (case ze_kind err of
          ZFdo f \<Rightarrow> f \<in> {FdoUnknownMethod, FdoUnknownInterface}
        | ZMethodError name \<Rightarrow> name \<in> {''org.freedesktop.DBus.Error.UnknownMethod'',
                                        ''org.freedesktop.DBus.Error.UnknownInterface''}
        | _ \<Rightarrow> False)
      in if silent \<and> unsupported
         then ''dbus_access_denied: silent authentication unsupported: '' @ ze_text err
         else classify_authenticate_error err)"

datatype transport_error_action = ReturnCode pam_code string | FallBackToOneshot

definition action_for_transport_error :: "string \<Rightarrow> transport_error_action" where
  "action_for_transport_error e =
     (if starts_with e ''dbus_access_denied''
      then ReturnCode PAM_IGNORE ''refused by daemon (caller provenance or authorization)''
      else if contains e ''dbus_timeout'' then ReturnCode PAM_AUTH_ERR ''timeout''
      else FallBackToOneshot)"

subsection \<open>The daemon call\<close>

datatype auth_response =
    RMatched f32
  | RNoMatch f32
  | RNoMatchFaceSeen
  | RSuppressed
  | RError string

type_synonym auth_reply = "bool \<times> i32 \<times> string \<times> f64"

definition parse_auth_reply :: "nan_rule \<Rightarrow> bool \<Rightarrow> i32 \<Rightarrow> string \<Rightarrow> f64 \<Rightarrow> auth_response" where
  "parse_auth_reply qn matched model_id label similarity =
     (if matched then RMatched (f64_to_f32 qn similarity)
      else if model_id = - 2 then RError label
      else if model_id = - 3 then RSuppressed
      else if model_id = - 4 then RNoMatchFaceSeen
      else RNoMatch (f64_to_f32 qn similarity))"

text \<open>What the system bus answers: connection and proxy construction, the name's owner before and
  after activation, the owner's UID, and the reply of the pinned peer to a method and user.\<close>

record bus_obs =
  bo_connect :: "(unit, string) result"
  bo_dbus_proxy :: "(unit, zbus_error) result"
  bo_owner :: "(string, fdo_error) result"
  bo_start :: "(unit, fdo_error) result"
  bo_owner_started :: "(string, fdo_error) result"
  bo_uid :: "string \<Rightarrow> (u32, fdo_error) result"
  bo_proxy :: "(unit, zbus_error) result"
  bo_call :: "string \<Rightarrow> string \<Rightarrow> string \<Rightarrow> (auth_reply, zbus_error) result"

definition resolve_owner :: "bus_obs \<Rightarrow> (string, string) result" where
  "resolve_owner b =
     (case bo_owner b of
        Ok owner \<Rightarrow> Ok owner
      | Err _ \<Rightarrow>
          and_then (map_err (classify_fdo_error ''dbus_connect_failed'') (bo_start b))
            (\<lambda>_. map_err (classify_fdo_error ''dbus_connect_failed'') (bo_owner_started b)))"

definition verify_daemon_peer :: "bus_obs \<Rightarrow> (string, string) result" where
  "verify_daemon_peer b =
     and_then (map_err (classify_zbus_error ''dbus_proxy_failed'') (bo_dbus_proxy b)) (\<lambda>_.
     and_then (resolve_owner b) (\<lambda>owner.
     and_then (map_err (classify_fdo_error ''dbus_call_failed'') (bo_uid b owner)) (\<lambda>uid.
       if uid \<noteq> 0
       then Err (''dbus_untrusted_peer: org.facelock.Daemon owned by uid '' @ dec_str (unat uid) @ '' (require root)'')
       else Ok owner)))"

definition daemon_authenticate_async :: "nan_rule \<Rightarrow> bus_obs \<Rightarrow> string \<Rightarrow> bool \<Rightarrow> (auth_response, string) result" where
  "daemon_authenticate_async qn b user silent =
     and_then (map_err (\<lambda>e. ''dbus_connect_failed: '' @ e) (bo_connect b)) (\<lambda>_.
     and_then (verify_daemon_peer b) (\<lambda>peer.
     and_then (map_err (classify_zbus_error ''dbus_proxy_failed'') (bo_proxy b)) (\<lambda>_.
     and_then (map_err (\<lambda>e. classify_authentication_reply_error e silent)
                (bo_call b peer (if silent then ''AuthenticateSilent'' else ''Authenticate'') user))
       (\<lambda>(matched, model_id, label, similarity). Ok (parse_auth_reply qn matched model_id label similarity)))))"

text \<open>The worker thread: it cannot be spawned, misses the overall deadline, dies, or delivers.\<close>

datatype worker_obs = WorkerSpawnFailed string | WorkerTimeout | WorkerDied | WorkerDelivers bus_obs

definition daemon_authenticate :: "nan_rule \<Rightarrow> worker_obs \<Rightarrow> string \<Rightarrow> bool \<Rightarrow> (auth_response, string) result" where
  "daemon_authenticate qn w user silent =
     (case w of
        WorkerSpawnFailed e \<Rightarrow> Err (''dbus_call_failed: worker thread spawn failed: '' @ e)
      | WorkerTimeout \<Rightarrow> Err ''dbus_timeout: connection or method call exceeded overall deadline''
      | WorkerDied \<Rightarrow> Err ''dbus_call_failed: worker thread terminated unexpectedly''
      | WorkerDelivers b \<Rightarrow> daemon_authenticate_async qn b user silent)"

subsection \<open>Trusted files\<close>

text \<open>Owner and mode of a path, or the rendered \<^verbatim>\<open>stat\<close> error.\<close>

type_synonym stat_obs = "string \<Rightarrow> (u32 \<times> u32, string) result"

text \<open>The mask is octal 022: group and world write.\<close>

definition validate_root_owned_nonwritable :: "u32 \<Rightarrow> u32 \<Rightarrow> string \<Rightarrow> (unit, string) result" where
  "validate_root_owned_nonwritable uid mode label =
     (if uid \<noteq> 0 then Err (label @ '' must be owned by root'')
      else if mode AND 0b10010 \<noteq> 0 then Err (label @ '' must not be group- or world-writable'')
      else Ok ())"

text \<open>\<^verbatim>\<open>Path::parent\<close> of an absolute path, and the chain of all ancestors, nearest first.\<close>

definition path_parent :: "string \<Rightarrow> string option" where
  "path_parent p =
     (let up = rev (tl (dropWhile (\<lambda>c. c \<noteq> CHR ''/'') (rev p))) in
      if CHR ''/'' \<notin> set p \<or> p = ''/'' then None
      else if up = [] then Some ''/'' else Some up)"

lemma path_parent_shorter: "path_parent p = Some d \<Longrightarrow> length d < length p"
proof -
  assume d: "path_parent p = Some d"
  then have slash: "CHR ''/'' \<in> set (rev p)" "p \<noteq> ''/''" by (auto simp: path_parent_def Let_def split: if_splits)
  define r where "r = dropWhile (\<lambda>c. c \<noteq> CHR ''/'') (rev p)"
  have r: "r \<noteq> []" "length r \<le> length p"
    using slash(1) length_dropWhile_le[of "\<lambda>c. c \<noteq> CHR ''/''" "rev p"] by (auto simp: r_def dropWhile_eq_Nil_conv)
  have "length (rev (tl r)) < length p" using r by (cases r) auto
  moreover have "length p \<noteq> 1"
    using slash by (auto simp: length_Suc_conv)
  moreover have "p \<noteq> []" using slash by auto
  ultimately show ?thesis using d unfolding path_parent_def Let_def r_def[symmetric]
    by (auto split: if_splits)
qed

function path_parents :: "string \<Rightarrow> string list" where
  "path_parents p = (case path_parent p of None \<Rightarrow> [] | Some d \<Rightarrow> d # path_parents d)"
  by pat_completeness auto
termination
  by (relation "measure length") (simp_all add: path_parent_shorter)

declare path_parents.simps [simp del]

text \<open>The walk over the parent directories; \<open>stat_label\<close> and \<open>dir_label\<close> are the wordings of the two
  callers.\<close>

fun check_parents :: "stat_obs \<Rightarrow> string \<Rightarrow> string \<Rightarrow> string list \<Rightarrow> (unit, string) result" where
  "check_parents st stat_label dir_label [] = Ok ()"
| "check_parents st stat_label dir_label (d # ds) =
     and_then (map_err (\<lambda>e. ''failed to stat '' @ stat_label @ '' '' @ d @ '': '' @ e) (st d)) (\<lambda>(uid, mode).
     and_then (validate_root_owned_nonwritable uid mode (dir_label @ '' '' @ d)) (\<lambda>_.
       check_parents st stat_label dir_label ds))"

text \<open>Opening a file, \<^verbatim>\<open>fstat\<close> of the descriptor, the contents read from it, and the directories.\<close>

record config_file_obs =
  fo_open :: "(unit, string) result"
  fo_fstat :: "(u32 \<times> u32, string) result"
  fo_read :: "(string, string) result"
  fo_stat :: stat_obs

definition read_trusted_config :: "config_file_obs \<Rightarrow> string \<Rightarrow> (string, string) result" where
  "read_trusted_config f path =
     and_then (map_err (\<lambda>e. ''read config: '' @ e) (fo_open f)) (\<lambda>_.
     and_then (map_err (\<lambda>e. ''failed to stat config '' @ path @ '': '' @ e) (fo_fstat f)) (\<lambda>(uid, mode).
     and_then (validate_root_owned_nonwritable uid mode (''config '' @ path)) (\<lambda>_.
     and_then (check_parents (fo_stat f) ''config parent'' ''config parent dir'' (path_parents path)) (\<lambda>_.
       map_err (\<lambda>e. ''read config: '' @ e) (fo_read f)))))"

definition CONFIG_PATH :: string where
  "CONFIG_PATH = ''/etc/facelock/config.toml''"

definition AUTH_BIN :: string where
  "AUTH_BIN = ''/usr/bin/facelock''"

definition pam_load_config ::
  "(string \<Rightarrow> (pam_config, string) result) \<Rightarrow> config_file_obs \<Rightarrow> (pam_config, string) result" where
  "pam_load_config from_str f =
     and_then (read_trusted_config f CONFIG_PATH) (\<lambda>content.
       map_err (\<lambda>e. ''parse config: '' @ e) (from_str content))"

definition verify_binary_trust ::
  "(string \<Rightarrow> (string, string) result) \<Rightarrow> stat_obs \<Rightarrow> string \<Rightarrow> (string, string) result" where
  "verify_binary_trust canonicalize st path =
     and_then (map_err (\<lambda>e. ''failed to resolve '' @ path @ '': '' @ e) (canonicalize path)) (\<lambda>canon.
     and_then (map_err (\<lambda>e. ''failed to stat '' @ canon @ '': '' @ e) (st canon)) (\<lambda>(uid, mode).
     and_then (validate_root_owned_nonwritable uid mode (''auth binary '' @ canon)) (\<lambda>_.
     and_then (check_parents st ''parent dir'' ''parent dir'' (path_parents canon)) (\<lambda>_.
       Ok canon))))"

subsection \<open>The daemonless child\<close>

datatype signal = SIGTERM | SIGKILL

definition ONESHOT_TERM_GRACE :: nat where "ONESHOT_TERM_GRACE = 500"
definition ONESHOT_KILL_REAP_WAIT :: nat where "ONESHOT_KILL_REAP_WAIT = 200"

text \<open>One poll: whether the child has exited (\<open>None\<close> for an error, read as not yet) and the clock in
  milliseconds. \<open>None\<close> is a run whose observations end; otherwise whether the child exited in time,
  and the polls left over.\<close>

type_synonym exit_poll = "bool option \<times> nat"

fun await_exit :: "nat \<Rightarrow> exit_poll list \<Rightarrow> (bool \<times> exit_poll list) option" where
  "await_exit deadline [] = None"
| "await_exit deadline ((exited, now) # ps) =
     (if exited = Some True then Some (True, ps)
      else if deadline \<le> now then Some (False, ps)
      else await_exit deadline ps)"

text \<open>The child as an observation: whether the two signals are delivered, the clock when each wait
  starts, and the polls. The result is the list of signals sent and whether the child was reaped
  by the final wait.\<close>

record child_obs =
  co_term_ok :: bool
  co_term_now :: nat
  co_kill_ok :: bool
  co_kill_now :: nat
  co_polls :: "exit_poll list"

definition terminate_oneshot_child :: "child_obs \<Rightarrow> nat \<Rightarrow> (signal list \<times> bool) option" where
  "terminate_oneshot_child c grace =
     (let sent = (if co_term_ok c then [SIGTERM] else []) in
      case await_exit (co_term_now c + grace) (co_polls c) of
        None \<Rightarrow> None
      | Some (True, _) \<Rightarrow> Some (sent, False)
      | Some (False, ps) \<Rightarrow>
          if co_kill_ok c
          then map_option (\<lambda>_. (sent @ [SIGKILL], True)) (await_exit (co_kill_now c + ONESHOT_KILL_REAP_WAIT) ps)
          else Some (sent, False))"

text \<open>One \<^verbatim>\<open>try_wait\<close>: still running at a clock reading, exited with a status (no code when a signal
  killed it), or an error.\<close>

datatype wait_poll = StillRunning nat | Exited "i32 option" | WaitError string

record oneshot_obs =
  oo_canonicalize :: "string \<Rightarrow> (string, string) result"
  oo_stat :: stat_obs
  oo_environ :: "(string \<times> string) list"
  oo_spawn :: "(unit, string) result"
  oo_spawn_now :: nat
  oo_polls :: "wait_poll list"
  oo_child :: child_obs

text \<open>\<open>None\<close> is a run whose observations end before the child does. The decimal rendering of a
  signed code is \<open>int_str\<close>.\<close>

fun wait_oneshot :: "string \<Rightarrow> string \<Rightarrow> nat \<Rightarrow> child_obs \<Rightarrow> wait_poll list \<Rightarrow> (pam_code \<times> pam_event list) option" where
  "wait_oneshot service user deadline c [] = None"
| "wait_oneshot service user deadline c (Exited status # ps) =
     (let code = (case status of None \<Rightarrow> 2 | Some n \<Rightarrow> n); ex = classify_exit code;
          line = (case ox_label ex of Some l \<Rightarrow> l | None \<Rightarrow> ''error: oneshot_exit='' @ int_str (sint code))
      in Some (ox_pam_code ex, log_auth service line user (ox_warn ex)))"
| "wait_oneshot service user deadline c (StillRunning now # ps) =
     (if deadline \<le> now
      then map_option (\<lambda>_. (PAM_AUTH_ERR, log_auth service ''timeout (oneshot)'' user True))
             (terminate_oneshot_child c ONESHOT_TERM_GRACE)
      else wait_oneshot service user deadline c ps)"
| "wait_oneshot service user deadline c (WaitError e # ps) =
     Some (PAM_IGNORE, log_auth service (''error: oneshot_wait: '' @ e) user True)"

definition oneshot_args :: "string \<Rightarrow> string list" where
  "oneshot_args user = [''auth'', ''--user'', user, ''--config'', CONFIG_PATH]"

definition run_oneshot_auth ::
  "oneshot_obs \<Rightarrow> string \<Rightarrow> string \<Rightarrow> pam_config \<Rightarrow> (pam_code \<times> pam_event list) option" where
  "run_oneshot_auth o1 service user cfg =
     (case verify_binary_trust (oo_canonicalize o1) (oo_stat o1) AUTH_BIN of
        Err e \<Rightarrow> Some (PAM_IGNORE, log_auth service (''error: untrusted_auth_binary: '' @ e) user True)
      | Ok bin \<Rightarrow>
          (case oo_spawn o1 of
             Err e \<Rightarrow> Some (PAM_IGNORE, log_auth service (''error: oneshot_spawn: '' @ e) user True)
           | Ok _ \<Rightarrow>
               map_option (\<lambda>(code, evs).
                   (code, Spawned bin (oneshot_args user) (oneshot_child_env (oo_environ o1)) # evs))
                 (wait_oneshot service user
                   (oo_spawn_now o1 + (unat (pc_timeout_secs cfg) + 3) * 1000)
                   (oo_child o1) (oo_polls o1))))"

end
