(* ===== verification/PamModule.thy ===== *)
theory PamModule
  imports PamClient
begin

text \<open>
  The decision of the PAM module, \<^verbatim>\<open>identify\<close> and the exported entry points of
  \<^verbatim>\<open>pam-facelock/src/lib.rs\<close>: pre-flight checks, the daemon call or the daemonless child, and the
  return code. The result is the code with the events in order; \<open>None\<close> is a run whose
  observations end before the module does.
\<close>

subsection \<open>Mapping replies to codes\<close>

definition pam_code_for_daemon_error :: "string \<Rightarrow> pam_code \<times> string" where
  "pam_code_for_daemon_error message =
     (if contains message ''rate_limit'' \<or> contains message ''rate limited'' then (PAM_AUTH_ERR, ''rate_limited'')
      else if contains message ''IR camera required'' \<or> contains message ''ir_required''
      then (PAM_IGNORE, ''ir_required'')
      else if message = ''cancelled'' then (PAM_IGNORE, ''cancelled'')
      else (PAM_IGNORE, ''error: internal''))"

definition pam_code_for_no_match :: "bool \<Rightarrow> f32 \<Rightarrow> pam_code" where
  "pam_code_for_no_match face_seen similarity =
     (if face_seen then PAM_AUTH_ERR
      else if f32_eq similarity 0 then PAM_IGNORE else PAM_AUTH_ERR)"

definition pam_silent :: "i32 \<Rightarrow> bool" where
  "pam_silent flags = (flags AND 0x8000 \<noteq> 0)"

text \<open>The code, the log line and its level for an answer of the daemon.\<close>

definition answer_for_response :: "auth_response \<Rightarrow> pam_code \<times> string \<times> bool" where
  "answer_for_response r =
     (case r of
        RMatched _ \<Rightarrow> (PAM_SUCCESS, ''success'', False)
      | RNoMatchFaceSeen \<Rightarrow> (pam_code_for_no_match True 0, ''no_match'', False)
      | RNoMatch sim \<Rightarrow> (pam_code_for_no_match False sim, ''no_match'', False)
      | RSuppressed \<Rightarrow> (PAM_AUTHINFO_UNAVAIL, ''suppressed (no enrolled models)'', False)
      | RError m \<Rightarrow> (case pam_code_for_daemon_error m of (code, reason) \<Rightarrow> (code, reason, True)))"

subsection \<open>The decision\<close>

record pam_world =
  pw_service :: "string option"
  pw_user :: "string option"
  pw_flags :: i32
  pw_file :: config_file_obs
  pw_toml :: "string \<Rightarrow> (pam_config, string) result"
  pw_environ :: "string option"
  pw_lid :: "string option list option"
  pw_worker :: worker_obs
  pw_oneshot :: oneshot_obs
  pw_gettext :: "string \<Rightarrow> string"
  pw_conv :: bool
  pw_nan :: nan_rule

definition service_of :: "pam_world \<Rightarrow> string" where
  "service_of w = (case pw_service w of None \<Rightarrow> ''unknown'' | Some s \<Rightarrow> s)"

definition service_denied :: "pam_policy_config option \<Rightarrow> string \<Rightarrow> bool" where
  "service_denied policy service =
     (case policy of None \<Rightarrow> False
      | Some p \<Rightarrow> pp_allowed_services p \<noteq> [] \<and> service \<notin> set (pp_allowed_services p) \<or>
                 service \<in> set (pp_denied_services p))"

text \<open>The reason a pre-flight check stops the module, if one does.\<close>

definition preflight :: "pam_world \<Rightarrow> pam_config \<Rightarrow> string option" where
  "preflight w cfg =
     (let s = pc_security cfg in
      if ps_disabled s then Some ''disabled''
      else if ps_abort_if_ssh s \<and> pam_is_ssh_session (pw_environ w) then Some ''ssh_abort''
      else if ps_abort_if_lid_closed s \<and> is_lid_closed_under (pw_lid w) then Some ''lid_closed''
      else if service_denied (ps_pam_policy s) (service_of w) then Some ''service_denied''
      else None)"

text \<open>The terminal notice after a success.\<close>

definition announce :: "pam_world \<Rightarrow> pam_config \<Rightarrow> pam_code \<times> pam_event list \<Rightarrow> pam_code \<times> pam_event list" where
  "announce w cfg r =
     (fst r, snd r @
        (if fst r = PAM_SUCCESS \<and>
            pam_policy_enabled (pn_notify_on_success (pc_notification cfg)) (pam_silent (pw_flags w)) \<and>
            pam_terminal (pc_notification cfg)
         then pam_info (pw_gettext w) (pw_conv w) ''Face recognized.'' else []))"

definition scan_notice :: "pam_world \<Rightarrow> pam_config \<Rightarrow> pam_event list" where
  "scan_notice w cfg =
     (if pam_policy_enabled (pn_notify_prompt (pc_notification cfg)) (pam_silent (pw_flags w)) \<and>
         pam_terminal (pc_notification cfg)
      then pam_info (pw_gettext w) (pw_conv w) ''Identifying face...'' else [])"

definition oneshot_path :: "pam_world \<Rightarrow> pam_config \<Rightarrow> string \<Rightarrow> (pam_code \<times> pam_event list) option" where
  "oneshot_path w cfg user = map_option (announce w cfg) (run_oneshot_auth (pw_oneshot w) (service_of w) user cfg)"

definition daemon_path :: "pam_world \<Rightarrow> pam_config \<Rightarrow> string \<Rightarrow> (pam_code \<times> pam_event list) option" where
  "daemon_path w cfg user =
     (case daemon_authenticate (pw_nan w) (pw_worker w) user (pam_silent (pw_flags w)) of
        Ok r \<Rightarrow>
          (case answer_for_response r of (code, line, warn) \<Rightarrow>
             Some (announce w cfg (code, log_auth (service_of w) line user warn)))
      | Err e \<Rightarrow>
          (case action_for_transport_error e of
             ReturnCode code reason \<Rightarrow> Some (code, log_auth (service_of w) reason user True)
           | FallBackToOneshot \<Rightarrow>
               map_option (\<lambda>(code, evs).
                   (code, log_auth (service_of w) (''dbus_failed: '' @ e @ '', falling back to oneshot'') user True @ evs))
                 (oneshot_path w cfg user)))"

definition identify :: "pam_world \<Rightarrow> (pam_code \<times> pam_event list) option" where
  "identify w =
     (case pam_load_config (pw_toml w) (pw_file w) of
        Err e \<Rightarrow> Some (PAM_IGNORE, log_auth (service_of w) (''error: config: '' @ e) ''?'' True)
      | Ok cfg \<Rightarrow>
          (case preflight w cfg of
             Some reason \<Rightarrow> Some (PAM_IGNORE, log_auth (service_of w) reason ''?'' False)
           | None \<Rightarrow>
               (case pw_user w of
                  None \<Rightarrow> Some (PAM_IGNORE, log_auth (service_of w) ''error: no_user'' ''?'' True)
                | Some user \<Rightarrow>
                    map_option (\<lambda>(code, evs). (code, scan_notice w cfg @ evs))
                      (if pc_daemon_mode cfg = ''oneshot'' then oneshot_path w cfg user
                       else daemon_path w cfg user))))"

text \<open>The entry points; \<open>unwound\<close> are the events before a panic, if the decision unwinds.\<close>

definition pam_sm_authenticate :: "pam_event list option \<Rightarrow> pam_world \<Rightarrow> (pam_code \<times> pam_event list) option" where
  "pam_sm_authenticate unwound w =
     (case unwound of
        Some evs \<Rightarrow> Some (PAM_IGNORE, evs @ log_auth ''unknown'' ''error: internal_panic'' ''?'' True)
      | None \<Rightarrow> identify w)"

definition pam_sm_setcred :: pam_code where
  "pam_sm_setcred = PAM_SUCCESS"

subsection \<open>Samples\<close>

text \<open>A host where every file is root's, the daemon answers with a match, and the same host with a
  dead bus worker and a helper that exits with status 0 at the second poll.\<close>

definition sample_bus :: bus_obs where
  "sample_bus = \<lparr>bo_connect = Ok (), bo_dbus_proxy = Ok (), bo_owner = Ok '':1.5'', bo_start = Ok (),
     bo_owner_started = Ok '':1.5'', bo_uid = (\<lambda>_. Ok 0), bo_proxy = Ok (),
     bo_call = (\<lambda>_ _ _. Ok (True, 1, ''front'', 0))\<rparr>"

definition sample_child :: child_obs where
  "sample_child = \<lparr>co_term_ok = True, co_term_now = 0, co_kill_ok = True, co_kill_now = 500,
     co_polls = [(Some False, 0), (None, 500), (Some False, 600), (Some False, 700)]\<rparr>"

definition sample_oneshot :: oneshot_obs where
  "sample_oneshot = \<lparr>oo_canonicalize = Ok, oo_stat = (\<lambda>_. Ok (0, 0b111101101)),
     oo_environ = [(''LD_PRELOAD'', ''/tmp/x.so''), (''SSH_TTY'', ''/dev/pts/1'')], oo_spawn = Ok (),
     oo_spawn_now = 0, oo_polls = [StillRunning 50, Exited (Some 0)], oo_child = sample_child\<rparr>"

definition sample_world :: "worker_obs \<Rightarrow> pam_world" where
  "sample_world wk = \<lparr>pw_service = Some ''sudo'', pw_user = Some ''alice'', pw_flags = 0,
     pw_file = \<lparr>fo_open = Ok (), fo_fstat = Ok (0, 0b110100100), fo_read = Ok [],
                fo_stat = (\<lambda>_. Ok (0, 0b111101101))\<rparr>,
     pw_toml = (\<lambda>_. Ok default_pam_config), pw_environ = None, pw_lid = None, pw_worker = wk,
     pw_oneshot = sample_oneshot, pw_gettext = id, pw_conv = True, pw_nan = (\<lambda>_ _. 0)\<rparr>"

subsection \<open>Evidence\<close>

definition trusted_inode :: "(u32 \<times> u32, string) result \<Rightarrow> bool" where
  "trusted_inode r \<longleftrightarrow> (\<exists>mode. r = Ok (0, mode) \<and> mode AND 0b10010 = 0)"

definition config_trusted :: "config_file_obs \<Rightarrow> bool" where
  "config_trusted f \<longleftrightarrow> fo_open f = Ok () \<and> trusted_inode (fo_fstat f) \<and>
     list_all (\<lambda>d. trusted_inode (fo_stat f d)) (path_parents CONFIG_PATH)"

definition binary_trusted :: "oneshot_obs \<Rightarrow> string \<Rightarrow> bool" where
  "binary_trusted o1 bin \<longleftrightarrow> oo_canonicalize o1 AUTH_BIN = Ok bin \<and> trusted_inode (oo_stat o1 bin) \<and>
     list_all (\<lambda>d. trusted_inode (oo_stat o1 d)) (path_parents bin)"

text \<open>The child the module may run: the trusted binary with fixed arguments and a cleaned
  environment.\<close>

definition safe_spawn :: "pam_world \<Rightarrow> string \<Rightarrow> pam_event \<Rightarrow> bool" where
  "safe_spawn w user ev \<longleftrightarrow> (\<forall>bin args env. ev = Spawned bin args env \<longrightarrow>
     binary_trusted (pw_oneshot w) bin \<and>
     args = [''auth'', ''--user'', user, ''--config'', ''/etc/facelock/config.toml''] \<and>
     fst ` set env \<subseteq> {''SSH_CONNECTION'', ''SSH_TTY'', ''PATH''} \<and>
     (\<forall>v. (''PATH'', v) \<in> set env \<longrightarrow> v = ''/usr/bin:/bin''))"

definition child_vouches :: "pam_world \<Rightarrow> bool" where
  "child_vouches w \<longleftrightarrow> (\<exists>bin. binary_trusted (pw_oneshot w) bin) \<and> oo_spawn (pw_oneshot w) = Ok () \<and>
     Exited (Some 0) \<in> set (oo_polls (pw_oneshot w))"

text \<open>A root-owned peer answered the call for this user with a match.\<close>

definition daemon_vouches :: "pam_world \<Rightarrow> string \<Rightarrow> bool" where
  "daemon_vouches w user \<longleftrightarrow> (\<exists>b peer mid label sim. pw_worker w = WorkerDelivers b \<and>
     resolve_owner b = Ok peer \<and> bo_uid b peer = Ok 0 \<and>
     bo_call b peer (if pam_silent (pw_flags w) then ''AuthenticateSilent'' else ''Authenticate'') user
       = Ok (True, mid, label, sim))"

text \<open>The daemon gave no decision: the transport failed, and neither by a refusal nor by a timeout.\<close>

definition daemon_absent :: "pam_world \<Rightarrow> string \<Rightarrow> bool" where
  "daemon_absent w user \<longleftrightarrow> (\<exists>e.
     daemon_authenticate (pw_nan w) (pw_worker w) user (pam_silent (pw_flags w)) = Err e \<and>
     \<not> starts_with e ''dbus_access_denied'' \<and> \<not> contains e ''dbus_timeout'')"

text \<open>The clock moves on: some poll of the child settles the wait or reads a time past the deadline,
  and the polls of the stopping sequence get past both of its deadlines.\<close>

definition clock_advances :: "oneshot_obs \<Rightarrow> nat \<Rightarrow> bool" where
  "clock_advances o1 timeout_secs \<longleftrightarrow>
     (\<exists>p \<in> set (oo_polls o1). case p of
         StillRunning now \<Rightarrow> oo_spawn_now o1 + (timeout_secs + 3) * 1000 \<le> now | _ \<Rightarrow> True) \<and>
     (\<exists>pre post. co_polls (oo_child o1) = pre @ post \<and>
        (\<exists>p \<in> set pre. co_term_now (oo_child o1) + ONESHOT_TERM_GRACE \<le> snd p) \<and>
        (\<exists>p \<in> set post. co_kill_now (oo_child o1) + ONESHOT_KILL_REAP_WAIT \<le> snd p))"

definition pam_code_ok :: "pam_code \<Rightarrow> bool" where
  "pam_code_ok c \<longleftrightarrow> c \<in> {PAM_SUCCESS, PAM_AUTH_ERR, PAM_AUTHINFO_UNAVAIL, PAM_IGNORE}"

definition no_spawn :: "pam_event list \<Rightarrow> bool" where
  "no_spawn evs \<longleftrightarrow> (\<forall>b a e. Spawned b a e \<notin> set evs)"

subsection \<open>What a way of authenticating promises\<close>

text \<open>A way of authenticating (the child, or the daemon with its fallback) returns one of the four
  codes, returns success only with its evidence, and spawns only when it may, and safely.\<close>

locale pam_backend =
  fixes run :: "pam_world \<Rightarrow> pam_config \<Rightarrow> string \<Rightarrow> (pam_code \<times> pam_event list) option"
    and vouched :: "pam_world \<Rightarrow> string \<Rightarrow> bool"
    and may_spawn :: "pam_world \<Rightarrow> string \<Rightarrow> bool"
  assumes code_ok: "run w cfg u = Some (c, evs) \<Longrightarrow> pam_code_ok c"
    and evidence: "run w cfg u = Some (PAM_SUCCESS, evs) \<Longrightarrow> vouched w u"
    and spawning: "run w cfg u = Some (c, evs) \<Longrightarrow> no_spawn evs \<or> may_spawn w u \<and> list_all (safe_spawn w u) evs"
begin

lemma prefixed:
  assumes "map_option (\<lambda>(c, evs). (c, pre @ evs)) (run w cfg u) = Some (c, evs)" "no_spawn pre"
  shows "pam_code_ok c \<and> (c = PAM_SUCCESS \<longrightarrow> vouched w u) \<and>
    (no_spawn evs \<or> may_spawn w u \<and> list_all (safe_spawn w u) evs)"
proof -
  obtain evs0 where r: "run w cfg u = Some (c, evs0)" and evs: "evs = pre @ evs0" using assms(1) by auto
  have "list_all (safe_spawn w u) pre"
    using assms(2) unfolding no_spawn_def safe_spawn_def list_all_iff by metis
  then show ?thesis using code_ok[OF r] evidence[of w cfg u evs0] spawning[OF r] r assms(2)
    by (auto simp: evs no_spawn_def)
qed

end

lemma no_spawn_simps [simp]:
  "no_spawn []" "no_spawn (log_auth s r u l)" "no_spawn (pam_info tr cv m)"
  "no_spawn (xs @ ys) \<longleftrightarrow> no_spawn xs \<and> no_spawn ys"
  by (auto simp: no_spawn_def log_auth_def pam_info_def Let_def)

lemma safe_no_spawn: "no_spawn evs \<Longrightarrow> list_all (safe_spawn w u) evs"
  unfolding no_spawn_def safe_spawn_def list_all_iff by metis

lemma validate_trusted:
  "validate_root_owned_nonwritable uid mode l = Ok () \<longleftrightarrow> uid = 0 \<and> mode AND 0b10010 = 0"
  by (simp add: validate_root_owned_nonwritable_def)

lemma check_parents_iff:
  "check_parents st a b ds = Ok () \<longleftrightarrow> list_all (\<lambda>d. trusted_inode (st d)) ds"
proof (induction ds)
  case (Cons d ds)
  show ?case
  proof (cases "st d")
    case (Ok r)
    then show ?thesis using Cons by (cases r) (auto simp: trusted_inode_def validate_trusted)
  next
    case (Err e)
    then show ?thesis by (simp add: trusted_inode_def)
  qed
qed simp

lemma read_trusted_config_iff:
  "read_trusted_config f CONFIG_PATH = Ok c \<longleftrightarrow> config_trusted f \<and> fo_read f = Ok c"
  by (cases "fo_open f"; cases "fo_fstat f"; cases "fo_read f")
    (auto simp: read_trusted_config_def config_trusted_def trusted_inode_def validate_trusted check_parents_iff)

lemma verify_binary_trust_iff:
  "verify_binary_trust (oo_canonicalize o1) (oo_stat o1) AUTH_BIN = Ok bin \<longleftrightarrow> binary_trusted o1 bin"
  by (cases "oo_canonicalize o1 AUTH_BIN"; cases "oo_stat o1 bin")
    (auto simp: verify_binary_trust_def binary_trusted_def trusted_inode_def validate_trusted check_parents_iff)

lemma classify_exit_ok [simp]: "pam_code_ok (ox_pam_code (classify_exit c))"
  by (simp add: pam_code_ok_def classify_exit_def)

lemma classify_exit_success: "ox_pam_code (classify_exit c) = PAM_SUCCESS \<longleftrightarrow> c = 0"
  by (simp add: classify_exit_def pam_codes)

lemma wait_oneshot_result:
  "wait_oneshot s u dl c ps = Some (code, evs) \<Longrightarrow>
     pam_code_ok code \<and> no_spawn evs \<and> (code = PAM_SUCCESS \<longrightarrow> Exited (Some 0) \<in> set ps)"
proof (induction s u dl c ps rule: wait_oneshot.induct)
  case (2 service user deadline c status ps)
  then show ?case using classify_exit_success by (auto simp: Let_def classify_exit_success split: option.splits)
next
  case (3 service user deadline c now ps)
  then show ?case by (auto simp: pam_code_ok_def pam_codes split: if_splits)
next
  case (4 service user deadline c e ps)
  then show ?case by (auto simp: pam_code_ok_def pam_codes)
qed simp

lemma child_env_clean:
  "fst ` set (oneshot_child_env env) \<subseteq> {''SSH_CONNECTION'', ''SSH_TTY'', ''PATH''} \<and>
   (\<forall>v. (''PATH'', v) \<in> set (oneshot_child_env env) \<longrightarrow> v = ''/usr/bin:/bin'')"
  by (auto simp: oneshot_child_env_def)

lemma run_oneshot_result:
  assumes "run_oneshot_auth (pw_oneshot w) s u cfg = Some (c, evs)"
  shows "pam_code_ok c \<and> (c = PAM_SUCCESS \<longrightarrow> child_vouches w) \<and> list_all (safe_spawn w u) evs"
proof (cases "verify_binary_trust (oo_canonicalize (pw_oneshot w)) (oo_stat (pw_oneshot w)) AUTH_BIN")
  case (Err e)
  then show ?thesis using assms
    by (auto simp: run_oneshot_auth_def pam_code_ok_def pam_codes safe_no_spawn)
next
  case (Ok bin)
  note trust = Ok[unfolded verify_binary_trust_iff]
  show ?thesis
  proof (cases "oo_spawn (pw_oneshot w)")
    case (Err e)
    then show ?thesis using assms Ok
      by (auto simp: run_oneshot_auth_def pam_code_ok_def pam_codes safe_no_spawn)
  next
    case spawn: (Ok x)
    have "safe_spawn w u (Spawned bin (oneshot_args u) (oneshot_child_env (oo_environ (pw_oneshot w))))"
      using trust child_env_clean by (simp add: safe_spawn_def oneshot_args_def CONFIG_PATH_def)
    then show ?thesis using assms Ok spawn trust wait_oneshot_result
      by (fastforce simp: run_oneshot_auth_def child_vouches_def safe_no_spawn)
  qed
qed

lemma announced:
  assumes "announce w cfg r = (c, evs)"
  shows "fst r = c \<and> no_spawn evs = no_spawn (snd r) \<and>
    list_all (safe_spawn w u) evs = list_all (safe_spawn w u) (snd r)"
  using assms by (auto simp: announce_def safe_no_spawn)

interpretation child: pam_backend oneshot_path "\<lambda>w u. child_vouches w" "\<lambda>w u. True"
proof
  fix w cfg u c evs
  assume "oneshot_path w cfg u = Some (c, evs)"
  then obtain r where r: "run_oneshot_auth (pw_oneshot w) (service_of w) u cfg = Some r" "announce w cfg r = (c, evs)"
    by (auto simp: oneshot_path_def)
  then have "run_oneshot_auth (pw_oneshot w) (service_of w) u cfg = Some (c, snd r)"
    using announced[OF r(2)] by (metis prod.collapse)
  note res = run_oneshot_result[OF this]
  show "pam_code_ok c" using res by simp
  show "no_spawn evs \<or> True \<and> list_all (safe_spawn w u) evs" using res announced[OF r(2), of u] by simp
next
  fix w cfg u evs
  assume "oneshot_path w cfg u = Some (PAM_SUCCESS, evs)"
  then obtain r where r: "run_oneshot_auth (pw_oneshot w) (service_of w) u cfg = Some r"
      "announce w cfg r = (PAM_SUCCESS, evs)"
    by (auto simp: oneshot_path_def)
  then show "child_vouches w" using announced[OF r(2)] run_oneshot_result by (metis prod.collapse)
qed

lemma matched_reply:
  assumes "daemon_authenticate qn (pw_worker w) u (pam_silent (pw_flags w)) = Ok (RMatched s)"
  shows "daemon_vouches w u"
proof -
  obtain b where b: "pw_worker w = WorkerDelivers b" using assms by (auto simp: daemon_authenticate_def split: worker_obs.splits)
  obtain peer where peer: "verify_daemon_peer b = Ok peer"
    and call: "and_then (map_err (\<lambda>e. classify_authentication_reply_error e (pam_silent (pw_flags w)))
        (bo_call b peer (if pam_silent (pw_flags w) then ''AuthenticateSilent'' else ''Authenticate'') u))
       (\<lambda>(matched, model_id, label, similarity). Ok (parse_auth_reply qn matched model_id label similarity)) = Ok (RMatched s)"
    using assms by (auto simp: daemon_authenticate_def b daemon_authenticate_async_def)
  have "resolve_owner b = Ok peer \<and> bo_uid b peer = Ok 0"
    using peer by (auto simp: verify_daemon_peer_def split: if_splits)
  moreover obtain mid label sim where
    "bo_call b peer (if pam_silent (pw_flags w) then ''AuthenticateSilent'' else ''Authenticate'') u = Ok (True, mid, label, sim)"
    using call by (cases "bo_call b peer (if pam_silent (pw_flags w) then ''AuthenticateSilent'' else ''Authenticate'') u")
      (auto simp: parse_auth_reply_def split: if_splits)
  ultimately show ?thesis unfolding daemon_vouches_def using b by blast
qed

lemma answer_code:
  assumes "answer_for_response r = (c, line, warn)"
  shows "pam_code_ok c \<and> (c = PAM_SUCCESS \<longrightarrow> (\<exists>s. r = RMatched s))"
  using assms
  by (cases r) (auto simp: answer_for_response_def pam_code_for_no_match_def pam_code_for_daemon_error_def
      pam_code_ok_def pam_codes split: if_splits)

lemma daemon_path_result:
  assumes "daemon_path w cfg u = Some (c, evs)"
  shows "pam_code_ok c \<and> (c = PAM_SUCCESS \<longrightarrow> daemon_vouches w u \<or> daemon_absent w u \<and> child_vouches w) \<and>
    (no_spawn evs \<or> daemon_absent w u \<and> list_all (safe_spawn w u) evs)"
proof (cases "daemon_authenticate (pw_nan w) (pw_worker w) u (pam_silent (pw_flags w))")
  case (Ok r)
  obtain c0 line warn where a: "answer_for_response r = (c0, line, warn)" by (metis prod.exhaust)
  then have ev: "announce w cfg (c0, log_auth (service_of w) line u warn) = (c, evs)"
    using assms Ok by (simp add: daemon_path_def)
  then have "c0 = c" "no_spawn evs" using announced[OF ev] by simp_all
  then show ?thesis using answer_code[OF a] Ok matched_reply by auto
next
  case (Err e)
  show ?thesis
  proof (cases "action_for_transport_error e")
    case (ReturnCode code reason)
    then show ?thesis using assms Err
      by (auto simp: daemon_path_def action_for_transport_error_def pam_code_ok_def pam_codes split: if_splits)
  next
    case FallBackToOneshot
    then have "daemon_absent w u"
      using Err by (auto simp: daemon_absent_def action_for_transport_error_def split: if_splits)
    moreover have run: "map_option (\<lambda>(c, evs). (c, log_auth (service_of w)
        (''dbus_failed: '' @ e @ '', falling back to oneshot'') u True @ evs)) (oneshot_path w cfg u) = Some (c, evs)"
      using assms Err FallBackToOneshot by (simp add: daemon_path_def)
    ultimately show ?thesis using child.prefixed[OF run no_spawn_simps(2)] by blast
  qed
qed

interpretation daemon: pam_backend daemon_path
  "\<lambda>w u. daemon_vouches w u \<or> daemon_absent w u \<and> child_vouches w" daemon_absent
  by unfold_locales (use daemon_path_result in blast)+

text \<open>A finished attempt that got past the configuration, the checks and the user lookup.\<close>

lemma identify_cases:
  assumes "identify w = Some (c, evs)"
  shows "c = PAM_IGNORE \<and> no_spawn evs \<or>
    (\<exists>cfg content user. config_trusted (pw_file w) \<and> fo_read (pw_file w) = Ok content \<and>
       pw_toml w content = Ok cfg \<and> preflight w cfg = None \<and> pw_user w = Some user \<and>
       map_option (\<lambda>(c, evs). (c, scan_notice w cfg @ evs))
         (if pc_daemon_mode cfg = ''oneshot'' then oneshot_path w cfg user else daemon_path w cfg user) = Some (c, evs))"
proof (cases "pam_load_config (pw_toml w) (pw_file w)")
  case (Err e)
  then show ?thesis using assms by (auto simp: identify_def)
next
  case (Ok cfg)
  then obtain content where "config_trusted (pw_file w)" "fo_read (pw_file w) = Ok content" "pw_toml w content = Ok cfg"
    by (auto simp: pam_load_config_def read_trusted_config_iff)
  then show ?thesis using assms Ok
    by (cases "preflight w cfg"; cases "pw_user w") (auto simp: identify_def)
qed

lemma scan_notice_no_spawn [simp]: "no_spawn (scan_notice w cfg)"
  by (simp add: scan_notice_def)

lemma path_result:
  assumes "map_option (\<lambda>(c, evs). (c, scan_notice w cfg @ evs))
     (if pc_daemon_mode cfg = ''oneshot'' then oneshot_path w cfg user else daemon_path w cfg user) = Some (c, evs)"
  shows "pam_code_ok c \<and>
    (c = PAM_SUCCESS \<longrightarrow> (if pc_daemon_mode cfg = ''oneshot'' then child_vouches w
       else daemon_vouches w user \<or> daemon_absent w user \<and> child_vouches w)) \<and>
    (no_spawn evs \<or> list_all (safe_spawn w user) evs \<and> (pc_daemon_mode cfg = ''oneshot'' \<or> daemon_absent w user))"
proof (cases "pc_daemon_mode cfg = ''oneshot''")
  case True
  then have "map_option (\<lambda>(c, evs). (c, scan_notice w cfg @ evs)) (oneshot_path w cfg user) = Some (c, evs)"
    using assms by (simp only: refl if_True)
  from child.prefixed[OF this scan_notice_no_spawn] True show ?thesis by simp
next
  case False
  then have "map_option (\<lambda>(c, evs). (c, scan_notice w cfg @ evs)) (daemon_path w cfg user) = Some (c, evs)"
    using assms by (simp only: if_False)
  from daemon.prefixed[OF this scan_notice_no_spawn] False show ?thesis by (simp only: if_False) blast
qed

text \<open>C32: the module grants access only on evidence. If it returns success, its configuration came
  from a root-owned file under root-owned directories that nobody else can write, none of the
  pre-flight checks stopped it, and either a root-owned peer that owns the daemon's name answered
  the call for exactly this user with a match, or a child running the trusted binary exited with
  status 0 and the child was the configured way or the daemon gave no decision.\<close>

theorem success_requires_evidence:
  assumes "pam_sm_authenticate unwound w = Some (PAM_SUCCESS, evs)"
  shows "\<exists>cfg content user. config_trusted (pw_file w) \<and> fo_read (pw_file w) = Ok content \<and>
    pw_toml w content = Ok cfg \<and> \<not> ps_disabled (pc_security cfg) \<and>
    \<not> (ps_abort_if_ssh (pc_security cfg) \<and> pam_is_ssh_session (pw_environ w)) \<and>
    \<not> (ps_abort_if_lid_closed (pc_security cfg) \<and> is_lid_closed_under (pw_lid w)) \<and>
    \<not> service_denied (ps_pam_policy (pc_security cfg)) (service_of w) \<and> pw_user w = Some user \<and>
    (if pc_daemon_mode cfg = ''oneshot'' then child_vouches w
     else daemon_vouches w user \<or> daemon_absent w user \<and> child_vouches w)"
proof -
  have "identify w = Some (PAM_SUCCESS, evs)"
    using assms by (auto simp: pam_sm_authenticate_def pam_codes split: option.splits)
  from identify_cases[OF this] obtain cfg content user where
    *: "config_trusted (pw_file w)" "fo_read (pw_file w) = Ok content" "pw_toml w content = Ok cfg"
      "preflight w cfg = None" "pw_user w = Some user"
    and run: "map_option (\<lambda>(c, evs). (c, scan_notice w cfg @ evs))
         (if pc_daemon_mode cfg = ''oneshot'' then oneshot_path w cfg user else daemon_path w cfg user)
       = Some (PAM_SUCCESS, evs)"
    by (auto simp: pam_codes)
  have "if pc_daemon_mode cfg = ''oneshot'' then child_vouches w
     else daemon_vouches w user \<or> daemon_absent w user \<and> child_vouches w"
    using path_result[OF run] by blast
  moreover have "\<not> ps_disabled (pc_security cfg)"
    "\<not> (ps_abort_if_ssh (pc_security cfg) \<and> pam_is_ssh_session (pw_environ w))"
    "\<not> (ps_abort_if_lid_closed (pc_security cfg) \<and> is_lid_closed_under (pw_lid w))"
    "\<not> service_denied (ps_pam_policy (pc_security cfg)) (service_of w)"
    using *(4) by (auto simp: preflight_def Let_def split: if_splits)
  ultimately show ?thesis using * by blast
qed

text \<open>C33: the module answers with one of the four codes of its contract, and it runs nothing but the
  trusted helper: any process it spawns is the canonical, root-owned binary with fixed arguments
  for the authenticated user, an environment reduced to the two SSH variables and a fixed PATH; and
  unless the configuration asks for the child, it is spawned only when the daemon gave no decision,
  so neither a refusal, nor a timeout, nor any answer of the daemon is ever retried as root.\<close>

theorem spawns_only_trusted_helper:
  assumes "identify w = Some (c, evs)"
  shows "pam_code_ok c \<and>
    (no_spawn evs \<or> (\<exists>cfg content user. pw_toml w content = Ok cfg \<and> fo_read (pw_file w) = Ok content \<and>
       pw_user w = Some user \<and> list_all (safe_spawn w user) evs \<and>
       (pc_daemon_mode cfg = ''oneshot'' \<or> daemon_absent w user)))"
proof (cases "c = PAM_IGNORE \<and> no_spawn evs")
  case True
  then show ?thesis by (simp add: pam_code_ok_def)
next
  case False
  with identify_cases[OF assms] show ?thesis using path_result by metis
qed

subsection \<open>Stopping the child\<close>

lemma await_exit_result:
  "await_exit dl ps = Some (b, rest) \<Longrightarrow> \<exists>pre x now. ps = pre @ (x, now) # rest \<and>
     list_all (\<lambda>p. fst p \<noteq> Some True) pre \<and> (if b then x = Some True else x \<noteq> Some True \<and> dl \<le> now)"
proof (induction dl ps rule: await_exit.induct)
  case (2 deadline exited now ps)
  show ?case
  proof (cases "exited = Some True \<or> deadline \<le> now")
    case True
    with 2(2) show ?thesis by (intro exI[of _ "[]"]) (auto split: if_splits)
  next
    case False
    with 2 obtain pre x n where "ps = pre @ (x, n) # rest"
      "list_all (\<lambda>p. fst p \<noteq> Some True) pre" "if b then x = Some True else x \<noteq> Some True \<and> deadline \<le> n"
      by auto
    with False show ?thesis by (intro exI[of _ "(exited, now) # pre"] exI[of _ x] exI[of _ n]) auto
  qed
qed simp

lemma await_exit_ends:
  "\<exists>p \<in> set ps. fst p = Some True \<or> dl \<le> snd p \<Longrightarrow> await_exit dl ps \<noteq> None"
  by (induction dl ps rule: await_exit.induct) auto

text \<open>An overrunning child is asked before it is killed. SIGKILL is sent only after a SIGTERM
  attempt, only when the whole grace period passed without the child having been seen to exit, and
  exactly the killed children are waited for; a child that could be killed and was not has exited.\<close>

theorem child_stop_escalates:
  assumes "terminate_oneshot_child c grace = Some (sent, reaped)"
  shows "sent \<in> {[], [SIGTERM], [SIGKILL], [SIGTERM, SIGKILL]} \<and> (reaped \<longleftrightarrow> SIGKILL \<in> set sent) \<and>
    (SIGTERM \<in> set sent \<longleftrightarrow> co_term_ok c) \<and>
    (SIGKILL \<in> set sent \<longrightarrow> (\<exists>pre x now rest. co_polls c = pre @ (x, now) # rest \<and>
        list_all (\<lambda>p. fst p \<noteq> Some True) pre \<and> x \<noteq> Some True \<and> co_term_now c + grace \<le> now)) \<and>
    (co_kill_ok c \<and> SIGKILL \<notin> set sent \<longrightarrow> Some True \<in> fst ` set (co_polls c))"
proof -
  obtain b rest where aw: "await_exit (co_term_now c + grace) (co_polls c) = Some (b, rest)"
    using assms by (auto simp: terminate_oneshot_child_def Let_def split: option.splits)
  note ex = await_exit_result[OF aw]
  show ?thesis
  proof (cases b)
    case True
    then have "Some True \<in> fst ` set (co_polls c)" using ex by force
    then show ?thesis using assms aw True by (auto simp: terminate_oneshot_child_def Let_def split: if_splits)
  next
    case False
    have sent: "sent = (if co_term_ok c then [SIGTERM] else []) @ (if co_kill_ok c then [SIGKILL] else [])"
      "reaped = co_kill_ok c"
      using assms aw False by (auto simp: terminate_oneshot_child_def Let_def split: if_splits)
    have "\<exists>pre x now rest. co_polls c = pre @ (x, now) # rest \<and>
        list_all (\<lambda>p. fst p \<noteq> Some True) pre \<and> x \<noteq> Some True \<and> co_term_now c + grace \<le> now"
      using ex False by auto
    then show ?thesis unfolding sent by simp
  qed
qed

theorem child_stop_escalates_witness:
  "terminate_oneshot_child sample_child 500 = Some ([SIGTERM, SIGKILL], True) \<and> co_term_ok sample_child"
proof -
  have run: "terminate_oneshot_child sample_child 500 = Some ([SIGTERM, SIGKILL], True)"
    by (simp add: terminate_oneshot_child_def sample_child_def ONESHOT_KILL_REAP_WAIT_def)
  show ?thesis using run child_stop_escalates[OF run] by simp
qed

subsection \<open>The module returns\<close>

lemma await_exit_append:
  "\<exists>p \<in> set pre. dl \<le> snd p \<Longrightarrow> \<exists>b rest. await_exit dl (pre @ post) = Some (b, rest @ post)"
proof (induction pre)
  case (Cons p pre)
  then show ?case by (cases p) (auto intro: exI[of _ pre])
qed simp

lemma terminate_ends:
  assumes "co_polls c = pre @ post" "\<exists>p \<in> set pre. co_term_now c + grace \<le> snd p"
    "\<exists>p \<in> set post. co_kill_now c + ONESHOT_KILL_REAP_WAIT \<le> snd p"
  shows "terminate_oneshot_child c grace \<noteq> None"
proof -
  obtain b rest where aw: "await_exit (co_term_now c + grace) (co_polls c) = Some (b, rest @ post)"
    using await_exit_append[OF assms(2)] assms(1) by metis
  have "await_exit (co_kill_now c + ONESHOT_KILL_REAP_WAIT) (rest @ post) \<noteq> None"
    using assms(3) by (intro await_exit_ends) auto
  then show ?thesis using aw by (cases b) (auto simp: terminate_oneshot_child_def Let_def)
qed

lemma wait_ends:
  assumes "\<exists>p \<in> set ps. case p of StillRunning now \<Rightarrow> dl \<le> now | _ \<Rightarrow> True"
    and "terminate_oneshot_child c ONESHOT_TERM_GRACE \<noteq> None"
  shows "wait_oneshot s u dl c ps \<noteq> None"
  using assms by (induction s u dl c ps rule: wait_oneshot.induct) (auto simp: Let_def)

lemma run_oneshot_ends:
  assumes "clock_advances o1 (unat (pc_timeout_secs cfg))"
  shows "run_oneshot_auth o1 s u cfg \<noteq> None"
proof -
  obtain pre post where "co_polls (oo_child o1) = pre @ post"
    "\<exists>p \<in> set pre. co_term_now (oo_child o1) + ONESHOT_TERM_GRACE \<le> snd p"
    "\<exists>p \<in> set post. co_kill_now (oo_child o1) + ONESHOT_KILL_REAP_WAIT \<le> snd p"
    using assms unfolding clock_advances_def by blast
  then have stop: "terminate_oneshot_child (oo_child o1) ONESHOT_TERM_GRACE \<noteq> None" by (rule terminate_ends)
  have "\<exists>p \<in> set (oo_polls o1). case p of
      StillRunning now \<Rightarrow> oo_spawn_now o1 + (unat (pc_timeout_secs cfg) + 3) * 1000 \<le> now | _ \<Rightarrow> True"
    using assms unfolding clock_advances_def by blast
  from wait_ends[OF this stop, of s u] show ?thesis
    by (simp add: run_oneshot_auth_def split: result.splits)
qed


subsection \<open>The statements at the samples\<close>

lemma path_parent_samples:
  "path_parent ''/etc/facelock/config.toml'' = Some ''/etc/facelock''"
  "path_parent ''/etc/facelock'' = Some ''/etc''" "path_parent ''/etc'' = Some ''/''" "path_parent ''/'' = None"
  "path_parent ''/usr/bin/facelock'' = Some ''/usr/bin''"
  "path_parent ''/usr/bin'' = Some ''/usr''" "path_parent ''/usr'' = Some ''/''"
  by (simp_all add: path_parent_def)

lemma config_parents: "path_parents CONFIG_PATH = [''/etc/facelock'', ''/etc'', ''/'']"
  unfolding CONFIG_PATH_def by (subst path_parents.simps, simp only: path_parent_samples option.case)+

lemma binary_parents: "path_parents AUTH_BIN = [''/usr/bin'', ''/usr'', ''/'']"
  unfolding AUTH_BIN_def by (subst path_parents.simps, simp only: path_parent_samples option.case)+

lemma sample_config: "pam_load_config (pw_toml (sample_world wk)) (pw_file (sample_world wk)) = Ok default_pam_config"
  by (simp add: pam_load_config_def read_trusted_config_def sample_world_def validate_root_owned_nonwritable_def
      config_parents)

lemma sample_helper: "binary_trusted sample_oneshot AUTH_BIN"
  by (simp add: binary_trusted_def sample_oneshot_def trusted_inode_def binary_parents)

lemma sample_preflight: "preflight (sample_world wk) default_pam_config = None"
  by (simp add: preflight_def sample_world_def default_pam_config_def default_pam_security_def
      pam_is_ssh_session_def is_lid_closed_under_def lid_state_under_def service_denied_def Let_def)

lemma sample_identify:
  "identify (sample_world wk) = map_option (\<lambda>(c, evs). (c, scan_notice (sample_world wk) default_pam_config @ evs))
     (daemon_path (sample_world wk) default_pam_config ''alice'')"
  unfolding identify_def sample_config
  by (simp add: sample_preflight, simp add: sample_world_def default_pam_config_def)

lemma sample_daemon_run: "\<exists>evs. identify (sample_world (WorkerDelivers sample_bus)) = Some (PAM_SUCCESS, evs)"
  unfolding sample_identify
  by (simp add: daemon_path_def daemon_authenticate_def daemon_authenticate_async_def verify_daemon_peer_def
      resolve_owner_def sample_bus_def sample_world_def parse_auth_reply_def answer_for_response_def announce_def)

lemma sample_child_run:
  "\<exists>evs. identify (sample_world WorkerDied) = Some (PAM_SUCCESS, evs) \<and> \<not> no_spawn evs"
proof -
  have act: "action_for_transport_error ''dbus_call_failed: worker thread terminated unexpectedly'' = FallBackToOneshot"
    by (simp add: action_for_transport_error_def sublist_Cons_right)
  have "verify_binary_trust (oo_canonicalize sample_oneshot) (oo_stat sample_oneshot) AUTH_BIN = Ok AUTH_BIN"
    using sample_helper by (simp add: verify_binary_trust_iff)
  then have run: "\<exists>evs. run_oneshot_auth sample_oneshot s u default_pam_config = Some (PAM_SUCCESS, evs) \<and> \<not> no_spawn evs" for s u
    by (simp add: run_oneshot_auth_def)
      (simp add: sample_oneshot_def default_pam_config_def classify_exit_def no_spawn_def Let_def, blast)
  show ?thesis unfolding sample_identify
    using run[of "''sudo''" "''alice''"]
    by (auto simp: daemon_path_def daemon_authenticate_def sample_world_def act oneshot_path_def announce_def service_of_def)
qed

theorem success_requires_evidence_witness:
  "\<exists>evs. pam_sm_authenticate None (sample_world (WorkerDelivers sample_bus)) = Some (PAM_SUCCESS, evs) \<and>
     config_trusted (pw_file (sample_world (WorkerDelivers sample_bus)))"
  using sample_daemon_run success_requires_evidence[of None "sample_world (WorkerDelivers sample_bus)"]
  by (auto simp: pam_sm_authenticate_def)

theorem spawns_only_trusted_helper_witness:
  "\<exists>c evs. identify (sample_world WorkerDied) = Some (c, evs) \<and> \<not> no_spawn evs \<and>
     list_all (safe_spawn (sample_world WorkerDied) ''alice'') evs"
proof -
  obtain evs where run: "identify (sample_world WorkerDied) = Some (PAM_SUCCESS, evs)" "\<not> no_spawn evs"
    using sample_child_run by blast
  have "pw_user (sample_world WorkerDied) = Some ''alice''" by (simp add: sample_world_def)
  then show ?thesis using run spawns_only_trusted_helper[OF run(1)] by auto
qed


end
