(* ===== verification/Migrations.thy ===== *)
theory Migrations
  imports Store
begin

text \<open>
  The schema migrations of \<^verbatim>\<open>facelock-store/src/migrations.rs\<close>. The schema of a database file is a
  record of its tables and columns with the stored embedding rows; each SQL statement of a batch
  commits on its own, as \<^verbatim>\<open>execute_batch\<close> outside a transaction does, and statement failures are
  a schedule of rendered errors.
\<close>

subsection \<open>Schemas and statements\<close>

record schema =
  sch_versions :: "nat set option"
  sch_models :: "string list option"
  sch_embeddings :: "string list option"
  sch_emb_rows :: "(nat \<times> bytes) list"
  sch_rate_limit :: bool
  sch_indexes :: "string set"

datatype table = FaceModels | FaceEmbeddings

datatype stmt =
    CreateVersions
  | CreateModels
  | CreateEmbeddings
  | DropEmbeddings
  | CreateRateLimit
  | CreateIndex string
  | AddColumn table string
  | SetVersion nat

definition add_column :: "string \<Rightarrow> string \<Rightarrow> string list option \<Rightarrow> (string list option, string) result" where
  "add_column tname c cols =
     (case cols of
        None \<Rightarrow> Err (''no such table: '' @ tname)
      | Some cs \<Rightarrow> if c \<in> set cs then Err (''duplicate column name: '' @ c) else Ok (Some (cs @ [c])))"

fun exec_stmt :: "stmt \<Rightarrow> schema \<Rightarrow> (schema, string) result" where
  "exec_stmt CreateVersions s =
     Ok (s\<lparr>sch_versions := Some (case sch_versions s of None \<Rightarrow> {} | Some v \<Rightarrow> v)\<rparr>)"
| "exec_stmt CreateModels s =
     Ok (case sch_models s of
           None \<Rightarrow> s\<lparr>sch_models := Some [''id'', ''user'', ''label'', ''created_at'']\<rparr> | Some _ \<Rightarrow> s)"
| "exec_stmt CreateEmbeddings s =
     (case sch_embeddings s of
        None \<Rightarrow> Ok (s\<lparr>sch_embeddings := Some [''id'', ''model_id'', ''embedding'']\<rparr>)
      | Some _ \<Rightarrow> Err ''table face_embeddings already exists'')"
| "exec_stmt DropEmbeddings s = 
     Ok (s\<lparr>sch_embeddings := None, sch_emb_rows := [],
           sch_indexes := sch_indexes s - {''idx_face_embeddings_model''}\<rparr>)"
| "exec_stmt CreateRateLimit s = Ok (s\<lparr>sch_rate_limit := True\<rparr>)"
| "exec_stmt (CreateIndex i) s = Ok (s\<lparr>sch_indexes := insert i (sch_indexes s)\<rparr>)"
| "exec_stmt (AddColumn FaceModels c) s =
     and_then (add_column ''face_models'' c (sch_models s)) (\<lambda>cs. Ok (s\<lparr>sch_models := cs\<rparr>))"
| "exec_stmt (AddColumn FaceEmbeddings c) s =
     and_then (add_column ''face_embeddings'' c (sch_embeddings s)) (\<lambda>cs. Ok (s\<lparr>sch_embeddings := cs\<rparr>))"
| "exec_stmt (SetVersion n) s =
     (case sch_versions s of
        None \<Rightarrow> Err ''no such table: schema_version''
      | Some vs \<Rightarrow> Ok (s\<lparr>sch_versions := Some (insert n vs)\<rparr>))"

subsection \<open>The migrations\<close>

text \<open>The failure of the n-th statement of a run; the number of statements is threaded.\<close>

type_synonym stmt_faults = "nat \<Rightarrow> string option"

fun execute_batch :: "stmt_faults \<Rightarrow> stmt list \<Rightarrow> nat \<times> schema \<Rightarrow> (unit, string) result \<times> nat \<times> schema" where
  "execute_batch f [] ns = (Ok (), ns)"
| "execute_batch f (st # sts) (n, s) =
     (case f n of
        Some e \<Rightarrow> (Err e, Suc n, s)
      | None \<Rightarrow>
          (case exec_stmt st s of
             Err e \<Rightarrow> (Err e, Suc n, s)
           | Ok s' \<Rightarrow> execute_batch f sts (Suc n, s')))"

definition initial_schema :: "stmt list" where
  "initial_schema = [CreateVersions, CreateModels, CreateIndex ''idx_face_models_user'']"

text \<open>The batches guarded by \<^verbatim>\<open>if version < n\<close>, in source order.\<close>

definition migration_steps :: "(nat \<times> stmt list) list" where
  "migration_steps =
     [(2, [DropEmbeddings, CreateEmbeddings, CreateIndex ''idx_face_embeddings_model'', SetVersion 2]),
      (3, [AddColumn FaceEmbeddings ''sealed'', SetVersion 3]),
      (4, [CreateRateLimit, CreateIndex ''idx_rate_limit_user'', SetVersion 4]),
      (5, [AddColumn FaceModels ''embedder_model'', SetVersion 5]),
      (6, [AddColumn FaceModels ''device_id'', SetVersion 6]),
      (7, [AddColumn FaceModels ''key_id'', SetVersion 7])]"

text \<open>\<^verbatim>\<open>SELECT COALESCE(MAX(version), 0)\<close>.\<close>

definition schema_version :: "schema \<Rightarrow> nat" where
  "schema_version s = (case sch_versions s of None \<Rightarrow> 0 | Some vs \<Rightarrow> if vs = {} then 0 else Max vs)"

fun apply_steps ::
  "stmt_faults \<Rightarrow> nat \<Rightarrow> (nat \<times> stmt list) list \<Rightarrow> nat \<times> schema \<Rightarrow> (unit, string) result \<times> nat \<times> schema" where
  "apply_steps f v [] ns = (Ok (), ns)"
| "apply_steps f v ((n, sts) # steps) ns =
     (if v < n
      then (case execute_batch f sts ns of
              (Ok _, ns') \<Rightarrow> apply_steps f v steps ns'
            | (Err e, ns') \<Rightarrow> (Err e, ns'))
      else apply_steps f v steps ns)"

definition run_migrations :: "stmt_faults \<Rightarrow> string \<Rightarrow> schema \<Rightarrow> (unit, store_error) result \<times> schema" where
  "run_migrations f path s =
     (let migration_err = map_err (Migration path) in
      case execute_batch f initial_schema (0, s) of
        (Err e, _, s') \<Rightarrow> (migration_err (Err e), s')
      | (Ok _, n, s') \<Rightarrow>
          (case f n of
             Some e \<Rightarrow> (migration_err (Err e), s')
           | None \<Rightarrow>
               (case apply_steps f (schema_version s') migration_steps (Suc n, s') of
                  (r, _, s'') \<Rightarrow> (migration_err r, s''))))"

subsection \<open>The schema of each version\<close>

definition schema_at :: "nat \<Rightarrow> (nat \<times> bytes) list \<Rightarrow> schema" where
  "schema_at v rows =
     \<lparr>sch_versions = (if v = 0 then None else Some (set [2..<Suc v])),
      sch_models = (if v = 0 then None else Some ([''id'', ''user'', ''label'', ''created_at''] @
         take (v - 4) [''embedder_model'', ''device_id'', ''key_id''])),
      sch_embeddings = (if v < 2 then None
         else Some ([''id'', ''model_id'', ''embedding''] @ (if v < 3 then [] else [''sealed'']))),
      sch_emb_rows = (if v < 2 then [] else rows),
      sch_rate_limit = (4 \<le> v),
      sch_indexes = (if v = 0 then {} else {''idx_face_models_user''}) \<union>
         (if v < 2 then {} else {''idx_face_embeddings_model''}) \<union> (if v < 4 then {} else {''idx_rate_limit_user''})\<rparr>"

lemmas migration_defs = run_migrations_def initial_schema_def migration_steps_def schema_version_def
  schema_at_def add_column_def Let_def

lemma versions_upto: "v \<le> 7 \<Longrightarrow> v = 0 \<or> v = 1 \<or> v = 2 \<or> v = 3 \<or> v = 4 \<or> v = 5 \<or> v = 6 \<or> v = (7 :: nat)"
  by arith



text \<open>The schema after the column of the next version was added and its version row was not.\<close>

definition half_migrated :: "nat \<Rightarrow> (nat \<times> bytes) list \<Rightarrow> schema" where
  "half_migrated v rows =
     (if v = 2 then (schema_at 2 rows)\<lparr>sch_embeddings := Some [''id'', ''model_id'', ''embedding'', ''sealed'']\<rparr>
      else (schema_at v rows)\<lparr>sch_models := Some ([''id'', ''user'', ''label'', ''created_at''] @
         take (v - 3) [''embedder_model'', ''device_id'', ''key_id''])\<rparr>)"

lemma half_migrated_reached:
  "v = 2 \<or> v = 4 \<or> v = 5 \<or> v = 6 \<Longrightarrow>
   run_migrations (\<lambda>n. if n = 5 then Some e else None) path (schema_at v rows) =
     (Err (Migration path e), half_migrated v rows)"
  by (elim disjE) (simp_all add: migration_defs half_migrated_def upt_rec insert_commute)

lemma half_migrated_initial:
  "v = 2 \<or> v = 4 \<or> v = 5 \<or> v = 6 \<Longrightarrow>
   snd (snd (execute_batch g initial_schema (0, half_migrated v rows))) = half_migrated v rows"
  by (elim disjE; cases "g 0"; cases "g (Suc 0)"; cases "g (Suc (Suc 0))")
    (simp_all add: initial_schema_def half_migrated_def schema_at_def insert_commute)

lemma half_migrated_steps:
  "v = 2 \<or> v = 4 \<or> v = 5 \<or> v = 6 \<Longrightarrow>
   \<exists>e' n'. apply_steps g (schema_version (half_migrated v rows)) migration_steps (n, half_migrated v rows) =
     (Err e', n', half_migrated v rows)"
  by (elim disjE; cases "g n")
    (simp_all add: migration_steps_def schema_version_def half_migrated_def schema_at_def add_column_def upt_rec)

lemma half_migrated_again:
  assumes "v = 2 \<or> v = 4 \<or> v = 5 \<or> v = 6"
  shows "\<exists>e'. run_migrations g path (half_migrated v rows) = (Err (Migration path e'), half_migrated v rows)"
proof -
  obtain r n where ini: "execute_batch g initial_schema (0, half_migrated v rows) = (r, n, half_migrated v rows)"
    using half_migrated_initial[OF assms] by (metis prod.collapse)
  show ?thesis
  proof (cases r)
    case (Ok u)
    then show ?thesis using ini half_migrated_steps[OF assms, of g rows "Suc n"]
      by (cases "g n") (auto simp: run_migrations_def Let_def)
  next
    case (Err e)
    then show ?thesis using ini by (simp add: run_migrations_def Let_def)
  qed
qed

text \<open>C36: a migration interrupted between its column and its version row cannot be completed. If the
  statement that records the version of a column-adding migration fails, the run reports the
  failure, and from the schema it leaves behind every later run, whatever fails in it, reports an
  error and changes nothing.\<close>

theorem interrupted_migration_is_stuck:
  assumes "v \<in> {2, 4, 5, 6}" and "f = (\<lambda>n. if n = 5 then Some e else None)"
    and "run_migrations f path (schema_at v rows) = (r, s)"
  shows "r = Err (Migration path e) \<and>
    (\<forall>g. \<exists>e'. run_migrations g path s = (Err (Migration path e'), s))"
proof -
  have v: "v = 2 \<or> v = 4 \<or> v = 5 \<or> v = 6" using assms(1) by simp
  have "r = Err (Migration path e)" "s = half_migrated v rows"
    using assms(3) half_migrated_reached[OF v] unfolding assms(2) by simp_all
  then show ?thesis using half_migrated_again[OF v] by simp
qed

theorem interrupted_migration_is_stuck_witness:
  "\<exists>s. run_migrations (\<lambda>n. if n = 5 then Some ''disk full'' else None) ''f.db'' (schema_at 6 []) =
     (Err (Migration ''f.db'' ''disk full''), s) \<and> (\<exists>e'. run_migrations (\<lambda>_. None) ''f.db'' s = (Err (Migration ''f.db'' e'), s))"
proof -
  obtain r s where run: "run_migrations (\<lambda>n. if n = 5 then Some ''disk full'' else None) ''f.db'' (schema_at 6 []) = (r, s)"
    by (metis prod.exhaust)
  from interrupted_migration_is_stuck[OF _ refl this] show ?thesis using run by simp
qed

end
