(* ===== verification/FileCalls.thy ===== *)
theory FileCalls
  imports Sealing
begin

text \<open>
  The file system calls under the PAM backup store of \<^verbatim>\<open>facelock-cli/src/commands/pam.rs\<close>: the
  directories and what they hold, a program as a sequence of system calls each of which may succeed,
  be refused, or be the last one the process makes, and the checked operations on single files
  that the store is built from. A crash keeps what the calls before it did, and of an interrupted
  write any part. A triple states what holds when a program returns, when it fails and wherever it
  dies.
\<close>

subsection \<open>Directories and inodes\<close>

datatype root = StateRoot | PamRoot | VendorRoot nat

record inode =
  i_device :: u64
  i_number :: u64
  i_links :: u64
  i_mode :: u32
  i_uid :: u32
  i_gid :: u32
  i_bytes :: string

datatype entry = File inode | Symlink | Special

type_synonym fs = "root \<Rightarrow> string \<Rightarrow> entry option"

definition set_entry :: "root \<Rightarrow> string \<Rightarrow> entry option \<Rightarrow> fs \<Rightarrow> fs" where
  "set_entry r n e fs = fs(r := (fs r)(n := e))"

abbreviation S_IFMT :: u32 where "S_IFMT \<equiv> 0xF000"
abbreviation S_IFREG :: u32 where "S_IFREG \<equiv> 0x8000"
abbreviation PERMISSIONS :: u32 where "PERMISSIONS \<equiv> 0xFFF"

definition MAX_RECORD_BYTES :: nat where "MAX_RECORD_BYTES = 16 * 1024"
definition MAX_BACKUP_BYTES :: nat where "MAX_BACKUP_BYTES = 1024 * 1024"

text \<open>What the process and the kernel contribute: the digest, the numbers of new inodes, the process id
  and time in the names of temporary files, and the order in which a directory is read.\<close>

record env =
  ev_digest :: "string \<Rightarrow> bytes"
  ev_device :: "root \<Rightarrow> u64"
  ev_fresh :: "fs \<Rightarrow> u64"
  ev_pid :: nat
  ev_nanos :: "fs \<Rightarrow> nat"
  ev_readdir :: "(string \<Rightarrow> entry option) \<Rightarrow> string list"
  ev_missing :: "root \<Rightarrow> bool"
  ev_system :: bool
  ev_umask :: u32
  ev_euid :: u32
  ev_egid :: u32

definition sha256_hex :: "'a env_scheme \<Rightarrow> string \<Rightarrow> string" where
  "sha256_hex ev content = concat (map hex_byte (ev_digest ev content))"

subsection \<open>Errors\<close>

datatype errno = ENOENT | EEXIST | EINTR | ELOOP | EIO

datatype io_error =
    Os errno
  | InvalidInput string
  | InvalidData string
  | AlreadyExists string
  | PermissionDenied string
  | OtherError string
  | Wrapped string io_error
  | Ambiguous string
  | AlsoFailed io_error string io_error

abbreviation not_found :: "io_error \<Rightarrow> bool" where "not_found e \<equiv> e = Os ENOENT"
abbreviation interrupted :: "io_error \<Rightarrow> bool" where "interrupted e \<equiv> e = Os EINTR"

fun is_ambiguous_publication :: "io_error \<Rightarrow> bool" where
  "is_ambiguous_publication (Ambiguous _) = True"
| "is_ambiguous_publication _ = False"

subsection \<open>Programs\<close>

text \<open>A verdict per call: it goes through, it is refused, or the process dies in it. The number is how
  much of a write was done before.\<close>

datatype call_verdict = Go | Refuse bool nat | Die nat

record sys =
  sy_fs :: fs
  sy_script :: "call_verdict list"

datatype 'a outcome = Val 'a | Fail io_error | Dead

type_synonym 'a io = "sys \<Rightarrow> 'a outcome \<times> sys"

definition ret :: "'a \<Rightarrow> 'a io" where "ret x s = (Val x, s)"

definition throw :: "io_error \<Rightarrow> 'a io" where "throw e s = (Fail e, s)"

definition bind :: "'a io \<Rightarrow> ('a \<Rightarrow> 'b io) \<Rightarrow> 'b io" where
  "bind m f s = (case m s of (Val x, t) \<Rightarrow> f x t | (Fail e, t) \<Rightarrow> (Fail e, t) | (Dead, t) \<Rightarrow> (Dead, t))"

text \<open>The result of a program as a value, for the places that look at errors.\<close>

definition tried :: "'a io \<Rightarrow> ('a, io_error) result io" where
  "tried m s = (case m s of (Val x, t) \<Rightarrow> (Val (Ok x), t) | (Fail e, t) \<Rightarrow> (Val (Err e), t) | (Dead, t) \<Rightarrow> (Dead, t))"

definition from_result :: "('a, io_error) result \<Rightarrow> 'a io" where
  "from_result x = (case x of Ok a \<Rightarrow> ret a | Err e \<Rightarrow> throw e)"

definition map_error :: "(io_error \<Rightarrow> io_error) \<Rightarrow> 'a io \<Rightarrow> 'a io" where
  "map_error f m = bind (tried m) (\<lambda>x. case x of Ok a \<Rightarrow> ret a | Err e \<Rightarrow> throw (f e))"

text \<open>\<^verbatim>\<open>let _ = ...\<close>.\<close>

definition ignore :: "'a io \<Rightarrow> unit io" where
  "ignore m = bind (tried m) (\<lambda>_. ret ())"

definition guard :: "bool \<Rightarrow> io_error \<Rightarrow> unit io" where
  "guard b e = (if b then ret () else throw e)"

primrec for_each :: "('a \<Rightarrow> unit io) \<Rightarrow> 'a list \<Rightarrow> unit io" where
  "for_each f [] = ret ()"
| "for_each f (x # xs) = bind (f x) (\<lambda>_. for_each f xs)"

text \<open>A loop that pushes some of what it sees.\<close>

primrec collect_some :: "('a \<Rightarrow> 'b option io) \<Rightarrow> 'a list \<Rightarrow> 'b list io" where
  "collect_some f [] = ret []"
| "collect_some f (x # xs) =
     bind (f x) (\<lambda>y. bind (collect_some f xs) (\<lambda>ys. ret (case y of Some z \<Rightarrow> z # ys | None \<Rightarrow> ys)))"

definition get_fs :: "fs io" where "get_fs s = (Val (sy_fs s), s)"

text \<open>One system call with its effect, and what a call that was cut short leaves.\<close>

definition syscall :: "(fs \<Rightarrow> ('a, errno) result \<times> fs) \<Rightarrow> (nat \<Rightarrow> fs \<Rightarrow> fs) \<Rightarrow> 'a io" where
  "syscall effect part s =
     (let v = (case sy_script s of [] \<Rightarrow> Go | v # _ \<Rightarrow> v); t = s\<lparr>sy_script := tl (sy_script s)\<rparr> in
      case v of
        Go \<Rightarrow> (case effect (sy_fs s) of
            (Ok x, fs) \<Rightarrow> (Val x, t\<lparr>sy_fs := fs\<rparr>)
          | (Err e, fs) \<Rightarrow> (Fail (Os e), t\<lparr>sy_fs := fs\<rparr>))
      | Refuse intr k \<Rightarrow> (Fail (Os (if intr then EINTR else EIO)), t\<lparr>sy_fs := part k (sy_fs s)\<rparr>)
      | Die k \<Rightarrow> (Dead, t\<lparr>sy_fs := part k (sy_fs s)\<rparr>))"

definition look :: "(fs \<Rightarrow> ('a, errno) result) \<Rightarrow> 'a io" where
  "look f = syscall (\<lambda>fs. (f fs, fs)) (\<lambda>_ fs. fs)"

definition change :: "(fs \<Rightarrow> (fs, errno) result) \<Rightarrow> unit io" where
  "change f = syscall (\<lambda>fs. case f fs of Ok fs' \<Rightarrow> (Ok (), fs') | Err e \<Rightarrow> (Err e, fs)) (\<lambda>_ fs. fs)"

definition sync_all :: "unit io" where "sync_all = look (\<lambda>_. Ok ())"


subsection \<open>Calls on one file\<close>

definition open_directory_nofollow :: "'a env_scheme \<Rightarrow> root \<Rightarrow> unit io" where
  "open_directory_nofollow ev r = look (\<lambda>_. if ev_missing ev r then Err ENOENT else Ok ())"

definition no_nul :: "string \<Rightarrow> string \<Rightarrow> unit io" where
  "no_nul n message = guard (CHR 0x00 \<notin> set n) (InvalidInput message)"

definition open_regular_at :: "root \<Rightarrow> string \<Rightarrow> inode io" where
  "open_regular_at r n =
     bind (no_nul n ''file name contains NUL'') (\<lambda>_.
     bind (look (\<lambda>fs. case fs r n of None \<Rightarrow> Err ENOENT | Some Symlink \<Rightarrow> Err ELOOP | Some e \<Rightarrow> Ok e)) (\<lambda>e.
     case e of
       File i \<Rightarrow>
         if i_links i = 1 then ret i
         else throw (InvalidData (''PAM service has '' @ dec_str (unat (i_links i)) @ '' hard links''))
     | _ \<Rightarrow> throw (InvalidData ''PAM service is not a regular file'')))"

record file_identity =
  id_device :: u64
  id_inode :: u64
  id_links :: u64
  id_sha256 :: string
  id_mode :: u32
  id_uid :: u32
  id_gid :: u32

definition identity_for_bytes :: "'a env_scheme \<Rightarrow> inode \<Rightarrow> file_identity" where
  "identity_for_bytes ev i =
     \<lparr>id_device = i_device i, id_inode = i_number i, id_links = i_links i, id_sha256 = sha256_hex ev (i_bytes i),
      id_mode = i_mode i, id_uid = i_uid i, id_gid = i_gid i\<rparr>"

definition identity_matches :: "file_identity \<Rightarrow> file_identity \<Rightarrow> bool" where
  "identity_matches expected actual \<longleftrightarrow>
     (id_device expected, id_inode expected, id_links expected, id_sha256 expected, id_mode expected, id_uid expected, id_gid expected) =
     (id_device actual, id_inode actual, id_links actual, id_sha256 actual, id_mode actual, id_uid actual, id_gid actual)"

definition read_open_bounded :: "inode \<Rightarrow> nat \<Rightarrow> string io" where
  "read_open_bounded i limit =
     bind (look (\<lambda>_. Ok ())) (\<lambda>_.
     if length (i_bytes i) > limit then throw (InvalidData ''state file exceeds size limit'') else ret (i_bytes i))"

definition identity_of_open_bounded :: "'a env_scheme \<Rightarrow> inode \<Rightarrow> nat \<Rightarrow> file_identity io" where
  "identity_of_open_bounded ev i limit = bind (read_open_bounded i limit) (\<lambda>_. ret (identity_for_bytes ev i))"

definition identity_of_open :: "'a env_scheme \<Rightarrow> inode \<Rightarrow> file_identity io" where
  "identity_of_open ev i = bind (look (\<lambda>_. Ok ())) (\<lambda>_. ret (identity_for_bytes ev i))"

definition state_identity_matches :: "u32 \<times> u32 \<Rightarrow> file_identity \<Rightarrow> string \<Rightarrow> bool" where
  "state_identity_matches expected_owner identity expected_sha256 \<longleftrightarrow>
     id_sha256 identity = expected_sha256 \<and> id_links identity = 1 \<and> id_mode identity AND PERMISSIONS = 0x180 \<and>
     (id_uid identity, id_gid identity) = expected_owner"

text \<open>Calls on a descriptor of a file the program just created under a name.\<close>

definition on_file :: "root \<Rightarrow> string \<Rightarrow> (inode \<Rightarrow> inode) \<Rightarrow> fs \<Rightarrow> fs" where
  "on_file r n f fs = (case fs r n of Some (File i) \<Rightarrow> set_entry r n (Some (File (f i))) fs | _ \<Rightarrow> fs)"

definition new_inode :: "'a env_scheme \<Rightarrow> fs \<Rightarrow> root \<Rightarrow> u32 \<Rightarrow> inode" where
  "new_inode ev fs r mode =
     \<lparr>i_device = ev_device ev r, i_number = ev_fresh ev fs, i_links = 1,
      i_mode = S_IFREG OR (mode AND PERMISSIONS AND NOT (ev_umask ev)), i_uid = ev_euid ev, i_gid = ev_egid ev, i_bytes = []\<rparr>"

definition openat_create :: "'a env_scheme \<Rightarrow> root \<Rightarrow> string \<Rightarrow> u32 \<Rightarrow> unit io" where
  "openat_create ev r n mode =
     change (\<lambda>fs. if fs r n = None then Ok (set_entry r n (Some (File (new_inode ev fs r mode))) fs) else Err EEXIST)"

definition write_all :: "root \<Rightarrow> string \<Rightarrow> string \<Rightarrow> unit io" where
  "write_all r n bs =
     syscall (\<lambda>fs. (Ok (), on_file r n (\<lambda>i. i\<lparr>i_bytes := i_bytes i @ bs\<rparr>) fs))
       (\<lambda>k. on_file r n (\<lambda>i. i\<lparr>i_bytes := i_bytes i @ take k bs\<rparr>))"

definition fstat :: "root \<Rightarrow> string \<Rightarrow> inode io" where
  "fstat r n = look (\<lambda>fs. case fs r n of Some (File i) \<Rightarrow> Ok i | _ \<Rightarrow> Err EIO)"

definition fchown :: "root \<Rightarrow> string \<Rightarrow> u32 \<Rightarrow> u32 \<Rightarrow> unit io" where
  "fchown r n uid gid = change (\<lambda>fs. Ok (on_file r n (\<lambda>i. i\<lparr>i_uid := uid, i_gid := gid\<rparr>) fs))"

definition set_permissions :: "root \<Rightarrow> string \<Rightarrow> u32 \<Rightarrow> unit io" where
  "set_permissions r n mode =
     change (\<lambda>fs. Ok (on_file r n (\<lambda>i. i\<lparr>i_mode := (i_mode i AND S_IFMT) OR (mode AND PERMISSIONS)\<rparr>) fs))"

definition apply_owner_then_mode :: "root \<Rightarrow> string \<Rightarrow> u32 \<Rightarrow> u32 \<Rightarrow> u32 \<Rightarrow> unit io" where
  "apply_owner_then_mode r n uid gid mode =
     bind (fstat r n) (\<lambda>current.
     bind (if (uid, gid) \<noteq> (i_uid current, i_gid current) then fchown r n uid gid else ret ()) (\<lambda>_.
     set_permissions r n mode))"

definition identity_at :: "'a env_scheme \<Rightarrow> root \<Rightarrow> string \<Rightarrow> file_identity io" where
  "identity_at ev r n = bind (fstat r n) (\<lambda>i. identity_of_open ev i)"

definition unlinkat :: "root \<Rightarrow> string \<Rightarrow> unit io" where
  "unlinkat r n = change (\<lambda>fs. if fs r n = None then Err ENOENT else Ok (set_entry r n None fs))"

definition renameat2_noreplace :: "root \<Rightarrow> string \<Rightarrow> string \<Rightarrow> unit io" where
  "renameat2_noreplace r a b =
     change (\<lambda>fs. if fs r a = None then Err ENOENT else if fs r b \<noteq> None then Err EEXIST
        else Ok (set_entry r a None (set_entry r b (fs r a) fs)))"

definition renameat2_exchange :: "root \<Rightarrow> string \<Rightarrow> string \<Rightarrow> unit io" where
  "renameat2_exchange r a b =
     change (\<lambda>fs. if fs r a = None \<or> fs r b = None then Err ENOENT
        else Ok (set_entry r a (fs r b) (set_entry r b (fs r a) fs)))"

definition entry_exists_at :: "root \<Rightarrow> string \<Rightarrow> bool io" where
  "entry_exists_at r n = bind (no_nul n ''state name contains NUL'') (\<lambda>_. look (\<lambda>fs. Ok (fs r n \<noteq> None)))"

definition read_dir :: "'a env_scheme \<Rightarrow> root \<Rightarrow> string list io" where
  "read_dir ev r = look (\<lambda>fs. Ok (ev_readdir ev (fs r)))"

definition rename_exchange_at :: "root \<Rightarrow> string \<Rightarrow> string \<Rightarrow> unit io" where
  "rename_exchange_at r left right =
     bind (no_nul left ''state name contains NUL'') (\<lambda>_.
     bind (no_nul right ''state name contains NUL'') (\<lambda>_.
     bind (renameat2_exchange r left right) (\<lambda>_. sync_all)))"

definition rename_noreplace_at :: "root \<Rightarrow> string \<Rightarrow> string \<Rightarrow> unit io" where
  "rename_noreplace_at r source destination =
     bind (no_nul source ''state name contains NUL'') (\<lambda>_.
     bind (no_nul destination ''state name contains NUL'') (\<lambda>_.
     bind (renameat2_noreplace r source destination) (\<lambda>_. sync_all)))"

definition unlink_at_if_identity_matches :: "'a env_scheme \<Rightarrow> root \<Rightarrow> string \<Rightarrow> file_identity \<Rightarrow> nat \<Rightarrow> unit io" where
  "unlink_at_if_identity_matches ev r n expected limit =
     bind (open_regular_at r n) (\<lambda>i.
     bind (identity_of_open_bounded ev i limit) (\<lambda>actual.
     if \<not> identity_matches expected actual then throw (OtherError ''state entry changed before owned cleanup'')
     else unlinkat r n))"

definition unlink_state_if_identity_matches :: "'a env_scheme \<Rightarrow> string \<Rightarrow> file_identity \<Rightarrow> unit io" where
  "unlink_state_if_identity_matches ev n expected =
     bind (open_directory_nofollow ev StateRoot) (\<lambda>_.
     bind (unlink_at_if_identity_matches ev StateRoot n expected
             (if suffix ''.json'' n then MAX_RECORD_BYTES else MAX_BACKUP_BYTES)) (\<lambda>_. sync_all))"

definition cleanup_unpublished_temp_at ::
    "'a env_scheme \<Rightarrow> root \<Rightarrow> string \<Rightarrow> file_identity \<Rightarrow> nat \<Rightarrow> string \<Rightarrow> unit io" where
  "cleanup_unpublished_temp_at ev r n expected limit message =
     map_error (\<lambda>_. Ambiguous message)
       (bind (unlink_at_if_identity_matches ev r n expected limit) (\<lambda>_. sync_all))"

definition cleanup_unpublished_temp ::
    "'a env_scheme \<Rightarrow> root \<Rightarrow> string \<Rightarrow> file_identity \<Rightarrow> nat \<Rightarrow> string \<Rightarrow> unit io" where
  "cleanup_unpublished_temp ev r n expected limit message =
     bind (map_error (\<lambda>_. Ambiguous message) (open_directory_nofollow ev r)) (\<lambda>_.
     cleanup_unpublished_temp_at ev r n expected limit message)"

definition open_identity_at :: "'a env_scheme \<Rightarrow> root \<Rightarrow> string \<Rightarrow> nat \<Rightarrow> file_identity option io" where
  "open_identity_at ev r n limit =
     bind (tried (open_regular_at r n)) (\<lambda>f.
     case f of
       Ok i \<Rightarrow> bind (identity_of_open_bounded ev i limit) (\<lambda>identity. ret (Some identity))
     | Err e \<Rightarrow> if not_found e then ret None else throw e)"

definition read_regular_at_bounded :: "'a env_scheme \<Rightarrow> root \<Rightarrow> string \<Rightarrow> nat \<Rightarrow> (string \<times> file_identity) option io" where
  "read_regular_at_bounded ev r n limit =
     bind (tried (open_regular_at r n)) (\<lambda>f.
     case f of
       Ok i \<Rightarrow> bind (read_open_bounded i limit) (\<lambda>bs. ret (Some (bs, identity_for_bytes ev i)))
     | Err e \<Rightarrow> if not_found e then ret None else throw e)"

definition read_regular_nofollow :: "'a env_scheme \<Rightarrow> root \<Rightarrow> string \<Rightarrow> (string \<times> file_identity) io" where
  "read_regular_nofollow ev r n =
     bind (open_directory_nofollow ev r) (\<lambda>_.
     bind (open_regular_at r n) (\<lambda>i.
     bind (read_open_bounded i MAX_BACKUP_BYTES) (\<lambda>bs. ret (bs, identity_for_bytes ev i))))"


subsection \<open>Publishing a state file\<close>

definition is_basename :: "string \<Rightarrow> bool" where
  "is_basename n \<longleftrightarrow> n \<noteq> [] \<and> CHR ''/'' \<notin> set n \<and> n \<noteq> ''.'' \<and> n \<noteq> ''..''"

definition state_temp_name :: "'a env_scheme \<Rightarrow> string \<Rightarrow> string \<Rightarrow> fs \<Rightarrow> string" where
  "state_temp_name ev name content fs =
     ''.facelock-tmp-'' @ name @ ''-'' @ sha256_hex ev content @ ''-'' @ dec_str (ev_pid ev) @ ''-'' @ dec_str (ev_nanos ev fs)"

definition prepare_state_temp :: "'a env_scheme \<Rightarrow> string \<Rightarrow> string \<Rightarrow> unit io" where
  "prepare_state_temp ev temp content =
     bind (write_all StateRoot temp content) (\<lambda>_.
     bind (fstat StateRoot temp) (\<lambda>current.
     let owner = (if ev_euid ev = 0 then (0, 0) else (i_uid current, i_gid current)) in
     bind (apply_owner_then_mode StateRoot temp (fst owner) (snd owner) 0x180) (\<lambda>_. sync_all)))"

definition discard_state_temp :: "'a env_scheme \<Rightarrow> string \<Rightarrow> file_identity option \<Rightarrow> unit io" where
  "discard_state_temp ev temp owned =
     (case owned of
        Some identity \<Rightarrow>
          bind (ignore (unlink_at_if_identity_matches ev StateRoot temp identity MAX_BACKUP_BYTES)) (\<lambda>_. ignore sync_all)
      | None \<Rightarrow> ret ())"

definition atomic_state_publish :: "'a env_scheme \<Rightarrow> string \<Rightarrow> string \<Rightarrow> file_identity io" where
  "atomic_state_publish ev name content =
     bind (guard (is_basename name) (InvalidInput ''state name is not a basename'')) (\<lambda>_.
     bind get_fs (\<lambda>fs. let temp = state_temp_name ev name content fs in
     bind (open_directory_nofollow ev StateRoot) (\<lambda>_.
     bind (no_nul temp ''state temp contains NUL'') (\<lambda>_.
     bind (no_nul name ''state destination contains NUL'') (\<lambda>_.
     bind (openat_create ev StateRoot temp 0x180) (\<lambda>_.
     bind (tried (prepare_state_temp ev temp content)) (\<lambda>prepared.
     case prepared of
       Err e \<Rightarrow>
         bind (tried (identity_at ev StateRoot temp)) (\<lambda>owned.
         bind (discard_state_temp ev temp (case owned of Ok identity \<Rightarrow> Some identity | Err _ \<Rightarrow> None)) (\<lambda>_. throw e))
     | Ok _ \<Rightarrow>
         bind (identity_at ev StateRoot temp) (\<lambda>identity.
         bind (tried (renameat2_noreplace StateRoot temp name)) (\<lambda>renamed.
         case renamed of
           Err e \<Rightarrow> bind (discard_state_temp ev temp (Some identity)) (\<lambda>_. throw e)
         | Ok _ \<Rightarrow>
             bind (tried sync_all) (\<lambda>synced.
             case synced of
               Ok _ \<Rightarrow> ret identity
             | Err _ \<Rightarrow> throw (Ambiguous ''state publication parent sync failed after rename'')))))))))))"

definition atomic_state_create :: "'a env_scheme \<Rightarrow> string \<Rightarrow> string \<Rightarrow> file_identity io" where
  "atomic_state_create ev name content = atomic_state_publish ev name content"

subsection \<open>Publishing a PAM service file\<close>

definition fill_pam_temp :: "'a env_scheme \<Rightarrow> string \<Rightarrow> string \<Rightarrow> file_identity \<Rightarrow> file_identity io" where
  "fill_pam_temp ev name content model =
     bind (write_all PamRoot name content) (\<lambda>_.
     bind (apply_owner_then_mode PamRoot name (id_uid model) (id_gid model) (id_mode model)) (\<lambda>_.
     bind sync_all (\<lambda>_.
     bind (identity_at ev PamRoot name) (\<lambda>identity.
     if id_links identity \<noteq> 1 \<or> id_sha256 identity \<noteq> sha256_hex ev content \<or> id_mode identity \<noteq> id_mode model \<or>
        id_uid identity \<noteq> id_uid model \<or> id_gid identity \<noteq> id_gid model
     then throw (OtherError ''created PAM temp does not match its requested content and metadata'')
     else ret identity))))"

definition create_temp_at_named :: "'a env_scheme \<Rightarrow> string \<Rightarrow> string \<Rightarrow> file_identity \<Rightarrow> file_identity io" where
  "create_temp_at_named ev name content model =
     bind (no_nul name ''temporary name contains NUL'') (\<lambda>_.
     bind (openat_create ev PamRoot name (id_mode model)) (\<lambda>_.
     bind (tried (fill_pam_temp ev name content model)) (\<lambda>result.
     case result of
       Ok identity \<Rightarrow> ret identity
     | Err e \<Rightarrow>
         bind (tried (identity_at ev PamRoot name)) (\<lambda>owned.
         case owned of
           Err _ \<Rightarrow> throw (Ambiguous ''created PAM temp identity became ambiguous after an error'')
         | Ok identity \<Rightarrow>
             bind (cleanup_unpublished_temp_at ev PamRoot name identity MAX_BACKUP_BYTES
                     ''created PAM temp became ambiguous during error cleanup'') (\<lambda>_. throw e)))))"

definition identity_below :: "'a env_scheme \<Rightarrow> root \<Rightarrow> string \<Rightarrow> file_identity io" where
  "identity_below ev r n = bind (open_regular_at r n) (identity_of_open ev)"

text \<open>After the exchange: the replacement must be in place and the inode it displaced must be the planned one,
  otherwise the exchange is taken back.\<close>

definition settle_exchange :: "'a env_scheme \<Rightarrow> string \<Rightarrow> string \<Rightarrow> file_identity \<Rightarrow> file_identity \<Rightarrow> unit io" where
  "settle_exchange ev name temp expected replacement =
     bind (map_error (\<lambda>_. Ambiguous ''published PAM service became ambiguous'') (identity_below ev PamRoot name)) (\<lambda>published.
     if \<not> identity_matches replacement published
     then throw (Ambiguous ''published PAM service changed before final validation'')
     else bind (tried (identity_below ev PamRoot temp)) (\<lambda>displaced.
     if \<not> (case displaced of Ok actual \<Rightarrow> identity_matches expected actual | Err _ \<Rightarrow> False)
     then
       bind (tried (renameat2_exchange PamRoot temp name)) (\<lambda>rolled.
       case rolled of
         Err e \<Rightarrow> throw (Wrapped ''PAM service changed after it was planned and rollback failed: '' e)
       | Ok _ \<Rightarrow>
           bind (tried (open_regular_at PamRoot temp)) (\<lambda>restored.
           bind (case restored of
                   Ok i \<Rightarrow> bind (identity_of_open ev i) (\<lambda>actual.
                     if identity_matches replacement actual then ignore (unlinkat PamRoot temp) else ret ())
                 | Err _ \<Rightarrow> ret ()) (\<lambda>_.
           bind sync_all (\<lambda>_. throw (OtherError ''PAM service changed after it was planned'')))))
     else
       bind (map_error (\<lambda>_. Ambiguous ''published PAM service became ambiguous'') (identity_below ev PamRoot name)) (\<lambda>again.
       if \<not> identity_matches replacement again
       then throw (Ambiguous ''published PAM service changed before displaced cleanup'')
       else bind (unlinkat PamRoot temp) (\<lambda>_. sync_all))))"

definition publish_replacement :: "'a env_scheme \<Rightarrow> string \<Rightarrow> string \<Rightarrow> file_identity \<Rightarrow> file_identity \<Rightarrow> unit io" where
  "publish_replacement ev name temp expected replacement =
     bind (tried (bind (identity_below ev PamRoot name) (\<lambda>current.
        guard (identity_matches expected current) (OtherError ''PAM service changed after it was planned'')))) (\<lambda>checked.
     case checked of
       Err e \<Rightarrow>
         bind (cleanup_unpublished_temp_at ev PamRoot temp replacement MAX_BACKUP_BYTES
                 ''unpublished PAM temp became ambiguous after source drift'') (\<lambda>_. throw e)
     | Ok _ \<Rightarrow>
         bind (no_nul name ''file name contains NUL'') (\<lambda>_.
         bind (tried (renameat2_exchange PamRoot temp name)) (\<lambda>exchanged.
         case exchanged of
           Err e \<Rightarrow>
             bind (cleanup_unpublished_temp_at ev PamRoot temp replacement MAX_BACKUP_BYTES
                     ''unpublished PAM temp became ambiguous after exchange failure'') (\<lambda>_. throw e)
         | Ok _ \<Rightarrow> settle_exchange ev name temp expected replacement)))"

text \<open>The temporary file under its final name, opened again and compared.\<close>

definition staged_temp :: "'a env_scheme \<Rightarrow> string \<Rightarrow> string \<Rightarrow> file_identity \<Rightarrow> string \<Rightarrow> string \<Rightarrow> file_identity io" where
  "staged_temp ev temp content expected unreadable changed =
     bind (create_temp_at_named ev temp content expected) (\<lambda>created.
     bind (map_error (\<lambda>_. Ambiguous unreadable) (identity_below ev PamRoot temp)) (\<lambda>replacement.
     bind (guard (identity_matches created replacement) (Ambiguous changed)) (\<lambda>_. ret replacement)))"

text \<open>What \<open>after_temp\<close> made is returned beside the result, which the callers look at together.\<close>

definition replace_existing_verified ::
    "'a env_scheme \<Rightarrow> string \<Rightarrow> file_identity \<Rightarrow> string \<Rightarrow> string \<Rightarrow> (file_identity \<Rightarrow> 'p io) \<Rightarrow>
     ('p option \<times> (unit, io_error) result) io" where
  "replace_existing_verified ev name expected content temp after_temp =
     bind (tried (
       bind (open_directory_nofollow ev PamRoot) (\<lambda>_.
       bind (identity_below ev PamRoot name) (\<lambda>actual.
       bind (guard (identity_matches expected actual) (OtherError ''PAM service changed after it was planned'')) (\<lambda>_.
       bind (staged_temp ev temp content expected ''created PAM temp became ambiguous before binding''
               ''created PAM temp changed before publication binding'') (\<lambda>replacement.
       bind (after_temp replacement) (\<lambda>made. ret (replacement, made)))))))) (\<lambda>staged.
     case staged of
       Err e \<Rightarrow> ret (None, Err e)
     | Ok (replacement, made) \<Rightarrow>
         bind (tried (publish_replacement ev name temp expected replacement)) (\<lambda>result. ret (Some made, result)))"

text \<open>The same for a service that so far only exists in a vendor directory.\<close>

definition publish_override ::
    "'a env_scheme \<Rightarrow> root \<Rightarrow> string \<Rightarrow> string \<Rightarrow> file_identity \<Rightarrow> file_identity \<Rightarrow> unit io" where
  "publish_override ev vendor name temp expected replacement =
     bind (tried (bind (identity_below ev vendor name) (\<lambda>current.
        guard (identity_matches expected current) (OtherError ''vendor PAM service changed after it was planned'')))) (\<lambda>checked.
     case checked of
       Err e \<Rightarrow>
         bind (cleanup_unpublished_temp_at ev PamRoot temp replacement MAX_BACKUP_BYTES
                 ''unpublished vendor temp became ambiguous after source drift'') (\<lambda>_. throw e)
     | Ok _ \<Rightarrow>
         bind (no_nul name ''override name contains NUL'') (\<lambda>_.
         bind (tried (renameat2_noreplace PamRoot temp name)) (\<lambda>renamed.
         case renamed of
           Err e \<Rightarrow>
             bind (cleanup_unpublished_temp_at ev PamRoot temp replacement MAX_BACKUP_BYTES
                     ''unpublished vendor temp became ambiguous after publication failure'') (\<lambda>_. throw e)
         | Ok _ \<Rightarrow>
             bind (map_error (\<lambda>_. Ambiguous ''published vendor override became ambiguous'') (identity_below ev PamRoot name)) (\<lambda>published.
             bind (guard (identity_matches replacement published)
                     (Ambiguous ''published vendor override changed before final validation'')) (\<lambda>_. sync_all)))))"

definition create_override_verified ::
    "'a env_scheme \<Rightarrow> root \<Rightarrow> string \<Rightarrow> file_identity \<Rightarrow> string \<Rightarrow> string \<Rightarrow> (file_identity \<Rightarrow> 'p io) \<Rightarrow>
     ('p option \<times> (unit, io_error) result) io" where
  "create_override_verified ev vendor name expected content temp after_temp =
     bind (tried (
       bind (open_directory_nofollow ev vendor) (\<lambda>_.
       bind (identity_below ev vendor name) (\<lambda>actual.
       bind (guard (identity_matches expected actual) (OtherError ''vendor PAM service changed after it was planned'')) (\<lambda>_.
       bind (open_directory_nofollow ev PamRoot) (\<lambda>_.
       bind (staged_temp ev temp content expected ''created vendor temp became ambiguous before binding''
               ''created vendor temp changed before publication binding'') (\<lambda>replacement.
       bind (after_temp replacement) (\<lambda>made. ret (replacement, made))))))))) (\<lambda>staged.
     case staged of
       Err e \<Rightarrow> ret (None, Err e)
     | Ok (replacement, made) \<Rightarrow>
         bind (tried (publish_override ev vendor name temp expected replacement)) (\<lambda>result. ret (Some made, result)))"

end
