(* ===== verification/PamRecords.thy ===== *)
theory PamRecords
  imports FileCalls
begin

text \<open>
  What the PAM backup store writes down, \<^verbatim>\<open>facelock-cli/src/commands/pam.rs\<close>: provenance records, the
  intents that announce a change, the bindings that identify a published file, the names all of them
  are stored under, and the checks every entry has to pass before it is believed. The JSON codec is a
  parameter.
\<close>

subsection \<open>Documents\<close>

definition PROVENANCE_VERSION :: u32 where "PROVENANCE_VERSION = 1"

datatype provenance_state = Prepared | Committed

datatype intent_role = Prepare | Commit | Cleanup | PamReplace | PamRemove | VendorCreate

datatype publication_role = PubCommit | PubPamReplace | PubPamRemove | PubVendorCreate

fun intent_role_of :: "publication_role \<Rightarrow> intent_role" where
  "intent_role_of PubCommit = Commit"
| "intent_role_of PubPamReplace = PamReplace"
| "intent_role_of PubPamRemove = PamRemove"
| "intent_role_of PubVendorCreate = VendorCreate"

record state_intent =
  si_version :: u32
  si_role :: intent_role
  si_sequence :: u64
  si_service :: string
  si_backup :: string
  si_original_sha256 :: string
  si_installed_sha256 :: string
  si_record_sha256 :: "string option"
  si_replacement_record_sha256 :: "string option"
  si_original_device :: "u64 option"
  si_original_inode :: "u64 option"
  si_original_links :: "u64 option"
  si_original_mode :: "u32 option"
  si_original_uid :: "u32 option"
  si_original_gid :: "u32 option"

record publication_binding =
  pb_version :: u32
  pb_role :: publication_role
  pb_sequence :: u64
  pb_service :: string
  pb_backup :: string
  pb_intent_sha256 :: string
  pb_device :: u64
  pb_inode :: u64
  pb_links :: u64
  pb_sha256 :: string
  pb_mode :: u32
  pb_uid :: u32
  pb_gid :: u32

record provenance_record =
  pv_version :: u32
  pv_sequence :: u64
  pv_state :: provenance_state
  pv_service :: string
  pv_backup :: string
  pv_original_sha256 :: string
  pv_installed_sha256 :: string

record prepared_backup =
  bk_backup :: string
  bk_record :: string
  bk_provenance :: provenance_record
  bk_backup_identity :: "file_identity option"
  bk_record_identity :: "file_identity option"

record mutation_plan =
  mp_operation :: string
  mp_sequence :: u64
  mp_service :: string
  mp_original_sha256 :: string
  mp_installed_sha256 :: string

datatype document = DRecord provenance_record | DIntent state_intent | DBinding publication_binding

text \<open>The JSON codec: one encoder, and one reader per type that refuses unknown fields.\<close>

record journal_env = env +
  je_encode :: "document \<Rightarrow> string"
  je_record :: "string \<Rightarrow> provenance_record option"
  je_intent :: "string \<Rightarrow> state_intent option"
  je_binding :: "string \<Rightarrow> publication_binding option"

subsection \<open>Names\<close>

definition intent_name :: "intent_role \<Rightarrow> string \<Rightarrow> string" where
  "intent_name role backup =
     ''.facelock-intent-'' @
     (case role of
        Prepare \<Rightarrow> ''prepare''
      | Commit \<Rightarrow> ''commit''
      | Cleanup \<Rightarrow> ''cleanup''
      | PamReplace \<Rightarrow> ''pam-replace''
      | PamRemove \<Rightarrow> ''pam-remove''
      | VendorCreate \<Rightarrow> ''vendor-create'') @ ''-'' @ backup @ ''.json''"

definition quarantine_name :: "string \<Rightarrow> string \<Rightarrow> string" where
  "quarantine_name role backup = ''.facelock-quarantine-'' @ role @ ''-'' @ backup"

definition pam_replace_name :: "string \<Rightarrow> string" where
  "pam_replace_name backup = ''.facelock-pam-replace-'' @ backup"

definition pam_remove_name :: "string \<Rightarrow> string" where
  "pam_remove_name operation = ''.facelock-pam-remove-'' @ operation"

definition vendor_retire_name :: "string \<Rightarrow> string" where
  "vendor_retire_name operation = ''.facelock-vendor-retire-'' @ operation"

definition vendor_create_name :: "string \<Rightarrow> string" where
  "vendor_create_name operation = ''.facelock-vendor-create-'' @ operation"

definition publication_name :: "publication_role \<Rightarrow> string \<Rightarrow> string" where
  "publication_name role backup =
     ''.facelock-publication-'' @
     (case role of
        PubCommit \<Rightarrow> ''commit''
      | PubPamReplace \<Rightarrow> ''pam-replace''
      | PubPamRemove \<Rightarrow> ''pam-remove''
      | PubVendorCreate \<Rightarrow> ''vendor-create'') @ ''-'' @ backup @ ''.json''"

definition record_name :: "string \<Rightarrow> string" where
  "record_name backup = backup @ ''.json''"

definition exchange_name :: "string \<Rightarrow> string" where
  "exchange_name backup = quarantine_name ''commit'' backup @ ''.json''"

definition record_quarantine_name :: "string \<Rightarrow> string" where
  "record_quarantine_name backup = quarantine_name ''record'' backup @ ''.json''"

subsection \<open>Checks\<close>

text \<open>One normal path component without NUL.\<close>

definition confined :: "string \<Rightarrow> bool" where
  "confined service \<longleftrightarrow> is_basename service \<and> CHR 0x00 \<notin> set service"

definition valid_sha256 :: "string \<Rightarrow> bool" where
  "valid_sha256 hash \<longleftrightarrow> length hash = 64 \<and> list_all is_hexdigit hash"

definition valid_backup_name :: "string \<Rightarrow> string \<Rightarrow> bool" where
  "valid_backup_name service name =
     (case strip_prefix (service @ ''.'') name of
        None \<Rightarrow> False
      | Some timestamp \<Rightarrow>
          (case split_once (CHR ''-'') timestamp of
             None \<Rightarrow> False
           | Some (seconds, nanoseconds) \<Rightarrow>
               seconds \<noteq> [] \<and> list_all is_digit seconds \<and> digits_value seconds < 2 ^ 64 \<and>
               length nanoseconds = 9 \<and> list_all is_digit nanoseconds \<and>
               digits_value nanoseconds < 2 ^ 32 \<and> digits_value nanoseconds < 1000000000))"

definition valid_provenance_record :: "string \<Rightarrow> provenance_record \<Rightarrow> bool" where
  "valid_provenance_record name record =
     (case strip_suffix ''.json'' name of
        None \<Rightarrow> False
      | Some backup \<Rightarrow>
          pv_version record = PROVENANCE_VERSION \<and> pv_sequence record \<noteq> 0 \<and> confined (pv_service record) \<and>
          is_basename (pv_backup record) \<and> pv_backup record = backup \<and>
          valid_backup_name (pv_service record) backup \<and>
          valid_sha256 (pv_original_sha256 record) \<and> valid_sha256 (pv_installed_sha256 record))"

definition regular_mode :: "u32 option \<Rightarrow> bool" where
  "regular_mode mode = (case mode of Some m \<Rightarrow> m AND S_IFMT = S_IFREG | None \<Rightarrow> False)"

definition no_identity :: "state_intent \<Rightarrow> bool" where
  "no_identity i \<longleftrightarrow>
     si_original_device i = None \<and> si_original_inode i = None \<and> si_original_links i = None \<and>
     si_original_mode i = None \<and> si_original_uid i = None \<and> si_original_gid i = None"

definition exact_identity :: "state_intent \<Rightarrow> bool" where
  "exact_identity i \<longleftrightarrow>
     si_original_device i \<noteq> None \<and> si_original_inode i \<noteq> None \<and> si_original_links i = Some 1 \<and>
     regular_mode (si_original_mode i) \<and> si_original_uid i \<noteq> None \<and> si_original_gid i \<noteq> None"

definition expected_metadata :: "state_intent \<Rightarrow> bool" where
  "expected_metadata i \<longleftrightarrow>
     si_original_device i = None \<and> si_original_inode i = None \<and> si_original_links i = None \<and>
     regular_mode (si_original_mode i) \<and> si_original_uid i \<noteq> None \<and> si_original_gid i \<noteq> None"

definition opt_valid_sha256 :: "string option \<Rightarrow> bool" where
  "opt_valid_sha256 h = (case h of Some hash \<Rightarrow> valid_sha256 hash | None \<Rightarrow> False)"

definition role_fields :: "state_intent \<Rightarrow> bool" where
  "role_fields i =
     (let record_hash = opt_valid_sha256 (si_record_sha256 i);
          replacement_hash = opt_valid_sha256 (si_replacement_record_sha256 i) in
      case si_role i of
        Prepare \<Rightarrow> record_hash \<and> si_replacement_record_sha256 i = None \<and> no_identity i
      | Cleanup \<Rightarrow> record_hash \<and> si_replacement_record_sha256 i = None \<and> no_identity i
      | Commit \<Rightarrow> record_hash \<and> replacement_hash \<and> no_identity i
      | PamReplace \<Rightarrow> record_hash \<and> si_replacement_record_sha256 i = None \<and> exact_identity i
      | PamRemove \<Rightarrow> si_record_sha256 i = None \<and> si_replacement_record_sha256 i = None \<and> exact_identity i
      | VendorCreate \<Rightarrow> si_record_sha256 i = None \<and> si_replacement_record_sha256 i = None \<and> expected_metadata i)"

definition valid_state_intent :: "state_intent \<Rightarrow> bool" where
  "valid_state_intent i \<longleftrightarrow>
     si_version i = PROVENANCE_VERSION \<and> si_sequence i \<noteq> 0 \<and> confined (si_service i) \<and>
     valid_backup_name (si_service i) (si_backup i) \<and> valid_sha256 (si_original_sha256 i) \<and>
     valid_sha256 (si_installed_sha256 i) \<and> role_fields i"

definition valid_publication_binding :: "publication_binding \<Rightarrow> bool" where
  "valid_publication_binding b \<longleftrightarrow>
     pb_version b = PROVENANCE_VERSION \<and> pb_sequence b \<noteq> 0 \<and> confined (pb_service b) \<and>
     valid_backup_name (pb_service b) (pb_backup b) \<and> valid_sha256 (pb_intent_sha256 b) \<and>
     valid_sha256 (pb_sha256 b) \<and> pb_links b = 1 \<and> pb_mode b AND S_IFMT = S_IFREG"

definition publication_binding_for ::
    "'a env_scheme \<Rightarrow> publication_role \<Rightarrow> state_intent \<Rightarrow> string \<Rightarrow> file_identity \<Rightarrow> publication_binding" where
  "publication_binding_for ev role intent intent_encoded replacement =
     \<lparr>pb_version = PROVENANCE_VERSION, pb_role = role, pb_sequence = si_sequence intent, pb_service = si_service intent,
      pb_backup = si_backup intent, pb_intent_sha256 = sha256_hex ev intent_encoded, pb_device = id_device replacement,
      pb_inode = id_inode replacement, pb_links = id_links replacement, pb_sha256 = id_sha256 replacement,
      pb_mode = id_mode replacement, pb_uid = id_uid replacement, pb_gid = id_gid replacement\<rparr>"

definition binding_identity :: "publication_binding \<Rightarrow> file_identity" where
  "binding_identity b =
     \<lparr>id_device = pb_device b, id_inode = pb_inode b, id_links = pb_links b, id_sha256 = pb_sha256 b,
      id_mode = pb_mode b, id_uid = pb_uid b, id_gid = pb_gid b\<rparr>"

definition binding_identity_matches :: "publication_binding \<Rightarrow> file_identity \<Rightarrow> bool" where
  "binding_identity_matches b actual \<longleftrightarrow>
     (pb_device b, pb_inode b, pb_links b, pb_sha256 b, pb_mode b, pb_uid b, pb_gid b) =
     (id_device actual, id_inode actual, id_links actual, id_sha256 actual, id_mode actual, id_uid actual, id_gid actual)"

definition exact_original_intent_identity :: "state_intent \<Rightarrow> file_identity \<Rightarrow> bool" where
  "exact_original_intent_identity i identity \<longleftrightarrow>
     id_sha256 identity = si_original_sha256 i \<and> Some (id_device identity) = si_original_device i \<and>
     Some (id_inode identity) = si_original_inode i \<and> Some (id_links identity) = si_original_links i \<and>
     Some (id_mode identity) = si_original_mode i \<and> Some (id_uid identity) = si_original_uid i \<and>
     Some (id_gid identity) = si_original_gid i"

text \<open>Temporary files of interrupted publications carry their destination and digest in the name.\<close>

definition owned_temp_parts :: "string \<Rightarrow> (string \<times> string) option" where
  "owned_temp_parts name =
     (case strip_prefix ''.facelock-tmp-'' name of None \<Rightarrow> None | Some rest \<Rightarrow>
      case rsplit_once (CHR ''-'') rest of None \<Rightarrow> None | Some (destination_hash_pid, nanoseconds) \<Rightarrow>
      case rsplit_once (CHR ''-'') destination_hash_pid of None \<Rightarrow> None | Some (destination_hash, pid) \<Rightarrow>
      case rsplit_once (CHR ''-'') destination_hash of None \<Rightarrow> None | Some (destination, hash) \<Rightarrow>
        if valid_sha256 hash \<and> pid \<noteq> [] \<and> list_all is_digit pid \<and> nanoseconds \<noteq> [] \<and> list_all is_digit nanoseconds \<and>
           destination \<noteq> []
        then Some (destination, hash) else None)"

definition backup_service :: "string \<Rightarrow> string option" where
  "backup_service name =
     (case rsplit_once (CHR ''.'') name of
        None \<Rightarrow> None
      | Some (service, _) \<Rightarrow> if confined service \<and> valid_backup_name service name then Some service else None)"

text \<open>The tests of \<^verbatim>\<open>valid_owned_temp_destination\<close>, in order; each decides once its pattern and its
  document fit.\<close>

definition temp_record :: "'a journal_env_scheme \<Rightarrow> string \<Rightarrow> string \<Rightarrow> bool option" where
  "temp_record ev destination bs =
     (case (strip_suffix ''.json'' destination, je_record ev bs) of
        (Some backup, Some record) \<Rightarrow>
          if backup_service backup \<noteq> None then Some (valid_provenance_record destination record) else None
      | _ \<Rightarrow> None)"

definition temp_intent :: "'a journal_env_scheme \<Rightarrow> string \<Rightarrow> string \<Rightarrow> bool option" where
  "temp_intent ev destination bs =
     (case je_intent ev bs of
        Some intent \<Rightarrow>
          if prefix ''.facelock-intent-'' destination
          then Some (destination = intent_name (si_role intent) (si_backup intent) \<and> valid_state_intent intent) else None
      | None \<Rightarrow> None)"

definition temp_binding :: "'a journal_env_scheme \<Rightarrow> string \<Rightarrow> string \<Rightarrow> bool option" where
  "temp_binding ev destination bs =
     (case je_binding ev bs of
        Some b \<Rightarrow>
          if prefix ''.facelock-publication-'' destination
          then Some (destination = publication_name (pb_role b) (pb_backup b) \<and> valid_publication_binding b) else None
      | None \<Rightarrow> None)"

definition temp_exchange :: "'a journal_env_scheme \<Rightarrow> string \<Rightarrow> string \<Rightarrow> bool" where
  "temp_exchange ev destination bs =
     (case strip_prefix ''.facelock-quarantine-commit-'' destination of None \<Rightarrow> False | Some rest \<Rightarrow>
      case (strip_suffix ''.json'' rest, je_record ev bs) of
        (Some backup, Some record) \<Rightarrow>
          backup_service backup \<noteq> None \<and> valid_provenance_record (record_name backup) record \<and> pv_state record = Committed
      | _ \<Rightarrow> False)"

definition valid_owned_temp_destination :: "'a journal_env_scheme \<Rightarrow> string \<Rightarrow> string \<Rightarrow> bool" where
  "valid_owned_temp_destination ev destination bs =
     (if backup_service destination \<noteq> None then True
      else case temp_record ev destination bs of Some b \<Rightarrow> b | None \<Rightarrow>
           case temp_intent ev destination bs of Some b \<Rightarrow> b | None \<Rightarrow>
           case temp_binding ev destination bs of Some b \<Rightarrow> b | None \<Rightarrow> temp_exchange ev destination bs)"

end
