(* ===== verification/PamStack.thy ===== *)
theory PamStack
  imports Prelude
begin

text \<open>
  The editor of PAM service files in \<^verbatim>\<open>facelock-cli/src/commands/pam.rs\<close>: physical lines, logical rules with their
  continuations, and the insertion and removal of the facelock rule. A file is a list of bytes written as
  characters. The source walks it by offsets; here it is cut into its physical lines, each with its line
  ending, and a span is a run of lines.
\<close>

subsection \<open>Physical lines\<close>

abbreviation newline :: char where "newline \<equiv> CHR 0x0A"
abbreviation return :: char where "return \<equiv> CHR 0x0D"

definition PAM_LINE :: string where "PAM_LINE = ''auth      sufficient pam_facelock.so''"

text \<open>\<^verbatim>\<open>PhysicalLine::at\<close> for every start.\<close>

fun raw_lines :: "string \<Rightarrow> string list" where
  "raw_lines [] = []"
| "raw_lines (c # cs) =
     (if c = newline then [c] # raw_lines cs
      else case raw_lines cs of [] \<Rightarrow> [[c]] | l # ls \<Rightarrow> (c # l) # ls)"

definition content :: "string \<Rightarrow> string" where
  "content l =
     (if l \<noteq> [] \<and> last l = newline
      then let b = butlast l in if b \<noteq> [] \<and> last b = return then butlast b else b
      else l)"

definition semantic :: "string \<Rightarrow> string" where
  "semantic l = takeWhile (\<lambda>c. c \<noteq> CHR ''#'') (content l)"

definition blank :: "char \<Rightarrow> bool" where
  "blank c \<longleftrightarrow> c = CHR '' '' \<or> c = CHR 0x09"

definition has_semantic_content :: "string \<Rightarrow> bool" where
  "has_semantic_content l = list_ex (\<lambda>c. \<not> blank c) (semantic l)"

definition strip_blanks :: "string \<Rightarrow> string" where
  "strip_blanks s = rev (dropWhile blank (rev s))"

definition continuation_backslash :: "string \<Rightarrow> nat option" where
  "continuation_backslash l =
     (if CHR ''#'' \<in> set (content l) then None
      else let s = strip_blanks (content l) in
        if s \<noteq> [] \<and> last s = CHR 0x5C then Some (length s - 1) else None)"

definition continues :: "string \<Rightarrow> bool" where
  "continues l \<longleftrightarrow> continuation_backslash l \<noteq> None"

subsection \<open>Logical rules\<close>

text \<open>The lines of the rule that starts with a line, and the lines after it.\<close>

fun rule_from :: "string \<Rightarrow> string list \<Rightarrow> string list \<times> string list" where
  "rule_from l [] = ([l], [])"
| "rule_from l (n # ls) =
     (if continues l \<and> has_semantic_content n then (case rule_from n ls of (r, rest) \<Rightarrow> (l # r, rest))
      else ([l], n # ls))"

lemma rule_from_length: "length (snd (rule_from l ls)) \<le> length ls"
  by (induction l ls rule: rule_from.induct) (auto split: prod.splits)

datatype stack_piece = Gap string | Rule "string list"

function pieces :: "string list \<Rightarrow> stack_piece list" where
  "pieces [] = []"
| "pieces (l # ls) =
     (if has_semantic_content l then Rule (fst (rule_from l ls)) # pieces (snd (rule_from l ls))
      else Gap l # pieces ls)"
  by pat_completeness auto
termination by (relation "measure length") (auto simp: le_imp_less_Suc rule_from_length)

definition logical_rules :: "string \<Rightarrow> string list" where
  "logical_rules bs = List.map_filter (\<lambda>p. case p of Rule r \<Rightarrow> Some (concat r) | Gap _ \<Rightarrow> None) (pieces (raw_lines bs))"

text \<open>What a physical line contributes to its rule.\<close>

definition line_part :: "string \<Rightarrow> string" where
  "line_part l = (case continuation_backslash l of Some k \<Rightarrow> take k (semantic l) @ '' '' | None \<Rightarrow> semantic l)"

definition semantic_rule :: "string \<Rightarrow> string" where
  "semantic_rule rule = concat (map line_part (raw_lines rule))"

definition is_ascii_whitespace :: "char \<Rightarrow> bool" where
  "is_ascii_whitespace c \<longleftrightarrow> c \<in> {CHR '' '', CHR 0x09, CHR 0x0A, CHR 0x0C, CHR 0x0D}"

definition first_token :: "string \<Rightarrow> string option" where
  "first_token s =
     (case dropWhile is_ascii_whitespace s of [] \<Rightarrow> None | t \<Rightarrow> Some (takeWhile (\<lambda>c. \<not> is_ascii_whitespace c) t))"

definition names_auth :: "string \<Rightarrow> bool" where
  "names_auth s =
     (case first_token s of
        None \<Rightarrow> False
      | Some t \<Rightarrow> eq_ignore_ascii_case (if starts_with t ''-'' then tl t else t) ''auth'')"

definition is_auth_rule :: "string \<Rightarrow> bool" where
  "is_auth_rule rule = names_auth (semantic_rule rule)"

definition is_facelock_rule :: "string \<Rightarrow> bool" where
  "is_facelock_rule rule = contains (semantic_rule rule) ''pam_facelock.so''"

definition has_facelock_rule :: "string \<Rightarrow> bool" where
  "has_facelock_rule bs = list_ex is_facelock_rule (logical_rules bs)"

subsection \<open>Insertion\<close>

fun piece_lines :: "stack_piece \<Rightarrow> string list" where
  "piece_lines (Gap l) = [l]"
| "piece_lines (Rule r) = r"

definition flat :: "stack_piece list \<Rightarrow> string list" where
  "flat ps = concat (map piece_lines ps)"

fun auth_piece :: "stack_piece \<Rightarrow> bool" where
  "auth_piece (Gap _) = False"
| "auth_piece (Rule r) = is_auth_rule (concat r)"

text \<open>The bytes before the first auth rule and the bytes from it on.\<close>

definition split_at_auth :: "string \<Rightarrow> (string \<times> string) option" where
  "split_at_auth bs =
     (let ps = pieces (raw_lines bs) in
      if list_ex auth_piece ps
      then Some (concat (flat (takeWhile (\<lambda>p. \<not> auth_piece p) ps)), concat (flat (dropWhile (\<lambda>p. \<not> auth_piece p) ps)))
      else None)"

definition split_at_header :: "string \<Rightarrow> (string \<times> string) option" where
  "split_at_header bs =
     (case raw_lines bs of
        l # ls \<Rightarrow> if content l = ''#%PAM-1.0'' then Some (l, concat ls) else None
      | [] \<Rightarrow> None)"

definition line_ending_from :: "string \<Rightarrow> string option" where
  "line_ending_from s =
     (if newline \<in> set s
      then let p = takeWhile (\<lambda>c. c \<noteq> newline) s in
        Some (if p \<noteq> [] \<and> last p = return then [return, newline] else [newline])
      else None)"

definition ending_for :: "string \<Rightarrow> string \<Rightarrow> string" where
  "ending_for suf bs =
     (case line_ending_from suf of
        Some e \<Rightarrow> e
      | None \<Rightarrow> (case line_ending_from bs of Some e \<Rightarrow> e | None \<Rightarrow> [newline]))"

definition with_facelock_inserted :: "string \<Rightarrow> string" where
  "with_facelock_inserted bs =
     (case split_at_auth bs of
        Some (pre, suf) \<Rightarrow> pre @ PAM_LINE @ ending_for suf bs @ suf
      | None \<Rightarrow>
          let e = ending_for bs bs in
          (case split_at_header bs of
             Some (pre, suf) \<Rightarrow>
               if suf = [] \<and> last pre \<noteq> newline then pre @ e @ PAM_LINE else pre @ PAM_LINE @ e @ suf
           | None \<Rightarrow> PAM_LINE @ (if bs = [] then [] else e) @ bs))"

subsection \<open>Removal\<close>

text \<open>The lines of a facelock rule that stay: all but the injected ones, if there are any.\<close>

fun injected :: "bool \<Rightarrow> string list \<Rightarrow> bool list" where
  "injected previous_continued [] = []"
| "injected previous_continued (l # ls) = (previous_continued \<and> content l = PAM_LINE) # injected (continues l) ls"

definition repaired_rule :: "string list \<Rightarrow> string list" where
  "repaired_rule r =
     (let marks = injected False r in
      if list_ex id marks then map fst (filter (\<lambda>(_, m). \<not> m) (zip r marks)) else [])"

fun kept_lines :: "stack_piece \<Rightarrow> string list" where
  "kept_lines (Gap l) = [l]"
| "kept_lines (Rule r) = (if is_facelock_rule (concat r) then repaired_rule r else r)"

definition with_facelock_removed :: "string \<Rightarrow> string" where
  "with_facelock_removed bs = concat (concat (map kept_lines (pieces (raw_lines bs))))"

text \<open>Machine-wide removal only touches files in which every live mention is the canonical line.\<close>

definition only_exact :: "string list \<Rightarrow> bool" where
  "only_exact r \<longleftrightarrow>
     list_all (\<lambda>l. contains (semantic l) ''pam_facelock.so'' \<longrightarrow> content l = PAM_LINE) r \<and>
     list_ex (\<lambda>l. contains (semantic l) ''pam_facelock.so'') r"

definition has_only_exact_legacy_facelock_rules :: "string \<Rightarrow> bool" where
  "has_only_exact_legacy_facelock_rules bs =
     (let found = filter is_facelock_rule (logical_rules bs) in
      found \<noteq> [] \<and> list_all (\<lambda>rule. only_exact (raw_lines rule)) found)"

text \<open>What the preview says about the place of the new rule.\<close>

datatype insertion_hint = InsertBeforeAuth | InsertAfterHeader | InsertAtTop

definition insertion_hint_of :: "string \<Rightarrow> insertion_hint" where
  "insertion_hint_of bs =
     (if split_at_auth bs \<noteq> None then InsertBeforeAuth
      else if split_at_header bs \<noteq> None then InsertAfterHeader else InsertAtTop)"

subsection \<open>Cutting into lines\<close>

definition complete :: "string \<Rightarrow> bool" where
  "complete s \<longleftrightarrow> s = [] \<or> last s = newline"

lemma concat_raw_lines [simp]: "concat (raw_lines s) = s"
  by (induction s) (auto split: list.splits)

lemma raw_lines_append: "complete s \<Longrightarrow> raw_lines (s @ t) = raw_lines s @ raw_lines t"
proof (induction s)
  case (Cons c s)
  show ?case
  proof (cases "s = []")
    case False
    then have "complete s" using Cons.prems by (simp add: complete_def)
    moreover have "raw_lines s \<noteq> []" using False by (metis concat.simps(1) concat_raw_lines)
    ultimately show ?thesis using Cons.IH by (auto split: list.splits)
  qed (use Cons.prems in \<open>auto simp: complete_def\<close>)
qed simp

lemma raw_lines_single: "s \<noteq> [] \<Longrightarrow> newline \<notin> set (butlast s) \<Longrightarrow> raw_lines s = [s]"
  by (induction s) (auto split: list.splits if_splits)

text \<open>Lists of lines as the cutting produces them.\<close>

definition cut :: "string list \<Rightarrow> bool" where
  "cut ls \<longleftrightarrow> list_all (\<lambda>l. l \<noteq> [] \<and> newline \<notin> set (butlast l)) ls \<and> list_all complete (butlast ls)"

lemma cut_Cons: "cut (l # ls) \<longleftrightarrow> l \<noteq> [] \<and> newline \<notin> set (butlast l) \<and> (ls \<noteq> [] \<longrightarrow> complete l) \<and> cut ls"
  by (auto simp: cut_def)

lemma cut_raw_lines: "cut (raw_lines s)"
proof (induction s)
  case (Cons c s)
  show ?case
  proof (cases "raw_lines s")
    case Nil
    then show ?thesis by (simp add: cut_def)
  next
    case (Cons l ls)
    then show ?thesis using \<open>cut (raw_lines s)\<close> by (auto simp: cut_Cons complete_def)
  qed
qed (simp add: cut_def)

lemma raw_lines_concat: "cut ls \<Longrightarrow> raw_lines (concat ls) = ls"
proof (induction ls)
  case (Cons l ls)
  show ?case
  proof (cases "ls = []")
    case False
    then show ?thesis using Cons by (simp add: cut_Cons raw_lines_append raw_lines_single)
  qed (use Cons in \<open>simp add: cut_Cons raw_lines_single\<close>)
qed simp

lemma cut_append: "cut (xs @ ys) \<longleftrightarrow> cut xs \<and> cut ys \<and> (ys \<noteq> [] \<longrightarrow> complete (concat xs))"
proof (induction xs)
  case (Cons x xs)
  have "complete (concat (x # xs)) \<longleftrightarrow> (if concat xs = [] then complete x else complete (concat xs))"
    by (auto simp: complete_def)
  moreover have "cut xs \<Longrightarrow> concat xs = [] \<longleftrightarrow> xs = []" by (cases xs) (auto simp: cut_Cons)
  ultimately show ?case using Cons by (auto simp: cut_Cons complete_def)
qed (auto simp: cut_def complete_def)

subsection \<open>Pieces\<close>

lemma rule_from_lines: "fst (rule_from l ls) @ snd (rule_from l ls) = l # ls"
  by (induction l ls rule: rule_from.induct) (auto split: prod.splits)

lemma rule_from_ne [simp]: "fst (rule_from l ls) \<noteq> []" "hd (fst (rule_from l ls)) = l"
  by (induction l ls rule: rule_from.induct) (auto split: prod.splits)

lemma flat_simps [simp]: "flat [] = []" "flat (p # ps) = piece_lines p @ flat ps" "flat (ps @ qs) = flat ps @ flat qs"
  by (simp_all add: flat_def)

lemma flat_pieces [simp]: "flat (pieces ls) = ls"
  by (induction ls rule: pieces.induct) (auto simp: rule_from_lines)

text \<open>A run of lines after which a new line starts a new piece.\<close>

definition closed :: "string list \<Rightarrow> bool" where
  "closed ls \<longleftrightarrow> ls = [] \<or> \<not> continues (last ls)"

lemma rule_from_append:
  "closed (l # xs) \<Longrightarrow> fst (rule_from l (xs @ ys)) = fst (rule_from l xs) \<and> snd (rule_from l (xs @ ys)) = snd (rule_from l xs) @ ys"
proof (induction l xs rule: rule_from.induct)
  case (1 l)
  then show ?case by (cases ys) (auto simp: closed_def)
next
  case (2 l n ls)
  then have "closed (n # ls)" by (simp add: closed_def)
  then show ?case using 2 by (auto split: prod.splits)
qed

lemma closed_rest: "closed (l # ls) \<Longrightarrow> closed (snd (rule_from l ls))"
proof (induction l ls rule: rule_from.induct)
  case (2 l n ls)
  then have "closed (n # ls)" by (simp add: closed_def)
  then show ?case using 2 by (auto split: prod.splits)
qed (simp add: closed_def)

lemma pieces_append: "closed xs \<Longrightarrow> pieces (xs @ ys) = pieces xs @ pieces ys"
proof (induction xs rule: pieces.induct)
  case (2 l ls)
  show ?case
  proof (cases "has_semantic_content l")
    case True
    then show ?thesis using 2(1) rule_from_append[OF 2(3), of ys] closed_rest[OF 2(3)] by simp
  next
    case False
    have "closed ls" using 2(3) by (cases "ls = []") (simp_all add: closed_def)
    then show ?thesis using 2(2) False by simp
  qed
qed simp

lemma set_strip_blanks: "c \<in> set (strip_blanks s) \<Longrightarrow> c \<in> set s"
  by (auto simp: strip_blanks_def dest: set_dropWhileD)

lemma continues_iff:
  "continues l \<longleftrightarrow> CHR ''#'' \<notin> set (content l) \<and> strip_blanks (content l) \<noteq> [] \<and> last (strip_blanks (content l)) = CHR 0x5C"
  by (simp add: continues_def continuation_backslash_def Let_def)

lemma gap_closed:
  assumes "\<not> has_semantic_content l"
  shows "\<not> continues l"
proof
  assume c: "continues l"
  then have "takeWhile (\<lambda>c. c \<noteq> CHR ''#'') (content l) = content l"
    by (intro takeWhile_eq_all_conv[THEN iffD2]) (auto simp: continues_iff)
  then have "semantic l = content l" by (simp add: semantic_def)
  moreover have "CHR 0x5C \<in> set (content l)"
    using c unfolding continues_iff by (metis last_in_set set_strip_blanks)
  ultimately have "\<exists>x \<in> set (semantic l). \<not> blank x" by (intro bexI[of _ "CHR 0x5C"]) (simp_all add: blank_def)
  then show False using assms by (simp add: has_semantic_content_def list_ex_iff)
qed

text \<open>Before a rule the file can be cut.\<close>

lemma rule_from_closed:
  assumes "snd (rule_from l ls) = n # ns" "has_semantic_content n"
  shows "closed (fst (rule_from l ls))"
  using assms
proof (induction l ls rule: rule_from.induct)
  case (2 l m ls)
  show ?case
  proof (cases "continues l \<and> has_semantic_content m")
    case True
    obtain r rest where r: "rule_from m ls = (r, rest)" by force
    then have "closed r" using 2 True by simp
    moreover have "r \<noteq> []" using rule_from_ne(1)[of m ls] r by simp
    ultimately show ?thesis using True r by (simp add: closed_def)
  next
    case False
    then show ?thesis using 2(2,3) by (auto simp: closed_def)
  qed
qed simp

lemma rule_from_joins:
  "continues l \<Longrightarrow> has_semantic_content n \<Longrightarrow> rule_from l (n # ls) = (l # fst (rule_from n ls), snd (rule_from n ls))"
  by (simp add: case_prod_unfold)

lemma rule_from_ends: "\<not> (continues l \<and> has_semantic_content n) \<Longrightarrow> rule_from l (n # ls) = ([l], n # ls)"
  by (simp only: rule_from.simps if_False)

declare rule_from.simps(2) [simp del]

lemma rule_from_prefix:
  "rule_from l ls = (l # r, xs @ ys) \<Longrightarrow> rule_from l (r @ xs) = (l # r, xs)"
proof (induction l ls arbitrary: r rule: rule_from.induct)
  case (1 l)
  then show ?case by simp
next
  case (2 l n ls)
  show ?case
  proof (cases "continues l \<and> has_semantic_content n")
    case True
    then have q: "fst (rule_from n ls) = r" "snd (rule_from n ls) = xs @ ys" using 2(2) rule_from_joins[of l n ls] by simp_all
    then obtain r' where r': "r = n # r'" using rule_from_ne[of n ls] by (cases r) simp_all
    have "rule_from n (r' @ xs) = (n # r', xs)" using 2(1)[OF True, of r'] q r' by (metis prod.collapse)
    then show ?thesis using True r' by (simp add: rule_from_joins)
  next
    case False
    then have "r = []" "xs @ ys = n # ls" using 2(2) rule_from_ends[OF False, of ls] by auto
    then show ?thesis using rule_from_ends[OF False] by (cases xs) simp_all
  qed
qed

lemma pieces_Rule_hd: "pieces ls = Rule r # qs \<Longrightarrow> \<exists>n ns. ls = n # ns \<and> has_semantic_content n"
  by (cases ls) (auto split: if_splits)

lemma pieces_split:
  assumes "pieces ls = ps @ Rule r # qs"
  shows "closed (flat ps) \<and> pieces (flat ps) = ps \<and> pieces (r @ flat qs) = Rule r # qs"
  using assms
proof (induction ls arbitrary: ps rule: pieces.induct)
  case (2 l ls)
  show ?case
  proof (cases ps)
    case Nil
    then show ?thesis using 2(3) flat_pieces[of "l # ls"] by (simp add: closed_def)
  next
    case (Cons p ps')
    show ?thesis
    proof (cases "has_semantic_content l")
      case True
      then have p: "p = Rule (fst (rule_from l ls))" and rest: "pieces (snd (rule_from l ls)) = ps' @ Rule r # qs"
        using 2(3) Cons by auto
      let ?R = "fst (rule_from l ls)"
      note IH = 2(1)[OF True rest]
      obtain r' where r': "?R = l # r'" using rule_from_ne[of l ls] by (cases ?R) auto
      have "snd (rule_from l ls) = flat ps' @ r @ flat qs" using rest flat_pieces by (metis flat_simps(2,3) piece_lines.simps(2))
      then have "rule_from l (r' @ flat ps') = (?R, flat ps')" using rule_from_prefix[of l ls r'] r' by (metis prod.collapse)
      then have "pieces (?R @ flat ps') = p # ps'" using r' True IH p by simp
      moreover have "closed (?R @ flat ps')"
      proof (cases "ps' = []")
        case True
        then show ?thesis using rule_from_closed pieces_Rule_hd rest by (metis append_Nil append_Nil2 flat_simps(1))
      next
        case False
        then have "flat ps' \<noteq> []" using IH by (metis pieces.simps(1))
        then show ?thesis using IH by (simp add: closed_def)
      qed
      ultimately show ?thesis using IH Cons p by simp
    next
      case False
      then have p: "p = Gap l" and rest: "pieces ls = ps' @ Rule r # qs" using 2(3) Cons by auto
      then show ?thesis using 2(2)[OF False rest] Cons gap_closed[OF False] False by (auto simp: closed_def)
    qed
  qed
qed simp

subsection \<open>What an insertion does\<close>

fun piece_text :: "stack_piece \<Rightarrow> string list" where
  "piece_text (Gap _) = []"
| "piece_text (Rule r) = [concat (map line_part r)]"

definition rule_texts :: "string \<Rightarrow> string list" where
  "rule_texts bs = map semantic_rule (logical_rules bs)"

lemma cut_piece: "cut (flat ps) \<Longrightarrow> Rule r \<in> set ps \<Longrightarrow> raw_lines (concat r) = r"
  by (induction ps) (auto simp: cut_append raw_lines_concat)

lemma texts_of_pieces:
  "cut (flat ps) \<Longrightarrow>
   map semantic_rule (List.map_filter (\<lambda>p. case p of Rule r \<Rightarrow> Some (concat r) | Gap _ \<Rightarrow> None) ps) = concat (map piece_text ps)"
proof (induction ps)
  case (Cons p ps)
  then have "cut (flat ps)" by (simp add: cut_append)
  then show ?case using Cons cut_piece[OF Cons.prems]
    by (cases p) (simp_all add: semantic_rule_def List.map_filter_simps)
qed (simp add: List.map_filter_simps)

lemma rule_texts_pieces: "rule_texts bs = concat (map piece_text (pieces (raw_lines bs)))"
  unfolding rule_texts_def logical_rules_def by (rule texts_of_pieces) (simp add: cut_raw_lines)

definition ending :: "string \<Rightarrow> bool" where
  "ending e \<longleftrightarrow> e = [newline] \<or> e = [return, newline]"

lemma ending_for_ok: "ending (ending_for suf bs)"
  by (auto simp: ending_def ending_for_def line_ending_from_def Let_def split: option.splits if_splits)

lemma pam_line_facts:
  assumes "ending e \<or> e = []"
  shows "content (PAM_LINE @ e) = PAM_LINE" "semantic (PAM_LINE @ e) = PAM_LINE" "has_semantic_content (PAM_LINE @ e)"
    "\<not> continues (PAM_LINE @ e)" "line_part (PAM_LINE @ e) = PAM_LINE" "newline \<notin> set (butlast (PAM_LINE @ e))"
proof -
  show c: "content (PAM_LINE @ e) = PAM_LINE" using assms by (auto simp: ending_def content_def PAM_LINE_def)
  then show s: "semantic (PAM_LINE @ e) = PAM_LINE" by (simp add: semantic_def PAM_LINE_def)
  then show "has_semantic_content (PAM_LINE @ e)" by (simp add: has_semantic_content_def PAM_LINE_def blank_def)
  show nc: "\<not> continues (PAM_LINE @ e)" unfolding continues_iff c by (simp add: PAM_LINE_def strip_blanks_def blank_def)
  show "line_part (PAM_LINE @ e) = PAM_LINE" using nc s by (simp add: line_part_def continues_def)
  show "newline \<notin> set (butlast (PAM_LINE @ e))" using assms by (auto simp: ending_def PAM_LINE_def)
qed

lemma inserted_pieces:
  assumes "cut (A @ S)" "closed A" "complete (concat A)" "ending e \<or> e = [] \<and> S = []"
  shows "pieces (raw_lines (concat A @ PAM_LINE @ e @ concat S)) = pieces A @ Rule [PAM_LINE @ e] # pieces S"
proof -
  have e: "ending e \<or> e = []" using assms(4) by blast
  note line = pam_line_facts[OF e]
  have "PAM_LINE \<noteq> []" by (simp add: PAM_LINE_def)
  moreover have "S \<noteq> [] \<Longrightarrow> complete (PAM_LINE @ e)" using assms(4) by (auto simp: complete_def ending_def)
  ultimately have "cut (A @ [PAM_LINE @ e] @ S)" using assms(1,3) line(6) by (auto simp: cut_append cut_Cons)
  from raw_lines_concat[OF this] have "raw_lines (concat A @ PAM_LINE @ e @ concat S) = A @ [PAM_LINE @ e] @ S" by simp
  moreover have "pieces ([PAM_LINE @ e] @ S) = pieces [PAM_LINE @ e] @ pieces S"
    by (rule pieces_append) (simp add: closed_def line)
  ultimately show ?thesis using pieces_append[OF assms(2)] line(3) by simp
qed

lemma header_line:
  assumes "content l = ''#%PAM-1.0''"
  shows "\<not> has_semantic_content l" "\<not> continues l"
  using assms gap_closed[of l] by (simp_all add: has_semantic_content_def semantic_def)

lemma auth_split:
  assumes "list_ex auth_piece ps"
  shows "\<exists>r qs. dropWhile (\<lambda>p. \<not> auth_piece p) ps = Rule r # qs \<and> auth_piece (Rule r)"
  using assms
proof (induction ps)
  case (Cons p ps)
  then show ?case by (cases p) auto
qed simp

lemma header_only: "raw_lines ''#%PAM-1.0'' = [''#%PAM-1.0'']" "pieces [''#%PAM-1.0''] = [Gap ''#%PAM-1.0'']"
  by (simp_all add: has_semantic_content_def semantic_def content_def)

text \<open>Where the rule goes.\<close>

lemma insertion_point:
  obtains A S e where "with_facelock_inserted bs = concat A @ PAM_LINE @ e @ concat S" "cut (A @ S)" "closed A"
    "complete (concat A)" "ending e \<or> e = [] \<and> S = []"
    "concat (A @ S) = (if bs = ''#%PAM-1.0'' then bs @ [newline] else bs)"
    "\<not> list_ex auth_piece (pieces A)"
    "(\<exists>r qs. pieces S = Rule r # qs \<and> auth_piece (Rule r)) \<or>
     \<not> list_ex auth_piece (pieces (raw_lines bs)) \<and> concat (map piece_text (pieces A)) = []"
proof (cases "list_ex auth_piece (pieces (raw_lines bs))")
  case True
  let ?ps = "takeWhile (\<lambda>p. \<not> auth_piece p) (pieces (raw_lines bs))"
  obtain r qs where q: "dropWhile (\<lambda>p. \<not> auth_piece p) (pieces (raw_lines bs)) = Rule r # qs" "auth_piece (Rule r)"
    using auth_split[OF True] by blast
  then have ps: "pieces (raw_lines bs) = ?ps @ Rule r # qs" by (metis takeWhile_dropWhile_id)
  then have lines: "raw_lines bs = flat ?ps @ r @ flat qs" by (metis flat_pieces flat_simps(2,3) piece_lines.simps(2))
  note cuts = pieces_split[OF ps]
  have "r @ flat qs \<noteq> []" using cuts by (metis list.distinct(1) pieces.simps(1))
  moreover have "cut (flat ?ps @ r @ flat qs)" using cut_raw_lines[of bs] lines by simp
  ultimately have whole: "cut (flat ?ps @ (r @ flat qs))" "complete (concat (flat ?ps))" by (auto simp: cut_append)
  have bs: "concat (flat ?ps @ (r @ flat qs)) = bs" using lines concat_raw_lines[of bs] by simp
  have "bs \<noteq> ''#%PAM-1.0''" using True header_only by auto
  moreover have "with_facelock_inserted bs = concat (flat ?ps) @ PAM_LINE @ ending_for (concat (r @ flat qs)) bs @ concat (r @ flat qs)"
    using True q by (simp add: with_facelock_inserted_def split_at_auth_def Let_def)
  moreover have "\<not> list_ex auth_piece ?ps" by (auto simp: list_ex_iff dest: set_takeWhileD)
  ultimately show thesis using that[OF _ whole(1) _ whole(2)] cuts q(2) bs ending_for_ok by metis
next
  case False
  then have none: "split_at_auth bs = None" by (simp add: split_at_auth_def Let_def)
  let ?e = "ending_for bs bs"
  show thesis
  proof (cases "split_at_header bs")
    case None
    then have h: "bs \<noteq> ''#%PAM-1.0''" using header_only by (auto simp: split_at_header_def content_def)
    have "cut ([] @ raw_lines bs)" using cut_raw_lines by simp
    moreover have "with_facelock_inserted bs = concat [] @ PAM_LINE @ (if bs = [] then [] else ?e) @ concat (raw_lines bs)"
      using none None by (simp add: with_facelock_inserted_def Let_def)
    moreover have "ending (if bs = [] then [] else ?e) \<or> (if bs = [] then [] else ?e) = [] \<and> raw_lines bs = []"
      using ending_for_ok by simp
    ultimately show thesis using that[of "[]" "if bs = [] then [] else ?e" "raw_lines bs"] False h
      by (simp add: closed_def complete_def)
  next
    case (Some p)
    then obtain l ls where l: "raw_lines bs = l # ls" "content l = ''#%PAM-1.0''" "p = (l, concat ls)"
      by (auto simp: split_at_header_def split: list.splits if_splits)
    have c: "cut (l # ls)" using cut_raw_lines[of bs] l(1) by simp
    have bs: "bs = l @ concat ls" using concat_raw_lines[of bs] l(1) by simp
    note gap = header_line[OF l(2)]
    show thesis
    proof (cases "concat ls = [] \<and> last l \<noteq> newline")
      case True
      then have "ls = []" using c by (cases ls) (auto simp: cut_Cons)
      moreover have "l = ''#%PAM-1.0''" using l(2) True by (simp add: content_def split: if_splits)
      ultimately have "bs = ''#%PAM-1.0''" using bs by simp
      then have "with_facelock_inserted bs = concat [bs @ [newline]] @ PAM_LINE @ [] @ concat []"
        using none Some l True \<open>l = _\<close>
        by (simp add: with_facelock_inserted_def Let_def ending_for_def line_ending_from_def)
      then show thesis using that[of "[bs @ [newline]]" "[]" "[]"] \<open>bs = ''#%PAM-1.0''\<close> False header_line[of "bs @ [newline]"]
        by (simp add: closed_def complete_def cut_Cons cut_def content_def)
    next
      case False': False
      have "bs \<noteq> ''#%PAM-1.0''" using False' l(1) bs header_only by auto
      moreover have "complete l" using c False' by (cases ls) (auto simp: cut_Cons complete_def)
      moreover have "with_facelock_inserted bs = concat [l] @ PAM_LINE @ ?e @ concat ls"
        unfolding with_facelock_inserted_def Let_def none Some l(3) option.case prod.case if_not_P[OF False'] by simp
      ultimately show thesis using that[of "[l]" ?e ls] False gap c bs ending_for_ok by (simp add: closed_def)
    qed
  qed
qed

lemma auth_texts: "cut (flat ps) \<Longrightarrow> list_ex names_auth (concat (map piece_text ps)) \<longleftrightarrow> list_ex auth_piece ps"
proof (induction ps)
  case (Cons p ps)
  then have "cut (flat ps)" by (simp add: cut_append)
  then show ?case using Cons cut_piece[OF Cons.prems] by (cases p) (simp_all add: is_auth_rule_def semantic_rule_def)
qed simp

lemma rule_texts_concat: "cut ls \<Longrightarrow> rule_texts (concat ls) = concat (map piece_text (pieces ls))"
  by (simp add: rule_texts_pieces raw_lines_concat)

lemma header_texts: "rule_texts (''#%PAM-1.0'' @ [newline]) = rule_texts ''#%PAM-1.0''"
  by (simp add: rule_texts_pieces has_semantic_content_def semantic_def content_def)

text \<open>C13: adding the facelock rule to a PAM service file adds exactly that rule. Whatever the file holds,
  the rules Linux-PAM assembles from the edited file are those of the original in their order, with the one
  facelock rule in front of the first auth rule, or in front of all of them when there is none: no
  administrator rule is joined, split, reordered or lost, with any line endings and continuations.\<close>

theorem insertion_adds_one_rule:
  "\<exists>before after. rule_texts bs = before @ after \<and> rule_texts (with_facelock_inserted bs) = before @ PAM_LINE # after \<and>
     \<not> list_ex names_auth before \<and> (if list_ex names_auth after then names_auth (hd after) else before = [])"
proof -
  obtain A S e where new: "with_facelock_inserted bs = concat A @ PAM_LINE @ e @ concat S"
    and ok: "cut (A @ S)" "closed A" "complete (concat A)" "ending e \<or> e = [] \<and> S = []"
    and old: "concat (A @ S) = (if bs = ''#%PAM-1.0'' then bs @ [newline] else bs)"
    and front: "\<not> list_ex auth_piece (pieces A)"
    and place: "(\<exists>r qs. pieces S = Rule r # qs \<and> auth_piece (Rule r)) \<or>
       \<not> list_ex auth_piece (pieces (raw_lines bs)) \<and> concat (map piece_text (pieces A)) = []"
    by (rule insertion_point)
  let ?before = "concat (map piece_text (pieces A))" and ?after = "concat (map piece_text (pieces S))"
  have "rule_texts (with_facelock_inserted bs) = ?before @ PAM_LINE # ?after"
    using inserted_pieces[OF ok] pam_line_facts(5)[of e] ok(4) by (auto simp: new rule_texts_pieces)
  moreover have "rule_texts (concat (A @ S)) = ?before @ ?after"
    using rule_texts_concat[OF ok(1)] pieces_append[OF ok(2)] by simp
  then have "rule_texts bs = ?before @ ?after" using old header_texts by (cases "bs = ''#%PAM-1.0''") simp_all
  moreover have parts: "cut (flat (pieces A))" "cut (flat (pieces S))" using ok(1) by (simp_all add: cut_append)
  moreover have "if list_ex names_auth ?after then names_auth (hd ?after) else ?before = []"
    using place
  proof
    assume "\<exists>r qs. pieces S = Rule r # qs \<and> auth_piece (Rule r)"
    then obtain r qs where r: "pieces S = Rule r # qs" "auth_piece (Rule r)" by blast
    then have "names_auth (hd ?after)"
      using cut_piece[OF parts(2), of r] by (simp add: is_auth_rule_def semantic_rule_def)
    then show ?thesis using r by simp
  next
    assume none: "\<not> list_ex auth_piece (pieces (raw_lines bs)) \<and> ?before = []"
    then have "\<not> list_ex names_auth (rule_texts bs)"
      using auth_texts[of "pieces (raw_lines bs)"] cut_raw_lines by (simp add: rule_texts_pieces)
    then show ?thesis using none \<open>rule_texts bs = ?before @ ?after\<close> by simp
  qed
  ultimately show ?thesis using auth_texts[OF parts(1)] front by blast
qed

subsection \<open>What a removal does\<close>

text \<open>A rule names the module exactly when one of its lines does: lines are joined with a space.\<close>

definition mentions :: "string \<Rightarrow> bool" where
  "mentions l = contains (line_part l) ''pam_facelock.so''"

fun facelock_piece :: "stack_piece \<Rightarrow> bool" where
  "facelock_piece (Gap _) = False"
| "facelock_piece (Rule r) = is_facelock_rule (concat r)"

fun chained :: "string list \<Rightarrow> bool" where
  "chained [] = True"
| "chained [l] = True"
| "chained (l # ls) \<longleftrightarrow> continues l \<and> chained ls"

lemma rule_from_chained: "chained (fst (rule_from l ls))"
proof (induction l ls rule: rule_from.induct)
  case (2 l n ls)
  show ?case
  proof (cases "continues l \<and> has_semantic_content n")
    case True
    then have "fst (rule_from l (n # ls)) = l # fst (rule_from n ls)" by (simp add: rule_from_joins)
    then show ?thesis using 2[OF True] True by (cases "fst (rule_from n ls)") simp_all
  next
    case False
    show ?thesis unfolding rule_from_ends[OF False] by simp
  qed
qed simp

lemma pieces_chained: "Rule r \<in> set (pieces ls) \<Longrightarrow> chained r"
  by (induction ls rule: pieces.induct) (auto simp: rule_from_chained split: if_splits)

lemma sublist_joined: "c \<notin> set p \<Longrightarrow> sublist p (xs @ c # ys) \<longleftrightarrow> sublist p xs \<or> sublist p ys"
proof
  assume c: "c \<notin> set p" and "sublist p (xs @ c # ys)"
  then consider "sublist p xs" | "sublist p (c # ys)" | p1 p2 where "p = p1 @ p2" "suffix p1 xs" "prefix p2 (c # ys)"
    by (auto simp: sublist_append)
  then show "sublist p xs \<or> sublist p ys"
  proof cases
    case 2
    then show ?thesis using c by (auto simp: sublist_Cons_right prefix_Cons)
  next
    case 3
    then have "p2 = []" using c by (cases p2) auto
    then show ?thesis using 3 by (simp add: suffix_imp_sublist)
  qed simp
next
  assume "sublist p xs \<or> sublist p ys"
  then show "sublist p (xs @ c # ys)" by (auto simp: sublist_append sublist_Cons_right)
qed

lemma chained_mentions: "chained r \<Longrightarrow> contains (concat (map line_part r)) ''pam_facelock.so'' \<longleftrightarrow> list_ex mentions r"
proof (induction r rule: chained.induct)
  case (3 l m ls)
  obtain k where "continuation_backslash l = Some k" using 3(2) by (auto simp: continues_def)
  then have part: "line_part l = take k (semantic l) @ '' ''" by (simp add: line_part_def)
  let ?p = "''pam_facelock.so''"
  have c: "CHR '' '' \<notin> set ?p" by simp
  have "sublist ?p (line_part l @ concat (map line_part (m # ls))) \<longleftrightarrow>
      sublist ?p (take k (semantic l)) \<or> sublist ?p (concat (map line_part (m # ls)))"
    using sublist_joined[OF c, of "take k (semantic l)" "concat (map line_part (m # ls))"] part by simp
  moreover have "mentions l \<longleftrightarrow> sublist ?p (take k (semantic l))"
    using sublist_joined[OF c, of "take k (semantic l)" "[]"] part by (simp add: mentions_def)
  ultimately show ?case using 3 by simp
qed (simp_all add: mentions_def)

lemma gap_silent: "\<not> has_semantic_content l \<Longrightarrow> \<not> mentions l"
proof
  assume gap: "\<not> has_semantic_content l" and m: "mentions l"
  have "line_part l = semantic l" using gap_closed[OF gap] by (simp add: line_part_def continues_def)
  then have "set ''pam_facelock.so'' \<subseteq> set (semantic l)" using m set_mono_sublist unfolding mentions_def by metis
  then have "CHR ''p'' \<in> set (semantic l)" by simp
  then have "\<exists>x \<in> set (semantic l). \<not> blank x" by (intro bexI[of _ "CHR ''p''"]) (simp_all add: blank_def)
  then show False using gap by (simp add: has_semantic_content_def list_ex_iff)
qed

lemma facelock_pieces:
  assumes "cut (flat ps)" "\<And>r. Rule r \<in> set ps \<Longrightarrow> chained r" "p \<in> set ps" "p = Rule r"
  shows "facelock_piece p \<longleftrightarrow> list_ex mentions r"
  using assms cut_piece[OF assms(1), of r] chained_mentions[of r] by (simp add: is_facelock_rule_def semantic_rule_def)

lemma has_facelock_pieces: "has_facelock_rule bs \<longleftrightarrow> list_ex facelock_piece (pieces (raw_lines bs))"
proof -
  have "list_ex is_facelock_rule (List.map_filter (\<lambda>p. case p of Rule r \<Rightarrow> Some (concat r) | Gap _ \<Rightarrow> None) ps) \<longleftrightarrow>
      list_ex facelock_piece ps" for ps
  proof (induction ps)
    case (Cons p ps)
    then show ?case by (cases p) (simp_all add: List.map_filter_simps)
  qed (simp add: List.map_filter_simps)
  then show ?thesis by (simp add: has_facelock_rule_def logical_rules_def)
qed

lemma pieces_gap: "Gap l \<in> set (pieces ls) \<Longrightarrow> \<not> has_semantic_content l"
  by (induction ls rule: pieces.induct) (auto split: if_splits)

text \<open>A file names the module exactly when one of its lines does.\<close>

lemma has_facelock_lines: "cut ls \<Longrightarrow> list_ex facelock_piece (pieces ls) \<longleftrightarrow> list_ex mentions ls"
proof -
  assume c: "cut ls"
  have "facelock_piece p \<longleftrightarrow> list_ex mentions (piece_lines p)" if "p \<in> set (pieces ls)" for p
  proof (cases p)
    case (Gap l)
    then show ?thesis using that pieces_gap gap_silent by fastforce
  next
    case (Rule r)
    have "cut (flat (pieces ls))" using c by simp
    then show ?thesis using facelock_pieces[OF _ pieces_chained that Rule] Rule by simp
  qed
  then have "list_ex facelock_piece (pieces ls) \<longleftrightarrow> list_ex mentions (flat (pieces ls))"
    by (auto simp: list_ex_iff flat_def)
  then show ?thesis by simp
qed

lemma kept_untouched: "\<not> list_ex facelock_piece ps \<Longrightarrow> concat (map kept_lines ps) = flat ps"
proof (induction ps)
  case (Cons p ps)
  then show ?case by (cases p) simp_all
qed simp

lemma pam_line_mentions: "ending e \<or> e = [] \<Longrightarrow> mentions (PAM_LINE @ e)"
  using pam_line_facts(5)[of e] by (simp add: mentions_def PAM_LINE_def sublist_Cons_right)

lemma pam_line_rule:
  assumes "ending e \<or> e = []"
  shows "is_facelock_rule (PAM_LINE @ e)"
proof -
  have "PAM_LINE @ e \<noteq> []" by (simp add: PAM_LINE_def)
  from raw_lines_single[OF this pam_line_facts(6)[OF assms]] show ?thesis
    using pam_line_mentions[OF assms] by (simp add: is_facelock_rule_def semantic_rule_def mentions_def)
qed

text \<open>C12: removal undoes insertion. From a file that does not name the module, adding the rule and removing it gives back
  the file byte for byte; only a lone header without a line ending comes back with one.\<close>

theorem removal_undoes_insertion:
  assumes "\<not> has_facelock_rule bs"
  shows "with_facelock_removed (with_facelock_inserted bs) = (if bs = ''#%PAM-1.0'' then bs @ [newline] else bs)"
proof -
  obtain A S e where new: "with_facelock_inserted bs = concat A @ PAM_LINE @ e @ concat S"
    and ok: "cut (A @ S)" "closed A" "complete (concat A)" "ending e \<or> e = [] \<and> S = []"
    and old: "concat (A @ S) = (if bs = ''#%PAM-1.0'' then bs @ [newline] else bs)"
    by (rule insertion_point)
  have "\<not> list_ex facelock_piece (pieces (A @ S))"
  proof (cases "bs = ''#%PAM-1.0''")
    case True
    then have "raw_lines (bs @ [newline]) = A @ S" using old raw_lines_concat[OF ok(1)] by simp
    then have "A @ S = [''#%PAM-1.0'' @ [newline]]" using True by simp
    moreover have "\<not> has_semantic_content (''#%PAM-1.0'' @ [newline])" by (rule header_line) (simp add: content_def)
    ultimately show ?thesis by simp
  next
    case False
    then have "raw_lines bs = A @ S" using old raw_lines_concat[OF ok(1)] by simp
    then show ?thesis using assms by (simp add: has_facelock_pieces)
  qed
  then have none: "\<not> list_ex facelock_piece (pieces A)" "\<not> list_ex facelock_piece (pieces S)"
    using pieces_append[OF ok(2), of S] by simp_all
  have "repaired_rule [PAM_LINE @ e] = []" by (simp add: repaired_rule_def)
  moreover have "is_facelock_rule (PAM_LINE @ e)" using ok(4) pam_line_rule by blast
  ultimately show ?thesis using none old unfolding new with_facelock_removed_def inserted_pieces[OF ok]
    by (simp add: kept_untouched)
qed

lemma rule_from_stops:
  assumes "rule_from l ls = (l # r, rest)" "closed (l # r) \<or> X = [] \<or> \<not> has_semantic_content (hd X)"
  shows "rule_from l (r @ X) = (l # r, X)"
  using assms
proof (induction l ls arbitrary: r rule: rule_from.induct)
  case (1 l)
  then show ?case by (cases X) (auto simp: closed_def intro: rule_from_ends)
next
  case (2 l n ls)
  show ?case
  proof (cases "continues l \<and> has_semantic_content n")
    case True
    then have q: "fst (rule_from n ls) = r" "snd (rule_from n ls) = rest" using 2(2) rule_from_joins[of l n ls] by simp_all
    then obtain r' where r': "r = n # r'" using rule_from_ne[of n ls] by (cases r) simp_all
    moreover have "closed (n # r') \<or> X = [] \<or> \<not> has_semantic_content (hd X)" using 2(3) r' by (simp add: closed_def)
    ultimately have "rule_from n (r' @ X) = (n # r', X)" using 2(1)[OF True, of r'] q by (metis prod.collapse)
    then show ?thesis using True r' by (simp add: rule_from_joins)
  next
    case False
    then have "r = []" using 2(2) rule_from_ends[OF False, of ls] by simp
    then show ?thesis using 2(3) by (cases X) (auto simp: closed_def intro: rule_from_ends)
  qed
qed

text \<open>Whole rules can be left out without disturbing the others.\<close>

lemma pieces_filter:
  assumes "\<And>l. keep (Gap l)"
  shows "pieces (flat (filter keep (pieces ls))) = filter keep (pieces ls)"
proof (induction ls rule: pieces.induct)
  case (2 l ls)
  show ?case
  proof (cases "has_semantic_content l")
    case True
    let ?r = "fst (rule_from l ls)" and ?rest = "snd (rule_from l ls)"
    let ?X = "flat (filter keep (pieces ?rest))"
    obtain r' where r': "?r = l # r'" using rule_from_ne[of l ls] by (cases ?r) simp_all
    have "closed (l # r') \<or> ?X = [] \<or> \<not> has_semantic_content (hd ?X)"
    proof (cases ?rest)
      case (Cons n ns)
      then show ?thesis using rule_from_closed[OF Cons] r' assms by (cases "has_semantic_content n") simp_all
    qed simp
    then have "rule_from l (r' @ ?X) = (l # r', ?X)" using rule_from_stops[of l ls r' ?rest ?X] r' by (metis prod.collapse)
    then show ?thesis using True r' 2(1)[OF True] by simp
  next
    case False
    then show ?thesis using 2(2) assms by simp
  qed
qed simp

lemma cut_filter: "cut (flat ps) \<Longrightarrow> cut (flat (filter keep ps))"
proof (induction ps)
  case (Cons p ps)
  have "set (flat (filter keep ps)) \<subseteq> set (flat ps)" by (auto simp: flat_def)
  then show ?case using Cons by (auto simp: cut_append)
qed simp

text \<open>Removal takes out exactly the facelock rules. In a file without injected lines, the rules that Linux-PAM
  assembles after the removal are those of the original that do not name the module, unchanged and in order.\<close>

theorem removal_keeps_other_rules:
  assumes "\<And>r. Rule r \<in> set (pieces (raw_lines bs)) \<Longrightarrow> \<not> list_ex id (injected False r)"
  shows "rule_texts (with_facelock_removed bs) = filter (\<lambda>t. \<not> contains t ''pam_facelock.so'') (rule_texts bs) \<and>
    \<not> has_facelock_rule (with_facelock_removed bs)"
proof -
  let ?ps = "pieces (raw_lines bs)" and ?keep = "\<lambda>p. \<not> facelock_piece p"
  have "concat (map kept_lines ps) = flat (filter ?keep ps)"
    if "\<And>r. Rule r \<in> set ps \<Longrightarrow> \<not> list_ex id (injected False r)" for ps
    using that
  proof (induction ps)
    case (Cons p ps)
    then show ?case by (cases p) (auto simp: repaired_rule_def Let_def id_def)
  qed simp
  then have lines: "with_facelock_removed bs = concat (flat (filter ?keep ?ps))"
    using assms by (simp add: with_facelock_removed_def)
  have c: "cut (flat ?ps)" by (simp add: cut_raw_lines)
  have p: "pieces (raw_lines (with_facelock_removed bs)) = filter ?keep ?ps"
    unfolding lines raw_lines_concat[OF cut_filter[OF c]] by (rule pieces_filter) simp
  have "concat (map piece_text (filter ?keep ps)) = filter (\<lambda>t. \<not> contains t ''pam_facelock.so'') (concat (map piece_text ps))"
    if "cut (flat ps)" for ps
    using that
  proof (induction ps)
    case (Cons q ps)
    then have "cut (flat ps)" by (simp add: cut_append)
    then show ?case using Cons cut_piece[OF Cons.prems] by (cases q) (auto simp: is_facelock_rule_def semantic_rule_def)
  qed simp
  from this[OF c] show ?thesis by (simp add: rule_texts_pieces p has_facelock_pieces list_ex_iff)
qed

lemma rule_from_joined:
  assumes "rule_from l r = (l # r, [])" "continues (last (l # r))" "has_semantic_content m" "\<not> continues m"
  shows "rule_from l (r @ m # ls) = (l # r @ [m], ls)"
  using assms
proof (induction r arbitrary: l)
  case Nil
  have "rule_from m ls = ([m], ls)" using Nil(4) by (cases ls) (auto intro: rule_from_ends)
  then show ?case using Nil by (simp add: rule_from_joins)
next
  case (Cons n r)
  have joins: "continues l \<and> has_semantic_content n"
  proof (rule ccontr)
    assume "\<not> (continues l \<and> has_semantic_content n)"
    from rule_from_ends[OF this, of r] show False using Cons.prems(1) by simp
  qed
  then have "rule_from n r = (n # r, [])" using Cons.prems(1) rule_from_joins[of l n r] by (metis fst_conv list.inject prod.collapse snd_conv)
  then show ?case using Cons joins by (simp add: rule_from_joins)
qed

lemma injected_append: "injected b (xs @ [m]) = injected b xs @ [(if xs = [] then b else continues (last xs)) \<and> content m = PAM_LINE]"
  by (induction xs arbitrary: b) auto

lemma injected_length [simp]: "length (injected b xs) = length xs"
  by (induction xs arbitrary: b) auto

lemma content_mentions: "content l = PAM_LINE \<Longrightarrow> mentions l"
proof -
  assume c: "content l = PAM_LINE"
  then have "semantic l = PAM_LINE" "\<not> continues l"
    by (simp_all add: semantic_def continues_iff PAM_LINE_def strip_blanks_def blank_def)
  then show "mentions l" by (simp add: mentions_def line_part_def continues_def PAM_LINE_def sublist_Cons_right)
qed

lemma injected_silent: "\<not> list_ex mentions r \<Longrightarrow> injected b r = replicate (length r) False"
  by (induction r arbitrary: b) (auto dest: content_mentions)

lemma repaired_injection:
  assumes "\<not> list_ex mentions r" "r \<noteq> []" "continues (last r)" "content m = PAM_LINE"
  shows "repaired_rule (r @ [m]) = r"
  using assms injected_silent[OF assms(1), of False]
  by (simp add: repaired_rule_def Let_def injected_append zip_append filter_True zip_replicate2 comp_def)

text \<open>Removal repairs a rule that was torn apart. Earlier releases could put the canonical line behind a line
  that continues. From a file that does not name the module, with the line injected behind any continued line,
  removal restores the original bytes and with them the administrator's rule.\<close>

theorem removal_repairs_injection:
  assumes "bs = concat A @ concat B" and "raw_lines bs = A @ B" and "\<not> has_facelock_rule bs"
    and "A \<noteq> []" "B \<noteq> []" "continues (last A)" and "ending e"
  shows "with_facelock_removed (concat A @ PAM_LINE @ e @ concat B) = bs"
proof -
  have c: "cut (A @ B)" using cut_raw_lines[of bs] assms(2) by simp
  let ?P = "PAM_LINE @ e"
  have e: "ending e \<or> e = []" using assms(7) by simp
  note P = pam_line_facts[OF e]
  have silent: "\<not> list_ex mentions A" "\<not> list_ex mentions B"
    using assms(2,3) has_facelock_lines[OF c] by (simp_all add: has_facelock_pieces)
  have "complete ?P" using assms(7) by (auto simp: ending_def complete_def)
  then have "cut (A @ [?P] @ B)" using c P(6) assms(5) by (auto simp: cut_append cut_Cons PAM_LINE_def)
  from raw_lines_concat[OF this] have lines: "raw_lines (concat A @ PAM_LINE @ e @ concat B) = A @ [?P] @ B" by simp
  have "pieces A \<noteq> []" using assms(4) by (metis flat_pieces flat_simps(1))
  then obtain ps q where ps: "pieces A = ps @ [q]" by (metis rev_exhaust)
  have A: "A = flat ps @ piece_lines q" using flat_pieces[of A] ps by simp
  obtain r where r: "q = Rule r"
  proof (cases q)
    case (Gap l)
    then have "\<not> continues (last A)" using A ps pieces_gap[of l A] gap_closed by simp
    then show thesis using assms(6) by simp
  qed
  note cuts = pieces_split[of A ps r "[]", simplified, OF ps[unfolded r]]
  obtain l r' where l: "r = l # r'" "has_semantic_content l" using pieces_Rule_hd cuts by blast
  then have run: "rule_from l r' = (l # r', [])" using cuts flat_pieces[of "snd (rule_from l r')"]
    by (cases "rule_from l r'") (auto simp: split: if_splits)
  have last: "continues (last r)" using assms(6) A r l(1) by simp
  have "rule_from l (r' @ ?P # B) = (r @ [?P], B)" using rule_from_joined[OF run _ P(3,4)] last l(1) by simp
  then have new: "pieces (A @ [?P] @ B) = ps @ Rule (r @ [?P]) # pieces B"
    using A r l pieces_append[of "flat ps" "r @ [?P] @ B"] cuts by simp
  have "facelock_piece (Rule (r @ [?P])) \<longleftrightarrow> list_ex mentions (r @ [?P])"
    using facelock_pieces[of "pieces (A @ [?P] @ B)" "Rule (r @ [?P])"] new pieces_chained \<open>cut (A @ [?P] @ B)\<close> by simp
  then have "kept_lines (Rule (r @ [?P])) = r"
    using repaired_injection[of r ?P] silent(1) A r l(1) last P(1) pam_line_mentions[OF e] by simp
  moreover have "cut (flat ps)" "cut B" "\<not> list_ex mentions (flat ps)" using c A silent(1) by (simp_all add: cut_append)
  then have "concat (map kept_lines ps) = flat ps" "concat (map kept_lines (pieces B)) = B"
    using kept_untouched[of ps] kept_untouched[of "pieces B"] has_facelock_lines[of "flat ps"] has_facelock_lines[of B] cuts silent(2)
    by simp_all
  ultimately show ?thesis using A r assms(1) unfolding with_facelock_removed_def lines new by simp
qed

subsection \<open>Machine-wide removal\<close>

lemma strip_blanks_split: "\<exists>bl. s = strip_blanks s @ bl \<and> list_all blank bl"
proof -
  let ?bl = "rev (takeWhile blank (rev s))"
  have "s = rev (takeWhile blank (rev s) @ dropWhile blank (rev s))" by simp
  then have "s = strip_blanks s @ ?bl" unfolding strip_blanks_def rev_append .
  moreover have "list_all blank ?bl" by (auto simp: list_all_iff dest: set_takeWhileD)
  ultimately show ?thesis by blast
qed

lemma semantic_mentions: "contains (semantic l) ''pam_facelock.so'' \<longleftrightarrow> mentions l"
proof (cases "continuation_backslash l")
  case None
  then show ?thesis by (simp add: mentions_def line_part_def)
next
  case (Some k)
  let ?p = "''pam_facelock.so''"
  define s where "s = strip_blanks (content l)"
  have hash: "CHR ''#'' \<notin> set (content l)" and s: "s \<noteq> []" "last s = CHR 0x5C" "k = length s - 1"
    using Some by (auto simp: continuation_backslash_def Let_def s_def split: if_splits)
  have sem: "semantic l = content l" using hash unfolding semantic_def by (intro takeWhile_eq_all_conv[THEN iffD2]) auto
  obtain bl where bl: "content l = s @ bl" "list_all blank bl" using strip_blanks_split[of "content l"] s_def by blast
  obtain t where t: "s = t @ [CHR 0x5C]" using s(1,2) by (metis append_butlast_last_id)
  have "\<not> sublist ?p bl"
  proof
    assume "sublist ?p bl"
    then have "set ?p \<subseteq> set bl" by (rule set_mono_sublist)
    then have "blank (CHR ''p'')" using bl(2) by (simp add: list_all_iff)
    then show False by (simp add: blank_def)
  qed
  then have "sublist ?p (semantic l) \<longleftrightarrow> sublist ?p t"
    unfolding sem bl(1) t using sublist_joined[of "CHR 0x5C" ?p t bl] by simp
  moreover have "take k (semantic l) = t" unfolding sem s(3) bl(1) t by simp
  ultimately show ?thesis using Some sublist_joined[of "CHR '' ''" ?p t "[]"] by (simp add: mentions_def line_part_def)
qed

lemma canonical_closed: "content l = PAM_LINE \<Longrightarrow> \<not> continues l"
  by (simp add: continues_iff PAM_LINE_def strip_blanks_def blank_def)

text \<open>In a facelock rule whose mentions are canonical, removal takes out just the canonical line.\<close>

lemma exact_rule_kept:
  assumes "chained r" "r \<noteq> []" "list_ex mentions r" "list_all (\<lambda>l. mentions l \<longrightarrow> content l = PAM_LINE) r"
  shows "repaired_rule r = filter (\<lambda>l. content l \<noteq> PAM_LINE) r"
proof -
  obtain xs m where r: "r = xs @ [m]" using assms(2) by (metis rev_exhaust)
  have "continues x" if "x \<in> set xs" for x
    using assms(1) that unfolding r
  proof (induction xs)
    case (Cons y ys)
    then show ?case by (cases ys) auto
  qed simp
  then have silent: "\<not> list_ex mentions xs" using assms(4) canonical_closed r by (auto simp: list_all_iff list_ex_iff)
  then have m: "content m = PAM_LINE" using assms(3,4) r by simp
  have other: "filter (\<lambda>l. content l \<noteq> PAM_LINE) r = xs"
    using silent m r content_mentions by (auto simp: list_ex_iff intro!: filter_True)
  show ?thesis
  proof (cases "xs = []")
    case True
    then show ?thesis using r m by (simp add: repaired_rule_def)
  next
    case False
    then have "continues (last xs)" using \<open>\<And>x. x \<in> set xs \<Longrightarrow> continues x\<close> by simp
    from repaired_injection[OF silent False this m] show ?thesis using r other by simp
  qed
qed

lemma pieces_ne: "Rule r \<in> set (pieces ls) \<Longrightarrow> r \<noteq> []"
proof (induction ls rule: pieces.induct)
  case (2 l ls)
  then show ?case using rule_from_ne(1)[of l ls] by (cases "r = fst (rule_from l ls)") (auto split: if_splits)
qed simp

lemma cut_filter_lines: "cut ls \<Longrightarrow> cut (filter P ls)"
proof (induction ls)
  case (Cons l ls)
  then show ?case by (cases "ls = []") (auto simp: cut_Cons)
qed simp

text \<open>C14: machine-wide removal takes out only lines that facelock wrote. Where it is allowed to act without
  being asked about a service, it deletes exactly the physical lines that are the canonical line and keeps
  every other byte of the file; afterwards the file does not name the module.\<close>

theorem legacy_cleanup_exact:
  assumes "has_only_exact_legacy_facelock_rules bs"
  shows "with_facelock_removed bs = concat (filter (\<lambda>l. content l \<noteq> PAM_LINE) (raw_lines bs)) \<and>
    (\<exists>l \<in> set (raw_lines bs). content l = PAM_LINE) \<and> \<not> has_facelock_rule (with_facelock_removed bs)"
proof -
  let ?ps = "pieces (raw_lines bs)" and ?other = "\<lambda>l. content l \<noteq> PAM_LINE"
  have c: "cut (flat ?ps)" by (simp add: cut_raw_lines)
  have exact: "list_ex mentions r \<and> list_all (\<lambda>l. mentions l \<longrightarrow> content l = PAM_LINE) r"
    if "Rule r \<in> set ?ps" "is_facelock_rule (concat r)" for r
  proof -
    have "concat r \<in> set (logical_rules bs)" using that(1)
      by (force simp: logical_rules_def List.map_filter_def image_iff)
    then have "only_exact (raw_lines (concat r))" using assms that(2)
      by (auto simp: has_only_exact_legacy_facelock_rules_def Let_def list_all_iff)
    then show ?thesis using cut_piece[OF c that(1)] by (simp add: only_exact_def semantic_mentions)
  qed
  have "kept_lines p = filter ?other (piece_lines p)" if p: "p \<in> set ?ps" for p
  proof (cases p)
    case (Gap l)
    then show ?thesis using p pieces_gap[of l "raw_lines bs"] gap_silent content_mentions by auto
  next
    case (Rule r)
    have r: "chained r" "r \<noteq> []" using p Rule pieces_chained pieces_ne by auto
    show ?thesis
    proof (cases "is_facelock_rule (concat r)")
      case True
      then show ?thesis using exact_rule_kept[OF r] exact[of r] p Rule by simp
    next
      case False
      then have "\<not> list_ex mentions r" using facelock_pieces[OF c pieces_chained p Rule] Rule by simp
      then show ?thesis using Rule False content_mentions by (auto simp: list_ex_iff intro!: filter_True[symmetric])
    qed
  qed
  then have "concat (map kept_lines ?ps) = filter ?other (flat ?ps)"
    unfolding flat_def filter_concat map_map by (intro arg_cong[of _ _ concat] map_cong) auto
  then have removed: "with_facelock_removed bs = concat (filter ?other (raw_lines bs))"
    by (simp add: with_facelock_removed_def)
  have whole: "mentions l \<Longrightarrow> content l = PAM_LINE" if l: "l \<in> set (raw_lines bs)" for l
  proof -
    assume m: "mentions l"
    have "l \<in> set (flat ?ps)" using l by simp
    then obtain p where p: "p \<in> set ?ps" "l \<in> set (piece_lines p)" by (auto simp: flat_def)
    have "p \<noteq> Gap l" using m gap_silent[of l] pieces_gap[of l "raw_lines bs"] p(1) by blast
    then obtain r where r: "p = Rule r" "l \<in> set r" using p(2) by (cases p) auto
    then have "is_facelock_rule (concat r)"
      using facelock_pieces[OF c pieces_chained p(1) r(1)] m by (auto simp: list_ex_iff)
    then show "content l = PAM_LINE" using exact[of r] p r m by (auto simp: list_all_iff)
  qed
  have "\<not> has_facelock_rule (with_facelock_removed bs)"
    using has_facelock_lines[OF cut_filter_lines[OF cut_raw_lines]] whole
    unfolding removed has_facelock_pieces raw_lines_concat[OF cut_filter_lines[OF cut_raw_lines]] by (auto simp: list_ex_iff)
  moreover have "list_ex mentions (raw_lines bs)"
    using assms has_facelock_lines[OF cut_raw_lines, of bs]
    unfolding has_facelock_pieces[symmetric] has_facelock_rule_def has_only_exact_legacy_facelock_rules_def Let_def
    by (auto simp: list_ex_iff filter_empty_conv)
  ultimately show ?thesis using removed whole by (auto simp: list_ex_iff)
qed

subsection \<open>Samples\<close>

definition sample_stack :: string where
  "sample_stack = ''#%PAM-1.0'' @ [newline] @ ''auth required x.so '' @ [CHR 0x5C, newline] @ ''  try'' @ [newline] @
     ''account required y.so'' @ [newline]"

lemma sample_lines:
  "raw_lines sample_stack =
     [''#%PAM-1.0'' @ [newline], ''auth required x.so '' @ [CHR 0x5C, newline], ''  try'' @ [newline],
      ''account required y.so'' @ [newline]]"
  by (simp add: sample_stack_def)

lemma sample_silent: "\<not> has_facelock_rule sample_stack"
proof -
  have "\<not> list_ex mentions (raw_lines sample_stack)" unfolding sample_lines
    by (simp add: mentions_def line_part_def continuation_backslash_def semantic_def content_def strip_blanks_def blank_def
        sublist_Cons_right)
  then show ?thesis using has_facelock_lines[OF cut_raw_lines] by (simp add: has_facelock_pieces)
qed

theorem removal_undoes_insertion_witness:
  "with_facelock_removed (with_facelock_inserted sample_stack) = sample_stack"
  using removal_undoes_insertion[OF sample_silent] by (simp add: sample_stack_def)

theorem removal_repairs_injection_witness:
  "with_facelock_removed (''#%PAM-1.0'' @ [newline] @ ''auth required x.so '' @ [CHR 0x5C, newline] @ PAM_LINE @ [newline] @
     ''  try'' @ [newline] @ ''account required y.so'' @ [newline]) = sample_stack"
proof -
  let ?A = "[''#%PAM-1.0'' @ [newline], ''auth required x.so '' @ [CHR 0x5C, newline]]"
  let ?B = "[''  try'' @ [newline], ''account required y.so'' @ [newline]]"
  have "continues (last ?A)" by (simp add: continues_iff content_def strip_blanks_def blank_def)
  from removal_repairs_injection[of sample_stack ?A ?B "[newline]", OF _ _ sample_silent _ _ this] show ?thesis
    using sample_lines by (simp add: sample_stack_def ending_def)
qed

definition edited_stack :: string where
  "edited_stack = ''auth optional pam_facelock.so'' @ [newline] @ ''account required y.so'' @ [newline]"

theorem removal_keeps_other_rules_witness:
  "has_facelock_rule edited_stack \<and> rule_texts (with_facelock_removed edited_stack) = [''account required y.so'']"
proof -
  have lines: "raw_lines edited_stack = [''auth optional pam_facelock.so'' @ [newline], ''account required y.so'' @ [newline]]"
    by (simp add: edited_stack_def)
  have parts: "has_semantic_content (''auth optional pam_facelock.so'' @ [newline])" "has_semantic_content (''account required y.so'' @ [newline])"
    "\<not> continues (''auth optional pam_facelock.so'' @ [newline])"
    by (simp_all add: has_semantic_content_def semantic_def content_def blank_def continues_iff strip_blanks_def)
  have p: "pieces (raw_lines edited_stack) = [Rule [''auth optional pam_facelock.so'' @ [newline]], Rule [''account required y.so'' @ [newline]]]"
    unfolding lines using parts rule_from_ends[of "''auth optional pam_facelock.so'' @ [newline]"] by (simp del: append.simps)
  have t: "line_part (''auth optional pam_facelock.so'' @ [newline]) = ''auth optional pam_facelock.so''"
    "line_part (''account required y.so'' @ [newline]) = ''account required y.so''"
    by (simp_all add: line_part_def continuation_backslash_def semantic_def content_def strip_blanks_def blank_def)
  have "\<not> list_ex id (injected False r)" if "Rule r \<in> set (pieces (raw_lines edited_stack))" for r
    using that unfolding p by auto
  note removed = removal_keeps_other_rules[OF this]
  have texts: "rule_texts edited_stack = [''auth optional pam_facelock.so'', ''account required y.so'']"
    using t by (simp add: rule_texts_pieces p del: append.simps)
  then have "has_facelock_rule edited_stack"
    by (auto simp: has_facelock_rule_def rule_texts_def is_facelock_rule_def list_ex_iff map_eq_Cons_conv sublist_Cons_right)
  then show ?thesis using removed texts by (simp add: sublist_Cons_right)
qed

theorem legacy_cleanup_exact_witness:
  "has_only_exact_legacy_facelock_rules (PAM_LINE @ [newline]) \<and> with_facelock_removed (PAM_LINE @ [newline]) = []"
proof -
  have e: "ending [newline] \<or> [newline] = []" by (simp add: ending_def)
  note P = pam_line_facts[OF e]
  have ne: "PAM_LINE @ [newline] \<noteq> []" by simp
  note lines = raw_lines_single[OF ne P(6)]
  have rules: "logical_rules (PAM_LINE @ [newline]) = [PAM_LINE @ [newline]]"
    unfolding logical_rules_def lines using P(3) by (simp add: List.map_filter_simps)
  have "has_only_exact_legacy_facelock_rules (PAM_LINE @ [newline])"
    using pam_line_rule[OF e] pam_line_mentions[OF e] P(1)
    unfolding has_only_exact_legacy_facelock_rules_def rules by (simp add: lines only_exact_def semantic_mentions)
  with legacy_cleanup_exact[OF this] show ?thesis using P(1) unfolding lines by simp
qed

end
