(* ===== verification/VendorOverride.thy ===== *)
theory VendorOverride
  imports PamRecords PamStack
begin

text \<open>
  Local copies of vendor PAM files, \<^verbatim>\<open>facelock-cli/src/commands/pam.rs\<close>: the header such a copy carries, the
  test that a file is a copy nobody edited, what a removal says about it, and the retirement of an
  unedited copy through a quarantine name.
\<close>

subsection \<open>The header and the shape of a copy\<close>

definition VENDOR_OVERRIDE_HEADER_SUFFIX :: string where
  "VENDOR_OVERRIDE_HEADER_SUFFIX =
     ''# This local override shadows the vendor file and will not track vendor updates.'' @ [newline]"

definition header_prefix :: "string \<Rightarrow> string" where
  "header_prefix vendor = ''# Copied from '' @ vendor @ '' by facelock ''"

text \<open>The package version and the date are arguments.\<close>

definition provenance_header :: "string \<Rightarrow> string \<Rightarrow> string \<Rightarrow> string" where
  "provenance_header vendor version date =
     header_prefix vendor @ version @ '' on '' @ date @ ''.'' @ [newline] @ VENDOR_OVERRIDE_HEADER_SUFFIX"

text \<open>The first line with its newline and the rest, if there is a newline.\<close>

definition split_line :: "string \<Rightarrow> (string \<times> string) option" where
  "split_line s =
     (if newline \<in> set s
      then Some (takeWhile (\<lambda>c. c \<noteq> newline) s @ [newline], tl (dropWhile (\<lambda>c. c \<noteq> newline) s)) else None)"

text \<open>Around the last occurrence of a pattern.\<close>

definition rsplit_pattern :: "string \<Rightarrow> string \<Rightarrow> (string \<times> string) option" where
  "rsplit_pattern pat s =
     (case rev (filter (\<lambda>i. prefix pat (drop i s)) [0..<Suc (length s) - length pat]) of
        [] \<Rightarrow> None
      | i # _ \<Rightarrow> Some (take i s, drop (i + length pat) s))"

definition version_byte :: "char \<Rightarrow> bool" where
  "version_byte c =
     (let n = of_char c :: nat in
      is_digit c \<or> 65 \<le> n \<and> n \<le> 90 \<or> 97 \<le> n \<and> n \<le> 122 \<or> c \<in> {CHR ''.'', CHR ''-'', CHR ''+''})"

definition version_ok :: "string \<Rightarrow> bool" where
  "version_ok v \<longleftrightarrow> v \<noteq> [] \<and> list_all version_byte v"

definition date_ok :: "string \<Rightarrow> bool" where
  "date_ok d \<longleftrightarrow>
     length d = 10 \<and> list_all (\<lambda>(i, c). if i \<in> {4, 7} then c = CHR ''-'' else is_digit c) (enumerate 0 d)"

definition vendor_override_payload :: "string \<Rightarrow> string \<Rightarrow> string option" where
  "vendor_override_payload bs vendor =
     (case split_line bs of None \<Rightarrow> None | Some (first, rest) \<Rightarrow>
      case split_line rest of None \<Rightarrow> None | Some (second, payload) \<Rightarrow>
        if second \<noteq> VENDOR_OVERRIDE_HEADER_SUFFIX then None
        else case strip_prefix (header_prefix vendor) first of None \<Rightarrow> None | Some tail \<Rightarrow>
        case strip_suffix (''.'' @ [newline]) tail of None \<Rightarrow> None | Some stamp \<Rightarrow>
        case rsplit_pattern '' on '' stamp of None \<Rightarrow> None | Some (version, date) \<Rightarrow>
          if version_ok version \<and> date_ok date then Some payload else None)"

record resolved_vendor =
  rv_path :: string
  rv_content :: string
  rv_identity :: file_identity

definition exact_vendor_override_shape :: "string \<Rightarrow> file_identity \<Rightarrow> resolved_vendor \<Rightarrow> bool" where
  "exact_vendor_override_shape bs identity vendor =
     (let without_line = with_facelock_removed bs in
      case vendor_override_payload without_line (rv_path vendor) of
        None \<Rightarrow> False
      | Some payload \<Rightarrow>
          let header_len = length without_line - length payload;
              emitted = take header_len without_line @ with_facelock_inserted (rv_content vendor) in
          (bs = without_line \<or> bs = emitted) \<and> payload = rv_content vendor \<and>
          \<not> has_facelock_rule (rv_content vendor) \<and>
          (id_mode identity, id_uid identity, id_gid identity) =
          (id_mode (rv_identity vendor), id_uid (rv_identity vendor), id_gid (rv_identity vendor)))"

subsection \<open>Configured paths\<close>

text \<open>\<^verbatim>\<open>Path::join\<close> with one component and \<^verbatim>\<open>Path::components\<close> of an absolute path.\<close>

definition path_join :: "string \<Rightarrow> string \<Rightarrow> string" where
  "path_join p n = (if p \<noteq> [] \<and> last p \<noteq> CHR ''/'' then p @ ''/'' @ n else p @ n)"

fun slash_parts :: "string \<Rightarrow> string \<Rightarrow> string list" where
  "slash_parts acc [] = [rev acc]"
| "slash_parts acc (c # cs) = (if c = CHR ''/'' then rev acc # slash_parts [] cs else slash_parts (c # acc) cs)"

fun normalize_parts :: "string list \<Rightarrow> string list \<Rightarrow> string list option" where
  "normalize_parts done [] = Some (rev done)"
| "normalize_parts done (p # ps) =
     (if p = [] \<or> p = ''.'' then normalize_parts done ps
      else if p = ''..'' then (case done of [] \<Rightarrow> None | _ # up \<Rightarrow> normalize_parts up ps)
      else normalize_parts (p # done) ps)"

definition normalized_configured_path :: "string \<Rightarrow> string option" where
  "normalized_configured_path path =
     (if \<not> starts_with path ''/'' then None
      else map_option (\<lambda>parts. if parts = [] then ''/'' else concat (map (\<lambda>p. ''/'' @ p) parts))
             (normalize_parts [] (slash_parts [] path)))"

text \<open>The search path: the writable directory, and the package-owned roots behind it in search order.\<close>

record pam_dirs =
  pd_overrides :: string
  pd_vendor :: "(string \<times> root) list"

definition configured_vendor_header_source :: "pam_dirs \<Rightarrow> string \<Rightarrow> string \<Rightarrow> string option" where
  "configured_vendor_header_source dirs service bs =
     (let without_line = with_facelock_removed bs in
      case List.map_filter (\<lambda>(path, _).
          case normalized_configured_path (path_join path service) of
            None \<Rightarrow> None
          | Some candidate \<Rightarrow> map_option (\<lambda>_. candidate) (vendor_override_payload without_line candidate)) (pd_vendor dirs) of
        [] \<Rightarrow> None
      | candidate # _ \<Rightarrow> Some candidate)"

subsection \<open>Looking at the vendor\<close>

primrec first_vendor :: "'a env_scheme \<Rightarrow> string \<Rightarrow> (string \<times> root) list \<Rightarrow> resolved_vendor option io" where
  "first_vendor ev service [] = ret None"
| "first_vendor ev service (v # vs) =
     bind (tried (open_directory_nofollow ev (snd v))) (\<lambda>d.
     case d of
       Err e \<Rightarrow> if not_found e then first_vendor ev service vs else throw e
     | Ok _ \<Rightarrow>
         bind (tried (open_regular_at (snd v) service)) (\<lambda>f.
         case f of
           Err e \<Rightarrow> if not_found e then first_vendor ev service vs else throw e
         | Ok i \<Rightarrow>
             bind (read_open_bounded i MAX_BACKUP_BYTES) (\<lambda>bs.
             ret (Some \<lparr>rv_path = path_join (fst v) service, rv_content = bs, rv_identity = identity_for_bytes ev i\<rparr>))))"

definition resolve_current_vendor :: "'a env_scheme \<Rightarrow> pam_dirs \<Rightarrow> string \<Rightarrow> resolved_vendor option io" where
  "resolve_current_vendor ev dirs service =
     bind (guard (confined service) (InvalidInput ''invalid PAM service name'')) (\<lambda>_.
     first_vendor ev service (pd_vendor dirs))"

definition current_vendor_override_matches ::
    "'a env_scheme \<Rightarrow> pam_dirs \<Rightarrow> string \<Rightarrow> string \<Rightarrow> file_identity \<Rightarrow> bool \<Rightarrow> bool io" where
  "current_vendor_override_matches ev dirs service bs identity require_restart_shape =
     bind (resolve_current_vendor ev dirs service) (\<lambda>vendor.
     ret (case vendor of
            None \<Rightarrow> False
          | Some v \<Rightarrow> exact_vendor_override_shape bs identity v \<and> (\<not> require_restart_shape \<or> \<not> has_facelock_rule bs)))"

datatype vendor_disposition = NotFacelock | Unchanged | Drifted | SourceAbsent string

definition classify_vendor_override ::
    "'a env_scheme \<Rightarrow> pam_dirs \<Rightarrow> string \<Rightarrow> bool \<Rightarrow> string \<Rightarrow> file_identity \<Rightarrow> vendor_disposition io" where
  "classify_vendor_override ev dirs service shadowed bs identity =
     bind (tried (resolve_current_vendor ev dirs service)) (\<lambda>vendor.
     ret (case vendor of
            Ok (Some v) \<Rightarrow> if exact_vendor_override_shape bs identity v then Unchanged else Drifted
          | Ok None \<Rightarrow>
              (case configured_vendor_header_source dirs service bs of
                 None \<Rightarrow> NotFacelock
               | Some path \<Rightarrow> SourceAbsent path)
          | Err _ \<Rightarrow> if shadowed then Drifted else NotFacelock))"

subsection \<open>Retirement\<close>

definition restore_vendor_quarantine :: "'a env_scheme \<Rightarrow> string \<Rightarrow> string \<Rightarrow> file_identity \<Rightarrow> unit io" where
  "restore_vendor_quarantine ev service quarantine expected =
     bind (tried (open_identity_at ev PamRoot service MAX_BACKUP_BYTES)) (\<lambda>canonical.
     case canonical of
       Ok (Some _) \<Rightarrow> throw (Ambiguous ''vendor override could not be restored without overwriting a concurrent file'')
     | Err _ \<Rightarrow> throw (Ambiguous ''vendor override canonical name became ambiguous during restore'')
     | Ok None \<Rightarrow>
         bind (map_error (\<lambda>_. Ambiguous ''vendor override quarantine could not be restored durably'')
                 (rename_noreplace_at PamRoot quarantine service)) (\<lambda>_.
         bind (map_error (\<lambda>_. Ambiguous ''restored vendor override could not be verified'')
                 (open_identity_at ev PamRoot service MAX_BACKUP_BYTES)) (\<lambda>restored.
         case restored of
           None \<Rightarrow> throw (Ambiguous ''restored vendor override disappeared'')
         | Some identity \<Rightarrow>
             guard (identity_matches expected identity) (Ambiguous ''restored vendor override identity became ambiguous''))))"

definition validate_vendor_quarantine ::
    "'a env_scheme \<Rightarrow> pam_dirs \<Rightarrow> string \<Rightarrow> string \<Rightarrow> file_identity \<Rightarrow> bool io" where
  "validate_vendor_quarantine ev dirs service quarantine expected =
     bind (read_regular_at_bounded ev PamRoot quarantine MAX_BACKUP_BYTES) (\<lambda>found.
     case found of
       None \<Rightarrow> ret False
     | Some (bs, quarantined) \<Rightarrow>
         if \<not> identity_matches expected quarantined then ret False
         else bind (open_identity_at ev PamRoot service MAX_BACKUP_BYTES) (\<lambda>canonical.
           if canonical \<noteq> None then ret False
           else current_vendor_override_matches ev dirs service bs quarantined True))"

definition decline_vendor_retirement ::
    "'a env_scheme \<Rightarrow> string \<Rightarrow> string \<Rightarrow> file_identity \<Rightarrow> string \<Rightarrow> unit io" where
  "decline_vendor_retirement ev service quarantine expected reason =
     bind (map_error (\<lambda>_. Ambiguous ''vendor override quarantine could not be authenticated for restore'')
             (open_identity_at ev PamRoot quarantine MAX_BACKUP_BYTES)) (\<lambda>quarantined.
     bind (map_error (\<lambda>_. Ambiguous ''vendor override canonical name became ambiguous before restore'')
             (open_identity_at ev PamRoot service MAX_BACKUP_BYTES)) (\<lambda>canonical.
     if canonical = None \<and> (case quarantined of Some identity \<Rightarrow> identity_matches expected identity | None \<Rightarrow> False)
     then bind (restore_vendor_quarantine ev service quarantine expected) (\<lambda>_. throw (OtherError reason))
     else throw (Ambiguous ''vendor override quarantine state became ambiguous'')))"

definition quarantine_override :: "'a env_scheme \<Rightarrow> string \<Rightarrow> string \<Rightarrow> file_identity \<Rightarrow> bool io" where
  "quarantine_override ev service quarantine expected =
     bind (map_error (\<lambda>_. Ambiguous ''vendor override quarantine could not be inspected'')
             (read_regular_at_bounded ev PamRoot quarantine MAX_BACKUP_BYTES)) (\<lambda>existing.
     case existing of
       Some (_, quarantined) \<Rightarrow>
         if \<not> identity_matches expected quarantined
         then throw (Ambiguous ''vendor override quarantine is not the published removal inode'') else ret True
     | None \<Rightarrow>
         bind (map_error (\<lambda>_. Ambiguous ''vendor override canonical name could not be inspected'')
                 (open_identity_at ev PamRoot service MAX_BACKUP_BYTES)) (\<lambda>current.
         case current of
           None \<Rightarrow> ret False
         | Some identity \<Rightarrow>
             if \<not> identity_matches expected identity then throw (Ambiguous ''vendor override changed before quarantine'')
             else bind (map_error (\<lambda>e. if e = Os EEXIST then Ambiguous ''vendor override quarantine name already exists''
                                      else Ambiguous ''vendor override could not be quarantined durably'')
                          (rename_noreplace_at PamRoot service quarantine)) (\<lambda>_. ret True)))"

definition retire_vendor_override ::
    "'a env_scheme \<Rightarrow> pam_dirs \<Rightarrow> string \<Rightarrow> string \<Rightarrow> file_identity \<Rightarrow> unit io" where
  "retire_vendor_override ev dirs service operation expected =
     bind (guard (confined service) (InvalidInput ''invalid service'')) (\<lambda>_.
     bind (guard (valid_backup_name service operation) (InvalidInput ''invalid vendor-retirement operation'')) (\<lambda>_.
     bind (map_error (\<lambda>_. Ambiguous ''vendor override root could not be reopened for quarantine'')
             (open_directory_nofollow ev PamRoot)) (\<lambda>_.
     let quarantine = vendor_retire_name operation in
     bind (quarantine_override ev service quarantine expected) (\<lambda>held.
     if \<not> held then ret ()
     else bind (tried (validate_vendor_quarantine ev dirs service quarantine expected)) (\<lambda>initially_valid.
     if initially_valid \<noteq> Ok True
     then decline_vendor_retirement ev service quarantine expected
            ''vendor override or current vendor source changed before cleanup''
     else bind (tried (validate_vendor_quarantine ev dirs service quarantine expected)) (\<lambda>finally_valid.
     if finally_valid \<noteq> Ok True
     then decline_vendor_retirement ev service quarantine expected
            ''vendor override or current vendor source changed before final cleanup''
     else
       bind (map_error (\<lambda>_. Ambiguous ''vendor override quarantine could not be authenticated'')
               (unlink_at_if_identity_matches ev PamRoot quarantine expected MAX_BACKUP_BYTES)) (\<lambda>_.
       map_error (\<lambda>_. Ambiguous ''vendor override quarantine deletion was not durable'') sync_all)))))))"

end
