(* ===== verification/PamJournal.thy ===== *)
theory PamJournal
  imports VendorOverride
begin

text \<open>
  The PAM backup store of \<^verbatim>\<open>facelock-cli/src/commands/pam.rs\<close>: planning and persisting a backup, replacing a
  service file under a durable intent, committing, cleaning up, and the recovery that every
  transaction starts with.
\<close>

definition expected_state_owner :: "'a env_scheme \<Rightarrow> u32 \<times> u32" where
  "expected_state_owner ev = (if ev_system ev then (0, 0) else (ev_euid ev, ev_egid ev))"

definition owned_state_file :: "'a env_scheme \<Rightarrow> inode \<Rightarrow> bool" where
  "owned_state_file ev i \<longleftrightarrow> i_mode i AND PERMISSIONS = 0x180 \<and> (i_uid i, i_gid i) = expected_state_owner ev"

subsection \<open>Publications\<close>

record created_publication =
  cp_name :: string
  cp_state_identity :: file_identity
  cp_binding :: publication_binding

definition create_publication_binding ::
    "'a journal_env_scheme \<Rightarrow> publication_role \<Rightarrow> state_intent \<Rightarrow> string \<Rightarrow> file_identity \<Rightarrow> created_publication io" where
  "create_publication_binding ev role intent intent_encoded replacement =
     (let binding = publication_binding_for ev role intent intent_encoded replacement;
          name = publication_name role (si_backup intent) in
      bind (atomic_state_create ev name (je_encode ev (DBinding binding))) (\<lambda>identity.
      ret \<lparr>cp_name = name, cp_state_identity = identity, cp_binding = binding\<rparr>))"

definition finish_publication_state ::
    "'a journal_env_scheme \<Rightarrow> string \<Rightarrow> file_identity \<Rightarrow> created_publication option \<Rightarrow> unit io" where
  "finish_publication_state ev intent_nm intent_identity publication =
     bind (unlink_state_if_identity_matches ev intent_nm intent_identity) (\<lambda>_.
     case publication of
       Some p \<Rightarrow> unlink_state_if_identity_matches ev (cp_name p) (cp_state_identity p)
     | None \<Rightarrow> ret ())"

definition validate_published_path :: "'a journal_env_scheme \<Rightarrow> string \<Rightarrow> publication_binding \<Rightarrow> string \<Rightarrow> unit io" where
  "validate_published_path ev name binding message =
     bind (open_directory_nofollow ev PamRoot) (\<lambda>_.
     bind (map_error (\<lambda>_. Ambiguous message)
             (bind (open_regular_at PamRoot name) (\<lambda>i. identity_of_open_bounded ev i MAX_BACKUP_BYTES))) (\<lambda>published.
     guard (binding_identity_matches binding published) (Ambiguous message)))"

subsection \<open>Reading the store\<close>

text \<open>One entry of the scan over all records; entries that are not records are passed over.\<close>

definition scan_record :: "'a journal_env_scheme \<Rightarrow> string \<Rightarrow> prepared_backup option io" where
  "scan_record ev name =
     (if \<not> is_utf8 name \<or> \<not> suffix ''.json'' name then ret None
      else bind (tried (open_regular_at StateRoot name)) (\<lambda>f.
      case f of Err _ \<Rightarrow> ret None | Ok i \<Rightarrow>
      bind (look (\<lambda>_. Ok ())) (\<lambda>_.
      if \<not> owned_state_file ev i then ret None
      else bind (tried (read_open_bounded i MAX_RECORD_BYTES)) (\<lambda>r.
      case r of Err _ \<Rightarrow> ret None | Ok encoded \<Rightarrow>
      case je_record ev encoded of None \<Rightarrow> ret None | Some provenance \<Rightarrow>
      if \<not> valid_provenance_record name provenance then ret None
      else bind (tried (open_regular_at StateRoot (pv_backup provenance))) (\<lambda>b.
      case b of Err _ \<Rightarrow> ret None | Ok j \<Rightarrow>
      bind (look (\<lambda>_. Ok ())) (\<lambda>_.
      if \<not> owned_state_file ev j then ret None
      else bind (tried (read_open_bounded j MAX_BACKUP_BYTES)) (\<lambda>bs.
      case bs of Err _ \<Rightarrow> ret None | Ok original \<Rightarrow>
      if sha256_hex ev original \<noteq> pv_original_sha256 provenance then ret None
      else ret (Some \<lparr>bk_backup = pv_backup provenance, bk_record = name, bk_provenance = provenance,
             bk_backup_identity = Some (identity_for_bytes ev j), bk_record_identity = Some (identity_for_bytes ev i)\<rparr>))))))))"

definition scanned_record_pairs :: "'a journal_env_scheme \<Rightarrow> prepared_backup list io" where
  "scanned_record_pairs ev =
     bind (open_directory_nofollow ev StateRoot) (\<lambda>_.
     bind (read_dir ev StateRoot) (\<lambda>names. collect_some (scan_record ev) names))"

definition scanned_sequences :: "'a journal_env_scheme \<Rightarrow> u64 list io" where
  "scanned_sequences ev = bind (scanned_record_pairs ev) (\<lambda>records. ret (map (\<lambda>r. pv_sequence (bk_provenance r)) records))"

definition next_sequence :: "'a journal_env_scheme \<Rightarrow> u64 io" where
  "next_sequence ev =
     bind (scanned_sequences ev) (\<lambda>sequences.
     let top = fold max sequences 0 in
     if top = - 1 then throw (InvalidData ''PAM backup sequence exhausted'') else ret (top + 1))"

definition sequence_in_use :: "'a journal_env_scheme \<Rightarrow> u64 \<Rightarrow> bool io" where
  "sequence_in_use ev sequence =
     (if sequence = 0 then ret True
      else bind (scanned_sequences ev) (\<lambda>sequences. ret (sequence \<in> set sequences)))"

text \<open>Records of a service whose sequence number is unique in the store, latest first.\<close>

definition validated_records :: "'a journal_env_scheme \<Rightarrow> string \<Rightarrow> prepared_backup list io" where
  "validated_records ev service =
     bind (scanned_record_pairs ev) (\<lambda>records.
     let count = (\<lambda>n. length (filter (\<lambda>r. pv_sequence (bk_provenance r) = n) records)) in
     ret (rev (sort_key (\<lambda>r. pv_sequence (bk_provenance r))
            (rev (filter (\<lambda>r. pv_service (bk_provenance r) = service \<and> count (pv_sequence (bk_provenance r)) = 1) records)))))"

definition validated_committed_records :: "'a journal_env_scheme \<Rightarrow> string \<Rightarrow> prepared_backup list io" where
  "validated_committed_records ev service =
     bind (validated_records ev service) (\<lambda>records.
     ret (filter (\<lambda>r. pv_state (bk_provenance r) = Committed) records))"

definition latest_committed :: "'a journal_env_scheme \<Rightarrow> string \<Rightarrow> string option io" where
  "latest_committed ev service =
     bind (validated_committed_records ev service) (\<lambda>records.
     ret (case records of r # _ \<Rightarrow> Some (bk_backup r) | [] \<Rightarrow> None))"

subsection \<open>Planning and persisting\<close>

definition MAX_TIMESTAMP_COLLISION_PROBES :: nat where "MAX_TIMESTAMP_COLLISION_PROBES = 4096"

text \<open>Seconds and nanoseconds since the epoch, and \<^verbatim>\<open>checked_add\<close> of one nanosecond.\<close>

type_synonym since_epoch = "nat \<times> nat"

definition add_nanosecond :: "since_epoch \<Rightarrow> since_epoch option" where
  "add_nanosecond d =
     (if snd d + 1 < 1000000000 then Some (fst d, snd d + 1)
      else if fst d + 1 < 2 ^ 64 then Some (fst d + 1, 0) else None)"

definition padded9 :: "nat \<Rightarrow> string" where
  "padded9 n = replicate (9 - length (dec_str n)) (CHR ''0'') @ dec_str n"

definition backup_candidate :: "string \<Rightarrow> since_epoch \<Rightarrow> string" where
  "backup_candidate service d = service @ ''.'' @ dec_str (fst d) @ ''-'' @ padded9 (snd d)"

definition symlink_metadata_ok :: "root \<Rightarrow> string \<Rightarrow> bool io" where
  "symlink_metadata_ok r n =
     bind (tried (look (\<lambda>fs. if fs r n = None then Err ENOENT else Ok ()))) (\<lambda>m. ret (is_ok m))"

primrec probe_backup :: "nat \<Rightarrow> string \<Rightarrow> since_epoch \<Rightarrow> string option io" where
  "probe_backup 0 service d = ret None"
| "probe_backup (Suc n) service d =
     (let candidate = backup_candidate service d in
      bind (symlink_metadata_ok StateRoot candidate) (\<lambda>backup_there.
      bind (if backup_there then ret True else symlink_metadata_ok StateRoot (record_name candidate)) (\<lambda>occupied.
      if \<not> occupied then ret (Some candidate)
      else probe_backup n service (case add_nanosecond d of Some d' \<Rightarrow> d' | None \<Rightarrow> d))))"

definition plan_at_unlocked :: "'a journal_env_scheme \<Rightarrow> string \<Rightarrow> string \<Rightarrow> string \<Rightarrow> since_epoch \<Rightarrow> prepared_backup io" where
  "plan_at_unlocked ev service original installed since_epoch =
     bind (guard (confined service) (InvalidInput ''invalid PAM service name'')) (\<lambda>_.
     bind (next_sequence ev) (\<lambda>sequence.
     bind (probe_backup MAX_TIMESTAMP_COLLISION_PROBES service since_epoch) (\<lambda>found.
     case found of
       None \<Rightarrow> throw (AlreadyExists ''PAM backup timestamp collision probe limit exhausted'')
     | Some backup \<Rightarrow>
         ret \<lparr>bk_backup = backup, bk_record = record_name backup,
              bk_provenance = \<lparr>pv_version = PROVENANCE_VERSION, pv_sequence = sequence, pv_state = Prepared, pv_service = service,
                pv_backup = backup, pv_original_sha256 = sha256_hex ev original, pv_installed_sha256 = sha256_hex ev installed\<rparr>,
              bk_backup_identity = None, bk_record_identity = None\<rparr>)))"

definition plan_mutation :: "'a journal_env_scheme \<Rightarrow> string \<Rightarrow> string \<Rightarrow> string \<Rightarrow> since_epoch \<Rightarrow> mutation_plan io" where
  "plan_mutation ev service original installed since_epoch =
     bind (plan_at_unlocked ev service original installed since_epoch) (\<lambda>p.
     ret \<lparr>mp_operation = bk_backup p, mp_sequence = pv_sequence (bk_provenance p), mp_service = pv_service (bk_provenance p),
          mp_original_sha256 = pv_original_sha256 (bk_provenance p), mp_installed_sha256 = pv_installed_sha256 (bk_provenance p)\<rparr>)"

definition sync_directory :: "'a journal_env_scheme \<Rightarrow> unit io" where
  "sync_directory ev = bind (open_directory_nofollow ev StateRoot) (\<lambda>_. sync_all)"

text \<open>An intent without the identity of a file.\<close>

definition plain_intent ::
    "intent_role \<Rightarrow> provenance_record \<Rightarrow> string \<Rightarrow> string \<Rightarrow> string option \<Rightarrow> string option \<Rightarrow> state_intent" where
  "plain_intent role pv backup original record_hash replacement_hash =
     \<lparr>si_version = PROVENANCE_VERSION, si_role = role, si_sequence = pv_sequence pv, si_service = pv_service pv,
      si_backup = backup, si_original_sha256 = original, si_installed_sha256 = pv_installed_sha256 pv,
      si_record_sha256 = record_hash, si_replacement_record_sha256 = replacement_hash,
      si_original_device = None, si_original_inode = None, si_original_links = None,
      si_original_mode = None, si_original_uid = None, si_original_gid = None\<rparr>"

definition prepare_intent :: "'a journal_env_scheme \<Rightarrow> prepared_backup \<Rightarrow> state_intent" where
  "prepare_intent ev p =
     plain_intent Prepare (bk_provenance p) (bk_backup p) (pv_original_sha256 (bk_provenance p))
       (Some (sha256_hex ev (je_encode ev (DRecord (bk_provenance p))))) None"

definition persist_unlocked :: "'a journal_env_scheme \<Rightarrow> prepared_backup \<Rightarrow> string \<Rightarrow> unit io" where
  "persist_unlocked ev p original =
     bind (guard (sha256_hex ev original = pv_original_sha256 (bk_provenance p))
             (InvalidInput ''prepared backup does not match this store or original'')) (\<lambda>_.
     bind (guard (length original \<le> MAX_BACKUP_BYTES) (InvalidData ''PAM backup exceeds the state size limit'')) (\<lambda>_.
     bind (sequence_in_use ev (pv_sequence (bk_provenance p))) (\<lambda>used.
     bind (guard (\<not> used) (AlreadyExists ''PAM backup sequence was allocated concurrently'')) (\<lambda>_.
     let encoded = je_encode ev (DRecord (bk_provenance p)) in
     bind (guard (length encoded \<le> MAX_RECORD_BYTES) (InvalidData ''PAM provenance exceeds the state size limit'')) (\<lambda>_.
     let intent_nm = intent_name Prepare (bk_backup p) in
     bind (atomic_state_create ev intent_nm (je_encode ev (DIntent (prepare_intent ev p)))) (\<lambda>intent_identity.
     bind (tried (atomic_state_create ev (bk_backup p) original)) (\<lambda>backup.
     case backup of
       Err e \<Rightarrow>
         bind (if is_ambiguous_publication e then ret ()
               else ignore (unlink_state_if_identity_matches ev intent_nm intent_identity)) (\<lambda>_. throw e)
     | Ok backup_identity \<Rightarrow>
         bind (tried (atomic_state_create ev (bk_record p) encoded)) (\<lambda>record.
         case record of
           Err e \<Rightarrow>
             if is_ambiguous_publication e then throw e
             else
               bind (ignore (unlink_state_if_identity_matches ev (bk_backup p) backup_identity)) (\<lambda>_.
               bind (ignore (unlink_state_if_identity_matches ev intent_nm intent_identity)) (\<lambda>_.
               bind (ignore (sync_directory ev)) (\<lambda>_. throw e)))
         | Ok _ \<Rightarrow> unlink_state_if_identity_matches ev intent_nm intent_identity))))))))"


subsection \<open>Committing\<close>

definition committed_record :: "prepared_backup \<Rightarrow> provenance_record" where
  "committed_record p = (bk_provenance p)\<lparr>pv_state := Committed\<rparr>"

definition commit_intent :: "'a journal_env_scheme \<Rightarrow> prepared_backup \<Rightarrow> state_intent" where
  "commit_intent ev p =
     plain_intent Commit (bk_provenance p) (bk_backup p) (pv_original_sha256 (bk_provenance p))
       (Some (sha256_hex ev (je_encode ev (DRecord (bk_provenance p)))))
       (Some (sha256_hex ev (je_encode ev (DRecord (committed_record p)))))"

definition record_identity_at :: "'a journal_env_scheme \<Rightarrow> string \<Rightarrow> file_identity io" where
  "record_identity_at ev n = bind (open_regular_at StateRoot n) (\<lambda>i. identity_of_open_bounded ev i MAX_RECORD_BYTES)"

definition check_published_record :: "'a journal_env_scheme \<Rightarrow> string \<Rightarrow> file_identity \<Rightarrow> string \<Rightarrow> unit io" where
  "check_published_record ev record replacement message =
     bind (map_error (\<lambda>_. Ambiguous ''committed provenance became ambiguous'') (record_identity_at ev record)) (\<lambda>published.
     guard (identity_matches replacement published) (Ambiguous message))"

text \<open>From the exchange on.\<close>

definition settle_commit ::
    "'a journal_env_scheme \<Rightarrow> prepared_backup \<Rightarrow> file_identity \<Rightarrow> file_identity \<Rightarrow> file_identity \<Rightarrow> created_publication \<Rightarrow> unit io" where
  "settle_commit ev p intent_identity current_identity replacement_identity publication =
     (let exchange_nm = exchange_name (bk_backup p); intent_nm = intent_name Commit (bk_backup p) in
      bind (rename_exchange_at StateRoot exchange_nm (bk_record p)) (\<lambda>_.
      bind (check_published_record ev (bk_record p) replacement_identity
              ''committed provenance changed before final validation'') (\<lambda>_.
      bind (record_identity_at ev exchange_nm) (\<lambda>displaced_identity.
      if \<not> identity_matches current_identity displaced_identity
      then
        bind (rename_exchange_at StateRoot exchange_nm (bk_record p)) (\<lambda>_.
        bind (tried (open_regular_at StateRoot exchange_nm)) (\<lambda>restored.
        bind (case restored of
                Ok i \<Rightarrow> bind (identity_of_open_bounded ev i MAX_RECORD_BYTES) (\<lambda>identity.
                  if identity_matches replacement_identity identity
                  then unlink_state_if_identity_matches ev exchange_nm replacement_identity else ret ())
              | Err _ \<Rightarrow> ret ()) (\<lambda>_.
        bind (ignore (finish_publication_state ev intent_nm intent_identity (Some publication))) (\<lambda>_.
        throw (OtherError ''prepared provenance changed during commit'')))))
      else
        bind (check_published_record ev (bk_record p) replacement_identity
                ''committed provenance changed before displaced cleanup'') (\<lambda>_.
        bind (unlink_state_if_identity_matches ev exchange_nm displaced_identity) (\<lambda>_.
        bind (check_published_record ev (bk_record p) replacement_identity
                ''committed provenance changed before intent cleanup'') (\<lambda>_.
        finish_publication_state ev intent_nm intent_identity (Some publication))))))))"

definition commit_unlocked :: "'a journal_env_scheme \<Rightarrow> prepared_backup \<Rightarrow> unit io" where
  "commit_unlocked ev p =
     (let replacement = je_encode ev (DRecord (committed_record p));
          intent = commit_intent ev p;
          intent_nm = intent_name Commit (bk_backup p);
          intent_encoded = je_encode ev (DIntent intent);
          exchange_nm = exchange_name (bk_backup p) in
      bind (atomic_state_create ev intent_nm intent_encoded) (\<lambda>intent_identity.
      bind (open_directory_nofollow ev StateRoot) (\<lambda>_.
      bind (record_identity_at ev (bk_record p)) (\<lambda>current_identity.
      if \<not> state_identity_matches (expected_state_owner ev) current_identity (opt_str (si_record_sha256 intent))
      then
        bind (ignore (unlink_state_if_identity_matches ev intent_nm intent_identity)) (\<lambda>_.
        throw (OtherError ''prepared provenance changed before commit''))
      else
        bind (tried (atomic_state_create ev exchange_nm replacement)) (\<lambda>created.
        case created of
          Err e \<Rightarrow>
            if is_ambiguous_publication e then throw e
            else bind (ignore (unlink_state_if_identity_matches ev intent_nm intent_identity)) (\<lambda>_. throw e)
        | Ok replacement_identity \<Rightarrow>
            bind (tried (create_publication_binding ev PubCommit intent intent_encoded replacement_identity)) (\<lambda>bound.
            case bound of
              Err e \<Rightarrow>
                if is_ambiguous_publication e then throw e
                else
                  bind (cleanup_unpublished_temp ev StateRoot exchange_nm replacement_identity MAX_RECORD_BYTES
                          ''unpublished committed provenance became ambiguous'') (\<lambda>_.
                  bind (unlink_state_if_identity_matches ev intent_nm intent_identity) (\<lambda>_. throw e))
            | Ok publication \<Rightarrow>
                settle_commit ev p intent_identity current_identity replacement_identity publication))))))"

subsection \<open>Changing a service file\<close>

text \<open>An intent that names the exact inode it is about to replace.\<close>

definition exact_intent :: "intent_role \<Rightarrow> u64 \<Rightarrow> string \<Rightarrow> string \<Rightarrow> string \<Rightarrow> string option \<Rightarrow> file_identity \<Rightarrow> state_intent" where
  "exact_intent role sequence service backup installed record_hash expected =
     \<lparr>si_version = PROVENANCE_VERSION, si_role = role, si_sequence = sequence, si_service = service,
      si_backup = backup, si_original_sha256 = id_sha256 expected, si_installed_sha256 = installed,
      si_record_sha256 = record_hash, si_replacement_record_sha256 = None,
      si_original_device = Some (id_device expected), si_original_inode = Some (id_inode expected),
      si_original_links = Some (id_links expected), si_original_mode = Some (id_mode expected),
      si_original_uid = Some (id_uid expected), si_original_gid = Some (id_gid expected)\<rparr>"

text \<open>What the temporary file is bound with, before anything is published under the service name.\<close>

definition bind_temp ::
    "'a journal_env_scheme \<Rightarrow> publication_role \<Rightarrow> state_intent \<Rightarrow> string \<Rightarrow> string \<Rightarrow> string \<Rightarrow> file_identity \<Rightarrow> created_publication io" where
  "bind_temp ev role intent intent_encoded temp message replacement =
     bind (tried (create_publication_binding ev role intent intent_encoded replacement)) (\<lambda>created.
     case created of
       Ok publication \<Rightarrow> ret publication
     | Err e \<Rightarrow>
         if is_ambiguous_publication e then throw e
         else bind (cleanup_unpublished_temp ev PamRoot temp replacement MAX_BACKUP_BYTES message) (\<lambda>_. throw e))"

text \<open>The part all three changes share: put the intent down, let the change run, check what was
  published, and take the journal entries back, unless the change was cut off or its effect is unclear.\<close>

definition validated :: "'a journal_env_scheme \<Rightarrow> string \<Rightarrow> created_publication option \<Rightarrow> string \<Rightarrow> string \<Rightarrow> unit io" where
  "validated ev service publication missing changed =
     (case publication of
        None \<Rightarrow> throw (Ambiguous missing)
      | Some p \<Rightarrow> validate_published_path ev service (cp_binding p) changed)"

definition close_change ::
    "'a journal_env_scheme \<Rightarrow> string \<Rightarrow> file_identity \<Rightarrow> created_publication option \<Rightarrow> string \<Rightarrow> (unit, io_error) result \<Rightarrow> unit io" where
  "close_change ev intent_nm intent_identity publication also result =
     (case result of
        Err e \<Rightarrow>
          if interrupted e \<or> is_ambiguous_publication e then throw e
          else bind (tried (finish_publication_state ev intent_nm intent_identity publication)) (\<lambda>cleanup.
            case cleanup of Err cleanup_error \<Rightarrow> throw (AlsoFailed e also cleanup_error) | Ok _ \<Rightarrow> throw e)
      | Ok _ \<Rightarrow> finish_publication_state ev intent_nm intent_identity publication)"

definition replace_intent :: "'a journal_env_scheme \<Rightarrow> prepared_backup \<Rightarrow> file_identity \<Rightarrow> string \<Rightarrow> state_intent" where
  "replace_intent ev p expected bs =
     exact_intent PamReplace (pv_sequence (bk_provenance p)) (pv_service (bk_provenance p)) (bk_backup p) (sha256_hex ev bs)
       (Some (sha256_hex ev (je_encode ev (DRecord (bk_provenance p))))) expected"

definition replace_pam_with_intent ::
    "'a journal_env_scheme \<Rightarrow> prepared_backup \<Rightarrow> string \<Rightarrow> file_identity \<Rightarrow> string \<Rightarrow> unit io" where
  "replace_pam_with_intent ev p service expected bs =
     bind (guard (id_sha256 expected = pv_original_sha256 (bk_provenance p) \<and> sha256_hex ev bs = pv_installed_sha256 (bk_provenance p))
             (InvalidInput ''PAM replacement does not match prepared provenance'')) (\<lambda>_.
     let intent = replace_intent ev p expected bs; intent_nm = intent_name PamReplace (bk_backup p);
         intent_encoded = je_encode ev (DIntent intent); temp = pam_replace_name (bk_backup p) in
     bind (atomic_state_create ev intent_nm intent_encoded) (\<lambda>intent_identity.
     bind (replace_existing_verified ev service expected bs temp
             (bind_temp ev PubPamReplace intent intent_encoded temp ''unpublished PAM replacement temp became ambiguous'')) (\<lambda>(publication, replaced).
     bind (case replaced of
             Ok _ \<Rightarrow> tried (validated ev service publication ''PAM publication identity is missing''
                        ''published PAM service changed before intent cleanup'')
           | Err e \<Rightarrow> ret (Err e)) (\<lambda>result.
     close_change ev intent_nm intent_identity publication ''; also failed to clean PAM replacement intent: '' result))))"

definition remove_intent :: "'a journal_env_scheme \<Rightarrow> mutation_plan \<Rightarrow> file_identity \<Rightarrow> string \<Rightarrow> state_intent" where
  "remove_intent ev m expected bs =
     exact_intent PamRemove (mp_sequence m) (mp_service m) (mp_operation m) (sha256_hex ev bs) None expected"

text \<open>\<open>after_published\<close> is the retirement of a vendor copy, or nothing.\<close>

definition remove_pam_with_intent ::
    "'a journal_env_scheme \<Rightarrow> mutation_plan \<Rightarrow> string \<Rightarrow> file_identity \<Rightarrow> string \<Rightarrow> (file_identity \<Rightarrow> unit io) \<Rightarrow> file_identity io" where
  "remove_pam_with_intent ev m service expected bs after_published =
     bind (guard (id_sha256 expected = mp_original_sha256 m \<and> sha256_hex ev bs = mp_installed_sha256 m)
             (InvalidInput ''PAM removal does not match its transaction plan'')) (\<lambda>_.
     let intent = remove_intent ev m expected bs; intent_nm = intent_name PamRemove (mp_operation m);
         intent_encoded = je_encode ev (DIntent intent); temp = pam_remove_name (mp_operation m) in
     bind (atomic_state_create ev intent_nm intent_encoded) (\<lambda>intent_identity.
     bind (replace_existing_verified ev service expected bs temp
             (bind_temp ev PubPamRemove intent intent_encoded temp ''unpublished PAM removal temp became ambiguous'')) (\<lambda>(publication, replaced).
     bind (case replaced of
             Ok _ \<Rightarrow> tried (bind (validated ev service publication ''PAM publication identity is missing''
                        ''published PAM service changed before intent cleanup'') (\<lambda>_.
                      case publication of
                        Some p \<Rightarrow> after_published (binding_identity (cp_binding p))
                      | None \<Rightarrow> throw (Ambiguous ''PAM publication identity is missing'')))
           | Err e \<Rightarrow> ret (Err e)) (\<lambda>result.
     bind (close_change ev intent_nm intent_identity publication ''; also failed to clean PAM removal intent: '' result) (\<lambda>_.
     case publication of
       Some p \<Rightarrow> ret (binding_identity (cp_binding p))
     | None \<Rightarrow> throw (Ambiguous ''PAM publication identity is missing''))))))"

definition vendor_intent :: "'a journal_env_scheme \<Rightarrow> mutation_plan \<Rightarrow> file_identity \<Rightarrow> string \<Rightarrow> state_intent" where
  "vendor_intent ev m expected bs =
     (exact_intent VendorCreate (mp_sequence m) (mp_service m) (mp_operation m) (sha256_hex ev bs) None expected)
       \<lparr>si_original_device := None, si_original_inode := None, si_original_links := None\<rparr>"

definition create_vendor_with_intent ::
    "'a journal_env_scheme \<Rightarrow> mutation_plan \<Rightarrow> root \<Rightarrow> string \<Rightarrow> file_identity \<Rightarrow> string \<Rightarrow> unit io" where
  "create_vendor_with_intent ev m vendor service expected bs =
     bind (guard (mp_service m = service \<and> id_sha256 expected = mp_original_sha256 m \<and> sha256_hex ev bs = mp_installed_sha256 m)
             (InvalidInput ''vendor creation does not match its transaction plan'')) (\<lambda>_.
     let intent = vendor_intent ev m expected bs; intent_nm = intent_name VendorCreate (mp_operation m);
         intent_encoded = je_encode ev (DIntent intent); temp = vendor_create_name (mp_operation m) in
     bind (atomic_state_create ev intent_nm intent_encoded) (\<lambda>intent_identity.
     bind (create_override_verified ev vendor service expected bs temp
             (bind_temp ev PubVendorCreate intent intent_encoded temp ''unpublished vendor override temp became ambiguous'')) (\<lambda>(publication, created).
     bind (case created of
             Ok _ \<Rightarrow> tried (validated ev service publication ''vendor publication identity is missing''
                        ''published vendor override changed before intent cleanup'')
           | Err e \<Rightarrow> ret (Err e)) (\<lambda>result.
     close_change ev intent_nm intent_identity publication ''; also failed to clean vendor creation intent: '' result))))"

subsection \<open>Cleaning up a pair\<close>

definition cleanup_intent :: "prepared_backup \<Rightarrow> file_identity \<Rightarrow> file_identity \<Rightarrow> state_intent" where
  "cleanup_intent p expected_backup expected_record =
     plain_intent Cleanup (bk_provenance p) (bk_backup p) (id_sha256 expected_backup) (Some (id_sha256 expected_record)) None"

definition identity_in :: "'a journal_env_scheme \<Rightarrow> string \<Rightarrow> nat \<Rightarrow> file_identity io" where
  "identity_in ev n limit = bind (open_regular_at StateRoot n) (\<lambda>i. identity_of_open_bounded ev i limit)"

text \<open>Both parts are moved aside before either is deleted.\<close>

definition quarantine_pair :: "'a journal_env_scheme \<Rightarrow> prepared_backup \<Rightarrow> file_identity \<Rightarrow> file_identity \<Rightarrow> (file_identity \<times> file_identity) io" where
  "quarantine_pair ev p expected_backup expected_record =
     (let backup_quarantine = quarantine_name ''backup'' (bk_backup p);
          record_quarantine = record_quarantine_name (bk_backup p) in
      bind (rename_noreplace_at StateRoot (bk_backup p) backup_quarantine) (\<lambda>_.
      bind (identity_in ev backup_quarantine MAX_BACKUP_BYTES) (\<lambda>moved_backup.
      if \<not> identity_matches expected_backup moved_backup
      then
        bind (ignore (rename_noreplace_at StateRoot backup_quarantine (bk_backup p))) (\<lambda>_.
        throw (OtherError ''PAM backup changed during quarantine''))
      else
        bind (tried (rename_noreplace_at StateRoot (bk_record p) record_quarantine)) (\<lambda>renamed.
        case renamed of
          Err e \<Rightarrow> bind (ignore (rename_noreplace_at StateRoot backup_quarantine (bk_backup p))) (\<lambda>_. throw e)
        | Ok _ \<Rightarrow>
            bind (identity_in ev record_quarantine MAX_RECORD_BYTES) (\<lambda>moved_record.
            if \<not> identity_matches expected_record moved_record
            then
              bind (ignore (rename_noreplace_at StateRoot record_quarantine (bk_record p))) (\<lambda>_.
              bind (ignore (rename_noreplace_at StateRoot backup_quarantine (bk_backup p))) (\<lambda>_.
              throw (OtherError ''PAM provenance changed during quarantine'')))
            else ret (moved_backup, moved_record))))))"

definition cleanup_one_at :: "'a journal_env_scheme \<Rightarrow> prepared_backup \<Rightarrow> unit io" where
  "cleanup_one_at ev p =
     bind (open_regular_at StateRoot (bk_backup p)) (\<lambda>backup.
     bind (open_regular_at StateRoot (bk_record p)) (\<lambda>record.
     case (bk_backup_identity p, bk_record_identity p) of
       (None, _) \<Rightarrow> throw (InvalidInput ''cleanup backup has no captured identity'')
     | (Some _, None) \<Rightarrow> throw (InvalidInput ''cleanup record has no captured identity'')
     | (Some expected_backup, Some expected_record) \<Rightarrow>
         bind (identity_of_open_bounded ev backup MAX_BACKUP_BYTES) (\<lambda>backup_now.
         bind (if \<not> identity_matches expected_backup backup_now then ret False
               else bind (identity_of_open_bounded ev record MAX_RECORD_BYTES) (\<lambda>record_now.
                 ret (identity_matches expected_record record_now))) (\<lambda>same.
         bind (guard same (OtherError ''PAM backup state changed before cleanup'')) (\<lambda>_.
         let intent_nm = intent_name Cleanup (bk_backup p) in
         bind (atomic_state_create ev intent_nm (je_encode ev (DIntent (cleanup_intent p expected_backup expected_record)))) (\<lambda>intent_identity.
         bind (quarantine_pair ev p expected_backup expected_record) (\<lambda>(moved_backup, moved_record).
         bind (unlink_state_if_identity_matches ev (quarantine_name ''backup'' (bk_backup p)) moved_backup) (\<lambda>_.
         bind (unlink_state_if_identity_matches ev (record_quarantine_name (bk_backup p)) moved_record) (\<lambda>_.
         unlink_state_if_identity_matches ev intent_nm intent_identity))))))))) "

definition cleanup_service :: "'a journal_env_scheme \<Rightarrow> string \<Rightarrow> unit io" where
  "cleanup_service ev service =
     bind (open_directory_nofollow ev StateRoot) (\<lambda>_.
     bind (validated_committed_records ev service) (\<lambda>records.
     bind (for_each (cleanup_one_at ev) records) (\<lambda>_. sync_all)))"


subsection \<open>Recovery: what is believed\<close>

record valid_intent =
  vi_name :: string
  vi_intent :: state_intent
  vi_identity :: file_identity

record valid_publication =
  vp_name :: string
  vp_binding :: publication_binding
  vp_identity :: file_identity

text \<open>A journal entry of the store: a small regular file of the expected owner and mode.\<close>

definition read_entry :: "'a journal_env_scheme \<Rightarrow> string \<Rightarrow> string \<Rightarrow> (string \<times> file_identity) option io" where
  "read_entry ev start name =
     (if \<not> is_utf8 name \<or> \<not> prefix start name \<or> \<not> suffix ''.json'' name then ret None
      else bind (tried (open_regular_at StateRoot name)) (\<lambda>f.
      case f of Err _ \<Rightarrow> ret None | Ok i \<Rightarrow>
      bind (look (\<lambda>_. Ok ())) (\<lambda>_.
      if \<not> owned_state_file ev i then ret None
      else bind (tried (read_open_bounded i MAX_RECORD_BYTES)) (\<lambda>r.
      ret (case r of Err _ \<Rightarrow> None | Ok encoded \<Rightarrow> Some (encoded, identity_for_bytes ev i))))))"

definition as_intent :: "'a journal_env_scheme \<Rightarrow> string \<Rightarrow> string \<Rightarrow> file_identity \<Rightarrow> valid_intent option" where
  "as_intent ev name encoded identity =
     (case je_intent ev encoded of None \<Rightarrow> None | Some intent \<Rightarrow>
        if name \<noteq> intent_name (si_role intent) (si_backup intent) \<or> \<not> valid_state_intent intent then None
        else Some \<lparr>vi_name = name, vi_intent = intent, vi_identity = identity\<rparr>)"

definition as_publication :: "'a journal_env_scheme \<Rightarrow> string \<Rightarrow> string \<Rightarrow> file_identity \<Rightarrow> valid_publication option" where
  "as_publication ev name encoded identity =
     (case je_binding ev encoded of None \<Rightarrow> None | Some b \<Rightarrow>
        if name \<noteq> publication_name (pb_role b) (pb_backup b) \<or> \<not> valid_publication_binding b then None
        else Some \<lparr>vp_name = name, vp_binding = b, vp_identity = identity\<rparr>)"

definition validated_intents :: "'a journal_env_scheme \<Rightarrow> valid_intent list io" where
  "validated_intents ev =
     bind (open_directory_nofollow ev StateRoot) (\<lambda>_.
     bind (read_dir ev StateRoot) (\<lambda>names.
     collect_some (\<lambda>name. bind (read_entry ev ''.facelock-intent-'' name) (\<lambda>e.
       ret (case e of None \<Rightarrow> None | Some (encoded, identity) \<Rightarrow> as_intent ev name encoded identity))) names))"

definition validated_publications :: "'a journal_env_scheme \<Rightarrow> valid_publication list io" where
  "validated_publications ev =
     bind (open_directory_nofollow ev StateRoot) (\<lambda>_.
     bind (read_dir ev StateRoot) (\<lambda>names.
     collect_some (\<lambda>name. bind (read_entry ev ''.facelock-publication-'' name) (\<lambda>e.
       ret (case e of None \<Rightarrow> None | Some (encoded, identity) \<Rightarrow> as_publication ev name encoded identity))) names))"

definition publication_matches_intent :: "publication_binding \<Rightarrow> valid_intent \<Rightarrow> bool" where
  "publication_matches_intent b v \<longleftrightarrow>
     intent_role_of (pb_role b) = si_role (vi_intent v) \<and> pb_sequence b = si_sequence (vi_intent v) \<and>
     pb_service b = si_service (vi_intent v) \<and> pb_backup b = si_backup (vi_intent v) \<and>
     pb_intent_sha256 b = id_sha256 (vi_identity v) \<and>
     (if pb_role b = PubCommit then si_replacement_record_sha256 (vi_intent v) = Some (pb_sha256 b)
      else si_installed_sha256 (vi_intent v) = pb_sha256 b)"

definition finish_recovered_publication ::
    "'a journal_env_scheme \<Rightarrow> valid_intent option \<Rightarrow> valid_publication \<Rightarrow> unit io" where
  "finish_recovered_publication ev intent publication =
     bind (case intent of
             Some v \<Rightarrow> unlink_state_if_identity_matches ev (vi_name v) (vi_identity v)
           | None \<Rightarrow> ret ()) (\<lambda>_.
     unlink_state_if_identity_matches ev (vp_name publication) (vp_identity publication))"

subsection \<open>Recovery: publications\<close>

definition opt_is :: "('a \<Rightarrow> bool) \<Rightarrow> 'a option \<Rightarrow> bool" where
  "opt_is P x = (case x of Some a \<Rightarrow> P a | None \<Rightarrow> False)"

definition recover_commit_publication ::
    "'a journal_env_scheme \<Rightarrow> valid_publication \<Rightarrow> valid_intent option \<Rightarrow> unit io" where
  "recover_commit_publication ev publication intent =
     (let b = vp_binding publication; exchange_nm = exchange_name (pb_backup b);
          prepared_hash = opt_str (Option.bind intent (\<lambda>v. si_record_sha256 (vi_intent v)));
          is_published = opt_is (binding_identity_matches b);
          is_prepared = opt_is (\<lambda>identity. state_identity_matches (expected_state_owner ev) identity prepared_hash) in
      bind (open_directory_nofollow ev StateRoot) (\<lambda>_.
      bind (open_identity_at ev StateRoot (record_name (pb_backup b)) MAX_RECORD_BYTES) (\<lambda>canonical.
      bind (open_identity_at ev StateRoot exchange_nm MAX_RECORD_BYTES) (\<lambda>temp.
      let finish = bind (finish_recovered_publication ev intent publication) (\<lambda>_. sync_all);
          drop_temp = (\<lambda>identity. bind (unlink_state_if_identity_matches ev exchange_nm identity) (\<lambda>_. finish)) in
      case (intent, canonical, temp) of
        (Some _, Some _, Some temp_identity) \<Rightarrow>
          if is_prepared canonical \<and> is_published temp then drop_temp temp_identity
          else if is_published canonical \<and> is_prepared temp then drop_temp temp_identity
          else ret ()
      | (Some _, Some _, None) \<Rightarrow> if is_published canonical then finish else ret ()
      | (None, Some _, None) \<Rightarrow> if is_published canonical then finish else ret ()
      | _ \<Rightarrow> ret ()))))"

text \<open>Whether a removal that was published should now retire the file it published.\<close>

definition should_retire :: "'a journal_env_scheme \<Rightarrow> pam_dirs \<Rightarrow> publication_binding \<Rightarrow> bool io" where
  "should_retire ev dirs b =
     bind (entry_exists_at PamRoot (vendor_retire_name (pb_backup b))) (\<lambda>quarantine_exists.
     if quarantine_exists then ret True
     else bind (read_regular_at_bounded ev PamRoot (pb_service b) MAX_BACKUP_BYTES) (\<lambda>found.
     case found of
       None \<Rightarrow> ret False
     | Some (bs, current) \<Rightarrow>
         if \<not> binding_identity_matches b current then ret False
         else bind (tried (current_vendor_override_matches ev dirs (pb_service b) bs current True)) (\<lambda>matches.
           ret (matches = Ok True))))"

definition retire_published :: "'a journal_env_scheme \<Rightarrow> pam_dirs \<Rightarrow> publication_binding \<Rightarrow> unit io" where
  "retire_published ev dirs b =
     bind (should_retire ev dirs b) (\<lambda>retire.
     if \<not> retire then ret ()
     else bind (tried (retire_vendor_override ev dirs (pb_service b) (pb_backup b) (binding_identity b))) (\<lambda>retired.
       case retired of
         Err e \<Rightarrow> if is_ambiguous_publication e \<or> interrupted e then throw e else ret ()
       | Ok _ \<Rightarrow> ret ()))"

definition recover_pam_publication ::
    "'a journal_env_scheme \<Rightarrow> pam_dirs \<Rightarrow> valid_publication \<Rightarrow> valid_intent option \<Rightarrow> string \<Rightarrow> unit io" where
  "recover_pam_publication ev dirs publication intent temp_name =
     (let b = vp_binding publication;
          installed = binding_identity_matches b;
          original = (\<lambda>identity. opt_is (\<lambda>v. exact_original_intent_identity (vi_intent v) identity) intent) in
      bind (open_directory_nofollow ev PamRoot) (\<lambda>_.
      bind (open_identity_at ev PamRoot (pb_service b) MAX_BACKUP_BYTES) (\<lambda>canonical.
      bind (open_identity_at ev PamRoot temp_name MAX_BACKUP_BYTES) (\<lambda>temp.
      let finish =
            bind sync_all (\<lambda>_.
            bind (if pb_role b = PubPamRemove then retire_published ev dirs b else ret ()) (\<lambda>_.
            finish_recovered_publication ev intent publication)) in
      case (intent, canonical, temp) of
        (Some _, Some current, Some other) \<Rightarrow>
          if original current \<and> installed other \<or> installed current \<and> original other
          then bind (unlink_at_if_identity_matches ev PamRoot temp_name other MAX_BACKUP_BYTES) (\<lambda>_. finish)
          else ret ()
      | (_, Some current, None) \<Rightarrow> if installed current then finish else ret ()
      | (_, None, None) \<Rightarrow> if pb_role b = PubPamRemove then finish else ret ()
      | _ \<Rightarrow> ret ()))))"

definition recover_vendor_publication ::
    "'a journal_env_scheme \<Rightarrow> valid_publication \<Rightarrow> valid_intent option \<Rightarrow> unit io" where
  "recover_vendor_publication ev publication intent =
     (let b = vp_binding publication; temp_name = vendor_create_name (pb_backup b) in
      bind (open_directory_nofollow ev PamRoot) (\<lambda>_.
      bind (open_identity_at ev PamRoot (pb_service b) MAX_BACKUP_BYTES) (\<lambda>canonical.
      bind (open_identity_at ev PamRoot temp_name MAX_BACKUP_BYTES) (\<lambda>temp.
      let finish = bind sync_all (\<lambda>_. finish_recovered_publication ev intent publication) in
      case (intent, canonical, temp) of
        (Some _, None, Some replacement) \<Rightarrow>
          if binding_identity_matches b replacement
          then bind (unlink_at_if_identity_matches ev PamRoot temp_name replacement MAX_BACKUP_BYTES) (\<lambda>_. finish)
          else ret ()
      | (_, Some installed, None) \<Rightarrow> if binding_identity_matches b installed then finish else ret ()
      | _ \<Rightarrow> ret ()))))"

definition recover_publication ::
    "'a journal_env_scheme \<Rightarrow> pam_dirs \<Rightarrow> valid_intent list \<Rightarrow> valid_publication \<Rightarrow> unit io" where
  "recover_publication ev dirs intents publication =
     (let b = vp_binding publication; intent = find (publication_matches_intent b) intents in
      bind (if intent = None then entry_exists_at StateRoot (intent_name (intent_role_of (pb_role b)) (pb_backup b)) else ret False) (\<lambda>blocked.
      if blocked then ret ()
      else case pb_role b of
        PubCommit \<Rightarrow> recover_commit_publication ev publication intent
      | PubPamReplace \<Rightarrow> recover_pam_publication ev dirs publication intent (pam_replace_name (pb_backup b))
      | PubPamRemove \<Rightarrow> recover_pam_publication ev dirs publication intent (pam_remove_name (pb_backup b))
      | PubVendorCreate \<Rightarrow> recover_vendor_publication ev publication intent))"

definition recover_publications :: "'a journal_env_scheme \<Rightarrow> pam_dirs \<Rightarrow> unit io" where
  "recover_publications ev dirs =
     bind (validated_intents ev) (\<lambda>intents.
     bind (open_directory_nofollow ev StateRoot) (\<lambda>_.
     bind (validated_publications ev) (\<lambda>publications.
     for_each (recover_publication ev dirs intents) publications)))"


subsection \<open>Recovery: intents\<close>

definition matching_state_entry :: "'a journal_env_scheme \<Rightarrow> string \<Rightarrow> string \<Rightarrow> nat \<Rightarrow> file_identity option io" where
  "matching_state_entry ev name expected_sha256 limit =
     bind (tried (open_regular_at StateRoot name)) (\<lambda>f.
     case f of
       Err e \<Rightarrow> if not_found e then ret None else throw e
     | Ok i \<Rightarrow>
         bind (identity_of_open_bounded ev i limit) (\<lambda>identity.
         if \<not> state_identity_matches (expected_state_owner ev) identity expected_sha256
         then throw (OtherError ''reserved state entry does not match its durable intent'')
         else ret (Some identity)))"

definition is_found :: "('a option, 'e) result \<Rightarrow> bool" where
  "is_found r = (case r of Ok (Some _) \<Rightarrow> True | _ \<Rightarrow> False)"

definition recover_prepare_intent :: "'a journal_env_scheme \<Rightarrow> valid_intent \<Rightarrow> unit io" where
  "recover_prepare_intent ev v =
     (let intent = vi_intent v; record = record_name (si_backup intent) in
      case si_record_sha256 intent of None \<Rightarrow> ret () | Some record_hash \<Rightarrow>
      bind (tried (matching_state_entry ev (si_backup intent) (si_original_sha256 intent) MAX_BACKUP_BYTES)) (\<lambda>backup.
      bind (tried (matching_state_entry ev record record_hash MAX_RECORD_BYTES)) (\<lambda>provenance.
      case (backup, provenance) of
        (Ok b, Ok p) \<Rightarrow>
          bind (case (b, p) of
                  (Some identity, None) \<Rightarrow> unlink_state_if_identity_matches ev (si_backup intent) identity
                | (None, Some identity) \<Rightarrow> unlink_state_if_identity_matches ev record identity
                | _ \<Rightarrow> ret ()) (\<lambda>_.
          bind (unlink_state_if_identity_matches ev (vi_name v) (vi_identity v)) (\<lambda>_. sync_all))
      | _ \<Rightarrow> ret ())))"

definition recover_commit_intent :: "'a journal_env_scheme \<Rightarrow> valid_intent \<Rightarrow> unit io" where
  "recover_commit_intent ev v =
     (let intent = vi_intent v in
      case (si_record_sha256 intent, si_replacement_record_sha256 intent) of
        (Some record_hash, Some _) \<Rightarrow>
          bind (tried (matching_state_entry ev (record_name (si_backup intent)) record_hash MAX_RECORD_BYTES)) (\<lambda>canonical_prepared.
          bind (open_identity_at ev StateRoot (exchange_name (si_backup intent)) MAX_RECORD_BYTES) (\<lambda>exchange_entry.
          if is_found canonical_prepared \<and> exchange_entry = None
          then bind (unlink_state_if_identity_matches ev (vi_name v) (vi_identity v)) (\<lambda>_. sync_all)
          else ret ()))
      | _ \<Rightarrow> ret ())"

definition resume_quarantine :: "'a journal_env_scheme \<Rightarrow> string \<Rightarrow> string \<Rightarrow> string \<Rightarrow> nat \<Rightarrow> file_identity option io" where
  "resume_quarantine ev source quarantine expected_sha256 limit =
     bind (matching_state_entry ev source expected_sha256 limit) (\<lambda>canonical_identity.
     bind (matching_state_entry ev quarantine expected_sha256 limit) (\<lambda>quarantine_identity.
     case (canonical_identity, quarantine_identity) of
       (Some expected, None) \<Rightarrow>
         bind (rename_noreplace_at StateRoot source quarantine) (\<lambda>_.
         bind (matching_state_entry ev quarantine expected_sha256 limit) (\<lambda>found.
         case found of
           None \<Rightarrow> throw (OtherError ''quarantined state disappeared'')
         | Some moved \<Rightarrow>
             if \<not> identity_matches expected moved
             then
               bind (ignore (rename_noreplace_at StateRoot quarantine source)) (\<lambda>_.
               throw (OtherError ''state entry changed during recovery quarantine''))
             else ret (Some moved)))
     | (None, Some identity) \<Rightarrow> ret (Some identity)
     | (None, None) \<Rightarrow> ret None
     | (Some _, Some _) \<Rightarrow> throw (OtherError ''both canonical and quarantine state entries exist'')))"

definition unlink_found :: "'a journal_env_scheme \<Rightarrow> string \<Rightarrow> file_identity option \<Rightarrow> unit io" where
  "unlink_found ev n found =
     (case found of Some identity \<Rightarrow> unlink_state_if_identity_matches ev n identity | None \<Rightarrow> ret ())"

definition recover_cleanup_intent :: "'a journal_env_scheme \<Rightarrow> valid_intent \<Rightarrow> unit io" where
  "recover_cleanup_intent ev v =
     (let intent = vi_intent v;
          backup_quarantine = quarantine_name ''backup'' (si_backup intent);
          record_quarantine = record_quarantine_name (si_backup intent) in
      case si_record_sha256 intent of None \<Rightarrow> ret () | Some record_hash \<Rightarrow>
      bind (tried (resume_quarantine ev (si_backup intent) backup_quarantine (si_original_sha256 intent) MAX_BACKUP_BYTES)) (\<lambda>b.
      case b of Err _ \<Rightarrow> ret () | Ok backup \<Rightarrow>
      bind (tried (resume_quarantine ev (record_name (si_backup intent)) record_quarantine record_hash MAX_RECORD_BYTES)) (\<lambda>r.
      case r of Err _ \<Rightarrow> ret () | Ok record \<Rightarrow>
      bind (unlink_found ev backup_quarantine backup) (\<lambda>_.
      bind (unlink_found ev record_quarantine record) (\<lambda>_.
      bind (unlink_state_if_identity_matches ev (vi_name v) (vi_identity v)) (\<lambda>_. sync_all))))))"

text \<open>A name in the PAM directory: \<open>Ok\<close> what is there, \<open>Err\<close> when recovery must leave it alone.\<close>

definition pam_entry :: "'a journal_env_scheme \<Rightarrow> string \<Rightarrow> (file_identity option, unit) result io" where
  "pam_entry ev name =
     bind (tried (open_regular_at PamRoot name)) (\<lambda>f.
     case f of
       Ok i \<Rightarrow> bind (identity_of_open_bounded ev i MAX_BACKUP_BYTES) (\<lambda>identity. ret (Ok (Some identity)))
     | Err e \<Rightarrow> ret (if not_found e then Ok None else Err ()))"

definition recover_existing_pam_mutation_intent :: "'a journal_env_scheme \<Rightarrow> valid_intent \<Rightarrow> string \<Rightarrow> unit io" where
  "recover_existing_pam_mutation_intent ev v temp_name =
     (let intent = vi_intent v in
      bind (open_directory_nofollow ev PamRoot) (\<lambda>_.
      bind (pam_entry ev (si_service intent)) (\<lambda>canonical.
      case canonical of Err _ \<Rightarrow> ret () | Ok current \<Rightarrow>
      bind (pam_entry ev temp_name) (\<lambda>t.
      case t of Err _ \<Rightarrow> ret () | Ok temp \<Rightarrow>
      if opt_is (exact_original_intent_identity intent) current \<and> temp = None
      then bind sync_all (\<lambda>_. unlink_state_if_identity_matches ev (vi_name v) (vi_identity v))
      else ret ()))))"

definition recover_pam_replace_intent :: "'a journal_env_scheme \<Rightarrow> valid_intent \<Rightarrow> unit io" where
  "recover_pam_replace_intent ev v =
     (let intent = vi_intent v in
      case si_record_sha256 intent of None \<Rightarrow> ret () | Some record_hash \<Rightarrow>
      bind (open_directory_nofollow ev StateRoot) (\<lambda>_.
      bind (tried (matching_state_entry ev (record_name (si_backup intent)) record_hash MAX_RECORD_BYTES)) (\<lambda>record.
      if is_found record
      then recover_existing_pam_mutation_intent ev v (pam_replace_name (si_backup intent))
      else ret ())))"

definition recover_pam_remove_intent :: "'a journal_env_scheme \<Rightarrow> valid_intent \<Rightarrow> unit io" where
  "recover_pam_remove_intent ev v = recover_existing_pam_mutation_intent ev v (pam_remove_name (si_backup (vi_intent v)))"

definition recover_vendor_create_intent :: "'a journal_env_scheme \<Rightarrow> valid_intent \<Rightarrow> unit io" where
  "recover_vendor_create_intent ev v =
     (let intent = vi_intent v in
      bind (open_directory_nofollow ev PamRoot) (\<lambda>_.
      bind (pam_entry ev (si_service intent)) (\<lambda>canonical.
      case canonical of Err _ \<Rightarrow> ret () | Ok current \<Rightarrow>
      bind (pam_entry ev (vendor_create_name (si_backup intent))) (\<lambda>t.
      case t of Err _ \<Rightarrow> ret () | Ok temp \<Rightarrow>
      if current = None \<and> temp = None
      then bind sync_all (\<lambda>_. unlink_state_if_identity_matches ev (vi_name v) (vi_identity v))
      else ret ()))))"

definition recover_intent :: "'a journal_env_scheme \<Rightarrow> valid_intent \<Rightarrow> unit io" where
  "recover_intent ev v =
     (case si_role (vi_intent v) of
        Prepare \<Rightarrow> recover_prepare_intent ev v
      | Commit \<Rightarrow> recover_commit_intent ev v
      | Cleanup \<Rightarrow> recover_cleanup_intent ev v
      | PamReplace \<Rightarrow> recover_pam_replace_intent ev v
      | PamRemove \<Rightarrow> recover_pam_remove_intent ev v
      | VendorCreate \<Rightarrow> recover_vendor_create_intent ev v)"

definition recover_intents :: "'a journal_env_scheme \<Rightarrow> unit io" where
  "recover_intents ev =
     bind (open_directory_nofollow ev StateRoot) (\<lambda>_.
     bind (validated_intents ev) (\<lambda>intents. for_each (recover_intent ev) intents))"

subsection \<open>Recovery\<close>

definition recover_owned_temp :: "'a journal_env_scheme \<Rightarrow> string \<Rightarrow> unit io" where
  "recover_owned_temp ev name =
     (if \<not> is_utf8 name then ret ()
      else case owned_temp_parts name of None \<Rightarrow> ret () | Some (destination, expected_hash) \<Rightarrow>
      bind (tried (open_regular_at StateRoot name)) (\<lambda>f.
      case f of Err _ \<Rightarrow> ret () | Ok i \<Rightarrow>
      bind (look (\<lambda>_. Ok ())) (\<lambda>_.
      if \<not> owned_state_file ev i then ret ()
      else bind (tried (read_open_bounded i MAX_BACKUP_BYTES)) (\<lambda>r.
      case r of Err _ \<Rightarrow> ret () | Ok bs \<Rightarrow>
      let identity = identity_for_bytes ev i in
      if id_sha256 identity \<noteq> expected_hash \<or> \<not> valid_owned_temp_destination ev destination bs then ret ()
      else unlink_state_if_identity_matches ev name identity))))"

definition recover_owned_temps :: "'a journal_env_scheme \<Rightarrow> unit io" where
  "recover_owned_temps ev =
     bind (open_directory_nofollow ev StateRoot) (\<lambda>_.
     bind (read_dir ev StateRoot) (\<lambda>names.
     bind (for_each (recover_owned_temp ev) names) (\<lambda>_. sync_all)))"

text \<open>The services that records of the store name.\<close>

definition record_hint :: "'a journal_env_scheme \<Rightarrow> string \<Rightarrow> string option io" where
  "record_hint ev name =
     (if \<not> is_utf8 name \<or> \<not> suffix ''.json'' name then ret None
      else bind (tried (open_regular_at StateRoot name)) (\<lambda>f.
      case f of Err _ \<Rightarrow> ret None | Ok i \<Rightarrow>
      bind (tried (read_open_bounded i MAX_RECORD_BYTES)) (\<lambda>r.
      case r of Err _ \<Rightarrow> ret None | Ok encoded \<Rightarrow>
      ret (case je_record ev encoded of None \<Rightarrow> None | Some record \<Rightarrow>
           if valid_provenance_record name record then Some (pv_service record) else None))))"

fun first_seen :: "'a list \<Rightarrow> 'a list \<Rightarrow> 'a list" where
  "first_seen seen [] = rev seen"
| "first_seen seen (x # xs) = first_seen (if x \<in> set seen then seen else x # seen) xs"

definition settle_prepared :: "'a journal_env_scheme \<Rightarrow> string \<Rightarrow> prepared_backup \<Rightarrow> unit io" where
  "settle_prepared ev service p =
     (if pv_state (bk_provenance p) \<noteq> Prepared then ret ()
      else bind (symlink_metadata_ok StateRoot (intent_name PamReplace (bk_backup p))) (\<lambda>pending.
      if pending then ret ()
      else bind (tried (read_regular_nofollow ev PamRoot service)) (\<lambda>found.
      case found of Err _ \<Rightarrow> ret () | Ok (bs, _) \<Rightarrow>
      let current = sha256_hex ev bs in
      if current = pv_installed_sha256 (bk_provenance p) then commit_unlocked ev p
      else if current = pv_original_sha256 (bk_provenance p) then bind (cleanup_one_at ev p) (\<lambda>_. sync_all)
      else ret ())))"

definition settle_service :: "'a journal_env_scheme \<Rightarrow> string \<Rightarrow> unit io" where
  "settle_service ev service = bind (validated_records ev service) (\<lambda>records. for_each (settle_prepared ev service) records)"

definition recover_unlocked :: "'a journal_env_scheme \<Rightarrow> pam_dirs \<Rightarrow> unit io" where
  "recover_unlocked ev dirs =
     bind (recover_owned_temps ev) (\<lambda>_.
     bind (recover_publications ev dirs) (\<lambda>_.
     bind (recover_intents ev) (\<lambda>_.
     bind (open_directory_nofollow ev StateRoot) (\<lambda>_.
     bind (read_dir ev StateRoot) (\<lambda>names.
     bind (collect_some (record_hint ev) names) (\<lambda>hints.
     for_each (settle_service ev) (first_seen [] hints)))))))"

subsection \<open>The changes behind the commands\<close>

text \<open>The rule into a service with a local file: plan, back up, replace, commit.\<close>

definition add_rule :: "'a journal_env_scheme \<Rightarrow> string \<Rightarrow> string \<Rightarrow> file_identity \<Rightarrow> since_epoch \<Rightarrow> unit io" where
  "add_rule ev service bs expected now =
     (let written = with_facelock_inserted bs in
      bind (plan_at_unlocked ev service bs written now) (\<lambda>p.
      bind (persist_unlocked ev p bs) (\<lambda>_.
      bind (replace_pam_with_intent ev p service expected written) (\<lambda>_.
      commit_unlocked ev p))))"

end
