(* ===== verification/PamApply.thy ===== *)
theory PamApply
  imports PamJournal
begin

text \<open>
  The write and status verbs of \<^verbatim>\<open>facelock pam\<close>, \<^verbatim>\<open>facelock-cli/src/commands/pam.rs\<close>: finding the file a service
  name means, refusing what must not be edited, planning every service before anything is written,
  and applying the plans. Messages and the JSON document are not modelled; what the terminal, the
  clock and \<^verbatim>\<open>faccessat\<close> answer is an argument.
\<close>

subsection \<open>Requests and answers\<close>

datatype write_action = AddLine | RemoveLine

record pam_request =
  rq_action :: write_action
  rq_services :: "string list"
  rq_no_confirm :: bool
  rq_allow_sensitive :: bool
  rq_if_present :: bool
  rq_dry_run :: bool
  rq_keep_backup :: bool

definition SENSITIVE_SERVICES :: "string list" where
  "SENSITIVE_SERVICES =
     [''common-auth'', ''login'', ''password-auth'', ''password-auth-ac'', ''sshd'', ''system-auth'', ''system-auth-ac'', ''system-login'']"

definition DEFAULT_PAM_SERVICE :: string where "DEFAULT_PAM_SERVICE = ''sudo''"

definition BACKUP_SUFFIX :: string where "BACKUP_SUFFIX = ''.facelock-backup''"

datatype service_outcome =
    Installed | Overridden | Removed | NoOverride | NothingToDo | NoFile | Declined
  | WriteFailed string io_error | CleanupFailed io_error | Present | Missing | Unknown string

datatype pam_plan =
    Rewrite string | Override string | DeleteOverride string | RetainVendorOverride string | VendorOnly | NoChange | AbsentPlan

datatype origin = Local | Vendor root string | Nowhere "string list"

record target =
  tg_service :: string
  tg_path :: string
  tg_origin :: origin
  tg_shadowed :: "string option"
  tg_identity :: "file_identity option"
  tg_plan :: pam_plan

datatype rejected = RejectedName | OutOfBase root string | HardLinked root string u64

fun rejected_reason :: "rejected \<Rightarrow> string" where
  "rejected_reason RejectedName = ''invalid service name''"
| "rejected_reason (OutOfBase _ _) = ''symlinked outside /etc/pam.d''"
| "rejected_reason (HardLinked _ _ _) = ''hard-linked service file''"

text \<open>What the session outside the file system answers.\<close>

record session =
  ss_override_writable :: bool
  ss_version :: string
  ss_date :: string
  ss_now :: since_epoch
  ss_prompting :: bool
  ss_answer :: "string \<Rightarrow> (bool, io_error) result"

subsection \<open>The shared profile\<close>

text \<open>What opening a directory and a file of \<^verbatim>\<open>pam-auth-update\<close> answered: owner and mode of the directory, the file.\<close>

record profile_file =
  pf_dir :: "((u32 \<times> u32) \<times> u32, io_error) result"
  pf_file :: "(inode, io_error) result"

definition read_pam_auth_update_file :: "profile_file \<Rightarrow> u32 \<times> u32 \<Rightarrow> (string option, io_error) result" where
  "read_pam_auth_update_file f expected_owner =
     (case pf_dir f of
        Err e \<Rightarrow> if not_found e then Ok None else Err e
      | Ok (owner, mode) \<Rightarrow>
          if owner \<noteq> expected_owner \<or> mode AND 0x12 \<noteq> 0 then Err (PermissionDenied ''untrusted directory'')
          else case pf_file f of
            Err e \<Rightarrow> if not_found e then Ok None else Err e
          | Ok i \<Rightarrow>
              if (i_uid i, i_gid i) \<noteq> expected_owner \<or> i_mode i AND 0x12 \<noteq> 0 then Err (PermissionDenied ''untrusted file'')
              else if length (i_bytes i) > MAX_RECORD_BYTES then Err (InvalidData ''state file exceeds size limit'')
              else Ok (Some (i_bytes i)))"

fun newline_parts :: "string \<Rightarrow> string \<Rightarrow> string list" where
  "newline_parts acc [] = [rev acc]"
| "newline_parts acc (c # cs) = (if c = newline then rev acc # newline_parts [] cs else newline_parts (c # acc) cs)"

definition without_return :: "string \<Rightarrow> string" where
  "without_return line = (case strip_suffix [CHR 0x0D] line of Some l \<Rightarrow> l | None \<Rightarrow> line)"

definition pam_auth_update_state_selects_facelock :: "string \<Rightarrow> bool" where
  "pam_auth_update_state_selects_facelock bs = list_ex (\<lambda>line. without_return line = ''Module: facelock'') (newline_parts [] bs)"

fun managed_from :: "bool \<Rightarrow> string list \<Rightarrow> bool" where
  "managed_from primary [] = False"
| "managed_from primary (line # lines) =
     (let s = without_return line in
      if starts_with s ''# here are the per-package modules'' \<and> contains s ''Primary'' then managed_from True lines
      else if primary \<and> starts_with s ''# here's the fallback if no module succeeds'' then False
      else if primary \<and> is_facelock_rule s then True
      else managed_from primary lines)"

definition common_auth_has_managed_facelock :: "string \<Rightarrow> bool" where
  "common_auth_has_managed_facelock bs = managed_from False (newline_parts [] bs)"

definition PAM_AUTH_UPDATE_PROFILE :: string where
  "PAM_AUTH_UPDATE_PROFILE =
     ''Name: Facelock face authentication'' @ [newline] @ ''Default: no'' @ [newline] @ ''Priority: 900'' @ [newline] @
     ''Auth-Type: Primary'' @ [newline] @ ''Auth:'' @ [newline] @
     [CHR 0x09] @ ''[success=end default=ignore]'' @ [CHR 0x09] @ ''pam_facelock.so'' @ [newline]"

record profile_roots =
  pr_system :: bool
  pr_state :: profile_file
  pr_pam :: profile_file
  pr_profiles :: profile_file

definition active_pam_auth_update_profile :: "'a env_scheme \<Rightarrow> profile_roots \<Rightarrow> (bool, io_error) result" where
  "active_pam_auth_update_profile ev roots =
     (let owner = (if pr_system roots then (0, 0) else (ev_euid ev, ev_egid ev)) in
      and_then (read_pam_auth_update_file (pr_state roots) owner) (\<lambda>state.
      let selected = (case state of Some bs \<Rightarrow> pam_auth_update_state_selects_facelock bs | None \<Rightarrow> False) in
      and_then (read_pam_auth_update_file (pr_pam roots) owner) (\<lambda>common_auth.
      let live = (case common_auth of Some bs \<Rightarrow> common_auth_has_managed_facelock bs | None \<Rightarrow> False) in
      if \<not> selected \<and> live then Err (InvalidData ''live PAM graph contains an unselected Facelock profile'')
      else if \<not> selected then Ok False
      else if common_auth = None then Err (Wrapped ''selected Facelock profile has no common-auth graph'' (Os ENOENT))
      else if \<not> live then Err (InvalidData ''selected Facelock profile does not match the live PAM graph'')
      else and_then (read_pam_auth_update_file (pr_profiles roots) owner) (\<lambda>profile.
        case profile of
          None \<Rightarrow> Err (Wrapped ''selected Facelock profile metadata is missing'' (Os ENOENT))
        | Some bs \<Rightarrow>
            if bs \<noteq> PAM_AUTH_UPDATE_PROFILE
            then Err (InvalidData ''selected Facelock profile metadata does not match the packaged profile'')
            else Ok True))))"

subsection \<open>Refusals of the first phase\<close>

datatype write_refusal =
    SensitiveRefused string
  | ServiceRejected string rejected
  | FileNotFound "string list"
  | ReadFailed string io_error
  | OverrideDirUnwritable io_error
  | ProfileUnclear io_error
  | ProfileActive

definition guard_direct_add :: "'a env_scheme \<Rightarrow> profile_roots option \<Rightarrow> write_action \<Rightarrow> (unit, write_refusal) result" where
  "guard_direct_add ev roots action =
     (case roots of
        None \<Rightarrow> Ok ()
      | Some r \<Rightarrow>
          if action \<noteq> AddLine then Ok ()
          else case active_pam_auth_update_profile ev r of
            Err e \<Rightarrow> Err (ProfileUnclear e)
          | Ok active \<Rightarrow> if active then Err ProfileActive else Ok ())"

definition gate_sensitive :: "pam_request \<Rightarrow> string \<Rightarrow> (unit, write_refusal) result" where
  "gate_sensitive write name =
     (if rq_action write \<noteq> AddLine \<or> rq_allow_sensitive write \<or> name \<notin> set SENSITIVE_SERVICES then Ok ()
      else Err (SensitiveRefused name))"

definition file_name_of :: "string \<Rightarrow> string" where
  "file_name_of path = last (slash_parts [] path)"

definition requested_services :: "string list \<Rightarrow> string list" where
  "requested_services services = (if services = [] then [DEFAULT_PAM_SERVICE] else first_seen [] services)"

subsection \<open>Which file a name means\<close>

definition lstat :: "'a env_scheme \<Rightarrow> root \<Rightarrow> string \<Rightarrow> entry io" where
  "lstat ev r n = look (\<lambda>fs. if ev_missing ev r then Err ENOENT else case fs r n of None \<Rightarrow> Err ENOENT | Some e \<Rightarrow> Ok e)"

definition hard_link_checked :: "'a env_scheme \<Rightarrow> root \<Rightarrow> string \<Rightarrow> string \<Rightarrow> (string, rejected) result io" where
  "hard_link_checked ev r n path =
     bind (tried (lstat ev r n)) (\<lambda>m.
     ret (case m of Ok (File i) \<Rightarrow> if i_links i > 1 then Err (HardLinked r path (i_links i)) else Ok path | _ \<Rightarrow> Ok path))"

definition resolve_in :: "'a env_scheme \<Rightarrow> root \<Rightarrow> string \<Rightarrow> string \<Rightarrow> (string, rejected) result option io" where
  "resolve_in ev r base n =
     (let path = path_join base n in
      bind (tried (lstat ev r n)) (\<lambda>m.
      case m of
        Err e \<Rightarrow> ret (if not_found e then None else Some (Ok path))
      | Ok Symlink \<Rightarrow> bind (ignore (look (\<lambda>_. Ok ()))) (\<lambda>_. ret (Some (Err (OutOfBase r path))))
      | Ok _ \<Rightarrow> bind (hard_link_checked ev r n path) (\<lambda>checked. ret (Some checked))))"

primrec resolve_vendor ::
    "'a env_scheme \<Rightarrow> string \<Rightarrow> string \<Rightarrow> string list \<Rightarrow> (string \<times> root) list \<Rightarrow> (string \<times> origin, rejected) result io" where
  "resolve_vendor ev local service already_tried [] = ret (Ok (local, Nowhere already_tried))"
| "resolve_vendor ev local service already_tried (v # vs) =
     bind (resolve_in ev (snd v) (fst v) service) (\<lambda>resolved.
     case resolved of
       None \<Rightarrow> resolve_vendor ev local service (already_tried @ [path_join (fst v) service]) vs
     | Some (Err why) \<Rightarrow> ret (Err why)
     | Some (Ok path) \<Rightarrow> ret (Ok (path, Vendor (snd v) local)))"

definition resolve_service_path :: "'a env_scheme \<Rightarrow> pam_dirs \<Rightarrow> string \<Rightarrow> (string \<times> origin, rejected) result io" where
  "resolve_service_path ev dirs service =
     (let local = path_join (pd_overrides dirs) service in
      bind (resolve_in ev PamRoot (pd_overrides dirs) service) (\<lambda>resolved.
      case resolved of
        None \<Rightarrow> resolve_vendor ev local service [local] (pd_vendor dirs)
      | Some (Err why) \<Rightarrow> ret (Err why)
      | Some (Ok path) \<Rightarrow> ret (Ok (path, Local))))"

primrec first_shadowed :: "'a env_scheme \<Rightarrow> string \<Rightarrow> (string \<times> root) list \<Rightarrow> string option io" where
  "first_shadowed ev service [] = ret None"
| "first_shadowed ev service (v # vs) =
     bind (tried (lstat ev (snd v) service)) (\<lambda>m.
     if is_ok m then ret (Some (path_join (fst v) service)) else first_shadowed ev service vs)"

definition shadowed_vendor :: "'a env_scheme \<Rightarrow> pam_dirs \<Rightarrow> string \<Rightarrow> origin \<Rightarrow> string option io" where
  "shadowed_vendor ev dirs service found = (if found \<noteq> Local then ret None else first_shadowed ev service (pd_vendor dirs))"

definition locate :: "'a env_scheme \<Rightarrow> pam_dirs \<Rightarrow> string \<Rightarrow> (target, rejected) result io" where
  "locate ev dirs service =
     (if \<not> confined service then ret (Err RejectedName)
      else bind (resolve_service_path ev dirs service) (\<lambda>resolved.
      case resolved of
        Err why \<Rightarrow> ret (Err why)
      | Ok (path, found) \<Rightarrow>
          bind (shadowed_vendor ev dirs service found) (\<lambda>shadowed.
          ret (Ok \<lparr>tg_service = service, tg_path = path, tg_origin = found, tg_shadowed = shadowed,
                   tg_identity = None, tg_plan = NoChange\<rparr>))))"

fun origin_root :: "origin \<Rightarrow> root" where
  "origin_root (Vendor r _) = r"
| "origin_root _ = PamRoot"

fun tried_paths :: "target \<Rightarrow> string list" where
  "tried_paths t = (case tg_origin t of Nowhere paths \<Rightarrow> paths | _ \<Rightarrow> [tg_path t])"

subsection \<open>Planning\<close>

text \<open>The plan for a file that was read.\<close>

definition plan_for ::
    "'a journal_env_scheme \<Rightarrow> pam_dirs \<Rightarrow> session \<Rightarrow> pam_request \<Rightarrow> target \<Rightarrow> string \<Rightarrow> file_identity \<Rightarrow> (pam_plan, write_refusal) result io" where
  "plan_for ev dirs ss write located bs identity =
     (let present = has_facelock_rule bs in
      case tg_origin located of
        Vendor _ _ \<Rightarrow>
          if rq_action write = RemoveLine then ret (Ok VendorOnly)
          else if present then ret (Ok NoChange)
          else
            bind (tried (look (\<lambda>_. if ss_override_writable ss then Ok () else Err EIO))) (\<lambda>w.
            ret (case w of Err e \<Rightarrow> Err (OverrideDirUnwritable e) | Ok _ \<Rightarrow> Ok (Override bs)))
      | _ \<Rightarrow>
          if rq_action write = RemoveLine
          then
            bind (classify_vendor_override ev dirs (tg_service located) (tg_shadowed located \<noteq> None) bs identity) (\<lambda>disposition.
            ret (Ok (case disposition of
                       Unchanged \<Rightarrow> DeleteOverride bs
                     | SourceAbsent vendor \<Rightarrow> if present then Rewrite bs else RetainVendorOverride vendor
                     | _ \<Rightarrow> if present then Rewrite bs else NoChange)))
          else ret (Ok (if present then NoChange else Rewrite bs)))"

definition plan_service ::
    "'a journal_env_scheme \<Rightarrow> pam_dirs \<Rightarrow> session \<Rightarrow> pam_request \<Rightarrow> string \<Rightarrow> (target, write_refusal) result io" where
  "plan_service ev dirs ss write service =
     (case gate_sensitive write service of Err why \<Rightarrow> ret (Err why) | Ok _ \<Rightarrow>
      bind (locate ev dirs service) (\<lambda>l.
      case l of Err why \<Rightarrow> ret (Err (ServiceRejected service why)) | Ok located \<Rightarrow>
      case gate_sensitive write (file_name_of (tg_path located)) of Err why \<Rightarrow> ret (Err why) | Ok _ \<Rightarrow>
      bind (tried (read_regular_nofollow ev (origin_root (tg_origin located)) service)) (\<lambda>r.
      case r of
        Err e \<Rightarrow>
          ret (if not_found e
               then if rq_if_present write then Ok (located\<lparr>tg_plan := AbsentPlan\<rparr>) else Err (FileNotFound (tried_paths located))
               else Err (ReadFailed (tg_path located) e))
      | Ok (bs, identity) \<Rightarrow>
          bind (plan_for ev dirs ss write located bs identity) (\<lambda>p.
          ret (case p of Err why \<Rightarrow> Err why | Ok plan \<Rightarrow> Ok (located\<lparr>tg_identity := Some identity, tg_plan := plan\<rparr>))))))"

primrec plan_all ::
    "'a journal_env_scheme \<Rightarrow> pam_dirs \<Rightarrow> session \<Rightarrow> pam_request \<Rightarrow> string list \<Rightarrow> (target list, write_refusal) result io" where
  "plan_all ev dirs ss write [] = ret (Ok [])"
| "plan_all ev dirs ss write (s # rest) =
     bind (plan_service ev dirs ss write s) (\<lambda>t.
     case t of Err why \<Rightarrow> ret (Err why) | Ok target \<Rightarrow>
     bind (plan_all ev dirs ss write rest) (\<lambda>ts.
     ret (case ts of Err why \<Rightarrow> Err why | Ok targets \<Rightarrow> Ok (target # targets))))"

definition plan_writes ::
    "'a journal_env_scheme \<Rightarrow> pam_dirs \<Rightarrow> session \<Rightarrow> pam_request \<Rightarrow> (target list, write_refusal) result io" where
  "plan_writes ev dirs ss write = plan_all ev dirs ss write (requested_services (rq_services write))"

subsection \<open>Applying\<close>

text \<open>A step whose failure is the outcome of the service.\<close>

definition or_failed :: "string \<Rightarrow> 'a io \<Rightarrow> ('a \<Rightarrow> service_outcome io) \<Rightarrow> service_outcome io" where
  "or_failed what p f = bind (tried p) (\<lambda>r. case r of Err e \<Rightarrow> ret (WriteFailed what e) | Ok x \<Rightarrow> f x)"

definition confirmed :: "session \<Rightarrow> pam_request \<Rightarrow> string \<Rightarrow> (bool, io_error) result" where
  "confirmed ss write service = (if \<not> ss_prompting ss \<or> rq_no_confirm write then Ok True else ss_answer ss service)"

definition no_identity_error :: "string \<Rightarrow> io_error" where
  "no_identity_error what = InvalidData (what @ '' has no planned file identity'')"

definition apply_rewrite ::
    "'a journal_env_scheme \<Rightarrow> pam_dirs \<Rightarrow> session \<Rightarrow> pam_request \<Rightarrow> target \<Rightarrow> string \<Rightarrow> service_outcome io" where
  "apply_rewrite ev dirs ss write t bs =
     (let written = with_facelock_inserted bs in
      or_failed ''failed to recover PAM backup state'' (recover_unlocked ev dirs) (\<lambda>_.
      or_failed ''failed to plan backup'' (plan_at_unlocked ev (tg_service t) bs written (ss_now ss)) (\<lambda>p.
      case confirmed ss write (tg_service t) of
        Err e \<Rightarrow> ret (WriteFailed ''failed to read confirmation'' e)
      | Ok False \<Rightarrow> ret Declined
      | Ok True \<Rightarrow>
          or_failed ''failed to back up'' (persist_unlocked ev p bs) (\<lambda>_.
          or_failed ''failed to write''
            (case tg_identity t of
               Some expected \<Rightarrow> replace_pam_with_intent ev p (tg_service t) expected written
             | None \<Rightarrow> throw (no_identity_error ''PAM service'')) (\<lambda>_.
          or_failed ''installed, but failed to commit backup provenance'' (commit_unlocked ev p) (\<lambda>_.
          ret Installed))))))"

definition override_bytes :: "session \<Rightarrow> string \<Rightarrow> string \<Rightarrow> string" where
  "override_bytes ss path bs =
     provenance_header (case normalized_configured_path path of Some p \<Rightarrow> p | None \<Rightarrow> path) (ss_version ss) (ss_date ss) @
     with_facelock_inserted bs"

definition apply_override ::
    "'a journal_env_scheme \<Rightarrow> pam_dirs \<Rightarrow> session \<Rightarrow> pam_request \<Rightarrow> target \<Rightarrow> string \<Rightarrow> service_outcome io" where
  "apply_override ev dirs ss write t bs =
     (let written = override_bytes ss (tg_path t) bs in
      or_failed ''failed to recover PAM backup state'' (recover_unlocked ev dirs) (\<lambda>_.
      or_failed ''failed to plan vendor override'' (plan_mutation ev (tg_service t) bs written (ss_now ss)) (\<lambda>m.
      case confirmed ss write (tg_service t) of
        Err e \<Rightarrow> ret (WriteFailed ''failed to read confirmation'' e)
      | Ok False \<Rightarrow> ret Declined
      | Ok True \<Rightarrow>
          or_failed ''failed to write''
            (case (tg_origin t, tg_identity t) of
               (Vendor r _, Some expected) \<Rightarrow> create_vendor_with_intent ev m r (tg_service t) expected written
             | (_, Some _) \<Rightarrow> throw (InvalidInput ''vendor creation does not match its transaction plan'')
             | (_, None) \<Rightarrow> throw (no_identity_error ''vendor PAM service'')) (\<lambda>_.
          ret Overridden))))"

definition apply_add ::
    "'a journal_env_scheme \<Rightarrow> pam_dirs \<Rightarrow> session \<Rightarrow> pam_request \<Rightarrow> target \<Rightarrow> service_outcome io" where
  "apply_add ev dirs ss write t =
     (case tg_plan t of
        NoChange \<Rightarrow> ret NothingToDo
      | AbsentPlan \<Rightarrow> ret NoFile
      | VendorOnly \<Rightarrow> ret NoOverride
      | DeleteOverride _ \<Rightarrow> ret NothingToDo
      | RetainVendorOverride _ \<Rightarrow> ret NothingToDo
      | Rewrite bs \<Rightarrow> apply_rewrite ev dirs ss write t bs
      | Override bs \<Rightarrow> apply_override ev dirs ss write t bs)"

definition apply_removal ::
    "'a journal_env_scheme \<Rightarrow> pam_dirs \<Rightarrow> session \<Rightarrow> target \<Rightarrow> string \<Rightarrow> service_outcome io" where
  "apply_removal ev dirs ss t bs =
     (let installed = with_facelock_removed bs in
      bind (case tg_identity t of
              Some identity \<Rightarrow> bind (classify_vendor_override ev dirs (tg_service t) (tg_shadowed t \<noteq> None) bs identity) (\<lambda>_. ret ())
            | None \<Rightarrow> ret ()) (\<lambda>_.
      or_failed ''failed to recover PAM backup state'' (recover_unlocked ev dirs) (\<lambda>_.
      or_failed ''failed to plan removal'' (plan_mutation ev (tg_service t) bs installed (ss_now ss)) (\<lambda>m.
      or_failed ''failed to write''
        (case tg_identity t of
           Some expected \<Rightarrow> remove_pam_with_intent ev m (tg_service t) expected installed (\<lambda>_. ret ())
         | None \<Rightarrow> throw (no_identity_error ''PAM service'')) (\<lambda>_. ret Removed)))))"

definition apply_retirement ::
    "'a journal_env_scheme \<Rightarrow> pam_dirs \<Rightarrow> session \<Rightarrow> target \<Rightarrow> string \<Rightarrow> service_outcome io" where
  "apply_retirement ev dirs ss t bs =
     (let installed = with_facelock_removed bs in
      case tg_identity t of
        None \<Rightarrow> ret (WriteFailed ''failed to remove'' (no_identity_error ''PAM service''))
      | Some expected \<Rightarrow>
          or_failed ''failed to recover PAM backup state'' (recover_unlocked ev dirs) (\<lambda>_.
          or_failed ''failed to plan removal'' (plan_mutation ev (tg_service t) bs installed (ss_now ss)) (\<lambda>m.
          or_failed ''failed to remove unchanged vendor override''
            (remove_pam_with_intent ev m (tg_service t) expected installed
               (retire_vendor_override ev dirs (tg_service t) (mp_operation m))) (\<lambda>_.
          ret Removed))))"

definition apply_remove ::
    "'a journal_env_scheme \<Rightarrow> pam_dirs \<Rightarrow> session \<Rightarrow> target \<Rightarrow> service_outcome io" where
  "apply_remove ev dirs ss t =
     (case tg_plan t of
        AbsentPlan \<Rightarrow> ret NoFile
      | VendorOnly \<Rightarrow> ret NoOverride
      | NoChange \<Rightarrow> ret NothingToDo
      | RetainVendorOverride _ \<Rightarrow> ret NothingToDo
      | Rewrite bs \<Rightarrow> apply_removal ev dirs ss t bs
      | DeleteOverride bs \<Rightarrow> apply_retirement ev dirs ss t bs
      | Override _ \<Rightarrow> ret NoOverride)"

text \<open>A dry run only names what would happen.\<close>

fun report_plan :: "pam_plan \<Rightarrow> write_action \<Rightarrow> service_outcome" where
  "report_plan (Rewrite _) AddLine = Installed"
| "report_plan (Rewrite _) RemoveLine = Removed"
| "report_plan (DeleteOverride _) RemoveLine = Removed"
| "report_plan (DeleteOverride _) AddLine = NothingToDo"
| "report_plan (RetainVendorOverride _) _ = NothingToDo"
| "report_plan (Override _) _ = Overridden"
| "report_plan VendorOnly _ = NoOverride"
| "report_plan NoChange _ = NothingToDo"
| "report_plan AbsentPlan _ = NoFile"

subsection \<open>Backups after a removal\<close>

definition remove_legacy_backup :: "'a journal_env_scheme \<Rightarrow> string \<Rightarrow> unit io" where
  "remove_legacy_backup ev service =
     bind (guard (confined service) (InvalidInput ''invalid service'')) (\<lambda>_.
     bind (open_directory_nofollow ev PamRoot) (\<lambda>_.
     let name = service @ BACKUP_SUFFIX in
     bind (tried (open_regular_at PamRoot name)) (\<lambda>f.
     case f of
       Err e \<Rightarrow> if not_found e then ret () else throw e
     | Ok i \<Rightarrow>
         bind (identity_of_open ev i) (\<lambda>expected.
         bind (identity_below ev PamRoot name) (\<lambda>current.
         bind (guard (identity_matches expected current) (OtherError ''legacy PAM backup changed before cleanup'')) (\<lambda>_.
         bind (no_nul name ''legacy name contains NUL'') (\<lambda>_.
         bind (unlinkat PamRoot name) (\<lambda>_. sync_all))))))))"

text \<open>The store is opened only if its directory exists.\<close>

definition store_there :: "'a journal_env_scheme \<Rightarrow> bool io" where
  "store_there ev = look (\<lambda>_. Ok (\<not> ev_missing ev StateRoot))"

definition cleanup_backups :: "'a journal_env_scheme \<Rightarrow> string \<Rightarrow> unit io" where
  "cleanup_backups ev service =
     bind (store_there ev) (\<lambda>there.
     bind (if there then cleanup_service ev service else ret ()) (\<lambda>_.
     remove_legacy_backup ev service))"

definition existing_backup_for :: "'a journal_env_scheme \<Rightarrow> root \<Rightarrow> string \<Rightarrow> string option io" where
  "existing_backup_for ev r service =
     bind (tried (lstat ev r (service @ BACKUP_SUFFIX))) (\<lambda>m.
     ret (case m of Ok (File i) \<Rightarrow> if i_links i = 1 then Some (service @ BACKUP_SUFFIX) else None | _ \<Rightarrow> None))"

definition reported_backup :: "'a journal_env_scheme \<Rightarrow> string \<Rightarrow> string option io" where
  "reported_backup ev service =
     bind (tried (bind (store_there ev) (\<lambda>there. if there then latest_committed ev service else ret None))) (\<lambda>latest.
     case latest of Ok (Some backup) \<Rightarrow> ret (Some backup) | _ \<Rightarrow> existing_backup_for ev PamRoot service)"

subsection \<open>Every service of a request\<close>

record service_report =
  sr_service :: string
  sr_outcome :: service_outcome
  sr_backup :: "string option"

fun is_failed :: "service_outcome \<Rightarrow> bool" where
  "is_failed (WriteFailed _ _) = True"
| "is_failed _ = False"

definition apply_one ::
    "'a journal_env_scheme \<Rightarrow> pam_dirs \<Rightarrow> session \<Rightarrow> pam_request \<Rightarrow> (unit, io_error) result \<Rightarrow> target \<Rightarrow> service_report io" where
  "apply_one ev dirs ss write recovery t =
     bind (case recovery of
             Err e \<Rightarrow> ret (WriteFailed ''failed to recover PAM backup state'' e)
           | Ok _ \<Rightarrow>
               if rq_dry_run write then ret (report_plan (tg_plan t) (rq_action write))
               else if rq_action write = AddLine then apply_add ev dirs ss write t
               else apply_remove ev dirs ss t) (\<lambda>applied.
     bind (if rq_action write = RemoveLine \<and> \<not> rq_dry_run write \<and> \<not> rq_keep_backup write \<and> \<not> is_failed applied
           then bind (tried (cleanup_backups ev (tg_service t))) (\<lambda>cleaned.
             ret (case cleaned of Err e \<Rightarrow> CleanupFailed e | Ok _ \<Rightarrow> applied))
           else ret applied) (\<lambda>outcome.
     bind (if rq_dry_run write \<or> outcome = Overridden then ret None else reported_backup ev (tg_service t)) (\<lambda>backup.
     ret \<lparr>sr_service = tg_service t, sr_outcome = outcome, sr_backup = backup\<rparr>)))"

primrec apply_targets ::
    "'a journal_env_scheme \<Rightarrow> pam_dirs \<Rightarrow> session \<Rightarrow> pam_request \<Rightarrow> (unit, io_error) result \<Rightarrow> target list \<Rightarrow> service_report list io" where
  "apply_targets ev dirs ss write recovery [] = ret []"
| "apply_targets ev dirs ss write recovery (t # ts) =
     bind (apply_one ev dirs ss write recovery t) (\<lambda>r.
     bind (apply_targets ev dirs ss write recovery ts) (\<lambda>rs. ret (r # rs)))"

definition apply_all ::
    "'a journal_env_scheme \<Rightarrow> pam_dirs \<Rightarrow> session \<Rightarrow> pam_request \<Rightarrow> target list \<Rightarrow> service_report list io" where
  "apply_all ev dirs ss write targets =
     bind (if rq_dry_run write then ret (Ok ())
           else tried (bind (store_there ev) (\<lambda>there. if there then recover_unlocked ev dirs else ret ()))) (\<lambda>recovery.
     apply_targets ev dirs ss write recovery targets)"

definition WRITE_OK :: nat where "WRITE_OK = 0"
definition WRITE_FAILED :: nat where "WRITE_FAILED = 1"

fun report_failed :: "service_outcome \<Rightarrow> bool" where
  "report_failed (WriteFailed _ _) = True"
| "report_failed (CleanupFailed _) = True"
| "report_failed _ = False"

definition write_in ::
    "'a journal_env_scheme \<Rightarrow> pam_dirs \<Rightarrow> profile_roots option \<Rightarrow> session \<Rightarrow> pam_request \<Rightarrow> (service_report list \<times> nat, write_refusal) result io" where
  "write_in ev dirs roots ss write =
     (case guard_direct_add ev roots (rq_action write) of Err why \<Rightarrow> ret (Err why) | Ok _ \<Rightarrow>
      bind (plan_writes ev dirs ss write) (\<lambda>planned.
      case planned of Err why \<Rightarrow> ret (Err why) | Ok targets \<Rightarrow>
      bind (apply_all ev dirs ss write targets) (\<lambda>reports.
      ret (Ok (reports, if list_ex (\<lambda>r. report_failed (sr_outcome r)) reports then WRITE_FAILED else WRITE_OK)))))"

subsection \<open>Status\<close>

definition STATUS_PRESENT :: nat where "STATUS_PRESENT = 0"
definition STATUS_MISSING :: nat where "STATUS_MISSING = 1"
definition STATUS_ERROR :: nat where "STATUS_ERROR = 2"

definition service_status :: "'a journal_env_scheme \<Rightarrow> pam_dirs \<Rightarrow> (io_error \<Rightarrow> string) \<Rightarrow> string \<Rightarrow> service_report io" where
  "service_status ev dirs display service =
     bind (locate ev dirs service) (\<lambda>l.
     case l of
       Err why \<Rightarrow>
         bind (case why of
                 RejectedName \<Rightarrow> ret None
               | OutOfBase r _ \<Rightarrow> existing_backup_for ev r service
               | HardLinked r _ _ \<Rightarrow> existing_backup_for ev r service) (\<lambda>backup.
         ret \<lparr>sr_service = service, sr_outcome = Unknown (rejected_reason why), sr_backup = backup\<rparr>)
     | Ok t \<Rightarrow>
         bind (tried (read_regular_nofollow ev (origin_root (tg_origin t)) service)) (\<lambda>r.
         let outcome = (case r of
               Ok (bs, _) \<Rightarrow>
                 if has_facelock_rule bs then Present
                 else (case tg_origin t of Vendor _ _ \<Rightarrow> NoOverride | _ \<Rightarrow> Missing)
             | Err e \<Rightarrow> if not_found e then NoFile else Unknown (display e)) in
         bind (reported_backup ev service) (\<lambda>backup.
         ret \<lparr>sr_service = service, sr_outcome = outcome, sr_backup = backup\<rparr>)))"

primrec status_reports :: "'a journal_env_scheme \<Rightarrow> pam_dirs \<Rightarrow> (io_error \<Rightarrow> string) \<Rightarrow> string list \<Rightarrow> service_report list io" where
  "status_reports ev dirs display [] = ret []"
| "status_reports ev dirs display (s # ss) =
     bind (service_status ev dirs display s) (\<lambda>r.
     bind (status_reports ev dirs display ss) (\<lambda>rs. ret (r # rs)))"

fun status_code :: "service_outcome \<Rightarrow> bool \<Rightarrow> nat" where
  "status_code Present _ = STATUS_PRESENT"
| "status_code Missing _ = STATUS_MISSING"
| "status_code NoFile if_present = (if if_present then STATUS_PRESENT else STATUS_ERROR)"
| "status_code NoOverride _ = STATUS_MISSING"
| "status_code _ _ = STATUS_ERROR"

definition status_in :: "'a journal_env_scheme \<Rightarrow> pam_dirs \<Rightarrow> (io_error \<Rightarrow> string) \<Rightarrow> pam_request \<Rightarrow> nat io" where
  "status_in ev dirs display request =
     bind (status_reports ev dirs display (requested_services (rq_services request))) (\<lambda>reports.
     ret (fold max (map (\<lambda>r. status_code (sr_outcome r) (rq_if_present request)) reports) STATUS_PRESENT))"

end
