(* ===== verification/PamFrame.thy ===== *)
theory PamFrame
  imports PamApply
begin

text \<open>
  What the verbs can touch, whatever the system calls answer and wherever the process dies: a program
  touches only an area if every name outside it holds afterwards what it held before.
\<close>

named_theorems touch

definition touches :: "(root \<Rightarrow> string \<Rightarrow> bool) \<Rightarrow> 'a io \<Rightarrow> bool" where
  "touches A p \<longleftrightarrow> (\<forall>s r n. \<not> A r n \<longrightarrow> sy_fs (snd (p s)) r n = sy_fs s r n)"

lemma touches_ret [touch]: "touches A (ret x)"
  by (simp add: touches_def ret_def)

lemma touches_throw [touch]: "touches A (throw e)"
  by (simp add: touches_def throw_def)

lemma touchesD: "touches A p \<Longrightarrow> \<not> A r n \<Longrightarrow> p s = (x, t) \<Longrightarrow> sy_fs t r n = sy_fs s r n"
  by (metis touches_def snd_conv)

lemma touches_bind [touch]:
  assumes "touches A p" "\<And>x. touches A (f x)"
  shows "touches A (bind p f)"
  unfolding touches_def
proof (intro allI impI)
  fix s r n
  assume out: "\<not> A r n"
  obtain x t where p: "p s = (x, t)" by (cases "p s")
  note first = touchesD[OF assms(1) out p]
  show "sy_fs (snd (bind p f s)) r n = sy_fs s r n"
  proof (cases x)
    case (Val v)
    obtain y u where q: "f v t = (y, u)" by (cases "f v t")
    then show ?thesis using touchesD[OF assms(2) out q] first p Val by (simp add: bind_def)
  qed (use first p in \<open>simp_all add: bind_def\<close>)
qed

lemma touches_tried [touch]:
  assumes "touches A p"
  shows "touches A (tried p)"
  unfolding touches_def
proof (intro allI impI)
  fix s r n
  assume out: "\<not> A r n"
  obtain x t where p: "p s = (x, t)" by (cases "p s")
  then show "sy_fs (snd (tried p s)) r n = sy_fs s r n"
    using touchesD[OF assms out p] by (cases x) (simp_all add: tried_def)
qed

lemma touches_map_error [touch]: "touches A p \<Longrightarrow> touches A (map_error f p)"
  unfolding map_error_def by (auto intro!: touch split: result.split)

lemma touches_ignore [touch]: "touches A p \<Longrightarrow> touches A (ignore p)"
  unfolding ignore_def by (intro touch)

lemma touches_guard [touch]: "touches A (guard b e)"
  unfolding guard_def by (simp add: touch)

lemma touches_get_fs [touch]: "touches A get_fs"
  by (simp add: touches_def get_fs_def)

lemma touches_for_each [touch]: "(\<And>x. touches A (f x)) \<Longrightarrow> touches A (for_each f xs)"
  by (induction xs) (auto intro!: touch)

lemma touches_collect [touch]: "(\<And>x. touches A (f x)) \<Longrightarrow> touches A (collect_some f xs)"
  by (induction xs) (auto intro!: touch)

lemma touches_if [touch]: "(b \<Longrightarrow> touches A p) \<Longrightarrow> (\<not> b \<Longrightarrow> touches A q) \<Longrightarrow> touches A (if b then p else q)"
  by simp

lemma touches_option [touch]: "touches A p \<Longrightarrow> (\<And>x. touches A (f x)) \<Longrightarrow> touches A (case z of None \<Rightarrow> p | Some x \<Rightarrow> f x)"
  by (cases z) auto

lemma touches_result [touch]: "(\<And>x. touches A (f x)) \<Longrightarrow> (\<And>e. touches A (g e)) \<Longrightarrow> touches A (case z of Ok x \<Rightarrow> f x | Err e \<Rightarrow> g e)"
  by (cases z) auto

lemma touches_prod [touch]: "(\<And>x y. touches A (f x y)) \<Longrightarrow> touches A (case z of (x, y) \<Rightarrow> f x y)"
  by (cases z) auto

lemma touches_let [touch]: "touches A (f v) \<Longrightarrow> touches A (let x = v in f x)"
  by simp

lemma touches_syscall:
  assumes "\<And>fs r n. \<not> A r n \<Longrightarrow> snd (act fs) r n = fs r n" "\<And>k fs r n. \<not> A r n \<Longrightarrow> part k fs r n = fs r n"
  shows "touches A (syscall act part)"
  unfolding touches_def
proof (intro allI impI)
  fix s :: sys and r n
  assume out: "\<not> A r n"
  obtain x fs where a: "act (sy_fs s) = (x, fs)" by (cases "act (sy_fs s)")
  then have "fs r n = sy_fs s r n" using assms(1)[OF out, of "sy_fs s"] by simp
  then show "sy_fs (snd (syscall act part s)) r n = sy_fs s r n"
    using a assms(2)[OF out]
    by (cases "sy_script s"; cases "hd (sy_script s)"; cases x) (simp_all add: syscall_def Let_def)
qed

lemma touches_look [touch]: "touches A (look f)"
  unfolding look_def by (rule touches_syscall) simp_all

lemma touches_change:
  assumes "\<And>fs fs' r n. f fs = Ok fs' \<Longrightarrow> \<not> A r n \<Longrightarrow> fs' r n = fs r n"
  shows "touches A (change f)"
  unfolding change_def by (rule touches_syscall) (auto split: result.split dest: assms)

lemma touches_sync [touch]: "touches A sync_all"
  unfolding sync_all_def by (rule touch)

lemma touches_create [touch]: "A r n \<Longrightarrow> touches A (openat_create ev r n mode)"
  unfolding openat_create_def by (rule touches_change) (auto simp: set_entry_def split: if_splits)

lemma on_file_other: "r \<noteq> r' \<or> n \<noteq> n' \<Longrightarrow> on_file r n f fs r' n' = fs r' n'"
  by (auto simp: on_file_def set_entry_def split: option.split entry.split)

lemma touches_write [touch]: "A r n \<Longrightarrow> touches A (write_all r n bs)"
  unfolding write_all_def by (rule touches_syscall) (auto intro!: on_file_other)

lemma touches_fchown [touch]: "A r n \<Longrightarrow> touches A (fchown r n u g)"
  unfolding fchown_def by (rule touches_change) (auto intro!: on_file_other)

lemma touches_permissions [touch]: "A r n \<Longrightarrow> touches A (set_permissions r n m)"
  unfolding set_permissions_def by (rule touches_change) (auto intro!: on_file_other)

lemma touches_unlinkat [touch]: "A r n \<Longrightarrow> touches A (unlinkat r n)"
  unfolding unlinkat_def by (rule touches_change) (auto simp: set_entry_def split: if_splits)

lemma touches_noreplace [touch]: "A r a \<Longrightarrow> A r b \<Longrightarrow> touches A (renameat2_noreplace r a b)"
  unfolding renameat2_noreplace_def by (rule touches_change) (auto simp: set_entry_def split: if_splits)

lemma touches_exchange [touch]: "A r a \<Longrightarrow> A r b \<Longrightarrow> touches A (renameat2_exchange r a b)"
  unfolding renameat2_exchange_def by (rule touches_change) (auto simp: set_entry_def split: if_splits)

text \<open>Reading touches nothing.\<close>

lemma touches_readers [touch]:
  "touches A (open_directory_nofollow ev r)" "touches A (no_nul n m)" "touches A (read_open_bounded i l)"
  "touches A (identity_of_open ev i)" "touches A (fstat r n)" "touches A (entry_exists_at r n)" "touches A (read_dir ev r)"
  "touches A (lstat ev r n)" "touches A (symlink_metadata_ok r n)" "touches A (store_there ev')"
  unfolding open_directory_nofollow_def no_nul_def read_open_bounded_def identity_of_open_def fstat_def entry_exists_at_def
    read_dir_def lstat_def symlink_metadata_ok_def store_there_def
  by (intro touch)+

lemma touches_open [touch]: "touches A (open_regular_at r n)"
  unfolding open_regular_at_def by (intro touch) (auto intro!: touch split: entry.split)

lemma touches_identity [touch]:
  "touches A (identity_of_open_bounded ev i l)" "touches A (identity_at ev r n)" "touches A (identity_below ev r n)"
  "touches A (open_identity_at ev r n l)" "touches A (read_regular_at_bounded ev r n l)" "touches A (read_regular_nofollow ev r n)"
  unfolding identity_of_open_bounded_def identity_at_def identity_below_def open_identity_at_def read_regular_at_bounded_def
    read_regular_nofollow_def
  by (intro touch)+

subsection \<open>File operations\<close>

definition state_area :: "(root \<Rightarrow> string \<Rightarrow> bool) \<Rightarrow> bool" where
  "state_area A \<longleftrightarrow> (\<forall>n. A StateRoot n)"

lemma touches_unlink_at [touch]: "A r n \<Longrightarrow> touches A (unlink_at_if_identity_matches ev r n i l)"
  unfolding unlink_at_if_identity_matches_def by (intro touch)

lemma touches_unlink_state [touch]: "state_area A \<Longrightarrow> touches A (unlink_state_if_identity_matches ev n i)"
  unfolding unlink_state_if_identity_matches_def by (intro touch) (simp_all add: state_area_def)

lemma touches_renames [touch]:
  "A r a \<Longrightarrow> A r b \<Longrightarrow> touches A (rename_exchange_at r a b)" "A r a \<Longrightarrow> A r b \<Longrightarrow> touches A (rename_noreplace_at r a b)"
  unfolding rename_exchange_at_def rename_noreplace_at_def by (intro touch; assumption)+

lemma touches_cleanup_temp [touch]:
  "A r n \<Longrightarrow> touches A (cleanup_unpublished_temp_at ev r n i l m)" "A r n \<Longrightarrow> touches A (cleanup_unpublished_temp ev r n i l m)"
  unfolding cleanup_unpublished_temp_def cleanup_unpublished_temp_at_def by (intro touch; assumption)+

lemma touches_owner_mode [touch]: "A r n \<Longrightarrow> touches A (apply_owner_then_mode r n u g m)"
  unfolding apply_owner_then_mode_def by (intro touch)

lemma touches_publish [touch]: "state_area A \<Longrightarrow> touches A (atomic_state_create ev n bs)"
  unfolding atomic_state_create_def atomic_state_publish_def prepare_state_temp_def discard_state_temp_def
  by (intro touch) (simp_all add: state_area_def)

lemma touches_staged [touch]: "A PamRoot t \<Longrightarrow> touches A (staged_temp ev t bs i u c)"
  unfolding staged_temp_def create_temp_at_named_def fill_pam_temp_def by (intro touch)

lemma touches_replacement [touch]: "A PamRoot n \<Longrightarrow> A PamRoot t \<Longrightarrow> touches A (publish_replacement ev n t i j)"
  unfolding publish_replacement_def settle_exchange_def by (intro touch)

lemma touches_replace [touch]:
  "A PamRoot n \<Longrightarrow> A PamRoot t \<Longrightarrow> (\<And>x. touches A (f x)) \<Longrightarrow> touches A (replace_existing_verified ev n i bs t f)"
  unfolding replace_existing_verified_def by (intro touch)

lemma touches_override [touch]:
  "A PamRoot n \<Longrightarrow> A PamRoot t \<Longrightarrow> (\<And>x. touches A (f x)) \<Longrightarrow> touches A (create_override_verified ev v n i bs t f)"
  unfolding create_override_verified_def publish_override_def by (intro touch)

subsection \<open>Vendor copies\<close>

lemma touches_first_vendor [touch]: "touches A (first_vendor ev s vs)"
  by (induction vs) (auto intro!: touch)

lemma touches_vendor_readers [touch]:
  "touches A (resolve_current_vendor ev dirs s)" "touches A (current_vendor_override_matches ev dirs s bs i q)"
  "touches A (classify_vendor_override ev dirs s sh bs i)" "touches A (validate_vendor_quarantine ev dirs s n i)"
  unfolding resolve_current_vendor_def current_vendor_override_matches_def classify_vendor_override_def validate_vendor_quarantine_def
  by (intro touch)+

lemma touches_decline [touch]:
  "A PamRoot s \<Longrightarrow> A PamRoot n \<Longrightarrow> touches A (decline_vendor_retirement ev s n i m)"
  unfolding decline_vendor_retirement_def restore_vendor_quarantine_def by (intro touch)

lemma touches_retire [touch]:
  "A PamRoot s \<Longrightarrow> A PamRoot (vendor_retire_name b) \<Longrightarrow> touches A (retire_vendor_override ev dirs s b i)"
  unfolding retire_vendor_override_def quarantine_override_def by (intro touch)

subsection \<open>The backup store\<close>

lemma touches_scans [touch]:
  "touches A (scanned_record_pairs ev)" "touches A (read_entry ev st n)" "touches A (record_hint ev n)"
  unfolding scanned_record_pairs_def scan_record_def read_entry_def record_hint_def by (intro touch)+

lemma touches_sequences [touch]:
  "touches A (next_sequence ev)" "touches A (sequence_in_use ev q)" "touches A (validated_records ev s)"
  "touches A (validated_committed_records ev s)" "touches A (latest_committed ev s)" "touches A (sync_directory ev)"
  unfolding next_sequence_def sequence_in_use_def scanned_sequences_def latest_committed_def validated_committed_records_def
    validated_records_def sync_directory_def
  by (intro touch)+

lemma touches_probe [touch]: "touches A (probe_backup k s d)"
proof (induction k arbitrary: d)
  case (Suc k)
  show ?case unfolding probe_backup.simps by (intro touch Suc)
qed (simp add: touches_ret)

lemma touches_plan [touch]: "touches A (plan_at_unlocked ev s bs w d)" "touches A (plan_mutation ev s bs w d)"
  unfolding plan_mutation_def plan_at_unlocked_def by (intro touch)+

lemma touches_persist [touch]: "state_area A \<Longrightarrow> touches A (persist_unlocked ev p bs)"
  unfolding persist_unlocked_def by (intro touch)

lemma touches_binding [touch]:
  "state_area A \<Longrightarrow> touches A (create_publication_binding ev r i e j)"
  "state_area A \<Longrightarrow> touches A (finish_publication_state ev n k q)"
  unfolding create_publication_binding_def finish_publication_state_def by (intro touch; assumption)+

lemma touches_record_readers [touch]:
  "touches A (record_identity_at ev n)" "touches A (check_published_record ev n i m)" "touches A (validate_published_path ev n b m)"
  "touches A (validated ev s q m c)" "touches A (identity_in ev n l)"
  unfolding check_published_record_def record_identity_at_def validate_published_path_def validated_def identity_in_def
  by (intro touch)+

lemma touches_commit [touch]: "state_area A \<Longrightarrow> touches A (commit_unlocked ev p)"
  unfolding commit_unlocked_def settle_commit_def by (intro touch) (simp_all add: state_area_def)

lemma touches_bind_temp [touch]: "state_area A \<Longrightarrow> A PamRoot t \<Longrightarrow> touches A (bind_temp ev r i e t m j)"
  unfolding bind_temp_def by (intro touch)

lemma touches_close [touch]: "state_area A \<Longrightarrow> touches A (close_change ev n i q m r)"
  unfolding close_change_def by (intro touch)

lemma touches_replace_pam [touch]:
  "state_area A \<Longrightarrow> A PamRoot s \<Longrightarrow> A PamRoot (pam_replace_name (bk_backup p)) \<Longrightarrow>
   touches A (replace_pam_with_intent ev p s i bs)"
  unfolding replace_pam_with_intent_def by (intro touch)

lemma touches_remove_pam [touch]:
  "state_area A \<Longrightarrow> A PamRoot s \<Longrightarrow> A PamRoot (pam_remove_name (mp_operation m)) \<Longrightarrow> (\<And>x. touches A (f x)) \<Longrightarrow>
   touches A (remove_pam_with_intent ev m s i bs f)"
  unfolding remove_pam_with_intent_def by (intro touch)

lemma touches_create_vendor [touch]:
  "state_area A \<Longrightarrow> A PamRoot s \<Longrightarrow> A PamRoot (vendor_create_name (mp_operation m)) \<Longrightarrow>
   touches A (create_vendor_with_intent ev m v s i bs)"
  unfolding create_vendor_with_intent_def by (intro touch)

lemma touches_cleanup_one [touch]: "state_area A \<Longrightarrow> touches A (cleanup_one_at ev p)"
  unfolding cleanup_one_at_def quarantine_pair_def by (intro touch) (simp_all add: state_area_def)

lemma touches_cleanup [touch]: "state_area A \<Longrightarrow> touches A (cleanup_service ev s)"
  unfolding cleanup_service_def by (intro touch)

subsection \<open>Recovery\<close>

text \<open>What recovery may touch in the PAM directory: names of the program's own, and services a journal entry names.\<close>

definition pam_area :: "(root \<Rightarrow> string \<Rightarrow> bool) \<Rightarrow> bool" where
  "pam_area A \<longleftrightarrow> (\<forall>n. A PamRoot n)"

lemma touches_finish [touch]: "state_area A \<Longrightarrow> touches A (finish_recovered_publication ev i q)"
  unfolding finish_recovered_publication_def by (intro touch)

lemma touches_commit_publication [touch]: "state_area A \<Longrightarrow> touches A (recover_commit_publication ev q i)"
  unfolding recover_commit_publication_def Let_def
  by (intro touch) (auto simp: Let_def intro!: touch split: option.split)

lemma touches_retire_published [touch]: "pam_area A \<Longrightarrow> touches A (retire_published ev dirs b)"
  unfolding retire_published_def should_retire_def by (intro touch) (simp_all add: pam_area_def)

lemma touches_pam_publication [touch]: "state_area A \<Longrightarrow> pam_area A \<Longrightarrow> touches A (recover_pam_publication ev dirs q i t)"
  unfolding recover_pam_publication_def Let_def by (intro touch) (simp_all add: pam_area_def)

lemma touches_vendor_publication [touch]: "state_area A \<Longrightarrow> pam_area A \<Longrightarrow> touches A (recover_vendor_publication ev q i)"
  unfolding recover_vendor_publication_def Let_def by (intro touch) (simp_all add: pam_area_def)

lemma touches_publications [touch]: "state_area A \<Longrightarrow> pam_area A \<Longrightarrow> touches A (recover_publications ev dirs)"
  unfolding recover_publications_def recover_publication_def validated_intents_def validated_publications_def
  by (intro touch) (auto intro!: touch split: publication_role.split)

lemma touches_matching [touch]: "touches A (matching_state_entry ev n h l)" "touches A (pam_entry ev n)"
  unfolding matching_state_entry_def pam_entry_def by (intro touch)+

lemma touches_resume [touch]: "state_area A \<Longrightarrow> touches A (resume_quarantine ev n q h l)"
  unfolding resume_quarantine_def by (intro touch) (simp_all add: state_area_def)

lemma touches_intent [touch]:
  assumes "state_area A"
  shows "touches A (recover_prepare_intent ev v)" "touches A (recover_commit_intent ev v)" "touches A (recover_cleanup_intent ev v)"
    "touches A (recover_pam_replace_intent ev v)" "touches A (recover_pam_remove_intent ev v)" "touches A (recover_vendor_create_intent ev v)"
  unfolding recover_prepare_intent_def recover_commit_intent_def recover_cleanup_intent_def unlink_found_def
    recover_pam_replace_intent_def recover_pam_remove_intent_def recover_existing_pam_mutation_intent_def recover_vendor_create_intent_def
  by (intro touch assms)+

lemma touches_intents [touch]: "state_area A \<Longrightarrow> touches A (recover_intents ev)"
  unfolding recover_intents_def recover_intent_def validated_intents_def
  by (intro touch) (auto intro!: touch split: intent_role.split)

lemma touches_owned_temps [touch]: "state_area A \<Longrightarrow> touches A (recover_owned_temps ev)"
  unfolding recover_owned_temps_def recover_owned_temp_def by (intro touch)

lemma touches_recover [touch]: "state_area A \<Longrightarrow> pam_area A \<Longrightarrow> touches A (recover_unlocked ev dirs)"
  unfolding recover_unlocked_def settle_service_def settle_prepared_def by (intro touch)

subsection \<open>The verbs\<close>

lemma touches_resolve [touch]: "touches A (resolve_in ev r b n)" "touches A (shadowed_vendor ev dirs s found)"
proof -
  show "touches A (resolve_in ev r b n)"
    unfolding resolve_in_def hard_link_checked_def by (intro touch) (auto intro!: touch split: entry.split)
  have "touches A (first_shadowed ev s vs)" for vs by (induction vs) (auto intro!: touch)
  then show "touches A (shadowed_vendor ev dirs s found)" unfolding shadowed_vendor_def by (intro touch)
qed

lemma touches_locate [touch]: "touches A (locate ev dirs s)"
proof -
  have "touches A (resolve_vendor ev l s already vs)" for l already vs
    by (induction vs arbitrary: already) (auto intro!: touch)
  then show ?thesis unfolding locate_def resolve_service_path_def by (intro touch)
qed

lemma touches_plan_all: "touches A (plan_all ev dirs ss w xs)"
proof -
  have "touches A (plan_for ev dirs ss w t bs i)" for t bs i
    unfolding plan_for_def by (intro touch) (auto intro!: touch split: origin.split)
  then have "touches A (plan_service ev dirs ss w s)" for s
    unfolding plan_service_def by (intro touch)
  then show ?thesis by (induction xs) (auto intro!: touch)
qed

lemma touches_plan_writes [touch]: "touches A (plan_writes ev dirs ss w)"
  unfolding plan_writes_def by (rule touches_plan_all)

lemma touches_or_failed [touch]: "touches A p \<Longrightarrow> (\<And>x. touches A (f x)) \<Longrightarrow> touches A (or_failed w p f)"
  unfolding or_failed_def by (intro touch)

lemma touches_backups [touch]:
  "touches A (reported_backup ev s)" "touches A (existing_backup_for ev r s)"
  "state_area A \<Longrightarrow> pam_area A \<Longrightarrow> touches A (cleanup_backups ev s)"
  unfolding reported_backup_def existing_backup_for_def cleanup_backups_def remove_legacy_backup_def
  by (intro touch; simp add: pam_area_def)+

lemma touches_bool [touch]: "touches A p \<Longrightarrow> touches A q \<Longrightarrow> touches A (case b of True \<Rightarrow> p | False \<Rightarrow> q)"
  by (cases b) auto

lemma touches_apply [touch]:
  assumes "state_area A" "pam_area A"
  shows "touches A (apply_add ev dirs ss w t)" "touches A (apply_remove ev dirs ss t)"
proof -
  have p: "A PamRoot n" for n using assms(2) by (simp add: pam_area_def)
  have "touches A (apply_rewrite ev dirs ss w t bs)" for bs
    unfolding apply_rewrite_def by (intro touch assms) (simp_all add: p)
  moreover have "touches A (apply_removal ev dirs ss t bs)" for bs
    unfolding apply_removal_def by (intro touch assms) (simp_all add: p)
  moreover have "touches A (apply_retirement ev dirs ss t bs)" for bs
    unfolding apply_retirement_def by (intro touch assms) (simp_all add: p)
  moreover have "touches A (apply_override ev dirs ss w t bs)" for bs
    unfolding apply_override_def by (intro touch assms) (auto simp: assms p intro!: touch split: origin.split)
  ultimately show "touches A (apply_add ev dirs ss w t)" "touches A (apply_remove ev dirs ss t)"
    unfolding apply_add_def apply_remove_def by (auto intro: touch split: pam_plan.split)
qed

lemma touches_apply_one:
  assumes "state_area A" "pam_area A"
  shows "touches A (apply_one ev dirs ss w rec t)"
  unfolding apply_one_def by (intro touch assms)

lemma touches_apply_all [touch]:
  assumes "state_area A" "pam_area A"
  shows "touches A (apply_all ev dirs ss w ts)"
proof -
  have "touches A (apply_targets ev dirs ss w rec ts)" for rec
    by (induction ts) (auto intro!: touch touches_apply_one assms)
  then show ?thesis unfolding apply_all_def by (intro touch assms)
qed

lemma touches_write_in:
  assumes "state_area A" "pam_area A"
  shows "touches A (write_in ev dirs roots ss w)"
  unfolding write_in_def by (intro touch assms)

lemma touches_status_in: "touches A (status_in ev dirs display w)"
proof -
  have "touches A (service_status ev dirs display s)" for s
    unfolding service_status_def by (intro touch) (auto intro!: touch split: rejected.split)
  then have "touches A (status_reports ev dirs display xs)" for xs by (induction xs) (auto intro!: touch)
  then show ?thesis unfolding status_in_def by (intro touch)
qed

lemma touches_nothing: "touches (\<lambda>_ _. False) p \<Longrightarrow> p s = (x, t) \<Longrightarrow> sy_fs t = sy_fs s"
  by (intro ext) (rule touchesD[of "\<lambda>_ _. False" p], auto)

lemma dry_apply_targets:
  assumes "rq_dry_run w"
  shows "touches A (apply_targets ev dirs ss w rec ts)"
proof -
  have "touches A (apply_one ev dirs ss w rec t)" for t
    using assms unfolding apply_one_def by (auto intro!: touch)
  then show ?thesis by (induction ts) (auto intro!: touch)
qed

lemma dry_write_in:
  assumes "rq_dry_run w"
  shows "touches A (write_in ev dirs roots ss w)"
  using assms unfolding write_in_def apply_all_def by (auto intro!: touch dry_apply_targets split: result.split)

text \<open>What \<open>write_in\<close> returns when it does not refuse.\<close>

lemma write_in_cases:
  assumes "write_in ev dirs roots ss w s = (x, t)"
  obtains (guarded) why where "guard_direct_add ev roots (rq_action w) = Err why" "x = Val (Err why)" "t = s"
  | (planned) y u where "plan_writes ev dirs ss w s = (y, u)" "(\<exists>ts. y = Val (Ok ts)) \<or> t = u"
      "(\<exists>why. y = Val (Err why)) \<or> (\<forall>why. x \<noteq> Val (Err why))" "(\<exists>ts. y = Val (Ok ts)) \<or> (\<forall>z. x \<noteq> Val (Ok z))"
proof (cases "guard_direct_add ev roots (rq_action w)")
  case (Err why)
  then show ?thesis using guarded assms by (simp add: write_in_def ret_def)
next
  case (Ok g)
  obtain y u where p: "plan_writes ev dirs ss w s = (y, u)" by (cases "plan_writes ev dirs ss w s")
  show ?thesis
  proof (cases y)
    case (Val z)
    show ?thesis
    proof (cases z)
      case (Ok ts)
      obtain a v where "apply_all ev dirs ss w ts u = (a, v)" by (cases "apply_all ev dirs ss w ts u")
      then have "\<forall>why. x \<noteq> Val (Err why)"
        using assms p Val Ok \<open>guard_direct_add ev roots (rq_action w) = Ok g\<close>
        by (cases a) (auto simp: write_in_def bind_def ret_def)
      then show ?thesis using planned[OF p] Val Ok by blast
    next
      case (Err why)
      then have "x = Val (Err why)" "t = u" using assms p Val \<open>guard_direct_add ev roots (rq_action w) = Ok g\<close>
        by (auto simp: write_in_def bind_def ret_def)
      then show ?thesis using planned[OF p] Val Err by simp
    qed
  qed (use planned[OF p] assms p \<open>guard_direct_add ev roots (rq_action w) = Ok g\<close> in \<open>auto simp: write_in_def bind_def ret_def\<close>)
qed

lemma plan_all_gate:
  assumes "rq_action w = AddLine" "\<not> rq_allow_sensitive w" "svc \<in> set xs" "svc \<in> set SENSITIVE_SERVICES"
    "plan_all ev dirs ss w xs s = (y, u)"
  shows "y \<noteq> Val (Ok ts)"
  using assms(3,5)
proof (induction xs arbitrary: s y u ts)
  case (Cons x xs)
  show ?case
  proof (cases "x = svc")
    case True
    then have "plan_service ev dirs ss w x = ret (Err (SensitiveRefused x))"
      using assms(1,2,4) by (simp add: plan_service_def gate_sensitive_def)
    then show ?thesis using Cons.prems(2) by (auto simp: bind_def ret_def)
  next
    case False
    then have m: "svc \<in> set xs" using Cons.prems(1) by simp
    obtain a v where a: "plan_service ev dirs ss w x s = (a, v)" by (cases "plan_service ev dirs ss w x s")
    obtain b q where b: "plan_all ev dirs ss w xs v = (b, q)" by (cases "plan_all ev dirs ss w xs v")
    have "b \<noteq> Val (Ok zs)" for zs by (rule Cons.IH[OF m b])
    then show ?thesis using Cons.prems(2) a b
      by (auto simp: bind_def ret_def split: outcome.splits result.splits)
  qed
qed simp

lemma first_seen_set: "set (first_seen seen xs) = set seen \<union> set xs"
  by (induction seen xs rule: first_seen.induct) auto

subsection \<open>What the verbs cannot touch\<close>


text \<open>A request that the first phase refuses has written nothing, also if calls failed on the way.\<close>

theorem refused_request_writes_nothing:
  assumes "fst (write_in ev dirs roots ss write s) = Val (Err why)"
  shows "sy_fs (snd (write_in ev dirs roots ss write s)) = sy_fs s"
proof -
  obtain x t where x: "write_in ev dirs roots ss write s = (x, t)" by (cases "write_in ev dirs roots ss write s")
  from x show ?thesis
  proof (cases rule: write_in_cases)
    case (planned y u)
    then have "t = u" using assms x by auto
    moreover have "sy_fs u = sy_fs s" using touches_nothing[of "plan_writes ev dirs ss write"] planned(1) touches_plan_writes by blast
    ultimately show ?thesis using x by simp
  qed (use x in simp)
qed

theorem refused_request_writes_nothing_witness:
  "\<forall>ev dirs ss s. sy_fs (snd (write_in (ev :: unit journal_env_scheme) dirs None ss
     \<lparr>rq_action = AddLine, rq_services = [''sshd''], rq_no_confirm = True, rq_allow_sensitive = False,
      rq_if_present = False, rq_dry_run = False, rq_keep_backup = False\<rparr> s)) = sy_fs s"
proof (intro allI)
  fix ev :: "unit journal_env_scheme" and dirs ss s
  show "sy_fs (snd (write_in ev dirs None ss
     \<lparr>rq_action = AddLine, rq_services = [''sshd''], rq_no_confirm = True, rq_allow_sensitive = False,
      rq_if_present = False, rq_dry_run = False, rq_keep_backup = False\<rparr> s)) = sy_fs s"
    by (rule refused_request_writes_nothing[where why = "SensitiveRefused ''sshd''"])
      (simp add: write_in_def guard_direct_add_def plan_writes_def requested_services_def plan_service_def gate_sensitive_def
        SENSITIVE_SERVICES_def bind_def ret_def)
qed

text \<open>C9: adding the rule to a service whose stack every login goes through needs the explicit flag: without it a
  request that names one is never carried out and the directories stay as they are.\<close>

theorem sensitive_services_gated:
  assumes "rq_action write = AddLine" "\<not> rq_allow_sensitive write" "svc \<in> set (rq_services write)" "svc \<in> set SENSITIVE_SERVICES"
  shows "sy_fs (snd (write_in ev dirs roots ss write s)) = sy_fs s \<and> fst (write_in ev dirs roots ss write s) \<noteq> Val (Ok reports)"
proof -
  obtain x t where x: "write_in ev dirs roots ss write s = (x, t)" by (cases "write_in ev dirs roots ss write s")
  have m: "svc \<in> set (requested_services (rq_services write))"
    using assms(3) by (auto simp: requested_services_def first_seen_set)
  from x show ?thesis
  proof (cases rule: write_in_cases)
    case (planned y u)
    have "y \<noteq> Val (Ok ts)" for ts
      using plan_all_gate[OF assms(1,2) m assms(4)] planned(1) by (simp add: plan_writes_def)
    moreover have "sy_fs u = sy_fs s" using touches_nothing[of "plan_writes ev dirs ss write"] planned(1) touches_plan_writes by blast
    ultimately show ?thesis using planned x by (metis fst_conv snd_conv)
  qed (use x in simp)
qed

theorem sensitive_services_gated_witness:
  "\<forall>ev dirs roots ss s. fst (write_in (ev :: unit journal_env_scheme) dirs roots ss
     \<lparr>rq_action = AddLine, rq_services = [''sudo'', ''system-auth''], rq_no_confirm = True, rq_allow_sensitive = False,
      rq_if_present = True, rq_dry_run = False, rq_keep_backup = False\<rparr> s) \<noteq> Val (Ok ([], 0))"
proof (intro allI)
  fix ev :: "unit journal_env_scheme" and dirs roots ss s
  show "fst (write_in ev dirs roots ss
     \<lparr>rq_action = AddLine, rq_services = [''sudo'', ''system-auth''], rq_no_confirm = True, rq_allow_sensitive = False,
      rq_if_present = True, rq_dry_run = False, rq_keep_backup = False\<rparr> s) \<noteq> Val (Ok ([], 0))"
    by (rule sensitive_services_gated[where svc = "''system-auth''", THEN conjunct2]) (simp_all add: SENSITIVE_SERVICES_def)
qed

text \<open>A dry run and a status query change nothing on disk.\<close>

theorem preview_changes_nothing:
  assumes "rq_dry_run write"
  shows "sy_fs (snd (write_in ev dirs roots ss write s)) = sy_fs s \<and> sy_fs (snd (status_in ev dirs display request s)) = sy_fs s"
  using dry_write_in[OF assms, of "\<lambda>_ _. False" ev dirs roots ss] touches_status_in[of "\<lambda>_ _. False" ev dirs display request]
  by (metis prod.collapse touches_nothing)

theorem preview_changes_nothing_witness:
  "\<forall>ev dirs roots ss s. sy_fs (snd (write_in (ev :: unit journal_env_scheme) dirs roots ss
     \<lparr>rq_action = AddLine, rq_services = [''sudo''], rq_no_confirm = True, rq_allow_sensitive = False,
      rq_if_present = False, rq_dry_run = True, rq_keep_backup = False\<rparr> s)) = sy_fs s"
  by (intro allI, rule preview_changes_nothing[THEN conjunct1]) simp



end
