(* ===== verification/CallLogic.thy ===== *)
theory CallLogic
  imports FileCalls
begin

text \<open>
  Reasoning about programs of system calls. A triple says what holds of the directories when a program
  returns, when it reports an error and wherever it dies, for runs in which nothing, only a crash, or any
  fault may happen.
\<close>

lemma set_entry_apply [simp]: "set_entry r n e fs r' n' = (if r = r' \<and> n = n' then e else fs r' n')"
  by (simp add: set_entry_def)

lemma identity_matches_iff [simp]: "identity_matches a b \<longleftrightarrow> a = b"
  by (auto simp: identity_matches_def)

subsection \<open>Triples\<close>

datatype mode = Quiet | Crashing | Faulty

fun allows :: "mode \<Rightarrow> call_verdict \<Rightarrow> bool" where
  "allows m Go = True"
| "allows m (Refuse _ _) = (m = Faulty)"
| "allows m (Die _) = (m \<noteq> Quiet)"

fun after :: "mode \<Rightarrow> ('a \<Rightarrow> fs \<Rightarrow> bool) \<Rightarrow> (io_error \<Rightarrow> fs \<Rightarrow> bool) \<Rightarrow> (fs \<Rightarrow> bool) \<Rightarrow> 'a outcome \<Rightarrow> fs \<Rightarrow> bool" where
  "after m Q E C (Val x) fs = Q x fs"
| "after m Q E C (Fail e) fs = E e fs"
| "after m Q E C Dead fs = (m \<noteq> Quiet \<and> C fs)"

definition good :: "mode \<Rightarrow> (fs \<Rightarrow> bool) \<Rightarrow> sys \<Rightarrow> bool" where
  "good m P s \<longleftrightarrow> P (sy_fs s) \<and> list_all (allows m) (sy_script s)"

definition triple ::
    "mode \<Rightarrow> (fs \<Rightarrow> bool) \<Rightarrow> 'a io \<Rightarrow> ('a \<Rightarrow> fs \<Rightarrow> bool) \<Rightarrow> (io_error \<Rightarrow> fs \<Rightarrow> bool) \<Rightarrow> (fs \<Rightarrow> bool) \<Rightarrow> bool" where
  "triple m P p Q E C \<longleftrightarrow> (\<forall>s. good m P s \<longrightarrow> good m (after m Q E C (fst (p s))) (snd (p s)))"

lemma tripleI: "(\<And>s. good m P s \<Longrightarrow> good m (after m Q E C (fst (p s))) (snd (p s))) \<Longrightarrow> triple m P p Q E C"
  by (simp add: triple_def)

lemma tripleD: "triple m P p Q E C \<Longrightarrow> good m P s \<Longrightarrow> good m (after m Q E C (fst (p s))) (snd (p s))"
  by (simp add: triple_def)

lemma after_mono:
  "after m Q E C r fs \<Longrightarrow> (\<And>x. Q x fs \<Longrightarrow> Q' x fs) \<Longrightarrow> (\<And>e. E e fs \<Longrightarrow> E' e fs) \<Longrightarrow> (C fs \<Longrightarrow> C' fs) \<Longrightarrow> after m Q' E' C' r fs"
  by (cases r) auto

lemma triple_conseq:
  assumes "triple m P p Q E C" "\<And>fs. P' fs \<Longrightarrow> P fs" "\<And>x fs. Q x fs \<Longrightarrow> Q' x fs" "\<And>e fs. E e fs \<Longrightarrow> E' e fs"
    "\<And>fs. C fs \<Longrightarrow> C' fs"
  shows "triple m P' p Q' E' C'"
proof (rule tripleI)
  fix s assume "good m P' s"
  then have "good m P s" using assms(2) by (simp add: good_def)
  from tripleD[OF assms(1) this] show "good m (after m Q' E' C' (fst (p s))) (snd (p s))"
    unfolding good_def using assms(3-5) by (auto elim!: after_mono)
qed

lemma triple_ret: "(\<And>fs. P fs \<Longrightarrow> Q x fs) \<Longrightarrow> triple m P (ret x) Q E C"
  by (simp add: triple_def ret_def good_def)

lemma triple_throw: "(\<And>fs. P fs \<Longrightarrow> E e fs) \<Longrightarrow> triple m P (throw e) Q E C"
  by (simp add: triple_def throw_def good_def)

lemma triple_bind:
  assumes "triple m P p R E C" "\<And>x. triple m (R x) (f x) Q E C"
  shows "triple m P (bind p f) Q E C"
proof (rule tripleI)
  fix s assume s: "good m P s"
  obtain r t where p: "p s = (r, t)" by fastforce
  have t: "good m (after m R E C r) t" using tripleD[OF assms(1) s] p by simp
  show "good m (after m Q E C (fst (bind p f s))) (snd (bind p f s))"
  proof (cases r)
    case (Val x)
    then show ?thesis using tripleD[OF assms(2), of x t] t p by (simp add: bind_def good_def)
  qed (use t p in \<open>simp_all add: bind_def good_def\<close>)
qed

lemma triple_tried:
  assumes "triple m P p (\<lambda>x. Q (Ok x)) (\<lambda>e. Q (Err e)) C"
  shows "triple m P (tried p) Q E C"
proof (rule tripleI)
  fix s assume s: "good m P s"
  obtain r t where p: "p s = (r, t)" by fastforce
  have "good m (after m (\<lambda>x. Q (Ok x)) (\<lambda>e. Q (Err e)) C r) t" using tripleD[OF assms s] p by simp
  then show "good m (after m Q E C (fst (tried p s))) (snd (tried p s))"
    using p by (cases r) (simp_all add: tried_def good_def)
qed

lemma triple_guard:
  assumes "\<And>fs. P fs \<Longrightarrow> b \<Longrightarrow> Q () fs" "\<And>fs. P fs \<Longrightarrow> \<not> b \<Longrightarrow> E e fs"
  shows "triple m P (guard b e) Q E C"
  using assms by (simp add: guard_def triple_ret triple_throw)

lemma triple_pre: "(\<And>fs. P fs \<Longrightarrow> A) \<Longrightarrow> (A \<Longrightarrow> triple m P p Q E C) \<Longrightarrow> triple m P p Q E C"
  by (auto simp: triple_def good_def)

lemma triple_pure: "(A \<Longrightarrow> triple m P p Q E C) \<Longrightarrow> triple m (\<lambda>fs. A \<and> P fs) p Q E C"
  by (auto simp: triple_def good_def)

lemma triple_ex: "(\<And>i. triple m (P i) p Q E C) \<Longrightarrow> triple m (\<lambda>fs. \<exists>i. P i fs) p Q E C"
  by (auto simp: triple_def good_def)

lemma triple_syscall:
  assumes "\<And>fs x fs'. P fs \<Longrightarrow> effect fs = (Ok x, fs') \<Longrightarrow> Q x fs'"
    "\<And>fs e fs'. P fs \<Longrightarrow> effect fs = (Err e, fs') \<Longrightarrow> E (Os e) fs'"
    "\<And>fs e k. m = Faulty \<Longrightarrow> P fs \<Longrightarrow> e \<in> {EINTR, EIO} \<Longrightarrow> E (Os e) (part k fs)"
    "\<And>fs k. m \<noteq> Quiet \<Longrightarrow> P fs \<Longrightarrow> C (part k fs)"
  shows "triple m P (syscall effect part) Q E C"
proof (rule tripleI)
  fix s assume "good m P s"
  then have P: "P (sy_fs s)" and ok: "list_all (allows m) (sy_script s)" by (simp_all add: good_def)
  have rest: "list_all (allows m) (tl (sy_script s))" using ok by (cases "sy_script s") auto
  define v where "v = (case sy_script s of [] \<Rightarrow> Go | v # _ \<Rightarrow> v)"
  then have v: "allows m v" using ok by (cases "sy_script s") auto
  show "good m (after m Q E C (fst (syscall effect part s))) (snd (syscall effect part s))"
  proof (cases v)
    case Go
    then show ?thesis using rest assms(1,2)[OF P] unfolding syscall_def v_def[symmetric]
      by (auto simp: Let_def good_def split: prod.splits result.splits)
  next
    case (Refuse b k)
    then have "m = Faulty" using v by simp
    then show ?thesis using Refuse rest assms(3)[OF _ P] unfolding syscall_def v_def[symmetric] by (simp add: Let_def good_def)
  next
    case (Die k)
    then have "m \<noteq> Quiet" using v by simp
    then show ?thesis using Die rest assms(4)[OF _ P] unfolding syscall_def v_def[symmetric] by (simp add: Let_def good_def)
  qed
qed

lemma triple_look:
  assumes "\<And>fs x. P fs \<Longrightarrow> f fs = Ok x \<Longrightarrow> Q x fs" "\<And>fs e. P fs \<Longrightarrow> f fs = Err e \<Longrightarrow> E (Os e) fs"
    "\<And>fs e. m = Faulty \<Longrightarrow> P fs \<Longrightarrow> e \<in> {EINTR, EIO} \<Longrightarrow> E (Os e) fs" "\<And>fs. m \<noteq> Quiet \<Longrightarrow> P fs \<Longrightarrow> C fs"
  shows "triple m P (look f) Q E C"
  unfolding look_def by (rule triple_syscall) (use assms in auto)

lemma triple_change:
  assumes "\<And>fs fs'. P fs \<Longrightarrow> f fs = Ok fs' \<Longrightarrow> Q () fs'" "\<And>fs e. P fs \<Longrightarrow> f fs = Err e \<Longrightarrow> E (Os e) fs"
    "\<And>fs e. m = Faulty \<Longrightarrow> P fs \<Longrightarrow> e \<in> {EINTR, EIO} \<Longrightarrow> E (Os e) fs" "\<And>fs. m \<noteq> Quiet \<Longrightarrow> P fs \<Longrightarrow> C fs"
  shows "triple m P (change f) Q E C"
  unfolding change_def by (rule triple_syscall) (use assms in \<open>auto split: result.splits\<close>)

end
