(* ===== verification/PamSafety.thy ===== *)
theory PamSafety
  imports PamFrame CallLogic
begin

text \<open>
  Adding the rule under arbitrary faults: every call may fail or be the last one. The service file is always
  the old one or the complete new one, and when it is the new one its original is in the backup store.
\<close>

subsection \<open>Frames as triples\<close>

lemma faulty_script [simp]: "list_all (allows Faulty) xs"
proof -
  have "allows Faulty v" for v by (cases v) auto
  then show ?thesis by (simp add: list_all_iff)
qed

lemma touch_keeps:
  assumes "touches A p" "\<And>fs fs'. P fs \<Longrightarrow> (\<And>r n. \<not> A r n \<Longrightarrow> fs' r n = fs r n) \<Longrightarrow> P fs'"
  shows "triple Faulty P p (\<lambda>_. P) (\<lambda>_. P) P"
proof (rule tripleI)
  fix s assume "good Faulty P s"
  then have "P (sy_fs (snd (p s)))" using assms by (auto simp: good_def touches_def)
  then show "good Faulty (after Faulty (\<lambda>_. P) (\<lambda>_. P) P (fst (p s))) (snd (p s))"
    by (cases "fst (p s)") (simp_all add: good_def)
qed

lemma touch_none: "touches (\<lambda>_ _. False) p \<Longrightarrow> triple Faulty P p (\<lambda>_. P) (\<lambda>_. P) P"
  by (rule touch_keeps) (auto intro!: ext elim!: back_subst[of P])

lemma triple_weaken:
  assumes "triple m P p R (\<lambda>_. P) P" "\<And>fs. P fs \<Longrightarrow> J fs"
  shows "triple m P p R (\<lambda>_. J) J"
  using assms by (auto elim!: triple_conseq)

lemma triple_if: "(b \<Longrightarrow> triple m P p Q E C) \<Longrightarrow> (\<not> b \<Longrightarrow> triple m P q Q E C) \<Longrightarrow> triple m P (if b then p else q) Q E C"
  by simp

lemma triple_result:
  assumes "\<And>a. triple m (P (Ok a)) (f a) Q E C" "\<And>e. triple m (P (Err e)) (g e) Q E C"
  shows "triple m (P x) (case x of Ok a \<Rightarrow> f a | Err e \<Rightarrow> g e) Q E C"
  using assms by (cases x) auto

lemma triple_prod: "(\<And>a b. triple m P (f a b) Q E C) \<Longrightarrow> triple m P (case x of (a, b) \<Rightarrow> f a b) Q E C"
  by (cases x) simp

subsection \<open>Publishing\<close>

definition before :: "string \<Rightarrow> string \<Rightarrow> inode \<Rightarrow> inode \<Rightarrow> fs \<Rightarrow> bool" where
  "before n t old new fs \<longleftrightarrow> fs PamRoot n = Some (File old) \<and> fs PamRoot t = Some (File new)"

definition swapped :: "string \<Rightarrow> string \<Rightarrow> inode \<Rightarrow> inode \<Rightarrow> fs \<Rightarrow> bool" where
  "swapped n t old new fs \<longleftrightarrow> fs PamRoot n = Some (File new) \<and> fs PamRoot t = Some (File old)"

definition either :: "string \<Rightarrow> inode \<Rightarrow> inode \<Rightarrow> fs \<Rightarrow> bool" where
  "either n old new fs \<longleftrightarrow> fs PamRoot n \<in> {Some (File old), Some (File new)}"

lemma either_cases: "(before n t old new) fs \<Longrightarrow> (either n old new) fs" "(swapped n t old new) fs \<Longrightarrow> (either n old new) fs"
  by (simp_all add: before_def swapped_def either_def)

lemma temp_step: "n \<noteq> t \<Longrightarrow> touches (\<lambda>r x. r = PamRoot \<and> x = t) p \<Longrightarrow> triple Faulty (either n old new) p (\<lambda>_. (either n old new)) (\<lambda>_. (either n old new)) (either n old new)"
  by (rule touch_keeps) (auto simp: either_def)

lemma temp_end:
  assumes "n \<noteq> t" "touches (\<lambda>r x. r = PamRoot \<and> x = t) p" "\<And>fs. P fs \<Longrightarrow> (either n old new) fs"
  shows "triple Faulty P p (\<lambda>_. (either n old new)) (\<lambda>_. (either n old new)) (either n old new)"
  by (rule triple_conseq[OF temp_step[OF assms(1,2)]]) (use assms(3) in auto)

lemma look_step:
  assumes "touches (\<lambda>_ _. False) p" "\<And>fs. P fs \<Longrightarrow> (either n old new) fs"
  shows "triple Faulty P p (\<lambda>_. P) (\<lambda>_. (either n old new)) (either n old new)"
  by (rule triple_weaken[OF touch_none[OF assms(1)]]) (rule assms(2))

lemma swap_step:
  assumes "n \<noteq> t" "P = (before n t old new) \<and> Q = (swapped n t old new) \<or> P = (swapped n t old new) \<and> Q = (before n t old new)"
  shows "triple Faulty P (tried (renameat2_exchange PamRoot t n)) (\<lambda>x. case x of Ok _ \<Rightarrow> Q | Err _ \<Rightarrow> P) E (either n old new)"
  unfolding renameat2_exchange_def
  by (rule triple_tried, rule triple_change)
    (use assms in \<open>auto simp: before_def swapped_def either_def split: if_splits\<close>)

lemma settle_safe:
  assumes nt: "n \<noteq> t"
  shows "triple Faulty (swapped n t old new) (settle_exchange ev n t expected replacement)
    (\<lambda>_. either n old new) (\<lambda>_. either n old new) (either n old new)"
  unfolding settle_exchange_def
  apply (rule triple_bind[OF look_step])
    apply (intro touch)
   apply (erule either_cases(2))
  apply (rule triple_if)
   apply (rule triple_throw, erule either_cases(2))
  apply (rule triple_bind[OF look_step])
    apply (intro touch)
   apply (erule either_cases(2))
  apply (rule triple_if)
   apply (rule triple_bind[OF swap_step[OF nt, of "swapped n t old new" old new "before n t old new"]])
    apply simp
   apply (rule triple_result)
    apply (simp only: result.case)
    apply (rule temp_end[OF nt])
     apply (intro touch; simp)
    apply (erule either_cases(1))
   apply (simp only: result.case)
   apply (rule triple_throw, erule either_cases(2))
  apply (rule temp_end[OF nt])
   apply (intro touch; simp)
  apply (erule either_cases(2))
  done

lemma publish_safe:
  assumes nt: "n \<noteq> t"
  shows "triple Faulty (before n t old new) (publish_replacement ev n t expected replacement)
    (\<lambda>_. either n old new) (\<lambda>_. either n old new) (either n old new)"
proof -
  have give_up: "triple Faulty (before n t old new) (bind (cleanup_unpublished_temp_at ev PamRoot t replacement MAX_BACKUP_BYTES msg) (\<lambda>_. throw e))
      (\<lambda>_. either n old new) (\<lambda>_. either n old new) (either n old new)" for msg e
    by (intro temp_end[OF nt] either_cases(1)) (intro touch; simp)
  show ?thesis unfolding publish_replacement_def
    apply (rule triple_bind[OF look_step])
      apply (intro touch)
     apply (erule either_cases(1))
    apply (rule triple_result[where P = "\<lambda>_. before n t old new"])
     apply (rule triple_bind[OF look_step])
       apply (intro touch)
      apply (erule either_cases(1))
     apply (rule triple_bind[OF swap_step[OF nt, of "before n t old new" old new "swapped n t old new"]])
      apply simp
     apply (rule triple_result)
      apply (simp only: result.case, rule settle_safe[OF nt])
     apply (simp only: result.case, rule give_up)
    apply (rule give_up)
    done
qed

subsection \<open>What a returned value shows\<close>

abbreviation gives :: "(fs \<Rightarrow> bool) \<Rightarrow> 'a io \<Rightarrow> ('a \<Rightarrow> fs \<Rightarrow> bool) \<Rightarrow> bool" where
  "gives P p Q \<equiv> triple Faulty P p Q (\<lambda>_ _. True) (\<lambda>_. True)"

lemma triple_and:
  assumes "triple m P p Q E C" "triple m P' p Q' E' C'"
  shows "triple m (\<lambda>fs. P fs \<and> P' fs) p (\<lambda>x fs. Q x fs \<and> Q' x fs) (\<lambda>e fs. E e fs \<and> E' e fs) (\<lambda>fs. C fs \<and> C' fs)"
proof (rule tripleI)
  fix s assume "good m (\<lambda>fs. P fs \<and> P' fs) s"
  then have "good m P s" "good m P' s" by (simp_all add: good_def)
  from tripleD[OF assms(1) this(1)] tripleD[OF assms(2) this(2)]
  show "good m (after m (\<lambda>x fs. Q x fs \<and> Q' x fs) (\<lambda>e fs. E e fs \<and> E' e fs) (\<lambda>fs. C fs \<and> C' fs) (fst (p s))) (snd (p s))"
    by (cases "fst (p s)") (simp_all add: good_def)
qed

lemma gives_none: "touches (\<lambda>_ _. False) p \<Longrightarrow> gives P p (\<lambda>_. P)"
  by (rule triple_conseq[OF touch_none]) auto

lemma gives_true: "gives P p (\<lambda>_ _. True)"
proof (rule tripleI)
  fix s
  show "good Faulty (after Faulty (\<lambda>_ _. True) (\<lambda>_ _. True) (\<lambda>_. True) (fst (p s))) (snd (p s))"
    by (cases "fst (p s)") (simp_all add: good_def)
qed

lemma gives_never: "gives P (bind p (\<lambda>_. throw e)) Q"
  by (rule triple_bind[OF gives_true]) (rule triple_throw, simp)

definition filled :: "root \<Rightarrow> string \<Rightarrow> string \<Rightarrow> fs \<Rightarrow> bool" where
  "filled r n bs fs \<longleftrightarrow> (\<exists>i. fs r n = Some (File i) \<and> i_bytes i = bs)"

lemma gives_create: "gives P (openat_create ev r n mode) (\<lambda>_. filled r n [])"
  unfolding openat_create_def by (rule triple_change) (auto simp: filled_def new_inode_def split: if_splits)

lemma gives_write: "gives (filled r n []) (write_all r n bs) (\<lambda>_. filled r n bs)"
  unfolding write_all_def by (rule triple_syscall) (auto simp: filled_def on_file_def)

lemma gives_owner_mode: "gives (filled r n bs) (apply_owner_then_mode r n u g m) (\<lambda>_. filled r n bs)"
proof -
  have "gives (filled r n bs) (fchown r n u g) (\<lambda>_. filled r n bs)" unfolding fchown_def
    by (rule triple_change) (auto simp: filled_def on_file_def)
  moreover have "gives (filled r n bs) (set_permissions r n m) (\<lambda>_. filled r n bs)" unfolding set_permissions_def
    by (rule triple_change) (auto simp: filled_def on_file_def)
  ultimately show ?thesis unfolding apply_owner_then_mode_def
    by (intro triple_bind[OF gives_none[of "fstat r n"]] triple_bind[where R = "\<lambda>_. filled r n bs"] triple_if triple_ret)
      (auto intro: touch)
qed

lemma gives_identity_at:
  "gives (filled r n bs) (identity_at ev r n)
     (\<lambda>x fs. \<exists>i. fs r n = Some (File i) \<and> i_bytes i = bs \<and> x = identity_for_bytes ev i)"
proof -
  have a: "gives (filled r n bs) (fstat r n) (\<lambda>i fs. fs r n = Some (File i) \<and> i_bytes i = bs)"
    unfolding fstat_def by (rule triple_look) (auto simp: filled_def)
  have b: "gives (\<lambda>fs. fs r n = Some (File i) \<and> i_bytes i = bs) (identity_of_open ev i)
      (\<lambda>x fs. \<exists>i. fs r n = Some (File i) \<and> i_bytes i = bs \<and> x = identity_for_bytes ev i)" for i
    unfolding identity_of_open_def by (rule triple_bind[OF gives_none]) (auto intro: touch triple_ret)
  show ?thesis unfolding identity_at_def by (rule triple_bind[OF a b])
qed

definition full_copy :: "inode \<Rightarrow> string \<Rightarrow> inode \<Rightarrow> bool" where
  "full_copy model bs i \<longleftrightarrow> i_bytes i = bs \<and> i_mode i = i_mode model \<and> i_uid i = i_uid model \<and> i_gid i = i_gid model"

definition staged_copy :: "'a env_scheme \<Rightarrow> string \<Rightarrow> inode \<Rightarrow> string \<Rightarrow> file_identity \<Rightarrow> fs \<Rightarrow> bool" where
  "staged_copy ev t model bs x fs \<longleftrightarrow> (\<exists>i. fs PamRoot t = Some (File i) \<and> full_copy model bs i \<and> x = identity_for_bytes ev i)"

lemma gives_fill: "gives (filled PamRoot t []) (fill_pam_temp ev t bs (identity_for_bytes ev model)) (staged_copy ev t model bs)"
proof -
  have check: "gives (\<lambda>fs. \<exists>i. fs PamRoot t = Some (File i) \<and> i_bytes i = bs \<and> x = identity_for_bytes ev i)
      (if id_links x \<noteq> 1 \<or> id_sha256 x \<noteq> sha256_hex ev bs \<or> id_mode x \<noteq> id_mode (identity_for_bytes ev model) \<or>
          id_uid x \<noteq> id_uid (identity_for_bytes ev model) \<or> id_gid x \<noteq> id_gid (identity_for_bytes ev model)
       then throw (OtherError ''created PAM temp does not match its requested content and metadata'') else ret x)
      (staged_copy ev t model bs)" for x
    by (rule triple_if) (auto intro!: triple_throw triple_ret simp: staged_copy_def full_copy_def identity_for_bytes_def)
  show ?thesis unfolding fill_pam_temp_def
    by (rule triple_bind[OF gives_write], rule triple_bind[OF gives_owner_mode], rule triple_bind[OF gives_none[OF touches_sync]],
        rule triple_bind[OF gives_identity_at check])
qed

lemma gives_staged: "gives P (staged_temp ev t bs (identity_for_bytes ev model) u c) (staged_copy ev t model bs)"
proof -
  have create: "gives P (create_temp_at_named ev t bs (identity_for_bytes ev model)) (staged_copy ev t model bs)"
    unfolding create_temp_at_named_def
    apply (rule triple_bind[OF gives_true[where P = P]])
    apply (rule triple_bind[OF gives_create])
    apply (rule triple_bind[OF triple_tried[where Q = "\<lambda>x. case x of Ok i \<Rightarrow> staged_copy ev t model bs i | Err _ \<Rightarrow> \<lambda>_. True"]])
     apply (simp only: result.case, rule gives_fill)
    apply (rule triple_result)
     apply (simp add: triple_ret)
    apply (rule triple_bind[OF gives_true])
    apply (rule triple_result[where P = "\<lambda>_ _. True"])
     apply (rule gives_never)
    apply (rule triple_throw, simp)
    done
  have look: "gives Q (map_error (\<lambda>_. Ambiguous u) (identity_below ev PamRoot t)) (\<lambda>_. Q)" for Q
    by (rule gives_none) (intro touch)
  have same: "gives Q (guard (identity_matches x y) (Ambiguous c)) (\<lambda>_ fs. x = y \<and> Q fs)" for Q x y
    by (rule triple_guard) auto
  show ?thesis unfolding staged_temp_def
    by (rule triple_bind[OF create], rule triple_bind[OF look], rule triple_bind[OF same]) (rule triple_ret, auto)
qed

definition now_new :: "string \<Rightarrow> inode \<Rightarrow> fs \<Rightarrow> bool" where
  "now_new n new fs \<longleftrightarrow> fs PamRoot n = Some (File new)"

lemma settle_done:
  assumes nt: "n \<noteq> t"
  shows "gives (swapped n t old new) (settle_exchange ev n t expected replacement) (\<lambda>_. now_new n new)"
proof -
  have drop: "gives (swapped n t old new) p (\<lambda>_. now_new n new)" if "touches (\<lambda>r x. r = PamRoot \<and> x = t) p" for p :: "unit io"
    by (rule triple_conseq[OF touch_keeps[OF that, where P = "now_new n new"]]) (use nt in \<open>auto simp: swapped_def now_new_def\<close>)
  show ?thesis unfolding settle_exchange_def
    apply (rule triple_bind[OF gives_none], intro touch)
    apply (rule triple_if, rule triple_throw, simp)
    apply (rule triple_bind[OF gives_none], intro touch)
    apply (rule triple_if)
     apply (rule triple_bind[OF gives_true])
     apply (rule triple_result[where P = "\<lambda>_ _. True"])
      apply (rule triple_bind[OF gives_true], rule triple_bind[OF gives_true], rule gives_never)
     apply (rule triple_throw, simp)
    apply (rule drop)
    apply (intro touch; simp)
    done
qed

lemma publish_done:
  assumes nt: "n \<noteq> t"
  shows "gives (before n t old new) (publish_replacement ev n t expected replacement) (\<lambda>_. now_new n new)"
proof -
  have swap: "gives (before n t old new) (tried (renameat2_exchange PamRoot t n))
      (\<lambda>x. case x of Ok _ \<Rightarrow> swapped n t old new | Err _ \<Rightarrow> before n t old new)"
    by (rule triple_conseq[OF swap_step[OF nt, of "before n t old new" old new "swapped n t old new"]]) simp_all
  show ?thesis unfolding publish_replacement_def
    apply (rule triple_bind[OF gives_none], intro touch)
    apply (rule triple_result[where P = "\<lambda>_. before n t old new"])
     apply (rule triple_bind[OF gives_none], intro touch)
     apply (rule triple_bind[OF swap], rule triple_result; simp only: result.case)
      apply (rule settle_done[OF nt])
     apply (rule gives_never)
    apply (rule gives_never)
    done
qed

subsection \<open>Replacing a service file\<close>

definition untouched :: "string \<Rightarrow> inode \<Rightarrow> fs \<Rightarrow> bool" where
  "untouched n old fs \<longleftrightarrow> fs PamRoot n = Some (File old)"

definition intact :: "string \<Rightarrow> inode \<Rightarrow> string \<Rightarrow> fs \<Rightarrow> bool" where
  "intact n old bs fs \<longleftrightarrow> (\<exists>i. fs PamRoot n = Some (File i) \<and> (i = old \<or> full_copy old bs i))"

definition installed :: "string \<Rightarrow> inode \<Rightarrow> string \<Rightarrow> fs \<Rightarrow> bool" where
  "installed n old bs fs \<longleftrightarrow> (\<exists>i. fs PamRoot n = Some (File i) \<and> full_copy old bs i)"

lemma installed_intact: "installed n old bs fs \<Longrightarrow> intact n old bs fs"
  by (auto simp: installed_def intact_def)

lemma untouched_intact: "untouched n old fs \<Longrightarrow> intact n old bs fs"
  by (simp add: untouched_def intact_def)

lemma keeps_untouched: "touches (\<lambda>r x. r \<noteq> PamRoot \<or> x \<noteq> n) p \<Longrightarrow> triple Faulty (untouched n old) p (\<lambda>_. untouched n old) (\<lambda>_. untouched n old) (untouched n old)"
  by (rule touch_keeps) (auto simp: untouched_def)

lemma stage_step:
  assumes "n \<noteq> t"
  shows "triple Faulty (untouched n old) (staged_temp ev t bs (identity_for_bytes ev old) u c)
    (\<lambda>_ fs. \<exists>new. full_copy old bs new \<and> before n t old new fs) (\<lambda>_. untouched n old) (untouched n old)"
proof -
  have "touches (\<lambda>r x. r \<noteq> PamRoot \<or> x \<noteq> n) (staged_temp ev t bs (identity_for_bytes ev old) u c)"
    by (intro touch) (use assms in simp)
  from triple_and[OF keeps_untouched[OF this] gives_staged]
  show ?thesis by (rule triple_conseq) (auto simp: staged_copy_def before_def untouched_def)
qed

lemma replace_safe:
  assumes nt: "n \<noteq> t"
    and after_temp: "\<And>x new. triple Faulty (before n t old new) (after_temp x) (\<lambda>_. before n t old new) (\<lambda>_. untouched n old) (untouched n old)"
  shows "triple Faulty (untouched n old) (replace_existing_verified ev n (identity_for_bytes ev old) bs t after_temp)
    (\<lambda>r fs. if snd r = Ok () then installed n old bs fs else intact n old bs fs) (\<lambda>_. intact n old bs) (intact n old bs)"
proof -
  let ?post = "\<lambda>r fs. if r = Ok () then installed n old bs fs else intact n old bs fs"
  let ?staged = "\<lambda>fs. \<exists>new. full_copy old bs new \<and> before n t old new fs"
  note none = keeps_untouched[where p = p and n = n and old = old for p]
  have bound: "triple Faulty ?staged (bind (after_temp x) (\<lambda>made. ret (x, made))) (\<lambda>_. ?staged) (\<lambda>_. untouched n old) (untouched n old)" for x
    by (rule triple_ex, rule triple_pure, rule triple_bind[OF after_temp]) (rule triple_ret, auto)
  have first: "triple Faulty (untouched n old) (bind (open_directory_nofollow ev PamRoot) (\<lambda>_.
       bind (identity_below ev PamRoot n) (\<lambda>actual.
       bind (guard (identity_matches (identity_for_bytes ev old) actual) (OtherError ''PAM service changed after it was planned'')) (\<lambda>_.
       bind (staged_temp ev t bs (identity_for_bytes ev old) ''created PAM temp became ambiguous before binding''
               ''created PAM temp changed before publication binding'') (\<lambda>replacement.
       bind (after_temp replacement) (\<lambda>made. ret (replacement, made)))))))
     (\<lambda>_. ?staged) (\<lambda>_. untouched n old) (untouched n old)"
    by (rule triple_bind[OF none], intro touch, rule triple_bind[OF none], intro touch, rule triple_bind[OF none], intro touch,
        rule triple_bind[OF stage_step[OF nt] bound])
  have publish: "triple Faulty ?staged (bind (tried (publish_replacement ev n t (identity_for_bytes ev old) x)) (\<lambda>result. ret (Some y, result)))
     (\<lambda>r. ?post (snd r)) (\<lambda>_. intact n old bs) (intact n old bs)" for x y
  proof (rule triple_ex, rule triple_pure)
    fix new assume new: "full_copy old bs new"
    have "triple Faulty (before n t old new) (tried (publish_replacement ev n t (identity_for_bytes ev old) x))
       ?post (\<lambda>_. intact n old bs) (intact n old bs)"
      by (rule triple_tried, rule triple_conseq[OF triple_and[OF publish_safe[OF nt] publish_done[OF nt]]])
        (use new in \<open>auto simp: either_def intact_def installed_def now_new_def\<close>)
    then show "triple Faulty (before n t old new) (bind (tried (publish_replacement ev n t (identity_for_bytes ev old) x)) (\<lambda>result. ret (Some y, result)))
       (\<lambda>r. ?post (snd r)) (\<lambda>_. intact n old bs) (intact n old bs)"
      by (rule triple_bind) (rule triple_ret, simp)
  qed
  show ?thesis unfolding replace_existing_verified_def
    apply (rule triple_bind[OF triple_tried[where Q = "\<lambda>x. case x of Ok _ \<Rightarrow> ?staged | Err _ \<Rightarrow> untouched n old"]])
     apply (rule triple_conseq[OF first], simp_all add: untouched_intact)[1]
    apply (rule triple_result)
     apply (simp only: result.case, rule triple_prod, rule publish)
    apply (simp only: result.case, rule triple_ret, simp add: untouched_intact)
    done
qed

lemma bind_temp_safe:
  assumes nt: "n \<noteq> t"
  shows "triple Faulty (before n t old new) (bind_temp ev role intent enc t msg x)
    (\<lambda>_. before n t old new) (\<lambda>_. untouched n old) (untouched n old)"
proof -
  have "touches (\<lambda>r _. r = StateRoot) (tried (create_publication_binding ev role intent enc x))"
    by (intro touch) (simp add: state_area_def)
  then have made: "triple Faulty (before n t old new) (tried (create_publication_binding ev role intent enc x))
      (\<lambda>_. before n t old new) (\<lambda>_. untouched n old) (untouched n old)"
    by (intro triple_conseq[OF touch_keeps[where P = "before n t old new"]]) (auto simp: before_def untouched_def)
  have "triple Faulty (before n t old new) (cleanup_unpublished_temp ev PamRoot t x MAX_BACKUP_BYTES msg)
      (\<lambda>_. untouched n old) (\<lambda>_. untouched n old) (untouched n old)"
    by (rule triple_conseq[OF keeps_untouched]) (use nt in \<open>auto simp: before_def untouched_def intro!: touch\<close>)
  then have drop: "triple Faulty (before n t old new) (bind (cleanup_unpublished_temp ev PamRoot t x MAX_BACKUP_BYTES msg) (\<lambda>_. throw e))
      (\<lambda>_. before n t old new) (\<lambda>_. untouched n old) (untouched n old)" for e
    by (rule triple_bind) (rule triple_throw)
  show ?thesis unfolding bind_temp_def
    by (rule triple_bind[OF made], rule triple_result[where P = "\<lambda>_. before n t old new"], rule triple_ret, assumption, rule triple_if, rule triple_throw)
      (auto simp: before_def untouched_def intro: drop)
qed

lemma replace_pam_safe:
  assumes "\<not> prefix ''.facelock-'' n"
  shows "triple Faulty (untouched n old) (replace_pam_with_intent ev p n (identity_for_bytes ev old) bs)
    (\<lambda>_. installed n old bs) (\<lambda>_. intact n old bs) (intact n old bs)"
proof -
  have nt: "n \<noteq> pam_replace_name b" for b using assms by (auto simp: pam_replace_name_def)
  have keep: "triple Faulty (intact n old bs) p (\<lambda>_. intact n old bs) (\<lambda>_. intact n old bs) (intact n old bs)"
    if "touches (\<lambda>r _. r = StateRoot) p" for p :: "'b io"
    by (rule touch_keeps[OF that]) (auto simp: intact_def)
  have first: "triple Faulty (untouched n old) p (\<lambda>_. untouched n old) (\<lambda>_. intact n old bs) (intact n old bs)"
    if "touches (\<lambda>r _. r = StateRoot) p" for p :: "'b io"
    by (rule triple_conseq[OF touch_keeps[OF that, where P = "untouched n old"]]) (auto simp: untouched_def intact_def)
  have st: "state_area (\<lambda>r _. r = StateRoot)" by (simp add: state_area_def)
  have stay: "triple Faulty (installed n old bs) p (\<lambda>_. installed n old bs) (\<lambda>_. intact n old bs) (intact n old bs)"
    if "touches (\<lambda>r _. r = StateRoot) p" for p :: "'b io"
    by (rule triple_conseq[OF touch_keeps[OF that, where P = "installed n old bs"]]) (auto simp: installed_def intro: installed_intact)
  have fails: "triple Faulty (intact n old bs) (close_change ev k i q m (Err e)) (\<lambda>_. installed n old bs) (\<lambda>_. intact n old bs) (intact n old bs)" for k i q m e
  proof -
    have "gives (intact n old bs) (close_change ev k i q m (Err e)) (\<lambda>_ _. False)" unfolding close_change_def
      by (auto intro!: triple_throw triple_bind[OF gives_true] split: result.split)
    from triple_and[OF keep this] show ?thesis by (rule triple_conseq) (auto intro: touches_close[OF st])
  qed
  have finish: "triple Faulty (\<lambda>fs. if result = Ok () then installed n old bs fs else intact n old bs fs)
      (bind (case result of Ok _ \<Rightarrow> tried (validated ev n q missing changed) | Err e \<Rightarrow> ret (Err e)) (\<lambda>r. close_change ev k i q m r))
      (\<lambda>_. installed n old bs) (\<lambda>_. intact n old bs) (intact n old bs)" for result q missing changed k i m
  proof (cases result)
    case (Ok a)
    have "touches (\<lambda>r _. r = StateRoot) (bind (tried (validated ev n q missing changed)) (\<lambda>r. close_change ev k i q m r))" by (intro touch st)
    from stay[OF this] show ?thesis by (simp add: Ok)
  next
    case (Err e)
    have "bind (ret (Err e)) f = f (Err e)" for f :: "(unit, io_error) result \<Rightarrow> unit io" by (simp add: bind_def ret_def fun_eq_iff)
    then show ?thesis by (simp add: Err fails)
  qed
  show ?thesis unfolding replace_pam_with_intent_def Let_def
    apply (rule triple_bind[OF first])
     apply (intro touch)
    apply (rule triple_bind[OF first])
     apply (intro touch st)
    apply (rule triple_bind[OF replace_safe[OF nt bind_temp_safe[OF nt]]])
    subgoal for _ _ r by (cases r) (simp only: prod.case snd_conv finish)
    done
qed

subsection \<open>The backup\<close>

text \<open>Everything but one name of the store.\<close>

definition sparing :: "string \<Rightarrow> root \<Rightarrow> string \<Rightarrow> bool" where
  "sparing b r n \<longleftrightarrow> \<not> (r = StateRoot \<and> n = b)"

definition plain_name :: "string \<Rightarrow> bool" where
  "plain_name b \<longleftrightarrow> \<not> prefix ''.facelock-'' b"

lemma own_names:
  assumes "plain_name b"
  shows "intent_name role x \<noteq> b" "publication_name prole x \<noteq> b" "exchange_name x \<noteq> b" "state_temp_name ev n bs fs \<noteq> b"
proof -
  have no: "\<not> prefix ''.facelock-'' b" using assms by (simp add: plain_name_def)
  have "prefix ''.facelock-'' (intent_name role x)" "prefix ''.facelock-'' (publication_name prole x)"
    "prefix ''.facelock-'' (exchange_name x)" "prefix ''.facelock-'' (state_temp_name ev n bs fs)"
    by (simp_all add: intent_name_def publication_name_def exchange_name_def quarantine_name_def state_temp_name_def)
  with no show "intent_name role x \<noteq> b" "publication_name prole x \<noteq> b" "exchange_name x \<noteq> b" "state_temp_name ev n bs fs \<noteq> b"
    by blast+
qed

lemma spare_publish:
  assumes "plain_name b" "n \<noteq> b"
  shows "touches (sparing b) (atomic_state_create ev n bs)"
  unfolding atomic_state_create_def atomic_state_publish_def prepare_state_temp_def discard_state_temp_def
  by (intro touch) (simp_all add: sparing_def own_names[OF assms(1)] assms(2))

lemma spare_unlink: "n \<noteq> b \<Longrightarrow> touches (sparing b) (unlink_state_if_identity_matches ev n i)"
  unfolding unlink_state_if_identity_matches_def by (intro touch) (simp add: sparing_def)

declare touches_publish [touch del] touches_unlink_state [touch del] touches_binding [touch del] touches_commit [touch del]
  touches_bind_temp [touch del] touches_close [touch del] touches_persist [touch del] touches_replace_pam [touch del]

lemma touches_bind_value:
  assumes "gives (\<lambda>_. True) p (\<lambda>x _. V x)" "touches A p" "\<And>x. V x \<Longrightarrow> touches A (f x)"
  shows "touches A (bind p f)"
  unfolding touches_def
proof (intro allI impI)
  fix s r n
  assume out: "\<not> A r n"
  obtain x t where p: "p s = (x, t)" by (cases "p s")
  note first = touchesD[OF assms(2) out p]
  show "sy_fs (snd (bind p f s)) r n = sy_fs s r n"
  proof (cases x)
    case (Val v)
    then have "V v" using tripleD[OF assms(1), of s] p by (simp add: good_def)
    moreover obtain y u where q: "f v t = (y, u)" by (cases "f v t")
    ultimately show ?thesis using touchesD[OF assms(3) out q] first p Val by (simp add: bind_def)
  qed (use first p in \<open>simp_all add: bind_def\<close>)
qed

lemma value_binding: "gives (\<lambda>_. True) (create_publication_binding ev role intent enc x) (\<lambda>q _. cp_name q = publication_name role (si_backup intent))"
  unfolding create_publication_binding_def Let_def by (rule triple_bind[OF gives_true]) (rule triple_ret, simp)

lemma spare_binding: "plain_name b \<Longrightarrow> touches (sparing b) (create_publication_binding ev role intent enc x)"
  unfolding create_publication_binding_def by (intro touch spare_publish) (simp_all add: own_names)

lemma spare_bound:
  assumes b: "plain_name b" and "\<And>q. cp_name q \<noteq> b \<Longrightarrow> touches (sparing b) (f q)" "\<And>e. touches (sparing b) (g e)"
  shows "touches (sparing b) (bind (tried (create_publication_binding ev role intent enc x)) (\<lambda>r. case r of Ok q \<Rightarrow> f q | Err e \<Rightarrow> g e))"
proof (rule touches_bind_value[where V = "\<lambda>r. \<forall>q. r = Ok q \<longrightarrow> cp_name q \<noteq> b"])
  show "gives (\<lambda>_. True) (tried (create_publication_binding ev role intent enc x)) (\<lambda>r _. \<forall>q. r = Ok q \<longrightarrow> cp_name q \<noteq> b)"
    by (rule triple_tried, rule triple_conseq[OF value_binding]) (simp_all add: own_names[OF b])
  show "touches (sparing b) (tried (create_publication_binding ev role intent enc x))"
    by (intro touch spare_binding b)
  show "touches (sparing b) (case r of Ok q \<Rightarrow> f q | Err e \<Rightarrow> g e)" if "\<forall>q. r = Ok q \<longrightarrow> cp_name q \<noteq> b" for r
    using that assms(2,3) by (cases r) simp_all
qed

lemma spare_finish:
  "n \<noteq> b \<Longrightarrow> \<forall>q. z = Some q \<longrightarrow> cp_name q \<noteq> b \<Longrightarrow> touches (sparing b) (finish_publication_state ev n i z)"
  unfolding finish_publication_state_def by (cases z) (simp_all add: touches_bind spare_unlink touches_ret)

lemma spare_commit:
  assumes b: "plain_name b" and r: "bk_record p \<noteq> b"
  shows "touches (sparing b) (commit_unlocked ev p)"
proof -
  have settle: "touches (sparing b) (settle_commit ev p i j k q)" if "cp_name q \<noteq> b" for i j k q
    unfolding settle_commit_def
    by (intro touch spare_unlink spare_finish) (simp_all add: sparing_def own_names[OF b] r that)
  show ?thesis unfolding commit_unlocked_def
    by (intro spare_bound[OF b] touch spare_publish[OF b] spare_unlink settle) (simp_all add: sparing_def own_names[OF b])
qed

lemma value_bind_temp: "gives (\<lambda>_. True) (bind_temp ev role intent enc t msg x) (\<lambda>q _. cp_name q = publication_name role (si_backup intent))"
  unfolding bind_temp_def
  apply (rule triple_bind[OF triple_tried[where Q = "\<lambda>r _. \<forall>q. r = Ok q \<longrightarrow> cp_name q = publication_name role (si_backup intent)"]])
   apply (rule triple_conseq[OF value_binding], simp_all)[1]
  apply (rule triple_result, rule triple_ret, simp)
  apply (rule triple_if, rule triple_throw, simp, rule gives_never)
  done

lemma value_replace:
  assumes "\<And>x. gives (\<lambda>_. True) (after_temp x) (\<lambda>q _. V q)"
  shows "gives (\<lambda>_. True) (replace_existing_verified ev n i bs t after_temp) (\<lambda>r _. \<forall>q. fst r = Some q \<longrightarrow> V q)"
  unfolding replace_existing_verified_def
  apply (rule triple_bind[OF triple_tried[where Q = "\<lambda>r _. \<forall>q. r = Ok q \<longrightarrow> V (snd q)"]])
   apply (simp only: result.inject result.distinct simp_thms)
   apply (rule triple_bind[OF gives_true], rule triple_bind[OF gives_true], rule triple_bind[OF gives_true], rule triple_bind[OF gives_true])
   apply (rule triple_bind[OF assms])
   apply (rule triple_ret, simp)
  apply (rule triple_result, clarsimp split: prod.split)
   apply (rule triple_pre, assumption)
   apply (rule triple_bind[OF gives_true], rule triple_ret, simp)
  apply (rule triple_ret, simp)
  done

lemma spare_replace_pam:
  assumes b: "plain_name b"
  shows "touches (sparing b) (replace_pam_with_intent ev p s i bs)"
proof -
  let ?made = "\<lambda>r. \<forall>q. fst r = Some q \<longrightarrow> cp_name q \<noteq> b"
  have pam: "sparing b PamRoot n" for n by (simp add: sparing_def)
  have bind_temp: "touches (sparing b) (bind_temp ev role intent enc t msg x)" for role intent enc t msg x
    unfolding bind_temp_def by (intro touch spare_binding b pam)
  have valued: "gives (\<lambda>_. True) (replace_existing_verified ev s i bs t (bind_temp ev role intent enc t msg)) (\<lambda>r _. ?made r)" for t role intent enc msg
    by (rule value_replace, rule triple_conseq[OF value_bind_temp]) (simp_all add: own_names[OF b])
  have close: "touches (sparing b) (close_change ev (intent_name role x) j z m r)" if "\<forall>q. z = Some q \<longrightarrow> cp_name q \<noteq> b" for role x j z m r
    unfolding close_change_def by (intro touch spare_finish that own_names b)
  show ?thesis unfolding replace_pam_with_intent_def Let_def
    apply (intro touches_bind[OF touches_guard] touches_bind[OF spare_publish[OF b own_names(1)[OF b]]])
    apply (rule touches_bind_value[OF valued])
     apply (intro touch bind_temp pam)
    apply (clarsimp split: prod.split)
    apply (intro touch close)
    apply simp
    done
qed

lemma gives_prepare: "gives (filled StateRoot t []) (prepare_state_temp ev t bs) (\<lambda>_. filled StateRoot t bs)"
  unfolding prepare_state_temp_def Let_def
  by (rule triple_bind[OF gives_write], rule triple_bind[OF gives_none], intro touch, rule triple_bind[OF gives_owner_mode], rule gives_none, intro touch)

lemma gives_rename:
  assumes "t \<noteq> n"
  shows "gives (filled r t bs) (renameat2_noreplace r t n) (\<lambda>_. filled r n bs)"
  unfolding renameat2_noreplace_def by (rule triple_change) (use assms in \<open>auto simp: filled_def set_entry_def split: if_splits option.splits\<close>)

lemma gives_publish:
  assumes "plain_name n"
  shows "gives P (atomic_state_create ev n bs) (\<lambda>_. filled StateRoot n bs)"
proof -
  have finish: "gives (filled StateRoot n bs) (bind (tried sync_all) (\<lambda>synced. case synced of Ok _ \<Rightarrow> ret x | Err _ \<Rightarrow> throw e))
      (\<lambda>_. filled StateRoot n bs)" for x e
    by (rule triple_bind[OF gives_none]) (auto intro!: touch triple_ret triple_throw split: result.split)
  have renamed: "gives (filled StateRoot (state_temp_name ev n bs fs) bs) (tried (renameat2_noreplace StateRoot (state_temp_name ev n bs fs) n))
      (\<lambda>r. case r of Ok _ \<Rightarrow> filled StateRoot n bs | Err _ \<Rightarrow> \<lambda>_. True)" for fs
    by (rule triple_tried, rule triple_conseq[OF gives_rename]) (simp_all add: own_names[OF assms])
  have prepared: "gives (filled StateRoot t []) (tried (prepare_state_temp ev t bs)) (\<lambda>r. case r of Ok _ \<Rightarrow> filled StateRoot t bs | Err _ \<Rightarrow> \<lambda>_. True)" for t
    by (rule triple_tried, rule triple_conseq[OF gives_prepare]) simp_all
  show ?thesis unfolding atomic_state_create_def atomic_state_publish_def Let_def
    apply (rule triple_bind[OF gives_true], rule triple_bind[OF gives_true], rule triple_bind[OF gives_true],
        rule triple_bind[OF gives_true], rule triple_bind[OF gives_true])
    apply (rule triple_bind[OF gives_create], rule triple_bind[OF prepared], rule triple_result; simp only: result.case)
     apply (rule triple_bind[OF gives_none], intro touch)
     apply (rule triple_bind[OF renamed], rule triple_result; simp only: result.case)
      apply (rule finish)
     apply (rule gives_never)
    apply (rule triple_bind[OF gives_true], rule gives_never)
    done
qed

lemma gives_persist:
  assumes b: "plain_name (bk_backup p)" and r: "bk_record p \<noteq> bk_backup p"
  shows "gives P (persist_unlocked ev p bs) (\<lambda>_. filled StateRoot (bk_backup p) bs)"
proof -
  let ?ok = "filled StateRoot (bk_backup p) bs"
  have keep: "gives ?ok q (\<lambda>_. ?ok)" if "touches (sparing (bk_backup p)) q" for q :: "'b io"
    by (rule triple_conseq[OF touch_keeps[OF that, where P = ?ok]]) (auto simp: filled_def sparing_def)
  have backup: "gives Q (tried (atomic_state_create ev (bk_backup p) bs)) (\<lambda>r. case r of Ok _ \<Rightarrow> ?ok | Err _ \<Rightarrow> \<lambda>_. True)" for Q
    by (rule triple_tried, rule triple_conseq[OF gives_publish[OF b]]) simp_all
  show ?thesis unfolding persist_unlocked_def Let_def
    apply (rule triple_bind[OF gives_true], rule triple_bind[OF gives_true], rule triple_bind[OF gives_true],
        rule triple_bind[OF gives_true], rule triple_bind[OF gives_true], rule triple_bind[OF gives_true])
    apply (rule triple_bind[OF backup], rule triple_result; simp only: result.case)
     apply (rule triple_bind[OF keep], intro touch spare_publish b r)
     apply (rule triple_result[where P = "\<lambda>_. ?ok"])
      apply (rule keep, intro spare_unlink own_names b)
     apply (rule triple_if, rule triple_throw, simp)
     apply (rule triple_bind[OF gives_true], rule triple_bind[OF gives_true], rule gives_never)
    apply (rule gives_never)
    done
qed

lemma value_probe: "gives (\<lambda>_. True) (probe_backup k s d) (\<lambda>r _. \<forall>b. r = Some b \<longrightarrow> (\<exists>d. b = backup_candidate s d))"
proof (induction k arbitrary: d)
  case (Suc k)
  show ?case unfolding probe_backup.simps Let_def
    by (rule triple_bind[OF gives_true], rule triple_bind[OF gives_true], rule triple_if)
      (rule triple_ret, blast, rule Suc)
qed (simp add: triple_ret)

definition planned :: "string \<Rightarrow> prepared_backup \<Rightarrow> bool" where
  "planned s p \<longleftrightarrow> confined s \<and> (\<exists>d. bk_backup p = backup_candidate s d) \<and> bk_record p = record_name (bk_backup p)"

lemma value_plan: "gives (\<lambda>_. True) (plan_at_unlocked ev s bs w d) (\<lambda>p _. planned s p)"
proof -
  have guarded: "gives (\<lambda>_. True) (guard (confined s) e) (\<lambda>_ _. confined s)" for e
    by (rule triple_guard) auto
  have made: "gives (\<lambda>_. \<forall>b. r = Some b \<longrightarrow> (\<exists>d. b = backup_candidate s d))
      (case r of None \<Rightarrow> throw e | Some b \<Rightarrow> ret \<lparr>bk_backup = b, bk_record = record_name b, bk_provenance = f b, bk_backup_identity = None, bk_record_identity = None\<rparr>)
      (\<lambda>p _. planned s p)" if "confined s" for r e f
    by (cases r) (auto intro!: triple_throw triple_ret simp: planned_def that simp del: split_paired_Ex)
  show ?thesis unfolding plan_at_unlocked_def
    by (rule triple_bind[OF guarded], rule triple_pre, assumption, rule triple_bind[OF gives_true], rule triple_bind[OF value_probe], rule made)
qed

lemma planned_names:
  assumes "planned s p" "plain_name s"
  shows "plain_name (bk_backup p)" "bk_record p \<noteq> bk_backup p"
proof -
  obtain d where d: "bk_backup p = backup_candidate s d" and "confined s" and r: "bk_record p = record_name (bk_backup p)"
    using assms(1) by (auto simp: planned_def)
  then have "s \<noteq> []" by (auto simp: confined_def is_basename_def)
  then obtain c cs where c: "s = c # cs" by (cases s) auto
  show "plain_name (bk_backup p)" unfolding plain_name_def
  proof
    assume "prefix ''.facelock-'' (bk_backup p)"
    then obtain us where us: "''.facelock-'' = s @ us" "prefix us (''.'' @ dec_str (fst d) @ ''-'' @ padded9 (snd d))"
      using assms(2) unfolding plain_name_def d backup_candidate_def prefix_append by blast
    show False
    proof (cases us)
      case Nil
      then show False using us(1) assms(2) by (simp add: plain_name_def)
    next
      case (Cons x xs)
      then have "CHR ''.'' \<in> set (cs @ us)" using us(2) by simp
      moreover have "cs @ us = ''facelock-''" using us(1) c by simp
      ultimately have "CHR ''.'' \<in> set ''facelock-''" by metis
      then show False by simp
    qed
  qed
  show "bk_record p \<noteq> bk_backup p" by (simp add: r record_name_def)
qed


definition recoverable :: "string \<Rightarrow> inode \<Rightarrow> string \<Rightarrow> fs \<Rightarrow> bool" where
  "recoverable n old bs fs \<longleftrightarrow> untouched n old fs \<or> (\<exists>d. intact n old bs fs \<and> filled StateRoot (backup_candidate n d) (i_bytes old) fs)"

lemma add_rule_recoverable:
  assumes n: "plain_name n"
  shows "triple Faulty (untouched n old) (add_rule ev n (i_bytes old) (identity_for_bytes ev old) now)
    (\<lambda>_ fs. \<exists>d. installed n old (with_facelock_inserted (i_bytes old)) fs \<and> filled StateRoot (backup_candidate n d) (i_bytes old) fs)
    (\<lambda>_. recoverable n old (with_facelock_inserted (i_bytes old)))
    (recoverable n old (with_facelock_inserted (i_bytes old)))"
proof -
  let ?bs = "with_facelock_inserted (i_bytes old)" and ?state = "\<lambda>r (_ :: string). r = StateRoot"
  let ?R = "recoverable n old ?bs" and ?saved = "\<lambda>p. filled StateRoot (bk_backup p) (i_bytes old)"
  have st: "state_area ?state" by (simp add: state_area_def)
  have unt: "triple Faulty (untouched n old) q (\<lambda>_. untouched n old) (\<lambda>_. untouched n old) (untouched n old)" if "touches ?state q" for q :: "'b io"
    by (rule touch_keeps[OF that]) (simp add: untouched_def)
  have plan: "triple Faulty (untouched n old) (plan_at_unlocked ev n (i_bytes old) ?bs now) (\<lambda>p fs. planned n p \<and> untouched n old fs) (\<lambda>_. ?R) ?R"
    by (rule triple_conseq[OF triple_and[OF unt value_plan]]) (auto intro: touch simp: recoverable_def)
  have persist: "triple Faulty (untouched n old) (persist_unlocked ev p (i_bytes old)) (\<lambda>_ fs. untouched n old fs \<and> ?saved p fs) (\<lambda>_. ?R) ?R"
    if "planned n p" for p
    by (rule triple_conseq[OF triple_and[OF unt gives_persist[OF planned_names[OF that n]]]]) (auto intro: touches_persist[OF st] simp: recoverable_def)
  have saved: "triple Faulty (?saved p) q (\<lambda>_. ?saved p) (\<lambda>_. ?saved p) (?saved p)" if "touches (sparing (bk_backup p)) q" for p and q :: "'b io"
    by (rule touch_keeps[OF that]) (auto simp: filled_def sparing_def)
  have ok: "?R fs" if "planned n p" "intact n old ?bs fs" "?saved p fs" for p fs
    using that by (auto simp: recoverable_def planned_def)
  have replace: "triple Faulty (\<lambda>fs. untouched n old fs \<and> ?saved p fs) (replace_pam_with_intent ev p n (identity_for_bytes ev old) ?bs)
      (\<lambda>_ fs. installed n old ?bs fs \<and> ?saved p fs) (\<lambda>_. ?R) ?R" if p: "planned n p" for p
    by (rule triple_conseq[OF triple_and[OF replace_pam_safe saved[OF spare_replace_pam[OF planned_names(1)[OF p n]]]]])
      (use n ok[OF p] in \<open>auto simp: plain_name_def installed_intact\<close>)
  have commit: "triple Faulty (\<lambda>fs. installed n old ?bs fs \<and> ?saved p fs) (commit_unlocked ev p)
      (\<lambda>_ fs. \<exists>d. installed n old ?bs fs \<and> filled StateRoot (backup_candidate n d) (i_bytes old) fs) (\<lambda>_. ?R) ?R" if p: "planned n p" for p
    by (rule triple_conseq[OF triple_and[OF touch_keeps[OF touches_commit[OF st], where P = "installed n old ?bs"] saved[OF spare_commit[OF planned_names[OF p n]]]]])
      (use p ok[OF p installed_intact] in \<open>auto simp: installed_def planned_def simp del: split_paired_Ex\<close>)
  show ?thesis unfolding add_rule_def Let_def
    by (rule triple_bind[OF plan], rule triple_pure, rule triple_bind[OF persist], assumption, rule triple_bind[OF replace], assumption, erule commit)
qed

text \<open>C8: Adding the rule to a service never loses its file, whatever the system calls answer and wherever the
  process dies. Afterwards the service holds the very file it held, or a complete file with the rule in it and
  the old mode and owner, with the original bytes in the backup store; a run that reports success left the latter.\<close>

theorem add_never_loses_original:
  assumes "sy_fs s PamRoot service = Some (File old)" "\<not> prefix ''.facelock-'' service"
    "add_rule ev service (i_bytes old) (identity_for_bytes ev old) now s = (out, t)"
  shows "sy_fs t PamRoot service = Some (File old) \<and> out \<noteq> Val () \<or>
    (\<exists>new d kept. sy_fs t PamRoot service = Some (File new) \<and> i_bytes new = with_facelock_inserted (i_bytes old) \<and>
       i_mode new = i_mode old \<and> i_uid new = i_uid old \<and> i_gid new = i_gid old \<and>
       sy_fs t StateRoot (backup_candidate service d) = Some (File kept) \<and> i_bytes kept = i_bytes old)"
proof -
  let ?bs = "with_facelock_inserted (i_bytes old)"
  let ?both = "\<lambda>fs. \<exists>d. installed service old ?bs fs \<and> filled StateRoot (backup_candidate service d) (i_bytes old) fs"
  have "good Faulty (untouched service old) s" using assms(1) by (simp add: good_def untouched_def)
  from tripleD[OF add_rule_recoverable this, of ev now] assms(2,3)
  have "out = Val () \<and> ?both (sy_fs t) \<or> out \<noteq> Val () \<and> recoverable service old ?bs (sy_fs t)"
    by (cases out) (auto simp: good_def plain_name_def)
  then have "?both (sy_fs t) \<or> out \<noteq> Val () \<and> untouched service old (sy_fs t)"
    by (auto simp: recoverable_def intact_def installed_def untouched_def)
  then show ?thesis by (auto simp: installed_def full_copy_def filled_def untouched_def)
qed

theorem add_never_loses_original_witness:
  "\<forall>ev old script now.
     let r = add_rule (ev :: unit journal_env_scheme) ''sudo'' (i_bytes old) (identity_for_bytes ev old) now
       \<lparr>sy_fs = set_entry PamRoot ''sudo'' (Some (File old)) (\<lambda>_ _. None), sy_script = script\<rparr>; fs = sy_fs (snd r) in
     fs PamRoot ''sudo'' = Some (File old) \<and> fst r \<noteq> Val () \<or>
     (\<exists>new d kept. fs PamRoot ''sudo'' = Some (File new) \<and> i_bytes new = with_facelock_inserted (i_bytes old) \<and>
        i_mode new = i_mode old \<and> i_uid new = i_uid old \<and> i_gid new = i_gid old \<and>
        fs StateRoot (backup_candidate ''sudo'' d) = Some (File kept) \<and> i_bytes kept = i_bytes old)"
  unfolding Let_def
  by (intro allI, rule add_never_loses_original[OF _ _ surjective_pairing]) (simp_all add: set_entry_def)

subsection \<open>A commit that died half way\<close>

text \<open>A name that is taken stays taken: a state file is never published over another.\<close>

definition temp_area :: "root \<Rightarrow> string \<Rightarrow> bool" where
  "temp_area r n \<longleftrightarrow> r = StateRoot \<and> prefix ''.facelock-tmp-'' n"

definition same_but_temps :: "fs \<Rightarrow> fs \<Rightarrow> bool" where
  "same_but_temps F fs \<longleftrightarrow> (\<forall>r n. \<not> temp_area r n \<longrightarrow> fs r n = F r n)"

lemma keep_temps:
  "touches temp_area p \<Longrightarrow> triple Faulty (same_but_temps F) p (\<lambda>_. same_but_temps F) (\<lambda>_. same_but_temps F) (same_but_temps F)"
  by (rule touch_keeps) (auto simp: same_but_temps_def)

lemma publish_refused:
  assumes "F StateRoot n \<noteq> None" "\<not> prefix ''.facelock-tmp-'' n"
  shows "triple Faulty (same_but_temps F) (atomic_state_create ev n bs) (\<lambda>_ _. False) (\<lambda>_. same_but_temps F) (same_but_temps F)"
proof -
  let ?P = "same_but_temps F"
  have t: "temp_area StateRoot (state_temp_name ev n bs fs)" for fs by (simp add: temp_area_def state_temp_name_def)
  have taken: "fs StateRoot n \<noteq> None" if "?P fs" for fs using that assms by (auto simp: same_but_temps_def temp_area_def)
  have rename: "triple Faulty ?P (tried (renameat2_noreplace StateRoot x n)) (\<lambda>r fs. (\<forall>x. r \<noteq> Ok x) \<and> ?P fs) (\<lambda>_. ?P) ?P" for x
    unfolding renameat2_noreplace_def by (rule triple_tried, rule triple_change) (use taken in \<open>auto split: if_splits\<close>)
  have give_up: "triple Faulty ?P (bind q (\<lambda>_. throw e)) (\<lambda>_ _. False) (\<lambda>_. ?P) ?P" if "touches temp_area q" for q :: "unit io" and e
    by (rule triple_bind[OF keep_temps[OF that]]) (rule triple_throw)
  have discard: "touches temp_area (discard_state_temp ev (state_temp_name ev n bs fs) i)" for fs i
    unfolding discard_state_temp_def by (intro touch t)
  have prepare: "touches temp_area (prepare_state_temp ev (state_temp_name ev n bs fs) bs)" for fs
    unfolding prepare_state_temp_def by (intro touch t)
  show ?thesis unfolding atomic_state_create_def atomic_state_publish_def Let_def
    apply (rule triple_bind[OF keep_temps], (intro touch t prepare)[1])+
    apply (rule triple_result[where P = "\<lambda>_. ?P"])
     apply (rule triple_bind[OF keep_temps], (intro touch)[1])
     apply (rule triple_bind[OF rename], rule triple_pure)
     apply (auto split: result.split intro: give_up[OF discard])[1]
    apply (rule triple_bind[OF keep_temps], (intro touch)[1], rule give_up[OF discard])
    done
qed

lemma taken_open:
  "gives (\<lambda>fs. fs r n \<noteq> None) (open_identity_at ev r n l) (\<lambda>x _. x \<noteq> None)"
proof -
  have "triple Faulty (\<lambda>fs. fs r n \<noteq> None) (open_regular_at r n) (\<lambda>_ _. True) (\<lambda>e _. e \<noteq> Os ENOENT) (\<lambda>_. True)"
    unfolding open_regular_at_def no_nul_def
    by (rule triple_bind[OF triple_guard[where Q = "\<lambda>_ fs. fs r n \<noteq> None"]], simp_all,
        rule triple_bind[OF triple_look[where Q = "\<lambda>_ _. True"]])
      (auto intro!: triple_ret triple_throw split: entry.split option.splits entry.splits)
  then have "gives (\<lambda>fs. fs r n \<noteq> None) (tried (open_regular_at r n)) (\<lambda>x _. x \<noteq> Err (Os ENOENT))"
    by (intro triple_tried) (auto elim!: triple_conseq)
  then show ?thesis unfolding open_identity_at_def
    by (rule triple_bind)
      (auto intro!: triple_ret triple_throw triple_bind[OF gives_true] split: result.split)
qed

lemma half_commit_kept:
  assumes "F StateRoot (exchange_name (si_backup (vi_intent v))) \<noteq> None"
  shows "triple Faulty (\<lambda>fs. fs = F) (recover_commit_intent ev v) (\<lambda>_ fs. fs = F) (\<lambda>_ fs. fs = F) (\<lambda>fs. fs = F)"
proof -
  note none = touch_none[where P = "\<lambda>fs. fs = F"]
  have "gives (\<lambda>fs. fs = F) (open_identity_at ev StateRoot (exchange_name (si_backup (vi_intent v))) l) (\<lambda>x _. x \<noteq> None)" for l
    by (rule triple_conseq[OF taken_open]) (use assms in auto)
  from triple_and[OF none this] have exchange: "triple Faulty (\<lambda>fs. fs = F) (open_identity_at ev StateRoot (exchange_name (si_backup (vi_intent v))) l)
      (\<lambda>x fs. x \<noteq> None \<and> fs = F) (\<lambda>_ fs. fs = F) (\<lambda>fs. fs = F)" for l
    by (rule triple_conseq) (auto intro: touch)
  have "triple Faulty (\<lambda>fs. fs = F) (bind (tried (matching_state_entry ev n h l)) (\<lambda>canonical.
      bind (open_identity_at ev StateRoot (exchange_name (si_backup (vi_intent v))) l') (\<lambda>entry.
      if is_found canonical \<and> entry = None then p else ret ()))) (\<lambda>_ fs. fs = F) (\<lambda>_ fs. fs = F) (\<lambda>fs. fs = F)" for n h l l' p
    by (rule triple_bind[OF none], intro touch, rule triple_bind[OF exchange], rule triple_pure) (auto intro: triple_ret)
  then show ?thesis unfolding recover_commit_intent_def Let_def by (auto intro: triple_ret split: option.split)
qed

lemma half_commit_refused:
  assumes "F StateRoot (intent_name Commit (bk_backup p)) \<noteq> None"
  shows "triple Faulty (same_but_temps F) (commit_unlocked ev p) (\<lambda>_ _. False) (\<lambda>_. same_but_temps F) (same_but_temps F)"
proof -
  have n: "\<not> prefix ''.facelock-tmp-'' (intent_name Commit b)" for b by (simp add: intent_name_def)
  show ?thesis unfolding commit_unlocked_def Let_def
    by (rule triple_bind[OF publish_refused], rule assms, rule n) (rule triple_pre[where A = False]; simp)
qed

lemma quiet_look: "sy_script s = [] \<Longrightarrow> look f s = (case f (sy_fs s) of Ok x \<Rightarrow> (Val x, s) | Err e \<Rightarrow> (Fail (Os e), s))"
  by (simp add: look_def syscall_def split: result.split)

text \<open>The service holds, in a plain readable file, what a prepared backup says was installed over it.\<close>

definition still_installed :: "'a journal_env_scheme \<Rightarrow> string \<Rightarrow> prepared_backup \<Rightarrow> fs \<Rightarrow> bool" where
  "still_installed ev service p fs \<longleftrightarrow>
     \<not> ev_missing ev PamRoot \<and> CHR 0x00 \<notin> set service \<and> pv_state (bk_provenance p) = Prepared \<and>
     fs StateRoot (intent_name PamReplace (bk_backup p)) = None \<and>
     (case fs PamRoot service of
        Some (File i) \<Rightarrow> i_links i = 1 \<and> length (i_bytes i) \<le> MAX_BACKUP_BYTES \<and> sha256_hex ev (i_bytes i) = pv_installed_sha256 (bk_provenance p)
      | _ \<Rightarrow> False)"

lemma settle_commits:
  assumes "sy_script s = []" "still_installed ev service p (sy_fs s)"
  shows "settle_prepared ev service p s = commit_unlocked ev p s"
proof -
  obtain i where i: "sy_fs s PamRoot service = Some (File i)" "i_links i = 1" "length (i_bytes i) \<le> MAX_BACKUP_BYTES"
    "sha256_hex ev (i_bytes i) = pv_installed_sha256 (bk_provenance p)"
    using assms(2) by (auto simp: still_installed_def split: option.splits entry.splits)
  have other: "CHR 0x00 \<notin> set service" "\<not> ev_missing ev PamRoot" "pv_state (bk_provenance p) = Prepared"
    "sy_fs s StateRoot (intent_name PamReplace (bk_backup p)) = None" using assms(2) by (simp_all add: still_installed_def)
  have "symlink_metadata_ok StateRoot (intent_name PamReplace (bk_backup p)) s = (Val False, s)"
    using assms(1) other by (simp add: symlink_metadata_ok_def bind_def tried_def ret_def quiet_look)
  moreover have "tried (read_regular_nofollow ev PamRoot service) s = (Val (Ok (i_bytes i, identity_for_bytes ev i)), s)"
    using assms(1) i other by (simp add: read_regular_nofollow_def open_directory_nofollow_def open_regular_at_def no_nul_def guard_def
        read_open_bounded_def bind_def tried_def ret_def quiet_look)
  ultimately show ?thesis using i other by (simp add: settle_prepared_def bind_def Let_def)
qed

text \<open>A store in which the intent and the new record of a commit lie unbound.\<close>

definition plain_file :: inode where
  "plain_file = \<lparr>i_device = 1, i_number = 2, i_links = 1, i_mode = 0x81A4, i_uid = 0, i_gid = 0, i_bytes = ''new''\<rparr>"

definition cut_off_backup :: "'a journal_env_scheme \<Rightarrow> prepared_backup" where
  "cut_off_backup ev =
     \<lparr>bk_backup = ''sudo.5-000000006'', bk_record = record_name ''sudo.5-000000006'',
      bk_provenance = \<lparr>pv_version = PROVENANCE_VERSION, pv_sequence = 1, pv_state = Prepared, pv_service = ''sudo'',
        pv_backup = ''sudo.5-000000006'', pv_original_sha256 = sha256_hex ev ''old'', pv_installed_sha256 = sha256_hex ev ''new''\<rparr>,
      bk_backup_identity = None, bk_record_identity = None\<rparr>"

definition cut_off_store :: sys where
  "cut_off_store =
     \<lparr>sy_fs = (\<lambda>r n. if r = PamRoot \<and> n = ''sudo'' \<or>
                r = StateRoot \<and> n \<in> {intent_name Commit ''sudo.5-000000006'', exchange_name ''sudo.5-000000006''}
              then Some (File plain_file) else None), sy_script = []\<rparr>"

text \<open>C11: A commit cut off after it has put down its intent and the new record, and before the binding of the two,
  can never be finished: recovery of the intent leaves both where they are, and the commit of that backup
  never succeeds, whatever the calls answer, and leaves all but temporary names as they were. When nothing fails,
  settling the backup during recovery reports an error for as long as the service holds what was installed.\<close>

theorem half_made_commit_sticks:
  assumes "sy_fs s StateRoot (intent_name Commit (bk_backup p)) \<noteq> None" "sy_fs s StateRoot (exchange_name (bk_backup p)) \<noteq> None"
    "si_backup (vi_intent v) = bk_backup p"
  shows "sy_fs (snd (recover_commit_intent ev v s)) = sy_fs s \<and> fst (commit_unlocked ev p s) \<noteq> Val () \<and>
    (\<forall>r n. \<not> temp_area r n \<longrightarrow> sy_fs (snd (commit_unlocked ev p s)) r n = sy_fs s r n) \<and>
    (sy_script s = [] \<and> still_installed ev service p (sy_fs s) \<longrightarrow> fst (settle_prepared ev service p s) \<noteq> Val ())"
proof -
  have "good Faulty (\<lambda>fs. fs = sy_fs s) s" by (simp add: good_def)
  from tripleD[OF half_commit_kept this, of v ev] assms(2,3)
  have kept: "sy_fs (snd (recover_commit_intent ev v s)) = sy_fs s"
    by (cases "fst (recover_commit_intent ev v s)") (simp_all add: good_def)
  have "good Faulty (same_but_temps (sy_fs s)) s" by (simp add: good_def same_but_temps_def)
  from tripleD[OF half_commit_refused this, of p ev] assms(1)
  have "fst (commit_unlocked ev p s) \<noteq> Val () \<and> same_but_temps (sy_fs s) (sy_fs (snd (commit_unlocked ev p s)))"
    by (cases "fst (commit_unlocked ev p s)") (simp_all add: good_def)
  with kept show ?thesis by (auto simp: same_but_temps_def settle_commits)
qed

theorem half_made_commit_sticks_witness:
  "\<forall>ev. let e = (ev :: unit journal_env_scheme)\<lparr>ev_missing := (\<lambda>_. False)\<rparr>; p = cut_off_backup e in
     fst (commit_unlocked e p cut_off_store) \<noteq> Val () \<and> fst (settle_prepared e ''sudo'' p cut_off_store) \<noteq> Val ()"
proof (intro allI, unfold Let_def)
  fix ev :: "unit journal_env_scheme"
  let ?e = "ev\<lparr>ev_missing := (\<lambda>_. False)\<rparr>"
  let ?p = "cut_off_backup ?e"
  let ?v = "\<lparr>vi_name = [], vi_intent = commit_intent ?e ?p, vi_identity = identity_for_bytes ?e plain_file\<rparr>"
  have "intent_name PamReplace b \<noteq> intent_name Commit b" "intent_name PamReplace b \<noteq> exchange_name b" for b
    by (simp_all add: intent_name_def exchange_name_def quarantine_name_def)
  then have "still_installed ?e ''sudo'' ?p (sy_fs cut_off_store)"
    by (simp add: still_installed_def cut_off_backup_def cut_off_store_def plain_file_def MAX_BACKUP_BYTES_def)
  moreover have "sy_script cut_off_store = []" by (simp add: cut_off_store_def)
  ultimately show "fst (commit_unlocked ?e ?p cut_off_store) \<noteq> Val () \<and> fst (settle_prepared ?e ''sudo'' ?p cut_off_store) \<noteq> Val ()"
    using half_made_commit_sticks[of cut_off_store ?p ?v ?e "''sudo''"]
    by (simp add: cut_off_store_def cut_off_backup_def commit_intent_def plain_intent_def)
qed

end
