(* ===== verification/Spec2Isabelle.thy ===== *)
theory Spec2Isabelle
  imports Server PamModule Migrations PamSafety
begin

text \<open>
  Verification of facelock, a face-authentication system for Linux. All paths are below
  \<^verbatim>\<open>src/crates\<close>.

  \<^bold>\<open>The program.\<close> A PAM module (\<^verbatim>\<open>pam-facelock\<close>) asks the daemon (\<^verbatim>\<open>facelock-daemon\<close>) over D-Bus whether the face in front
  of the camera is the user's, or runs the command-line helper as a child when there is no daemon. The daemon
  authorizes the caller, charges an ingress limiter, reloads its configuration, establishes that the caller's
  session is local, checks the gates (disabled, SSH, lid, enrollment, rate limit, infrared), takes the
  capture slot, loads and decrypts the user's templates from SQLite (\<^verbatim>\<open>facelock-store\<close>, \<^verbatim>\<open>facelock-tpm\<close>), opens the camera,
  and runs a capture loop that compares faces and demands liveness. Enrollment captures templates, judges their
  quality, encrypts and stores them. The command line edits PAM service files.

  \<^bold>\<open>Conventions.\<close> A fallible function returns \<^typ>\<open>('a, 'e) result\<close>; a panic is an explicit outcome. Machine integers are words, a
  single float is its 32-bit pattern with exactly rounded operations. Databases are lists of rows with a
  schedule that says which statement fails. A loop over time is a recursion over its observations (clock,
  cancel flag, camera, engine), one element per round, and \<open>Running\<close>, \<open>StillServing\<close> or \<open>None\<close> says that they ran out;
  that a loop ends is proved as such (\<open>attempt_ends_on_deadline_or_cancel\<close>, \<open>identify_returns\<close>), so that there is no fuel to choose.
  What other tasks do between two locked sections of a method is an arbitrary function on the service, or a free
  interleaving of steps. Code outside the sources (SQLite, zbus, logind, the kernel, AES-GCM, SHA-256, the TPM, ONNX,
  serde, the TOML reader, the constant-time primitives) is a parameter or an observation; laws that are needed of it are
  named: \<open>ct_lawful\<close> (the selection and comparison primitives), \<open>aead_lawful\<close> and \<open>tpm_lawful\<close> (encryption).

  \<^bold>\<open>Theories, from the bottom.\<close>
  \<^item> \<^verbatim>\<open>Prelude\<close>: results, strings, lists. \<^verbatim>\<open>F32\<close>, \<^verbatim>\<open>F64\<close>: IEEE arithmetic with the conversions between the widths.
  \<^item> \<^verbatim>\<open>FaceTypes\<close> (\<^verbatim>\<open>facelock-core/src/types.rs\<close>): embeddings, device fingerprints, cosine similarity, the variance window, the
    best match. Shown: the constant-time match is the maximum; the ring buffer agrees with the batch check.
  \<^item> \<^verbatim>\<open>CoreConfig\<close> (\<^verbatim>\<open>config.rs\<close>, \<^verbatim>\<open>paths.rs\<close>): records, defaults, validation, loading. Shown: what loads is valid; a template sealed under a
    valid configuration stays usable.
  \<^item> \<^verbatim>\<open>Store\<close> (\<^verbatim>\<open>facelock-store/src/db.rs\<close>), \<^verbatim>\<open>Migrations\<close> (\<^verbatim>\<open>migrations.rs\<close>): every statement with its failures. Shown: consistency of
    reachable stores, atomic replacement, isolation of users, what migrations reach and where they get stuck.
  \<^item> \<^verbatim>\<open>RateLimit\<close>, \<^verbatim>\<open>AuditLog\<close>, \<^verbatim>\<open>AuthGate\<close> (\<^verbatim>\<open>rate_limit.rs\<close>, \<^verbatim>\<open>audit.rs\<close>, the gates of \<^verbatim>\<open>auth.rs\<close>, \<^verbatim>\<open>lid.rs\<close>). Shown: the limiter's exact verdict,
    what a write leaves in the log, that the gates decide exactly and fail closed.
  \<^item> \<^verbatim>\<open>FrameChecks\<close>, \<^verbatim>\<open>AuthLoop\<close>, \<^verbatim>\<open>AuthSafety\<close> (\<^verbatim>\<open>capture.rs\<close>, \<^verbatim>\<open>preprocess.rs\<close>, \<^verbatim>\<open>liveness.rs\<close>, the loop of \<^verbatim>\<open>auth.rs\<close>). Shown: a success rests on
    genuine matches and liveness, static input never succeeds, the loop ends, every attempt is audited once.
  \<^item> \<^verbatim>\<open>Sealing\<close>, \<^verbatim>\<open>KeyPolicy\<close>, \<^verbatim>\<open>Keyring\<close>, \<^verbatim>\<open>TemplateLoad\<close> (\<^verbatim>\<open>facelock-tpm/src/sealing.rs\<close>, \<^verbatim>\<open>key_policy.rs\<close>, \<^verbatim>\<open>keyring.rs\<close>, \<^verbatim>\<open>embeddings.rs\<close>). Shown: blob
    round trips, the race of key creators, when a key may be minted, that loading is complete or wiped.
  \<^item> \<^verbatim>\<open>Quality\<close>, \<^verbatim>\<open>Enroll\<close> (\<^verbatim>\<open>quality.rs\<close>, \<^verbatim>\<open>enroll.rs\<close>). Shown: enrollment is all or nothing, and what it stores loads.
  \<^item> \<^verbatim>\<open>Lease\<close>, \<^verbatim>\<open>Handler\<close>, \<^verbatim>\<open>Daemon\<close> (\<^verbatim>\<open>handler.rs\<close>, the mutex of \<^verbatim>\<open>server.rs\<close>). Shown: the lease refines a lamp, the camera goes dark, which
    attempts lock a user out, what a poisoned mutex does to the poll.
  \<^item> \<^verbatim>\<open>Ingress\<close>, \<^verbatim>\<open>Provenance\<close>, \<^verbatim>\<open>Cancellation\<close>, \<^verbatim>\<open>Server\<close> (\<^verbatim>\<open>server.rs\<close>, \<^verbatim>\<open>cancel.rs\<close>, \<^verbatim>\<open>dbus_interface.rs\<close>). Shown: a flood is bounded, when a caller counts as
    local, that cancels are neither lost nor misdirected, that an unprivileged caller is confined, and that a match
    on the bus is genuine whatever runs beside it.
  \<^item> \<^verbatim>\<open>PamClient\<close>, \<^verbatim>\<open>PamModule\<close> (\<^verbatim>\<open>pam-facelock/src/lib.rs\<close>, \<^verbatim>\<open>oneshot_exit.rs\<close>). Shown: success needs evidence, only a trusted helper is spawned, the
    module returns. The last section below joins both ends of the wire.
  \<^item> \<^verbatim>\<open>PamStack\<close> (\<^verbatim>\<open>facelock-cli/src/commands/pam.rs\<close>): the editor of PAM service files. Shown: what insertion and removal do to the rules.
  \<^item> \<^verbatim>\<open>FileCalls\<close>, \<^verbatim>\<open>PamRecords\<close>, \<^verbatim>\<open>VendorOverride\<close>, \<^verbatim>\<open>PamJournal\<close>, \<^verbatim>\<open>PamApply\<close>, \<^verbatim>\<open>PamFrame\<close> (the rest of \<^verbatim>\<open>pam.rs\<close>): how a changed service file gets to
    disk. A program is a function on a directory state and a script with one verdict per system call: it goes through, it is
    refused, or the process dies in it, after any part of a write. On top stand checked file operations, the journal
    documents, copies of vendor files, the backup store with its recovery, and the planning and applying of a
    request. Shown: what no verb touches, whatever the calls answer, and which requests are refused before anything
    is written.
  \<^item> \<^verbatim>\<open>CallLogic\<close>, \<^verbatim>\<open>PamSafety\<close>: triples for such programs, with a condition on return, on error and at every point of death. Shown:
    adding the rule never loses the original file, and a commit cut off between two steps cannot be finished.

  \<^bold>\<open>Interfaces.\<close> Contracts between components are locales, interpreted on the model: \<open>sliding_window\<close>, \<open>user_scoped\<close>, \<open>windowed_log\<close>,
  \<open>pam_backend\<close>, \<open>key_lookup\<close>, \<open>camera_contract\<close>, \<open>metered\<close>.

  \<^bold>\<open>Not modelled.\<close> Video4Linux capture and format conversion, ONNX inference and the execution providers, the commands of the
  TPM, opening of database files, D-Bus transport, caller resolution, notifications, signals, start-up
  and suspend handling are I/O around external systems. Of the command line only
  \<^verbatim>\<open>pam.rs\<close> is modelled, without its messages, the JSON report, the enumeration of all services, the journal of machine-wide
  removal, SELinux labels, and the creation and lock of the state directory; setup, status, lifecycle, purge,
  hyprlock, benchmarks and message catalogues are sequences of file-system and terminal operations. The JSON codec and
  SHA-256 are parameters of the journal.
\<close>

section \<open>What the PAM module makes of the daemon's reply\<close>

definition pam_reads :: "nan_rule \<Rightarrow> auth_wire \<Rightarrow> pam_code" where
  "pam_reads qn w =
     fst (answer_for_response (parse_auth_reply qn (aw_matched w) (aw_model_id w) (aw_label w) (aw_similarity w)))"

text \<open>The code each outcome of an attempt calls for.\<close>

definition pam_code_of_outcome :: "auth_outcome \<Rightarrow> pam_code" where
  "pam_code_of_outcome out =
     (case out of
        AuthResult mr \<Rightarrow> if mr_matched mr then PAM_SUCCESS else if mr_face_detected mr then PAM_AUTH_ERR else PAM_IGNORE
      | Suppressed \<Rightarrow> PAM_AUTHINFO_UNAVAIL
      | AuthError k _ \<Rightarrow> if k = KRateLimited then PAM_AUTH_ERR else PAM_IGNORE
      | Cancelled \<Rightarrow> PAM_IGNORE)"

text \<open>Without a face no similarity is recorded.\<close>

lemma frame_step_blank:
  assumes "frame_step at cs fr eng st = Continue st'" "\<not> ls_face_detected st'"
  shows "\<not> ls_face_detected st \<and> ls_best_similarity st' = ls_best_similarity st"
proof (cases "\<not> dark_frame at fr \<and> (\<exists>f fs. eng = Ok (f # fs))")
  case True
  then obtain det e fs where eng: "eng = Ok ((det, e) # fs)" by auto
  have "ls_face_detected st'"
    using assms True by (auto simp: frame_step_def eng Let_def split: if_splits option.splits dest!: accept_gate_face[OF disjI1])
  then show ?thesis using assms(2) by simp
next
  case False
  then show ?thesis using assms
    by (auto simp: frame_step_def Let_def split: result.splits list.splits if_splits)
qed

lemma auth_loop_blank:
  assumes "auth_loop at dl nf cs st tks = Finished rp" "rp_outcome rp = AuthResult mr" "\<not> mr_matched mr" "\<not> mr_face_detected mr"
    "\<not> ls_face_detected st \<longrightarrow> ls_best_similarity st = 0"
  shows "mr_similarity mr = 0"
  using assms
proof (induction tks arbitrary: st)
  case (Cons tk tks)
  show ?case
  proof (cases "loop_stops dl nf st tk")
    case True
    from auth_loop_stop[OF this, of at cs tks] show ?thesis using Cons.prems
      by (auto simp: timeout_run_def cancelled_run_def error_with_def Let_def split: if_splits)
  next
    case go: False
    note run = Cons.prems(1)[unfolded auth_loop_go[OF go]]
    show ?thesis
    proof (cases "tk_capture tk")
      case (Err e)
      then show ?thesis using Cons.IH[of st] Cons.prems(2-) run by simp
    next
      case (Ok fr)
      show ?thesis
      proof (cases "frame_step at cs fr (tk_engine tk) st")
        case (Continue st')
        then have "\<not> ls_face_detected st' \<longrightarrow> ls_best_similarity st' = 0"
          using frame_step_blank[OF Continue] Cons.prems(5) by auto
        then show ?thesis using Cons.IH[of st'] Cons.prems(2-4) run Ok Continue by simp
      next
        case (Accept st')
        then show ?thesis using Cons.prems(2,3) run Ok by (auto simp: success_run_def Let_def)
      next
        case FramePanic
        then show ?thesis using run Ok by simp
      qed
    qed
  qed
qed simp

lemma attempt_outcomes:
  assumes "authenticate_with_embeddings at en stored ticks = Finished rp"
  shows "(\<forall>k m. rp_outcome rp = AuthError k m \<longrightarrow> m = render k [] \<and> k \<in> {KY16BitDepthRequired, KAllFramesDark}) \<and>
    (\<forall>mr. rp_outcome rp = AuthResult mr \<and> \<not> mr_matched mr \<longrightarrow>
       mr_model_id mr = None \<and> (\<not> mr_face_detected mr \<longrightarrow> mr_similarity mr = 0))"
proof -
  let ?at = "at\<lparr>at_start := en_start en\<rparr>"
  have "k \<in> {KY16BitDepthRequired, KAllFramesDark} \<and> m = render k []"
    if "auth_loop ?at dl nf cs st tks = Finished rp" "rp_outcome rp = AuthError k m" for dl nf cs st tks k m
    using that
  proof (induction tks arbitrary: st)
    case (Cons tk tks)
    show ?case
    proof (cases "loop_stops dl nf st tk")
      case True
      from auth_loop_stop[OF this, of ?at cs tks] show ?thesis using Cons.prems
        by (auto simp: timeout_run_def cancelled_run_def error_with_def Let_def split: if_splits)
    next
      case False
      then show ?thesis using Cons by (auto simp: auth_loop_go success_run_def Let_def split: result.splits verdict.splits)
    qed
  qed simp
  moreover have "mr_similarity mr = 0"
    if "rp_outcome rp = AuthResult mr" "\<not> mr_matched mr" "\<not> mr_face_detected mr" for mr
    using assms that auth_loop_blank[of ?at _ _ _ "initial_state ?at" ticks rp mr]
    by (auto simp: authenticate_with_embeddings_def Let_def cancelled_run_def error_with_def initial_state_def split: if_splits)
  ultimately show ?thesis using assms result_reports_presence[OF assms]
    by (auto simp: authenticate_with_embeddings_def Let_def cancelled_run_def error_with_def split: if_splits)
qed

lemma f32_zero_wire: "f64_to_f32 qn (f32_to_f64 0) = 0" "f64_to_f32 qn 0 = 0"
proof -
  have "\<not> is_nan 0" by (simp add: f32_eval)
  then show "f64_to_f32 qn (f32_to_f64 0) = 0" by (rule f64_roundtrip)
  moreover have "f32_to_f64 0 = 0" by (simp add: f32_to_f64_def f32_eval widen_mag_def f64_make_def)
  ultimately show "f64_to_f32 qn 0 = 0" by simp
qed

text \<open>The words by which the module recognizes a rate limit.\<close>

definition says_rate_limit :: "string \<Rightarrow> bool" where
  "says_rate_limit s \<longleftrightarrow> contains s ''rate_limit'' \<or> contains s ''rate limited''"

lemma auth_err_iff: "fst (pam_code_for_daemon_error m) = PAM_AUTH_ERR \<longleftrightarrow> says_rate_limit m"
  by (simp add: pam_code_for_daemon_error_def says_rate_limit_def PAM_AUTH_ERR_def PAM_IGNORE_def)

lemma not_auth_err: "\<not> says_rate_limit m \<Longrightarrow> fst (pam_code_for_daemon_error m) = PAM_IGNORE"
  by (simp add: pam_code_for_daemon_error_def says_rate_limit_def)

lemma sublist_after_space:
  assumes "p = c # p'" "c \<noteq> CHR '' ''" "\<not> sublist p xs" "\<not> (\<exists>q. suffix (q @ '' '') xs \<and> prefix (q @ '' '') p)"
    "suffix '' '' xs"
  shows "sublist p (xs @ ys) \<longleftrightarrow> sublist p ys"
proof -
  have "False" if "p = p1 @ p2" "suffix p1 xs" "p1 \<noteq> []" for p1 p2
  proof -
    have "last p1 = CHR '' ''" using that(2,3) assms(5) by (auto simp: suffix_def) (metis last_appendR last_snoc)
    then have "p1 = butlast p1 @ '' ''" using that(3) by (metis append_butlast_last_id)
    then show False using assms(4) that by (metis prefixI)
  qed
  then show ?thesis using assms(3) by (auto simp: sublist_append) (metis self_append_conv2 prefix_imp_sublist)
qed

lemma says_plain:
  "\<not> says_rate_limit (render KDisabled d)" "\<not> says_rate_limit (render KSshSession d)" "\<not> says_rate_limit (render KLidClosed d)"
  "\<not> says_rate_limit (render KLidUnavailable d)" "\<not> says_rate_limit (render KIrRequired d)"
  "\<not> says_rate_limit (render KY16BitDepthRequired d)" "\<not> says_rate_limit (render KAllFramesDark d)"
  "says_rate_limit (render KRateLimited d)" "\<not> says_rate_limit CANCELLED_MESSAGE"
  by (simp_all add: says_rate_limit_def sublist_Cons_right CANCELLED_MESSAGE_def)

lemma says_append:
  assumes "xs \<in> {''storage error: '', ''rate limit check failed: ''}"
  shows "says_rate_limit (xs @ ys) \<longleftrightarrow> says_rate_limit ys"
proof -
  have q: "q = ''rate''" if "prefix (q @ '' '') ''rate limited''" for q
    using that by (auto simp: prefix_def append_eq_Cons_conv Cons_eq_append_conv)
  have "\<not> prefix (q @ '' '') ''rate_limit''" for q using set_mono_prefix[of "q @ '' ''" "''rate_limit''"] by auto
  moreover have "\<not> suffix (''rate'' @ '' '') xs" "suffix '' '' xs" using assms by (auto simp: suffix_def Cons_eq_append_conv append_eq_Cons_conv)
  moreover have "\<not> sublist ''rate_limit'' xs" "\<not> sublist ''rate limited'' xs" using assms by (auto simp: sublist_Cons_right)
  ultimately show ?thesis unfolding says_rate_limit_def
    using sublist_after_space[of "''rate_limit''" _ _ xs ys] sublist_after_space[of "''rate limited''" _ _ xs ys] q by fastforce
qed

lemma error_reply:
  "encode_auth dbg (DError m) = Ok w \<Longrightarrow> pam_reads qn (redact_auth root w) = fst (pam_code_for_daemon_error m)"
  by (auto simp: encode_auth_def recoverable_auth_error_def redact_auth_def pam_reads_def parse_auth_reply_def
      answer_for_response_def split: prod.splits)

text \<open>C4: the PAM module answers what the attempt found, for every caller. Sent over the bus and read
  back, a match is a success, a face that did not match an authentication error, an empty room, a dark room
  and a cancelled attempt are no opinion at all; and taking the score out of the reply for an
  unprivileged caller never changes the answer.\<close>

theorem pam_answers_attempt:
  assumes "authenticate_with_embeddings at en stored ticks = Finished rp"
    and "encode_auth dbg (response_of_auth (rp_outcome rp)) = Ok w"
  shows "pam_reads qn (redact_auth root w) = pam_code_of_outcome (rp_outcome rp)"
proof (cases "rp_outcome rp")
  case (AuthResult mr)
  note facts = attempt_outcomes[OF assms(1)] AuthResult
  have w: "aw_matched (redact_auth root w) = mr_matched mr" "aw_model_id (redact_auth root w) = wire_model_id mr"
    "aw_similarity (redact_auth root w) \<in> {0, f32_to_f64 (mr_similarity mr)}"
    using assms(2) AuthResult by (auto simp: encode_auth_def response_of_auth_def redact_auth_def)
  show ?thesis
  proof (cases "mr_matched mr \<or> mr_face_detected mr")
    case True
    then show ?thesis using facts w
      by (auto simp: pam_reads_def pam_code_of_outcome_def parse_auth_reply_def answer_for_response_def wire_model_id_def
          NO_MATCH_FACE_SEEN_def pam_code_for_no_match_def)
  next
    case False
    then have "f64_to_f32 qn (aw_similarity (redact_auth root w)) = 0" using facts w(3) f32_zero_wire by auto
    then show ?thesis using facts w False
      by (simp add: pam_reads_def pam_code_of_outcome_def parse_auth_reply_def answer_for_response_def wire_model_id_def
          NO_MATCH_NO_FACE_def pam_code_for_no_match_def f32_eval)
  qed
next
  case (AuthError k m)
  then have "m = render k []" "k \<in> {KY16BitDepthRequired, KAllFramesDark}" using attempt_outcomes[OF assms(1)] by auto
  then have "fst (pam_code_for_daemon_error m) = PAM_IGNORE" "k \<noteq> KRateLimited" using says_plain not_auth_err by auto
  then show ?thesis using assms(2) AuthError error_reply by (auto simp: response_of_auth_def pam_code_of_outcome_def)
next
  case Suppressed
  then show ?thesis using assms(2)
    by (auto simp: encode_auth_def response_of_auth_def redact_auth_def pam_reads_def pam_code_of_outcome_def
      parse_auth_reply_def answer_for_response_def)
next
  case Cancelled
  then show ?thesis using assms(2) error_reply says_plain(9) not_auth_err
    by (auto simp: response_of_auth_def pam_code_of_outcome_def)
qed

theorem pam_answers_attempt_witness:
  "\<exists>rp w. authenticate_with_embeddings sample_attempt sample_obs sample_stored sample_ticks = Finished rp \<and>
     encode_auth (\<lambda>_. []) (response_of_auth (rp_outcome rp)) = Ok w \<and> pam_reads (\<lambda>_ _. 0) (redact_auth False w) = PAM_SUCCESS"
proof -
  obtain rp mr where run: "authenticate_with_embeddings sample_attempt sample_obs sample_stored sample_ticks = Finished rp"
    and out: "rp_outcome rp = AuthResult mr" "mr_matched mr" using sample_run by blast
  obtain w where w: "encode_auth (\<lambda>_. []) (response_of_auth (rp_outcome rp)) = Ok w"
    using out by (simp add: response_of_auth_def encode_auth_def)
  show ?thesis using pam_answers_attempt[OF run w, of "\<lambda>_ _. 0" False] run w out by (auto simp: pam_code_of_outcome_def)
qed


end
